(* ===== verification/Prelude.thy ===== *)
theory Prelude
  imports Main "HOL-Library.Word"
begin

unbundle bit_operations_syntax

text \<open>
  The vocabulary shared by every component of the development: Python exceptions and
  fallible results, byte strings, slices, decimal and hexadecimal printing, and the
  little-endian integers of the wire formats, with the lemmas the component theories
  rest on.

  Conventions. A Python \<open>int\<close> is an \<open>int\<close>, a \<open>bytes\<close> value is a list of 8-bit words, a
  \<open>str\<close> is a HOL \<open>string\<close> holding the UTF-8 encoding of the text (so \<open>str.encode("utf-8")\<close>
  keeps the list and only changes its element type).  A call that may raise returns
  \<open>exc + 'a\<close>: \<open>Inl\<close> is the exception, \<open>Inr\<close> the value.
\<close>

section \<open>Types\<close>

type_synonym byte = "8 word"
type_synonym bytes = "8 word list"

datatype exc =
    ValueError string
  | StructError
  | KeyError
  | IndexError
  | TypeError string
  | UnicodeError
  | RuntimeError string
  | OSError string
  | DeviceOwnershipError string
  | AttributeError
  | EOFError
  | KeyErrorOf string
  | AssertionError
  | StillRunning

text \<open>
  \<open>StillRunning\<close> is not an exception of Python: it is the result of a loop whose fuel ran out, and no
  handler catches it.
\<close>

type_synonym 'a res = "exc + 'a"

named_theorems codec_simps \<open>equations that evaluate the wire formats\<close>
named_theorems seq_simps \<open>facts on request sequence numbers\<close>

section \<open>Fallible results\<close>

fun rbind :: "'a res \<Rightarrow> ('a \<Rightarrow> 'b res) \<Rightarrow> 'b res" where
  "rbind (Inl e) f = Inl e"
| "rbind (Inr x) f = f x"

fun rmap :: "('a \<Rightarrow> 'b) \<Rightarrow> 'a res \<Rightarrow> 'b res" where
  "rmap f (Inl e) = Inl e"
| "rmap f (Inr x) = Inr (f x)"

fun is_ok :: "'a res \<Rightarrow> bool" where
  "is_ok (Inl e) = False"
| "is_ok (Inr x) = True"

section \<open>Slices, padding and bytes\<close>

definition pyslice :: "nat \<Rightarrow> nat \<Rightarrow> 'a list \<Rightarrow> 'a list" where
  "pyslice i j xs = take (j - i) (drop i xs)"

definition ljust :: "nat \<Rightarrow> bytes \<Rightarrow> bytes" where
  "ljust n b = b @ replicate (n - length b) 0"

definition starts_with :: "'a list \<Rightarrow> 'a list \<Rightarrow> bool" where
  "starts_with s p = (take (length p) s = p)"

definition ends_with :: "'a list \<Rightarrow> 'a list \<Rightarrow> bool" where
  "ends_with s p = (length p \<le> length s \<and> drop (length s - length p) s = p)"

definition bytes_of_string :: "string \<Rightarrow> bytes" where
  "bytes_of_string s = map of_char s"

definition string_of_bytes :: "bytes \<Rightarrow> string" where
  "string_of_bytes b = map (\<lambda>w. char_of (unat w)) b"

section \<open>Printing numbers\<close>

fun digit_char :: "nat \<Rightarrow> char" where
  "digit_char d = (if d < 10 then char_of (48 + d) else char_of (55 + d))"

fun digits_base :: "nat \<Rightarrow> nat \<Rightarrow> string" where
  "digits_base b n =
     (if b < 2 \<or> n < b then [digit_char n] else digits_base b (n div b) @ [digit_char (n mod b)])"

declare digits_base.simps [simp del]

definition dec :: "int \<Rightarrow> string" where
  "dec i = (if i < 0 then ''-'' @ digits_base 10 (nat (- i)) else digits_base 10 (nat i))"

definition zfill :: "nat \<Rightarrow> string \<Rightarrow> string" where
  "zfill w s = replicate (w - length s) (CHR ''0'') @ s"

definition hexX :: "nat \<Rightarrow> int \<Rightarrow> string" where
  "hexX w i = (if i < 0
     then ''-'' @ zfill (w - 1) (digits_base 16 (nat (- i)))
     else zfill w (digits_base 16 (nat i)))"

section \<open>Little-endian integers\<close>

fun le_bytes :: "nat \<Rightarrow> int \<Rightarrow> bytes" where
  "le_bytes 0 v = []"
| "le_bytes (Suc n) v = word_of_int v # le_bytes n (v div 256)"

fun le_int :: "bytes \<Rightarrow> int" where
  "le_int [] = 0"
| "le_int (b # bs) = uint b + 256 * le_int bs"

section \<open>Request sequence numbers\<close>

text \<open>\<open>(sequence + 1) & 0xFFFFFFFF or 1\<close>, the successor that skips zero.\<close>

definition next_sequence :: "int \<Rightarrow> int" where
  "next_sequence s = (let n = (s + 1) AND 0xFFFFFFFF in if n = 0 then 1 else n)"

text \<open>Consecutive numbers, one per record.\<close>

primrec seq_from :: "int \<Rightarrow> nat \<Rightarrow> int list" where
  "seq_from s 0 = []"
| "seq_from s (Suc n) = s # seq_from (s + 1) n"

section \<open>Lemmas\<close>

lemma rbind_eq_Inr [simp]: "rbind m f = Inr y \<longleftrightarrow> (\<exists>x. m = Inr x \<and> f x = Inr y)"
  by (cases m) auto

lemma rmap_eq_Inr [simp]: "rmap f m = Inr y \<longleftrightarrow> (\<exists>x. m = Inr x \<and> y = f x)"
  by (cases m) auto

lemma is_ok_iff: "is_ok m \<longleftrightarrow> (\<exists>x. m = Inr x)"
  by (cases m) auto

lemma if_raise_eq_Inr [simp]: "(if c then Inl e else m) = Inr x \<longleftrightarrow> \<not> c \<and> m = Inr x"
  by simp

lemma length_pyslice [simp]: "length (pyslice i j xs) = min (j - i) (length xs - i)"
  by (simp add: pyslice_def min.commute)

lemma length_ljust [simp]: "length (ljust n b) = max n (length b)"
  by (simp add: ljust_def max_def)

lemma ljust_ljust [simp]: "ljust n (ljust n b) = ljust n b"
  by (simp add: ljust_def)

lemma take_ljust [simp]: "take (length b) (ljust n b) = b"
  by (simp add: ljust_def)

lemma length_le_bytes [simp]: "length (le_bytes n v) = n"
  by (induction n arbitrary: v) auto

lemma le_int_nonneg [simp]: "0 \<le> le_int bs"
  by (induction bs) auto

lemma le_int_less: "le_int bs < 256 ^ length bs"
proof (induction bs)
  case (Cons b bs)
  have "uint b < 256" using uint_lt2p [of b] by simp
  with Cons show ?case by simp
qed simp

lemma le_int_take_less: "n \<le> length bs \<Longrightarrow> le_int (take n bs) < 256 ^ n"
  using le_int_less [of "take n bs"] by simp

lemma take_drop_merge: "take m xs @ take n (drop m xs) = take (m + n) xs"
  by (simp add: take_add)

lemma take_drop_merge_append:
  "take m xs @ take n (drop m xs) @ ys = take (m + n) xs @ ys"
  by (simp add: take_add)

lemmas take_merge = take_drop_merge take_drop_merge_append

lemma le_int_le_bytes: "le_int (le_bytes n v) = v mod 256 ^ n"
proof (induction n arbitrary: v)
  case (Suc n)
  have "v mod (256 * 256 ^ n) = 256 * (v div 256 mod 256 ^ n) + v mod 256"
    by (rule zmod_zmult2_eq) simp
  with Suc show ?case by (simp add: uint_word_of_int)
qed simp

lemma le_int_le_bytes_id [simp]: "0 \<le> v \<Longrightarrow> v < 256 ^ n \<Longrightarrow> le_int (le_bytes n v) = v"
  by (simp add: le_int_le_bytes)

lemma le_bytes_le_int [simp]: "n = length bs \<Longrightarrow> le_bytes n (le_int bs) = bs"
proof (induction bs arbitrary: n)
  case (Cons b bs)
  have b: "0 \<le> uint b" "uint b < 256" using uint_lt2p [of b] by simp_all
  then have "(uint b + 256 * le_int bs) div 256 = le_int bs" by simp
  moreover have "(word_of_int (uint b + 256 * le_int bs) :: byte) = b"
  proof -
    have z: "(256 :: byte) = 0" by (rule word_uint_eqI) simp
    have "(word_of_int (uint b + 256 * le_int bs) :: byte) = b + 256 * word_of_int (le_int bs)"
      by simp
    then show ?thesis by (simp only: z mult_zero_left add_0_right)
  qed
  ultimately show ?case using Cons by simp
qed simp

lemma le_bytes_le_int_take [simp]: "n \<le> length bs \<Longrightarrow> le_bytes n (le_int (take n bs)) = take n bs"
  by (rule le_bytes_le_int) simp

lemma and_mask32 [simp]: "(x::int) AND 0xFFFFFFFF = x mod 0x100000000"
proof -
  have "(0xFFFFFFFF::int) = mask 32" by (simp add: mask_eq_exp_minus_1)
  then have "x AND 0xFFFFFFFF = take_bit 32 x" by (simp only: take_bit_eq_mask)
  then show ?thesis by (simp add: take_bit_eq_mod)
qed

lemma next_sequence_bounds [seq_simps]: "1 \<le> next_sequence s" "next_sequence s < 0x100000000"
proof -
  have "0 \<le> (s + 1) mod 0x100000000" "(s + 1) mod 0x100000000 < 0x100000000" by simp_all
  then show "1 \<le> next_sequence s" "next_sequence s < 0x100000000"
    unfolding next_sequence_def Let_def and_mask32 by (simp_all split: if_split) linarith
qed

lemma next_sequence_id [seq_simps]:
  "1 \<le> s \<Longrightarrow> s < 0xFFFFFFFF \<Longrightarrow> next_sequence s = s + 1"
  by (simp add: next_sequence_def)

lemma length_seq_from [simp]: "length (seq_from s n) = n"
  by (induction n arbitrary: s) auto

lemma nth_seq_from [simp]: "i < n \<Longrightarrow> seq_from s n ! i = s + int i"
  by (induction n arbitrary: s i) (auto simp: nth_Cons split: nat.split)

lemma seq_from_snoc: "seq_from s (Suc n) = seq_from s n @ [s + int n]"
proof (induction n arbitrary: s)
  case (Suc n)
  have "seq_from s (Suc (Suc n)) = s # seq_from (s + 1) (Suc n)" by (rule seq_from.simps(2))
  also have "seq_from (s + 1) (Suc n) = seq_from (s + 1) n @ [s + 1 + int n]" by (rule Suc.IH)
  finally show ?case by simp
qed simp

lemma set_seq_from: "set (seq_from s n) = {s ..< s + int n}"
  by (induction n arbitrary: s) auto

lemma seq_from_bounded:
  assumes "0 < n"
  shows "(\<forall>q \<in> set (seq_from s n). 0 \<le> q \<and> q < b) \<longleftrightarrow> 0 \<le> s \<and> s + int n \<le> b"
proof
  assume "\<forall>q \<in> set (seq_from s n). 0 \<le> q \<and> q < b"
  moreover have "s \<in> set (seq_from s n)" "s + int n - 1 \<in> set (seq_from s n)"
    using assms by (simp_all add: set_seq_from)
  ultimately show "0 \<le> s \<and> s + int n \<le> b" by fastforce
qed (auto simp: set_seq_from)

text \<open>One more chunk of at most \<open>k\<close> bytes.\<close>

lemma chunk_count_step:
  fixes n k :: nat
  assumes "0 < n" "0 < k"
  shows "Suc ((n - k + (k - 1)) div k) = (n + (k - 1)) div k"
proof (cases "n \<le> k")
  case True
  have "(n + (k - 1)) div k = 1" by (rule div_nat_eqI) (use True assms in auto)
  with True assms show ?thesis by simp
next
  case False
  then have "n + (k - 1) = k + (n - k + (k - 1))" using assms by simp
  then show ?thesis using assms by (simp only: div_add_self1)
qed

lemma rbind_Inl_iff: "rbind m f = Inl e \<longleftrightarrow> m = Inl e \<or> (\<exists>x. m = Inr x \<and> f x = Inl e)"
  by (cases m) auto

lemma and_mask8 [simp]: "(x::int) AND 0xFF = x mod 256"
proof -
  have "(0xFF::int) = mask 8" by (simp add: mask_eq_exp_minus_1)
  then have "x AND 0xFF = take_bit 8 x" by (simp only: take_bit_eq_mask)
  then show ?thesis by (simp add: take_bit_eq_mod)
qed

lemma and_mask16 [simp]: "(x::int) AND 0xFFFF = x mod 0x10000"
proof -
  have "(0xFFFF::int) = mask 16" by (simp add: mask_eq_exp_minus_1)
  then have "x AND 0xFFFF = take_bit 16 x" by (simp only: take_bit_eq_mask)
  then show ?thesis by (simp add: take_bit_eq_mod)
qed

lemma unat_of_char_byte: "unat (of_char c :: byte) = of_char c"
proof -
  have "unat (of_nat (of_char c) :: byte) = of_char c mod 256"
    by (simp only: unat_of_nat) simp
  then show ?thesis by (simp only: of_nat_of_char of_char_mod_256)
qed

lemma string_of_bytes_of_string [simp]: "string_of_bytes (bytes_of_string s) = s"
  by (simp add: string_of_bytes_def bytes_of_string_def comp_def unat_of_char_byte)

lemma pyslice_suffix: "length p = n \<Longrightarrow> pyslice n (n + length d) (p @ d) = d"
  by (simp add: pyslice_def)

end
