(* ===== verification/Struct_Codec.thy ===== *)
theory Struct_Codec
  imports Prelude
begin

text \<open>
  Python's \<open>struct\<close> module, as far as the wire formats use it: little-endian unsigned
  fields (\<open>B\<close>, \<open>H\<close>, \<open>I\<close>, \<open>Q\<close> are \<open>SU 1\<close>, \<open>SU 2\<close>, \<open>SU 4\<close>, \<open>SU 8\<close>), fixed byte strings
  (\<open>4s\<close> is \<open>SS 4\<close>) and pad bytes (\<open>3x\<close> is \<open>SX 3\<close>), with the round trips every codec of
  the program inherits.  The locales state the contract a codec keeps with its users.
\<close>

section \<open>Formats and values\<close>

datatype sfield = SU nat | SS nat | SX nat

datatype sval = SInt int | SBytes bytes

fun calcsize :: "sfield list \<Rightarrow> nat" where
  "calcsize [] = 0"
| "calcsize (SU n # fs) = n + calcsize fs"
| "calcsize (SS n # fs) = n + calcsize fs"
| "calcsize (SX n # fs) = n + calcsize fs"

text \<open>
  \<open>struct.pack\<close>: an integer that does not fit its field, a missing or superfluous argument
  and an argument of the wrong type all raise \<open>struct.error\<close>; a byte string is cut or padded
  with zeros to its field.
\<close>

fun pack :: "sfield list \<Rightarrow> sval list \<Rightarrow> bytes res" where
  "pack [] [] = Inr []"
| "pack (SX n # fs) vs = rmap (\<lambda>b. replicate n 0 @ b) (pack fs vs)"
| "pack (SU n # fs) (SInt v # vs) =
     (if 0 \<le> v \<and> v < 256 ^ n then rmap (\<lambda>b. le_bytes n v @ b) (pack fs vs) else Inl StructError)"
| "pack (SS n # fs) (SBytes s # vs) =
     rmap (\<lambda>b. take n (ljust n s) @ b) (pack fs vs)"
| "pack fs vs = Inl StructError"

fun unpack_fields :: "sfield list \<Rightarrow> bytes \<Rightarrow> sval list" where
  "unpack_fields [] b = []"
| "unpack_fields (SU n # fs) b = SInt (le_int (take n b)) # unpack_fields fs (drop n b)"
| "unpack_fields (SS n # fs) b = SBytes (take n b) # unpack_fields fs (drop n b)"
| "unpack_fields (SX n # fs) b = unpack_fields fs (drop n b)"

definition unpack :: "sfield list \<Rightarrow> bytes \<Rightarrow> sval list res" where
  "unpack fs b = (if length b = calcsize fs then Inr (unpack_fields fs b) else Inl StructError)"

definition unpack_from :: "sfield list \<Rightarrow> bytes \<Rightarrow> nat \<Rightarrow> sval list res" where
  "unpack_from fs b off =
     (if off + calcsize fs \<le> length b then Inr (unpack_fields fs (drop off b)) else Inl StructError)"

text \<open>The values a format can carry without cutting or padding, and formats without padding.\<close>

fun fits :: "sfield list \<Rightarrow> sval list \<Rightarrow> bool" where
  "fits [] [] = True"
| "fits (SX n # fs) vs = fits fs vs"
| "fits (SU n # fs) (SInt v # vs) = (0 \<le> v \<and> v < 256 ^ n \<and> fits fs vs)"
| "fits (SS n # fs) (SBytes s # vs) = (length s = n \<and> fits fs vs)"
| "fits fs vs = False"

fun sized :: "sfield list \<Rightarrow> sval list \<Rightarrow> bool" where
  "sized (SX n # fs) vs = sized fs vs"
| "sized (SU n # fs) (v # vs) = sized fs vs"
| "sized (SS n # fs) (SBytes s # vs) = (length s = n \<and> sized fs vs)"
| "sized fs vs = True"

fun no_pad :: "sfield list \<Rightarrow> bool" where
  "no_pad [] = True"
| "no_pad (SX n # fs) = False"
| "no_pad (f # fs) = no_pad fs"

section \<open>Round trips\<close>

lemma length_pack: "pack fs vs = Inr b \<Longrightarrow> length b = calcsize fs"
proof (induction fs vs arbitrary: b rule: pack.induct)
  case (2 n fs vs)
  then show ?case by auto
next
  case (3 n fs v vs)
  then show ?case by (auto split: if_splits)
next
  case (4 n fs s vs)
  then show ?case by auto
qed auto

lemma pack_ok: "fits fs vs \<Longrightarrow> \<exists>b. pack fs vs = Inr b"
  by (induction fs vs rule: fits.induct) auto

lemma pack_fits: "pack fs vs = Inr b \<Longrightarrow> sized fs vs \<Longrightarrow> fits fs vs"
  by (induction fs vs arbitrary: b rule: pack.induct) (auto split: if_splits)

lemma fits_pack_iff: "sized fs vs \<Longrightarrow> (\<exists>b. pack fs vs = Inr b) \<longleftrightarrow> fits fs vs"
  using pack_fits pack_ok by blast

lemma unpack_fields_pack_append:
  "pack fs vs = Inr b \<Longrightarrow> sized fs vs \<Longrightarrow> unpack_fields fs (b @ c) = vs"
proof (induction fs vs arbitrary: b rule: pack.induct)
  case (4 n fs s vs)
  then show ?case by (auto simp: ljust_def)
qed (auto split: if_splits)

lemma unpack_from_pack:
  "pack fs vs = Inr b \<Longrightarrow> sized fs vs \<Longrightarrow> unpack_from fs (b @ c) 0 = Inr vs"
  by (simp add: unpack_from_def length_pack unpack_fields_pack_append)

lemma unpack_pack: "pack fs vs = Inr b \<Longrightarrow> sized fs vs \<Longrightarrow> unpack fs b = Inr vs"
  using unpack_fields_pack_append [of fs vs b "[]"]
  by (simp add: unpack_def length_pack)

lemma pack_unpack_fields:
  "no_pad fs \<Longrightarrow> calcsize fs \<le> length b \<Longrightarrow>
     pack fs (unpack_fields fs b) = Inr (take (calcsize fs) b)"
proof (induction fs b rule: unpack_fields.induct)
  case (2 n fs b)
  then show ?case by (simp add: take_add le_int_take_less)
next
  case (3 n fs b)
  then show ?case by (simp add: ljust_def take_add min_def)
qed auto

lemma pack_unpack: "unpack fs b = Inr vs \<Longrightarrow> no_pad fs \<Longrightarrow> pack fs vs = Inr b"
  by (auto simp: unpack_def pack_unpack_fields split: if_splits)

lemma fits_unpack_fields: "calcsize fs \<le> length b \<Longrightarrow> fits fs (unpack_fields fs b)"
proof (induction fs b rule: unpack_fields.induct)
  case (2 n fs b)
  then show ?case by (simp add: le_int_take_less)
qed auto

lemma fits_unpack: "unpack fs b = Inr vs \<Longrightarrow> fits fs vs"
  by (auto simp: unpack_def fits_unpack_fields split: if_splits)

section \<open>Codec contracts\<close>

text \<open>
  What a user of an encoder and a decoder relies on: a well-formed value that was encoded
  decodes to itself.  A framed codec has records of one size, so that records can be
  concatenated and split again; an exact codec accepts no byte string but its own output.
\<close>

locale codec =
  fixes enc :: "'a \<Rightarrow> bytes res"
    and dcd :: "bytes \<Rightarrow> 'a res"
    and wf :: "'a \<Rightarrow> bool"
  assumes dcd_enc: "wf x \<Longrightarrow> enc x = Inr b \<Longrightarrow> dcd b = Inr x"
begin

lemma enc_inj: "wf x \<Longrightarrow> wf y \<Longrightarrow> enc x = Inr b \<Longrightarrow> enc y = Inr b \<Longrightarrow> x = y"
  using dcd_enc [of x b] dcd_enc [of y b] by simp

end

locale framed_codec = codec +
  fixes size_of :: nat
  assumes enc_size: "enc x = Inr b \<Longrightarrow> length b = size_of"
begin

primrec enc_all :: "'a list \<Rightarrow> bytes res" where
  "enc_all [] = Inr []"
| "enc_all (x # xs) = rbind (enc x) (\<lambda>b. rmap (\<lambda>c. b @ c) (enc_all xs))"

primrec dcd_all :: "nat \<Rightarrow> bytes \<Rightarrow> 'a list res" where
  "dcd_all 0 b = Inr []"
| "dcd_all (Suc n) b =
     rbind (dcd (take size_of b)) (\<lambda>x. rmap (\<lambda>xs. x # xs) (dcd_all n (drop size_of b)))"

lemma dcd_all_enc_all:
  "(\<forall>x \<in> set xs. wf x) \<Longrightarrow> enc_all xs = Inr b \<Longrightarrow> dcd_all (length xs) b = Inr xs"
proof (induction xs arbitrary: b)
  case (Cons x xs)
  then obtain c d where c: "enc x = Inr c" and d: "enc_all xs = Inr d" and b: "b = c @ d"
    by auto
  have "length c = size_of" using c by (rule enc_size)
  moreover have "dcd c = Inr x" using Cons.prems c dcd_enc by simp
  ultimately show ?case using Cons d b by simp
qed simp

end

locale exact_codec = codec +
  assumes enc_dcd: "dcd b = Inr x \<Longrightarrow> enc x = Inr b"
    and dcd_wf: "dcd b = Inr x \<Longrightarrow> wf x"
begin

lemma dcd_iff_enc: "dcd b = Inr x \<longleftrightarrow> wf x \<and> enc x = Inr b"
  using dcd_enc enc_dcd dcd_wf by blast

lemma dcd_inj: "dcd b = Inr x \<Longrightarrow> dcd c = Inr x \<Longrightarrow> b = c"
  using enc_dcd [of b x] enc_dcd [of c x] by simp

end

end
