(* ===== verification/Protocol.thy ===== *)
theory Protocol
  imports Struct_Codec
begin

unbundle bit_operations_syntax

text \<open>
  The provider-neutral 64-byte Host Protocol (\<open>host/rp86/protocol.py\<close>) and the transport
  constants (\<open>host/rp86/constants.py\<close>): the record \<open>message\<close> with its encoder and decoder,
  and the native service witness the physical processor sends back in a reply.
\<close>

section \<open>Constants\<close>

abbreviation (input) PROTOCOL_VERSION :: int where "PROTOCOL_VERSION \<equiv> 1"
abbreviation (input) PAYLOAD_SIZE :: nat where "PAYLOAD_SIZE \<equiv> 52"
abbreviation (input) MESSAGE_SIZE :: nat where "MESSAGE_SIZE \<equiv> 64"

definition MESSAGE_FORMAT :: "sfield list" where
  "MESSAGE_FORMAT = [SU 1, SU 1, SU 2, SU 4, SU 2, SU 2, SS 52]"

definition NATIVE_WITNESS_MAGIC :: bytes where
  "NATIVE_WITNESS_MAGIC = [0x50, 0x38, 0x36, 0x4E]"

abbreviation (input) NATIVE_WITNESS_VERSION :: int where "NATIVE_WITNESS_VERSION \<equiv> 1"

definition NATIVE_WITNESS_FORMAT :: "sfield list" where
  "NATIVE_WITNESS_FORMAT = [SS 4, SU 1, SU 1, SU 2, SU 4, SU 4, SU 4]"

abbreviation (input) NATIVE_PROCESSOR_MASK :: int where "NATIVE_PROCESSOR_MASK \<equiv> 0x0003"
abbreviation (input) NATIVE_PROCESSOR_INTEL_8086 :: int where "NATIVE_PROCESSOR_INTEL_8086 \<equiv> 0x0001"
abbreviation (input) NATIVE_PROCESSOR_NEC_V30 :: int where "NATIVE_PROCESSOR_NEC_V30 \<equiv> 0x0002"

definition NATIVE_PROCESSOR_NAMES :: "int \<rightharpoonup> string" where
  "NATIVE_PROCESSOR_NAMES =
     [NATIVE_PROCESSOR_INTEL_8086 \<mapsto> ''intel-8086'', NATIVE_PROCESSOR_NEC_V30 \<mapsto> ''nec-v30'']"

abbreviation (input) TYPE_HELLO :: int where "TYPE_HELLO \<equiv> 1"
abbreviation (input) TYPE_TEXT :: int where "TYPE_TEXT \<equiv> 2"
abbreviation (input) TYPE_ACK :: int where "TYPE_ACK \<equiv> 3"
abbreviation (input) TYPE_COMMAND :: int where "TYPE_COMMAND \<equiv> 4"
abbreviation (input) TYPE_RESULT :: int where "TYPE_RESULT \<equiv> 5"
abbreviation (input) TYPE_HEARTBEAT :: int where "TYPE_HEARTBEAT \<equiv> 6"
abbreviation (input) TYPE_WORKLOAD_BEGIN :: int where "TYPE_WORKLOAD_BEGIN \<equiv> 0x20"
abbreviation (input) TYPE_WORKLOAD_DATA :: int where "TYPE_WORKLOAD_DATA \<equiv> 0x21"
abbreviation (input) TYPE_WORKLOAD_COMMIT :: int where "TYPE_WORKLOAD_COMMIT \<equiv> 0x22"
abbreviation (input) TYPE_WORKLOAD_CONTROL :: int where "TYPE_WORKLOAD_CONTROL \<equiv> 0x23"
abbreviation (input) TYPE_WORKLOAD_STATUS :: int where "TYPE_WORKLOAD_STATUS \<equiv> 0x24"
abbreviation (input) TYPE_WORKLOAD_RESULT :: int where "TYPE_WORKLOAD_RESULT \<equiv> 0x25"
abbreviation (input) TYPE_WORKLOAD_TIMEOUT_REQUEST :: int where "TYPE_WORKLOAD_TIMEOUT_REQUEST \<equiv> 0x26"
abbreviation (input) TYPE_WORKLOAD_TIMEOUT_RESULT :: int where "TYPE_WORKLOAD_TIMEOUT_RESULT \<equiv> 0x27"
abbreviation (input) TYPE_RUNTIME_CONTROL :: int where "TYPE_RUNTIME_CONTROL \<equiv> 0x30"
abbreviation (input) TYPE_RUNTIME_STATUS :: int where "TYPE_RUNTIME_STATUS \<equiv> 0x31"
abbreviation (input) TYPE_FILESYSTEM_REQUEST :: int where "TYPE_FILESYSTEM_REQUEST \<equiv> 0x40"
abbreviation (input) TYPE_FILESYSTEM_RESULT :: int where "TYPE_FILESYSTEM_RESULT \<equiv> 0x41"
abbreviation (input) TYPE_MEMORY_REQUEST :: int where "TYPE_MEMORY_REQUEST \<equiv> 0x50"
abbreviation (input) TYPE_MEMORY_RESULT :: int where "TYPE_MEMORY_RESULT \<equiv> 0x51"
abbreviation (input) TYPE_DIAGNOSTICS_REQUEST :: int where "TYPE_DIAGNOSTICS_REQUEST \<equiv> 0x60"
abbreviation (input) TYPE_DIAGNOSTICS_RESULT :: int where "TYPE_DIAGNOSTICS_RESULT \<equiv> 0x61"

abbreviation (input) TYPE_ERROR :: int where "TYPE_ERROR \<equiv> 0x7F"

abbreviation (input) FLAG_RETRY :: int where "FLAG_RETRY \<equiv> 1"

abbreviation (input) STATUS_OK :: int where "STATUS_OK \<equiv> 0"
abbreviation (input) STATUS_BAD_VERSION :: int where "STATUS_BAD_VERSION \<equiv> 1"
abbreviation (input) STATUS_BAD_LENGTH :: int where "STATUS_BAD_LENGTH \<equiv> 2"
abbreviation (input) STATUS_BUSY :: int where "STATUS_BUSY \<equiv> 3"
abbreviation (input) STATUS_TIMEOUT :: int where "STATUS_TIMEOUT \<equiv> 4"
abbreviation (input) STATUS_BAD_SEQUENCE :: int where "STATUS_BAD_SEQUENCE \<equiv> 5"
abbreviation (input) STATUS_SERVICE_UNAVAILABLE :: int where "STATUS_SERVICE_UNAVAILABLE \<equiv> 6"
abbreviation (input) STATUS_BAD_CRC :: int where "STATUS_BAD_CRC \<equiv> 7"
abbreviation (input) STATUS_BAD_STATE :: int where "STATUS_BAD_STATE \<equiv> 8"
abbreviation (input) STATUS_BAD_WORKLOAD :: int where "STATUS_BAD_WORKLOAD \<equiv> 9"
abbreviation (input) STATUS_IO_ERROR :: int where "STATUS_IO_ERROR \<equiv> 10"
abbreviation (input) STATUS_NOT_FOUND :: int where "STATUS_NOT_FOUND \<equiv> 11"
abbreviation (input) STATUS_INVALID_PATH :: int where "STATUS_INVALID_PATH \<equiv> 12"
abbreviation (input) STATUS_NO_SPACE :: int where "STATUS_NO_SPACE \<equiv> 13"

abbreviation (input) WORKLOAD_CONTROL_RUN :: int where "WORKLOAD_CONTROL_RUN \<equiv> 1"
abbreviation (input) WORKLOAD_CONTROL_STOP :: int where "WORKLOAD_CONTROL_STOP \<equiv> 2"
abbreviation (input) WORKLOAD_CONTROL_RESTART :: int where "WORKLOAD_CONTROL_RESTART \<equiv> 3"
abbreviation (input) WORKLOAD_CONTROL_STATUS :: int where "WORKLOAD_CONTROL_STATUS \<equiv> 4"

abbreviation (input) WORKLOAD_TIMEOUT_GET :: int where "WORKLOAD_TIMEOUT_GET \<equiv> 0"
abbreviation (input) WORKLOAD_TIMEOUT_SET :: int where "WORKLOAD_TIMEOUT_SET \<equiv> 1"
abbreviation (input) WORKLOAD_TIMEOUT_MAX_MS :: int where "WORKLOAD_TIMEOUT_MAX_MS \<equiv> 86400000"

abbreviation (input) RUNTIME_CONTROL_ENTER_BOOTLOADER :: int where "RUNTIME_CONTROL_ENTER_BOOTLOADER \<equiv> 1"
abbreviation (input) RUNTIME_CONTROL_SELFTEST :: int where "RUNTIME_CONTROL_SELFTEST \<equiv> 2"
abbreviation (input) RUNTIME_CONTROL_REBOOT :: int where "RUNTIME_CONTROL_REBOOT \<equiv> 3"

abbreviation (input) FILESYSTEM_LIST :: byte where "FILESYSTEM_LIST \<equiv> 1"
abbreviation (input) FILESYSTEM_DF :: byte where "FILESYSTEM_DF \<equiv> 2"
abbreviation (input) FILESYSTEM_READ :: byte where "FILESYSTEM_READ \<equiv> 3"
abbreviation (input) FILESYSTEM_WRITE_BEGIN :: byte where "FILESYSTEM_WRITE_BEGIN \<equiv> 4"
abbreviation (input) FILESYSTEM_WRITE_DATA :: byte where "FILESYSTEM_WRITE_DATA \<equiv> 5"
abbreviation (input) FILESYSTEM_WRITE_COMMIT :: byte where "FILESYSTEM_WRITE_COMMIT \<equiv> 6"

abbreviation (input) MEMORY_READ :: int where "MEMORY_READ \<equiv> 1"
abbreviation (input) MEMORY_WRITE :: int where "MEMORY_WRITE \<equiv> 2"
abbreviation (input) MEMORY_DATA_BYTES :: nat where "MEMORY_DATA_BYTES \<equiv> 40"

abbreviation (input) FILESYSTEM_FLAG_EOF :: byte where "FILESYSTEM_FLAG_EOF \<equiv> 1"
abbreviation (input) FILESYSTEM_FLAG_DIRECTORY :: byte where "FILESYSTEM_FLAG_DIRECTORY \<equiv> 2"
abbreviation (input) FILESYSTEM_FLAG_TRUNCATED :: byte where "FILESYSTEM_FLAG_TRUNCATED \<equiv> 4"
abbreviation (input) FILESYSTEM_READ_DATA_BYTES :: nat where "FILESYSTEM_READ_DATA_BYTES \<equiv> 40"
abbreviation (input) FILESYSTEM_LIST_NAME_BYTES :: nat where "FILESYSTEM_LIST_NAME_BYTES \<equiv> 42"
abbreviation (input) FILESYSTEM_WRITE_DATA_BYTES :: nat where "FILESYSTEM_WRITE_DATA_BYTES \<equiv> 40"
abbreviation (input) FILESYSTEM_READ_PATH_BYTES :: nat where "FILESYSTEM_READ_PATH_BYTES \<equiv> 44"
abbreviation (input) FILESYSTEM_WRITE_PATH_BYTES :: nat where "FILESYSTEM_WRITE_PATH_BYTES \<equiv> 36"

section \<open>Transport constants\<close>

definition BOOTLOADER_REQUEST :: bytes where
  "BOOTLOADER_REQUEST = bytes_of_string ''RP86 BOOTLOADER'' @ [10]"

definition BOOTLOADER_ACK :: bytes where
  "BOOTLOADER_ACK = bytes_of_string ''RP86 BOOTLOADER ACK''"

definition REBOOT_REQUEST :: bytes where
  "REBOOT_REQUEST = bytes_of_string ''RP86 REBOOT'' @ [10]"

definition REBOOT_ACK :: bytes where
  "REBOOT_ACK = bytes_of_string ''RP86 REBOOT ACK''"

definition STATUS_REQUEST :: bytes where
  "STATUS_REQUEST = bytes_of_string ''RP86 STATUS'' @ [10]"

definition STATUS_BEGIN :: bytes where
  "STATUS_BEGIN = bytes_of_string ''RP86 STATUS BEGIN''"

definition STATUS_END :: bytes where
  "STATUS_END = bytes_of_string ''RP86 STATUS END''"

definition HEARTBEAT_REPLY :: bytes where
  "HEARTBEAT_REPLY = bytes_of_string ''PROCESSOR HEARTBEAT OK''"

definition COMMAND_REPLY :: bytes where
  "COMMAND_REPLY = bytes_of_string ''PROCESSOR COMMAND OK''"

definition PROCESSOR_NAMES :: "string \<rightharpoonup> string" where
  "PROCESSOR_NAMES = [''auto'' \<mapsto> ''8086-CLASS PROCESSOR'', ''nec-v30'' \<mapsto> ''NEC V30'',
                      ''intel-8086'' \<mapsto> ''INTEL 8086'']"

abbreviation (input) USB_VID :: int where "USB_VID \<equiv> 0xCAFE"
abbreviation (input) USB_PID :: int where "USB_PID \<equiv> 0x4011"
abbreviation (input) PASS_EXIT :: int where "PASS_EXIT \<equiv> 0"
abbreviation (input) DEPENDENCY_EXIT :: int where "DEPENDENCY_EXIT \<equiv> 3"
abbreviation (input) TRANSPORT_EXIT :: int where "TRANSPORT_EXIT \<equiv> 4"
abbreviation (input) VALIDATION_EXIT :: int where "VALIDATION_EXIT \<equiv> 5"

section \<open>Native service witness\<close>

record native_witness =
  nw_service_type :: int
  nw_boot_id :: int
  nw_cpu_sequence :: int
  nw_command_sequence :: int
  nw_text :: bytes
  nw_flags :: int
  nw_version :: int

definition witness_processor :: "native_witness \<Rightarrow> string option" where
  "witness_processor w = NATIVE_PROCESSOR_NAMES (nw_flags w AND NATIVE_PROCESSOR_MASK)"

definition witness_encode :: "native_witness \<Rightarrow> bytes res" where
  "witness_encode w =
     rbind (pack NATIVE_WITNESS_FORMAT
         [SBytes NATIVE_WITNESS_MAGIC, SInt (nw_version w), SInt (nw_service_type w),
          SInt (nw_flags w), SInt (nw_boot_id w), SInt (nw_cpu_sequence w),
          SInt (nw_command_sequence w)])
       (\<lambda>head. let payload = head @ nw_text w in
          if length payload > PAYLOAD_SIZE
          then Inl (ValueError ''native service witness exceeds bridge payload'')
          else Inr payload)"

definition witness_decode :: "bytes \<Rightarrow> native_witness res" where
  "witness_decode payload =
     (if length payload < calcsize NATIVE_WITNESS_FORMAT
      then Inl (ValueError ''native service witness is truncated'')
      else rbind (unpack_from NATIVE_WITNESS_FORMAT payload 0) (\<lambda>vs. case vs of
        [SBytes magic, SInt version, SInt service_type, SInt flags, SInt boot_id, SInt cpu_seq,
         SInt command_seq] \<Rightarrow>
          if magic \<noteq> NATIVE_WITNESS_MAGIC
          then Inl (ValueError ''native service witness magic mismatch'')
          else if version \<noteq> NATIVE_WITNESS_VERSION
          then Inl (ValueError (''unsupported native service witness version: '' @ dec version))
          else Inr \<lparr>nw_service_type = service_type, nw_boot_id = boot_id,
                    nw_cpu_sequence = cpu_seq, nw_command_sequence = command_seq,
                    nw_text = drop (calcsize NATIVE_WITNESS_FORMAT) payload,
                    nw_flags = flags, nw_version = version\<rparr>
      | _ \<Rightarrow> Inl (ValueError ''not enough values to unpack'')))"

section \<open>Message\<close>

record message =
  msg_type :: int
  msg_sequence :: int
  msg_payload :: bytes
  msg_flags :: int
  msg_status :: int
  msg_version :: int

text \<open>The dataclass constructor with its defaults for \<open>flags\<close>, \<open>status\<close> and \<open>version\<close>.\<close>

definition Message :: "int \<Rightarrow> int \<Rightarrow> bytes \<Rightarrow> message" where
  "Message t s p = \<lparr>msg_type = t, msg_sequence = s, msg_payload = p, msg_flags = 0,
                    msg_status = 0, msg_version = PROTOCOL_VERSION\<rparr>"

definition message_encode :: "message \<Rightarrow> bytes res" where
  "message_encode m =
     (if msg_version m \<noteq> PROTOCOL_VERSION
      then Inl (ValueError (''unsupported protocol version: '' @ dec (msg_version m)))
      else if \<not> length (msg_payload m) \<le> PAYLOAD_SIZE
      then Inl (ValueError ''payload exceeds 52 bytes'')
      else pack MESSAGE_FORMAT
        [SInt (msg_version m), SInt (msg_type m), SInt (msg_flags m), SInt (msg_sequence m),
         SInt (int (length (msg_payload m))), SInt (msg_status m),
         SBytes (ljust PAYLOAD_SIZE (msg_payload m))])"

definition message_decode :: "bytes \<Rightarrow> message res" where
  "message_decode record =
     (if length record \<noteq> MESSAGE_SIZE
      then Inl (ValueError ''record must be exactly 64 bytes'')
      else rbind (unpack MESSAGE_FORMAT record) (\<lambda>vs. case vs of
        [SInt version, SInt message_type, SInt flags, SInt sequence, SInt len, SInt status,
         SBytes payload] \<Rightarrow>
          if version \<noteq> PROTOCOL_VERSION
          then Inl (ValueError (''unsupported protocol version: '' @ dec version))
          else if len > int PAYLOAD_SIZE
          then Inl (ValueError (''invalid payload length: '' @ dec len))
          else Inr \<lparr>msg_type = message_type, msg_sequence = sequence,
                    msg_payload = take (nat len) payload, msg_flags = flags,
                    msg_status = status, msg_version = version\<rparr>
      | _ \<Rightarrow> Inl (ValueError ''not enough values to unpack'')))"

text \<open>The messages that fit the record.\<close>

definition message_wf :: "message \<Rightarrow> bool" where
  "message_wf m \<longleftrightarrow> msg_version m = PROTOCOL_VERSION \<and> length (msg_payload m) \<le> PAYLOAD_SIZE
     \<and> 0 \<le> msg_type m \<and> msg_type m < 256 \<and> 0 \<le> msg_flags m \<and> msg_flags m < 65536
     \<and> 0 \<le> msg_sequence m \<and> msg_sequence m < 4294967296
     \<and> 0 \<le> msg_status m \<and> msg_status m < 65536"

section \<open>Record layout\<close>

lemmas protocol_format_simps [codec_simps] = MESSAGE_FORMAT_def NATIVE_WITNESS_FORMAT_def

lemma calcsize_protocol [simp]:
  "calcsize MESSAGE_FORMAT = 64" "calcsize NATIVE_WITNESS_FORMAT = 20"
  by (simp_all add: codec_simps)

lemma Message_simps [simp]:
  "msg_type (Message t s p) = t" "msg_sequence (Message t s p) = s"
  "msg_payload (Message t s p) = p" "msg_flags (Message t s p) = 0"
  "msg_status (Message t s p) = 0" "msg_version (Message t s p) = PROTOCOL_VERSION"
  by (simp_all add: Message_def)

lemma message_encode_eq:
  "message_encode m = Inr r \<longleftrightarrow> message_wf m
     \<and> r = le_bytes 1 (msg_version m) @ le_bytes 1 (msg_type m) @ le_bytes 2 (msg_flags m)
           @ le_bytes 4 (msg_sequence m) @ le_bytes 2 (int (length (msg_payload m)))
           @ le_bytes 2 (msg_status m) @ ljust PAYLOAD_SIZE (msg_payload m)"
  by (auto simp: message_encode_def message_wf_def codec_simps simp del: le_bytes.simps)

lemma message_decode_eq:
  "length r = MESSAGE_SIZE \<Longrightarrow> message_decode r =
     (if le_int (take 1 r) \<noteq> PROTOCOL_VERSION
      then Inl (ValueError (''unsupported protocol version: '' @ dec (le_int (take 1 r))))
      else if le_int (take 2 (drop 8 r)) > 52
      then Inl (ValueError (''invalid payload length: '' @ dec (le_int (take 2 (drop 8 r)))))
      else Inr \<lparr>msg_type = le_int (take 1 (drop 1 r)), msg_sequence = le_int (take 4 (drop 4 r)),
           msg_payload = take (nat (le_int (take 2 (drop 8 r)))) (drop 12 r),
           msg_flags = le_int (take 2 (drop 2 r)), msg_status = le_int (take 2 (drop 10 r)),
           msg_version = le_int (take 1 r)\<rparr>)"
  by (simp add: message_decode_def unpack_def codec_simps del: One_nat_def)

lemma message_decode_InrD: "message_decode r = Inr m \<Longrightarrow> length r = MESSAGE_SIZE"
  by (auto simp: message_decode_def split: if_splits)

lemma length_message_encode: "message_encode m = Inr r \<Longrightarrow> length r = MESSAGE_SIZE"
  by (auto simp: message_encode_eq message_wf_def)

lemma message_encode_ok: "message_wf m \<Longrightarrow> \<exists>r. message_encode m = Inr r"
  by (simp add: message_encode_eq)

lemma message_decode_encode_aux: "message_encode m = Inr r \<Longrightarrow> message_decode r = Inr m"
proof -
  assume enc: "message_encode m = Inr r"
  then have wf: "message_wf m" by (simp add: message_encode_eq)
  have len: "length r = MESSAGE_SIZE" by (rule length_message_encode [OF enc])
  from enc have r: "r = le_bytes 1 (msg_version m) @ le_bytes 1 (msg_type m)
      @ le_bytes 2 (msg_flags m) @ le_bytes 4 (msg_sequence m)
      @ le_bytes 2 (int (length (msg_payload m))) @ le_bytes 2 (msg_status m)
      @ ljust PAYLOAD_SIZE (msg_payload m)"
    by (simp add: message_encode_eq)
  show ?thesis
    unfolding message_decode_eq [OF len]
    using wf unfolding r by (simp add: message_wf_def del: le_bytes.simps)
qed

interpretation message_codec: framed_codec message_encode message_decode "\<lambda>m. True" MESSAGE_SIZE
  by unfold_locales (auto intro: message_decode_encode_aux length_message_encode)

lemma message_decode_wf: "message_decode r = Inr m \<Longrightarrow> message_wf m"
proof -
  assume dec: "message_decode r = Inr m"
  then have len: "length r = MESSAGE_SIZE" by (rule message_decode_InrD)
  have b: "\<And>n i. i + n \<le> 64 \<Longrightarrow> le_int (take n (drop i r)) < 256 ^ n"
    by (rule le_int_take_less) (simp add: len)
  show ?thesis
    using dec b [of 1 1] b [of 2 2] b [of 4 4] b [of 10 2]
    unfolding message_decode_eq [OF len] message_wf_def
    by (auto simp: min_def split: if_splits)
qed

lemma message_decode_canonical:
  assumes dec: "message_decode r = Inr m"
  shows "message_encode m = Inr (take (12 + length (msg_payload m)) r
           @ replicate (52 - length (msg_payload m)) 0)"
proof -
  have len: "length r = MESSAGE_SIZE" using dec by (rule message_decode_InrD)
  have wf: "message_wf m" using dec by (rule message_decode_wf)
  have n: "int (length (msg_payload m)) = le_int (take 2 (drop 8 r))"
    "msg_version m = le_int (take 1 r)" "msg_type m = le_int (take 1 (drop 1 r))"
    "msg_flags m = le_int (take 2 (drop 2 r))" "msg_sequence m = le_int (take 4 (drop 4 r))"
    "msg_status m = le_int (take 2 (drop 10 r))"
    "msg_payload m = take (length (msg_payload m)) (drop 12 r)"
    using dec len unfolding message_decode_eq [OF len]
    by (auto simp: min_def split: if_splits)
  have head: "le_bytes 1 (msg_version m) @ le_bytes 1 (msg_type m) @ le_bytes 2 (msg_flags m)
      @ le_bytes 4 (msg_sequence m) @ le_bytes 2 (int (length (msg_payload m)))
      @ le_bytes 2 (msg_status m) @ x = take 12 r @ x" for x
    unfolding n(1-6) using len
    by (simp add: take_merge del: le_bytes.simps One_nat_def)
  have body: "take 12 r @ msg_payload m = take (12 + length (msg_payload m)) r"
    by (subst n(7)) (simp add: take_merge)
  have "take (12 + length (msg_payload m)) r @ replicate (52 - length (msg_payload m)) 0
      = take 12 r @ ljust 52 (msg_payload m)"
    unfolding ljust_def by (simp flip: body)
  then show ?thesis
    unfolding message_encode_eq head using wf by simp
qed

section \<open>Witness round trip\<close>

lemma witness_fields:
  "unpack_fields NATIVE_WITNESS_FORMAT p =
     [SBytes (take 4 p), SInt (le_int (take 1 (drop 4 p))), SInt (le_int (take 1 (drop 5 p))),
      SInt (le_int (take 2 (drop 6 p))), SInt (le_int (take 4 (drop 8 p))),
      SInt (le_int (take 4 (drop 12 p))), SInt (le_int (take 4 (drop 16 p)))]"
  by (simp add: codec_simps del: One_nat_def)

lemma length_NATIVE_WITNESS_MAGIC [simp]: "length NATIVE_WITNESS_MAGIC = 4"
  by (simp add: NATIVE_WITNESS_MAGIC_def)

lemma witness_decode_encode:
  assumes v: "nw_version w = NATIVE_WITNESS_VERSION" and enc: "witness_encode w = Inr p"
  shows "witness_decode p = Inr w"
proof -
  let ?vs = "[SBytes NATIVE_WITNESS_MAGIC, SInt (nw_version w), SInt (nw_service_type w),
          SInt (nw_flags w), SInt (nw_boot_id w), SInt (nw_cpu_sequence w),
          SInt (nw_command_sequence w)]"
  obtain h where h: "pack NATIVE_WITNESS_FORMAT ?vs = Inr h" and p: "p = h @ nw_text w"
    using enc by (auto simp: witness_encode_def Let_def split: if_splits)
  have "length h = 20" using length_pack [OF h] by simp
  moreover have "unpack_from NATIVE_WITNESS_FORMAT p 0 = Inr ?vs"
    unfolding p using h by (rule unpack_from_pack) (simp add: codec_simps)
  ultimately show ?thesis using v p by (simp add: witness_decode_def)
qed

lemma witness_encode_decode:
  assumes len: "length p \<le> PAYLOAD_SIZE" and dec: "witness_decode p = Inr w"
  shows "nw_version w = NATIVE_WITNESS_VERSION \<and> witness_encode w = Inr p"
proof -
  have l: "20 \<le> length p" using dec by (auto simp: witness_decode_def split: if_splits)
  then have "pack NATIVE_WITNESS_FORMAT (unpack_fields NATIVE_WITNESS_FORMAT p) = Inr (take 20 p)"
    using pack_unpack_fields [of NATIVE_WITNESS_FORMAT p] by (simp add: codec_simps)
  with dec len l show ?thesis
    by (auto simp: witness_decode_def witness_encode_def unpack_from_def witness_fields
             split: if_splits)
qed

interpretation witness_codec: codec witness_encode witness_decode
    "\<lambda>w. nw_version w = NATIVE_WITNESS_VERSION"
  by unfold_locales (rule witness_decode_encode)

section \<open>Properties\<close>

text \<open>C5. Every message that fits the protocol's field widths encodes to one 64-byte record,
  nothing else encodes, and decoding the record gives the message back.\<close>

theorem message_roundtrip:
  "(message_wf m \<longleftrightarrow> is_ok (message_encode m))
   \<and> (message_encode m = Inr r \<longrightarrow> length r = MESSAGE_SIZE \<and> message_decode r = Inr m)"
  using message_decode_encode_aux length_message_encode
  by (auto simp: is_ok_iff message_encode_eq)

theorem message_roundtrip_witness:
  "\<exists>r. message_encode (Message TYPE_HEARTBEAT 7 [1, 2]) = Inr r \<and> length r = MESSAGE_SIZE
     \<and> message_decode r = Inr (Message TYPE_HEARTBEAT 7 [1, 2])"
proof -
  have "message_wf (Message TYPE_HEARTBEAT 7 [1, 2])" by (simp add: message_wf_def)
  with message_roundtrip [of "Message TYPE_HEARTBEAT 7 [1, 2]"] show ?thesis
    by (auto simp: is_ok_iff)
qed

text \<open>The decoder is sound on any 64 bytes a device sends: what it accepts satisfies the
  field bounds, and re-encoding it reproduces the header and the announced payload bytes of the
  record, with the rest of the payload area cleared.\<close>

theorem message_decode_sound:
  assumes "message_decode r = Inr m"
  shows "message_wf m \<and> length r = MESSAGE_SIZE
    \<and> message_encode m = Inr (take (12 + length (msg_payload m)) r
         @ replicate (52 - length (msg_payload m)) 0)"
  using assms message_decode_wf message_decode_canonical message_decode_InrD by blast

theorem message_decode_sound_witness:
  "\<exists>m. message_decode (1 # 6 # replicate 62 0) = Inr m \<and> message_wf m"
proof -
  have "\<exists>m. message_decode (1 # 6 # replicate 62 0) = Inr m"
    by (simp add: message_decode_eq numeral_eq_Suc)
  then show ?thesis using message_decode_sound by blast
qed

text \<open>C17. On payloads of at most 52 bytes the witness decoder accepts exactly the outputs of the
  witness encoder at the supported version, and returns the witness that was encoded.\<close>

theorem witness_exact:
  assumes "length p \<le> PAYLOAD_SIZE"
  shows "witness_decode p = Inr w \<longleftrightarrow>
    nw_version w = NATIVE_WITNESS_VERSION \<and> witness_encode w = Inr p"
  using assms witness_decode_encode witness_encode_decode by blast

theorem witness_exact_witness:
  "\<exists>p. length p \<le> PAYLOAD_SIZE \<and> witness_decode p =
     Inr \<lparr>nw_service_type = 1, nw_boot_id = 2, nw_cpu_sequence = 3, nw_command_sequence = 4,
          nw_text = [79, 75], nw_flags = 2, nw_version = 1\<rparr>"
proof -
  let ?w = "\<lparr>nw_service_type = 1, nw_boot_id = 2, nw_cpu_sequence = 3, nw_command_sequence = 4,
          nw_text = [79, 75], nw_flags = 2, nw_version = 1\<rparr>"
  obtain p where p: "witness_encode ?w = Inr p" and l: "length p \<le> 52"
    by (simp add: witness_encode_def codec_simps numeral_eq_Suc)
  then show ?thesis using witness_exact [OF l, of ?w] by auto
qed

end
