(* ===== verification/Py_Text.thy ===== *)
theory Py_Text
  imports Prelude
begin

text \<open>
  The text operations of Python's \<open>str\<close>, \<open>bytes\<close> and \<open>int\<close> the program uses: stripping,
  case folding, splitting, number literals, \<open>repr\<close> and UTF-8 decoding with replacement.
  Text is held as its UTF-8 bytes; letters, digits and white space are the ASCII ones.
\<close>

section \<open>Characters\<close>

definition is_ws :: "char \<Rightarrow> bool" where
  "is_ws c = (let n = (of_char c :: nat) in (9 \<le> n \<and> n \<le> 13) \<or> (28 \<le> n \<and> n \<le> 32))"

definition is_digit_char :: "char \<Rightarrow> bool" where
  "is_digit_char c = (let n = (of_char c :: nat) in 48 \<le> n \<and> n \<le> 57)"

definition is_alpha_char :: "char \<Rightarrow> bool" where
  "is_alpha_char c = (let n = (of_char c :: nat) in (65 \<le> n \<and> n \<le> 90) \<or> (97 \<le> n \<and> n \<le> 122))"

definition lower_char :: "char \<Rightarrow> char" where
  "lower_char c = (let n = (of_char c :: nat) in if 65 \<le> n \<and> n \<le> 90 then char_of (n + 32) else c)"

definition lower :: "string \<Rightarrow> string" where
  "lower s = map lower_char s"

definition strip :: "string \<Rightarrow> string" where
  "strip s = rev (dropWhile is_ws (rev (dropWhile is_ws s)))"

definition lstrip :: "string \<Rightarrow> string" where
  "lstrip s = dropWhile is_ws s"

section \<open>Splitting and searching\<close>

definition find_char :: "char \<Rightarrow> string \<Rightarrow> nat option" where
  "find_char c s = (let n = length (takeWhile (\<lambda>x. x \<noteq> c) s) in if n < length s then Some n else None)"

definition rfind_char :: "char \<Rightarrow> string \<Rightarrow> nat option" where
  "rfind_char c s =
     (let n = length (takeWhile (\<lambda>x. x \<noteq> c) (rev s)) in
      if n < length s then Some (length s - 1 - n) else None)"

fun join :: "string \<Rightarrow> string list \<Rightarrow> string" where
  "join sep [] = []"
| "join sep [x] = x"
| "join sep (x # y # ys) = x @ sep @ join sep (y # ys)"

fun split_char :: "char \<Rightarrow> string \<Rightarrow> string list" where
  "split_char c [] = [[]]"
| "split_char c (x # xs) =
     (if x = c then [] # split_char c xs
      else case split_char c xs of [] \<Rightarrow> [[x]] | w # ws \<Rightarrow> (x # w) # ws)"

text \<open>\<open>str(Path(s))\<close> on a POSIX host: empty and \<open>.\<close> parts are dropped.\<close>

definition path_str :: "string \<Rightarrow> string" where
  "path_str s =
     (let root = (if starts_with s ''//'' \<and> \<not> starts_with s ''///'' then ''//''
                  else if starts_with s ''/'' then ''/'' else []);
          t = root @ join ''/'' (filter (\<lambda>p. p \<noteq> [] \<and> p \<noteq> ''.'') (split_char (CHR ''/'') s))
      in if t = [] then ''.'' else t)"

section \<open>Integer literals\<close>

definition digit_value :: "char \<Rightarrow> nat option" where
  "digit_value c = (let n = (of_char c :: nat) in
     if 48 \<le> n \<and> n \<le> 57 then Some (n - 48)
     else if 65 \<le> n \<and> n \<le> 90 then Some (n - 55)
     else if 97 \<le> n \<and> n \<le> 122 then Some (n - 87)
     else None)"

text \<open>
  The digits of a literal: underscores only between digits.  \<open>prev\<close> says whether the last
  character was a digit; the rest of the text after the digits is returned.
\<close>

fun scan_digits :: "nat \<Rightarrow> bool \<Rightarrow> nat \<Rightarrow> string \<Rightarrow> (nat \<times> string) option" where
  "scan_digits b prev acc [] = (if prev then Some (acc, []) else None)"
| "scan_digits b prev acc (c # cs) =
     (if c = CHR ''_'' then (if prev then scan_digits b False acc cs else None)
      else case digit_value c of
        Some d \<Rightarrow> if d < b then scan_digits b True (acc * b + d) cs
                  else if prev then Some (acc, c # cs) else None
      | None \<Rightarrow> if prev then Some (acc, c # cs) else None)"

definition has_prefix :: "nat \<Rightarrow> string \<Rightarrow> bool" where
  "has_prefix b s = (case s of
      z # x # _ \<Rightarrow> z = CHR ''0'' \<and>
        ((b = 16 \<and> x \<in> {CHR ''x'', CHR ''X''}) \<or> (b = 8 \<and> x \<in> {CHR ''o'', CHR ''O''})
         \<or> (b = 2 \<and> x \<in> {CHR ''b'', CHR ''B''}))
    | _ \<Rightarrow> False)"

text \<open>\<open>int(s, base)\<close> for base 0, 2, 8, 10 and 16; \<open>None\<close> is \<open>ValueError\<close>.\<close>

definition py_int :: "nat \<Rightarrow> string \<Rightarrow> int option" where
  "py_int base0 s =
     (let t = lstrip s;
          neg = (t \<noteq> [] \<and> hd t = CHR ''-'');
          u = (if t \<noteq> [] \<and> hd t \<in> {CHR ''+'', CHR ''-''} then tl t else t);
          base = (if base0 \<noteq> 0 then base0
                  else if has_prefix 16 u then 16 else if has_prefix 8 u then 8
                  else if has_prefix 2 u then 2 else 10);
          old_octal = (base0 = 0 \<and> base = 10 \<and> u \<noteq> [] \<and> hd u = CHR ''0'');
          v = (if has_prefix base u
               then (let w = drop 2 u in if w \<noteq> [] \<and> hd w = CHR ''_'' then tl w else w)
               else u)
      in case scan_digits base False 0 v of
           None \<Rightarrow> None
         | Some (n, rest) \<Rightarrow>
             if list_all is_ws rest \<and> \<not> (old_octal \<and> n \<noteq> 0)
             then Some (if neg then - int n else int n) else None)"

section \<open>Representation\<close>

definition repr_char :: "char \<Rightarrow> char \<Rightarrow> string" where
  "repr_char q c = (let n = (of_char c :: nat) in
     if c = q \<or> n = 92 then [char_of (92::nat), c]
     else if n = 9 then [char_of (92::nat), CHR ''t'']
     else if n = 10 then [char_of (92::nat), CHR ''n'']
     else if n = 13 then [char_of (92::nat), CHR ''r'']
     else if n < 32 \<or> n = 127
     then [char_of (92::nat), CHR ''x''] @ lower (hexX 2 (int n))
     else [c])"

definition py_repr :: "string \<Rightarrow> string" where
  "py_repr s =
     (let sq = char_of (39::nat); dq = char_of (34::nat);
          q = (if sq \<in> set s \<and> dq \<notin> set s then dq else sq)
      in [q] @ concat (map (repr_char q) s) @ [q])"

section \<open>UTF-8 decoding with replacement\<close>

definition REPLACEMENT :: string where
  "REPLACEMENT = map char_of [0xEF, 0xBF, 0xBD :: nat]"

text \<open>
  The bytes allowed after a lead byte, position by position: the second byte of E0, ED, F0
  and F4 is restricted, so that overlong forms, surrogates and code points beyond the
  Unicode range are rejected.
\<close>

definition utf8_tail :: "nat \<Rightarrow> (nat \<times> nat) list option" where
  "utf8_tail b =
     (if b < 0x80 then Some []
      else if 0xC2 \<le> b \<and> b \<le> 0xDF then Some [(0x80, 0xBF)]
      else if b = 0xE0 then Some [(0xA0, 0xBF), (0x80, 0xBF)]
      else if b = 0xED then Some [(0x80, 0x9F), (0x80, 0xBF)]
      else if 0xE1 \<le> b \<and> b \<le> 0xEF then Some [(0x80, 0xBF), (0x80, 0xBF)]
      else if b = 0xF0 then Some [(0x90, 0xBF), (0x80, 0xBF), (0x80, 0xBF)]
      else if 0xF1 \<le> b \<and> b \<le> 0xF3 then Some [(0x80, 0xBF), (0x80, 0xBF), (0x80, 0xBF)]
      else if b = 0xF4 then Some [(0x80, 0x8F), (0x80, 0xBF), (0x80, 0xBF)]
      else None)"

fun match_tail :: "(nat \<times> nat) list \<Rightarrow> nat list \<Rightarrow> nat" where
  "match_tail ((lo, hi) # rs) (b # bs) = (if lo \<le> b \<and> b \<le> hi then Suc (match_tail rs bs) else 0)"
| "match_tail rs bs = 0"

text \<open>
  Each step consumes one well-formed sequence, or replaces the longest prefix that could
  still have started one; \<open>n\<close> bounds the number of steps and the length of the input is
  always enough.
\<close>

fun utf8_steps :: "nat \<Rightarrow> nat list \<Rightarrow> string" where
  "utf8_steps 0 bs = []"
| "utf8_steps (Suc n) [] = []"
| "utf8_steps (Suc n) (b # bs) = (case utf8_tail b of
     None \<Rightarrow> REPLACEMENT @ utf8_steps n bs
   | Some rs \<Rightarrow> let k = match_tail rs bs in
       if k = length rs then map char_of (b # take k bs) @ utf8_steps n (drop k bs)
       else REPLACEMENT @ utf8_steps n (drop k bs))"

definition utf8_decode_replace :: "bytes \<Rightarrow> string" where
  "utf8_decode_replace bs = utf8_steps (length bs) (map unat bs)"

text \<open>\<open>bytes.decode("ascii", errors="replace")\<close>.\<close>

definition ascii_decode_replace :: "bytes \<Rightarrow> string" where
  "ascii_decode_replace bs =
     concat (map (\<lambda>b. if unat b < 0x80 then [char_of (unat b)] else REPLACEMENT) bs)"

definition ascii_text :: "string \<Rightarrow> bool" where
  "ascii_text s = list_all (\<lambda>c. of_char c < (128 :: nat)) s"

section \<open>Lemmas\<close>

lemma match_tail_le: "match_tail rs bs \<le> length rs" "match_tail rs bs \<le> length bs"
  by (induction rs bs rule: match_tail.induct) auto

lemma utf8_steps_ascii: "list_all (\<lambda>b. b < 0x80) bs \<Longrightarrow> length bs \<le> n \<Longrightarrow>
    utf8_steps n bs = map char_of bs"
proof (induction n bs rule: utf8_steps.induct)
  case (3 n b bs)
  then have "b < 128" and "list_all (\<lambda>b. b < 128) bs" and "length bs \<le> n" by simp_all
  with 3 show ?case by (simp add: utf8_tail_def)
qed auto

lemma utf8_steps_fuel:
  "length bs \<le> n \<Longrightarrow> length bs \<le> m \<Longrightarrow> utf8_steps n bs = utf8_steps m bs"
proof (induction n arbitrary: bs m)
  case 0
  then show ?case by (cases m) auto
next
  case (Suc n)
  show ?case
  proof (cases bs)
    case Nil
    then show ?thesis by (cases m) auto
  next
    case (Cons b cs)
    with Suc.prems obtain k where m: "m = Suc k" and k: "length cs \<le> n" "length cs \<le> k"
      by (cases m) auto
    have ih: "utf8_steps n (drop i cs) = utf8_steps k (drop i cs)" for i
      by (rule Suc.IH) (use k in simp_all)
    have ih0: "utf8_steps n cs = utf8_steps k cs" using ih [of 0] by (simp only: drop_0)
    show ?thesis
      unfolding Cons m utf8_steps.simps Let_def by (simp only: ih ih0)
  qed
qed

lemma utf8_decode_ascii:
  "list_all (\<lambda>w. w < 128) bs \<Longrightarrow> utf8_decode_replace bs = string_of_bytes bs"
  unfolding utf8_decode_replace_def string_of_bytes_def
  by (subst utf8_steps_ascii) (auto simp: list_all_iff word_less_nat_alt)

lemma utf8_decode_text:
  assumes "ascii_text s"
  shows "utf8_decode_replace (bytes_of_string s) = s"
proof -
  have "list_all (\<lambda>w. w < 128) (bytes_of_string s)"
    using assms by (auto simp: ascii_text_def list_all_iff bytes_of_string_def word_less_nat_alt
        unat_of_char_byte)
  then show ?thesis by (simp add: utf8_decode_ascii)
qed

end
