(* ===== verification/Workload.thy ===== *)
theory Workload
  imports Protocol Py_Text
begin

unbundle bit_operations_syntax

text \<open>
  The flat native workload format and its upload (\<open>host/rp86/workload.py\<close>): CRC-32, the
  manifest with its address-space checks, the workload file, the BEGIN/DATA/COMMIT upload
  records, the command-line options of \<open>load\<close>, and the control and status records.
\<close>

section \<open>Constants\<close>

abbreviation (input) MAGIC :: int where "MAGIC \<equiv> 0x57363850"
abbreviation (input) FORMAT_VERSION :: int where "FORMAT_VERSION \<equiv> 1"
abbreviation (input) PROCESSOR_ADDRESS_SPACE_SIZE :: int where
  "PROCESSOR_ADDRESS_SPACE_SIZE \<equiv> 0x100000"

abbreviation (input) FLAG_PERSISTENT :: int where "FLAG_PERSISTENT \<equiv> 1"
abbreviation (input) FLAG_STDIO :: int where "FLAG_STDIO \<equiv> 2"
abbreviation (input) FLAG_SHARED_MEMORY :: int where "FLAG_SHARED_MEMORY \<equiv> 4"
abbreviation (input) FLAG_CLOCK_FREE_RUNNING :: int where "FLAG_CLOCK_FREE_RUNNING \<equiv> 8"
abbreviation (input) FLAG_CLOCK_STEPPED :: int where "FLAG_CLOCK_STEPPED \<equiv> 16"
abbreviation (input) FLAG_PERIODIC_TICK :: int where "FLAG_PERIODIC_TICK \<equiv> 32"

definition MANIFEST_FORMAT :: "sfield list" where
  "MANIFEST_FORMAT = [SU 4, SU 2, SU 2, SU 4, SU 4, SU 4, SU 2, SU 2, SU 2, SU 2, SU 4, SU 4, SU 4]"

definition BEGIN_PREFIX :: "sfield list" where "BEGIN_PREFIX = [SU 4]"
definition DATA_PREFIX :: "sfield list" where "DATA_PREFIX = [SU 4, SU 4]"
definition COMMIT_FORMAT :: "sfield list" where "COMMIT_FORMAT = [SU 4, SU 4]"
definition CONTROL_FORMAT :: "sfield list" where "CONTROL_FORMAT = [SU 1, SX 3, SU 4]"
definition STRUCTURED_STATUS :: "sfield list" where
  "STRUCTURED_STATUS = [SU 4, SU 4, SU 4, SU 4, SU 4, SU 4, SU 4, SU 4, SU 2, SU 2, SS 16]"

abbreviation (input) PROCESSOR_FLAG_IDLE :: int where "PROCESSOR_FLAG_IDLE \<equiv> 1"
abbreviation (input) PROCESSOR_FLAG_PREPARED_RUNTIME_INITIALIZED :: int where
  "PROCESSOR_FLAG_PREPARED_RUNTIME_INITIALIZED \<equiv> 2"
abbreviation (input) RESULT_FLAG_PASS :: int where "RESULT_FLAG_PASS \<equiv> 1"
abbreviation (input) RESULT_FLAG_NATIVE_OUTPUT :: int where "RESULT_FLAG_NATIVE_OUTPUT \<equiv> 2"
abbreviation (input) RESULT_FLAG_NATIVE_OUTPUT_TRUNCATED :: int where
  "RESULT_FLAG_NATIVE_OUTPUT_TRUNCATED \<equiv> 4"
abbreviation (input) RESULT_FLAG_PROCESSOR_IDENTIFIED :: int where
  "RESULT_FLAG_PROCESSOR_IDENTIFIED \<equiv> 8"

definition COMPLETION_REASONS :: "int \<rightharpoonup> string" where
  "COMPLETION_REASONS = map_of
     [(0, ''NONE''), (1, ''STOP_REQUESTED''), (2, ''NATIVE_HLT''), (3, ''NO_BUS_CYCLE''),
      (4, ''BUS_FAULT''), (5, ''START_FAILURE''), (6, ''EXECUTION_DEADLINE'')]"

definition CLOCK_MODES :: "string \<rightharpoonup> int" where
  "CLOCK_MODES = map_of
     [(''auto'', 0), (''free-running'', 1), (''clock-stepped'', 2), (''stopped'', 3)]"

definition CLOCK_MODE_NAMES :: "int \<rightharpoonup> string" where
  "CLOCK_MODE_NAMES = map_of
     [(0, ''AUTO''), (1, ''FREE-RUNNING''), (2, ''CLOCK-STEPPED''), (3, ''STOPPED'')]"

abbreviation (input) MANIFEST_SIZE :: nat where "MANIFEST_SIZE \<equiv> 40"
abbreviation (input) HOST_PAYLOAD_SIZE :: nat where "HOST_PAYLOAD_SIZE \<equiv> 52"
abbreviation (input) DATA_BYTES :: nat where "DATA_BYTES \<equiv> 44"

definition CONTROL_OPERATIONS :: "string \<rightharpoonup> int" where
  "CONTROL_OPERATIONS = map_of
     [(''run'', WORKLOAD_CONTROL_RUN), (''stop'', WORKLOAD_CONTROL_STOP),
      (''restart'', WORKLOAD_CONTROL_RESTART), (''status'', WORKLOAD_CONTROL_STATUS)]"

lemmas workload_format_simps [codec_simps] =
  MANIFEST_FORMAT_def BEGIN_PREFIX_def DATA_PREFIX_def COMMIT_FORMAT_def CONTROL_FORMAT_def
  STRUCTURED_STATUS_def

lemma calcsize_workload [simp]:
  "calcsize MANIFEST_FORMAT = 40" "calcsize BEGIN_PREFIX = 4" "calcsize DATA_PREFIX = 8"
  "calcsize COMMIT_FORMAT = 8" "calcsize CONTROL_FORMAT = 8" "calcsize STRUCTURED_STATUS = 52"
  by (simp_all add: codec_simps)

section \<open>CRC-32\<close>

text \<open>\<open>zlib.crc32\<close>: the reflected polynomial EDB88320, initial value and final complement.\<close>

definition crc32_shift :: "32 word \<Rightarrow> 32 word" where
  "crc32_shift c = (if bit c 0 then drop_bit 1 c XOR 0xEDB88320 else drop_bit 1 c)"

definition crc32_byte :: "32 word \<Rightarrow> byte \<Rightarrow> 32 word" where
  "crc32_byte c b = (crc32_shift ^^ 8) (c XOR ucast b)"

definition crc32 :: "bytes \<Rightarrow> int" where
  "crc32 data = uint (NOT (foldl crc32_byte (NOT 0) data))"

section \<open>Manifest\<close>

definition linear :: "int \<Rightarrow> int \<Rightarrow> int res" where
  "linear segment offset =
     (if \<not> (0 \<le> segment \<and> segment \<le> 0xFFFF) \<or> \<not> (0 \<le> offset \<and> offset \<le> 0xFFFF)
      then Inl (ValueError ''segment and offset must be 16-bit values'')
      else let address = push_bit 4 segment + offset in
        if address \<ge> PROCESSOR_ADDRESS_SPACE_SIZE
        then Inl (ValueError ''segment:offset is outside the 20-bit processor address space'')
        else Inr address)"

record manifest =
  mf_image_size :: int
  mf_image_crc32 :: int
  mf_load_address :: int
  mf_entry_segment :: int
  mf_entry_offset :: int
  mf_stack_segment :: int
  mf_stack_offset :: int
  mf_shared_base :: int
  mf_shared_size :: int
  mf_flags :: int

definition check_shared :: "manifest \<Rightarrow> unit res" where
  "check_shared m =
     (if mf_shared_size m \<noteq> 0
      then if \<not> (0 \<le> mf_shared_base m \<and> mf_shared_base m < PROCESSOR_ADDRESS_SPACE_SIZE)
        then Inl (ValueError ''shared-memory base is outside the 20-bit processor address space'')
        else if mf_shared_base m + mf_shared_size m > PROCESSOR_ADDRESS_SPACE_SIZE
        then Inl (ValueError ''shared-memory range crosses the 20-bit processor address-space limit'')
        else if mf_flags m AND FLAG_SHARED_MEMORY = 0
        then Inl (ValueError ''shared-memory range requires FLAG_SHARED_MEMORY'')
        else Inr ()
      else if mf_shared_base m \<noteq> 0 \<or> mf_flags m AND FLAG_SHARED_MEMORY \<noteq> 0
      then Inl (ValueError ''shared-memory flag, base, and size are inconsistent'')
      else Inr ())"

definition known_flags :: int where
  "known_flags = FLAG_PERSISTENT OR FLAG_STDIO OR FLAG_SHARED_MEMORY OR
     FLAG_CLOCK_FREE_RUNNING OR FLAG_CLOCK_STEPPED OR FLAG_PERIODIC_TICK"

definition check_flags :: "manifest \<Rightarrow> unit res" where
  "check_flags m =
     (if mf_flags m AND NOT known_flags \<noteq> 0 then Inl (ValueError ''workload uses unknown flags'')
      else if mf_flags m AND FLAG_CLOCK_FREE_RUNNING \<noteq> 0 \<and> mf_flags m AND FLAG_CLOCK_STEPPED \<noteq> 0
      then Inl (ValueError ''workload requests two execution clock modes'')
      else if mf_flags m AND FLAG_PERIODIC_TICK \<noteq> 0 \<and> mf_flags m AND FLAG_CLOCK_STEPPED = 0
      then Inl (ValueError ''periodic tick currently requires clock-stepped execution'')
      else Inr ())"

definition validated :: "manifest \<Rightarrow> manifest res" where
  "validated m =
     (if mf_image_size m \<le> 0 then Inl (ValueError ''workload image is empty'')
      else if \<not> (0 \<le> mf_image_crc32 m \<and> mf_image_crc32 m \<le> 0xFFFFFFFF)
      then Inl (ValueError ''image CRC is not a 32-bit value'')
      else if \<not> (0 \<le> mf_load_address m \<and> mf_load_address m < PROCESSOR_ADDRESS_SPACE_SIZE)
      then Inl (ValueError ''load address is outside the 20-bit processor address space'')
      else let image_end = mf_load_address m + mf_image_size m in
      if image_end > PROCESSOR_ADDRESS_SPACE_SIZE
      then Inl (ValueError ''workload image crosses the 20-bit processor address-space limit'')
      else rbind (linear (mf_entry_segment m) (mf_entry_offset m)) (\<lambda>entry.
      if \<not> (mf_load_address m \<le> entry \<and> entry < image_end)
      then Inl (ValueError ''entry point is outside the workload image'')
      else rbind (linear (mf_stack_segment m) (mf_stack_offset m)) (\<lambda>_.
           rbind (check_shared m) (\<lambda>_.
           rbind (check_flags m) (\<lambda>_. Inr m)))))"

definition for_image ::
  "bytes \<Rightarrow> int \<Rightarrow> int \<Rightarrow> int \<Rightarrow> int \<Rightarrow> int \<Rightarrow> int \<Rightarrow> int \<Rightarrow> int \<Rightarrow> manifest res" where
  "for_image img load_address entry_segment entry_offset stack_segment stack_offset
      shared_base shared_size flags =
     validated \<lparr>mf_image_size = int (length img), mf_image_crc32 = crc32 img,
       mf_load_address = load_address, mf_entry_segment = entry_segment,
       mf_entry_offset = entry_offset, mf_stack_segment = stack_segment,
       mf_stack_offset = stack_offset, mf_shared_base = shared_base,
       mf_shared_size = shared_size, mf_flags = flags\<rparr>"

definition manifest_encode :: "manifest \<Rightarrow> bytes res" where
  "manifest_encode m = rbind (validated m) (\<lambda>_. pack MANIFEST_FORMAT
     [SInt MAGIC, SInt FORMAT_VERSION, SInt (int MANIFEST_SIZE), SInt (mf_image_size m),
      SInt (mf_image_crc32 m), SInt (mf_load_address m), SInt (mf_entry_segment m),
      SInt (mf_entry_offset m), SInt (mf_stack_segment m), SInt (mf_stack_offset m),
      SInt (mf_shared_base m), SInt (mf_shared_size m), SInt (mf_flags m)])"

definition manifest_decode :: "bytes \<Rightarrow> manifest res" where
  "manifest_decode encoded =
     (if length encoded \<noteq> MANIFEST_SIZE
      then Inl (ValueError ''workload manifest has the wrong size'')
      else rbind (unpack MANIFEST_FORMAT encoded) (\<lambda>fields. case fields of
        [SInt magic, SInt version, SInt header_size, SInt image_size, SInt image_crc32,
         SInt load_address, SInt entry_segment, SInt entry_offset, SInt stack_segment,
         SInt stack_offset, SInt shared_base, SInt shared_size, SInt flags] \<Rightarrow>
          if magic \<noteq> MAGIC \<or> version \<noteq> FORMAT_VERSION \<or> header_size \<noteq> int MANIFEST_SIZE
          then Inl (ValueError ''unsupported workload manifest'')
          else validated \<lparr>mf_image_size = image_size, mf_image_crc32 = image_crc32,
            mf_load_address = load_address, mf_entry_segment = entry_segment,
            mf_entry_offset = entry_offset, mf_stack_segment = stack_segment,
            mf_stack_offset = stack_offset, mf_shared_base = shared_base,
            mf_shared_size = shared_size, mf_flags = flags\<rparr>
      | _ \<Rightarrow> Inl (ValueError ''not enough values to unpack'')))"

section \<open>Workload file\<close>

definition image_matches :: "manifest \<Rightarrow> bytes \<Rightarrow> bool" where
  "image_matches m img \<longleftrightarrow>
     int (length img) = mf_image_size m \<and> crc32 img = mf_image_crc32 m"

definition encode_workload_file :: "manifest \<Rightarrow> bytes \<Rightarrow> bytes res" where
  "encode_workload_file m img =
     rbind (validated m) (\<lambda>_.
       if \<not> image_matches m img
       then Inl (ValueError ''image does not match its workload manifest'')
       else rmap (\<lambda>h. h @ img) (manifest_encode m))"

definition decode_workload_file :: "bytes \<Rightarrow> (manifest \<times> bytes) res" where
  "decode_workload_file encoded =
     (if length encoded < MANIFEST_SIZE then Inl (ValueError ''workload file is truncated'')
      else rbind (manifest_decode (take MANIFEST_SIZE encoded)) (\<lambda>m.
        let img = drop MANIFEST_SIZE encoded in
        if \<not> image_matches m img
        then Inl (ValueError ''workload image size or CRC is invalid'')
        else Inr (m, img)))"

section \<open>Upload records\<close>

function upload_data :: "bytes \<Rightarrow> int \<Rightarrow> nat \<Rightarrow> int \<Rightarrow> (message list \<times> int) res" where
  "upload_data img transfer_id offset sequence =
     (if offset < length img
      then rbind (pack DATA_PREFIX [SInt transfer_id, SInt (int offset)]) (\<lambda>prefix.
        rmap (\<lambda>(rest, s). (Message TYPE_WORKLOAD_DATA sequence
                 (prefix @ pyslice offset (offset + DATA_BYTES) img) # rest, s))
          (upload_data img transfer_id (offset + DATA_BYTES) (sequence + 1)))
      else Inr ([], sequence))"
  by pat_completeness auto
termination
  by (relation "measure (\<lambda>(img, t, offset, s). length img - offset)") auto

declare upload_data.simps [simp del]

definition upload_records :: "manifest \<Rightarrow> bytes \<Rightarrow> int \<Rightarrow> int \<Rightarrow> message list res" where
  "upload_records m img transfer_id first_sequence =
     rbind (encode_workload_file m img) (\<lambda>_.
       if \<not> (0 \<le> transfer_id \<and> transfer_id \<le> 0xFFFFFFFF)
       then Inl (ValueError ''transfer id is not a 32-bit value'')
       else rbind (pack BEGIN_PREFIX [SInt transfer_id]) (\<lambda>prefix.
         rbind (manifest_encode m) (\<lambda>header.
         rbind (upload_data img transfer_id 0 (first_sequence + 1)) (\<lambda>(data, sequence).
         rbind (pack COMMIT_FORMAT [SInt transfer_id, SInt (mf_image_crc32 m)]) (\<lambda>commit.
           Inr ([Message TYPE_WORKLOAD_BEGIN first_sequence (prefix @ header)] @ data
                @ [Message TYPE_WORKLOAD_COMMIT sequence commit]))))))"

definition decode_data_payload :: "bytes \<Rightarrow> (int \<times> int \<times> bytes) res" where
  "decode_data_payload payload =
     (if length payload < calcsize DATA_PREFIX
      then Inl (ValueError ''workload data payload is truncated'')
      else rbind (unpack_from DATA_PREFIX payload 0) (\<lambda>vs. case vs of
        [SInt transfer_id, SInt offset] \<Rightarrow>
          Inr (transfer_id, offset, drop (calcsize DATA_PREFIX) payload)
      | _ \<Rightarrow> Inl (ValueError ''not enough values to unpack'')))"

section \<open>Load options\<close>

definition parse_number :: "string \<Rightarrow> int res" where
  "parse_number value = (case py_int 0 value of
     Some n \<Rightarrow> Inr n | None \<Rightarrow> Inl (ValueError (''invalid number: '' @ py_repr value)))"

definition int16_text :: "string \<Rightarrow> int res" where
  "int16_text s = (case py_int 16 s of
     Some n \<Rightarrow> Inr n
   | None \<Rightarrow> Inl (ValueError (''invalid literal for int() with base 16: '' @ py_repr s)))"

definition parse_far_pointer :: "string \<Rightarrow> (int \<times> int) res" where
  "parse_far_pointer value = (case find_char (CHR '':'') value of
     None \<Rightarrow> Inl (ValueError (''expected segment:offset, got '' @ py_repr value))
   | Some i \<Rightarrow>
       rbind (int16_text (take i value)) (\<lambda>segment.
       rbind (int16_text (drop (i + 1) value)) (\<lambda>offset.
       rbind (linear segment offset) (\<lambda>_. Inr (segment, offset)))))"

record load_options =
  lo_address :: int
  lo_entry :: "(int \<times> int) option"
  lo_stack :: "int \<times> int"
  lo_clock :: string

definition default_load_options :: load_options where
  "default_load_options =
     \<lparr>lo_address = 0x10000, lo_entry = None, lo_stack = (0, 0), lo_clock = ''auto''\<rparr>"

definition set_load_option :: "string \<Rightarrow> string \<Rightarrow> load_options \<Rightarrow> load_options res" where
  "set_load_option option value opts =
     (if option = ''--address'' then rmap (\<lambda>n. opts\<lparr>lo_address := n\<rparr>) (parse_number value)
      else if option = ''--entry'' then rmap (\<lambda>p. opts\<lparr>lo_entry := Some p\<rparr>) (parse_far_pointer value)
      else if option = ''--stack'' then rmap (\<lambda>p. opts\<lparr>lo_stack := p\<rparr>) (parse_far_pointer value)
      else if value \<notin> {''auto'', ''free-running'', ''clock-stepped''}
      then Inl (ValueError ''--clock must be auto, free-running, or clock-stepped'')
      else Inr (opts\<lparr>lo_clock := value\<rparr>))"

fun parse_load_options :: "string list \<Rightarrow> load_options \<Rightarrow> load_options res" where
  "parse_load_options [] opts = Inr opts"
| "parse_load_options [option] opts =
     Inl (ValueError (''unknown or incomplete load option: '' @ py_repr option))"
| "parse_load_options (option # value # rest) opts =
     (if option \<notin> {''--address'', ''--entry'', ''--stack'', ''--clock''}
      then Inl (ValueError (''unknown or incomplete load option: '' @ py_repr option))
      else rbind (set_load_option option value opts) (parse_load_options rest))"

definition clock_flags :: "string \<Rightarrow> int" where
  "clock_flags clock =
     (if clock = ''free-running'' then FLAG_CLOCK_FREE_RUNNING
      else if clock = ''clock-stepped'' then FLAG_CLOCK_STEPPED else 0)"

definition workload_from_bytes ::
  "bytes \<Rightarrow> string list \<Rightarrow> int \<Rightarrow> int \<Rightarrow> (manifest \<times> bytes \<times> message list) res" where
  "workload_from_bytes encoded arguments transfer_id first_sequence = (case arguments of
     [] \<Rightarrow> Inl (ValueError (''usage: load <bin> [--address N] [--entry CS:IP] ''
             @ ''[--stack SS:SP] [--clock auto|free-running|clock-stepped]''))
   | source_name # options \<Rightarrow>
       rbind (parse_load_options options default_load_options) (\<lambda>opts.
       rbind (if ends_with (lower source_name) ''.p86w'' then decode_workload_file encoded
              else let entry = (case lo_entry opts of Some e \<Rightarrow> e
                     | None \<Rightarrow> (drop_bit 4 (lo_address opts), lo_address opts AND 0x0F)) in
                rmap (\<lambda>m. (m, encoded))
                  (for_image encoded (lo_address opts) (fst entry) (snd entry)
                     (fst (lo_stack opts)) (snd (lo_stack opts)) 0 0
                     (FLAG_STDIO OR clock_flags (lo_clock opts)))) (\<lambda>(m, img).
       rmap (\<lambda>records. (m, img, records))
         (upload_records m img transfer_id first_sequence))))"

text \<open>\<open>read_bytes\<close> is the host's file system: the bytes of a path or the text of the \<open>OSError\<close>.\<close>

definition workload_from_command ::
  "(string \<Rightarrow> string + bytes) \<Rightarrow> string list \<Rightarrow> int \<Rightarrow> int
     \<Rightarrow> (manifest \<times> bytes \<times> message list) res" where
  "workload_from_command read_bytes arguments transfer_id first_sequence = (case arguments of
     [] \<Rightarrow> Inl (ValueError (''usage: load <bin|p86w> [--address N] [--entry CS:IP] ''
             @ ''[--stack SS:SP] [--clock auto|free-running|clock-stepped]''))
   | name # _ \<Rightarrow> (case read_bytes (path_str name) of
       Inl e \<Rightarrow> Inl (ValueError (''cannot read workload '' @ path_str name @ '': '' @ e))
     | Inr encoded \<Rightarrow> workload_from_bytes encoded arguments transfer_id first_sequence))"

section \<open>Control and status\<close>

definition control_record :: "string \<Rightarrow> int \<Rightarrow> int \<Rightarrow> message res" where
  "control_record operation workload_id sequence = (case CONTROL_OPERATIONS operation of
     None \<Rightarrow> Inl (ValueError (''unknown workload operation: '' @ py_repr operation))
   | Some operation_id \<Rightarrow>
       if \<not> (0 \<le> workload_id \<and> workload_id \<le> 0xFFFFFFFF)
       then Inl (ValueError ''workload id is not a 32-bit value'')
       else rmap (Message TYPE_WORKLOAD_CONTROL sequence)
              (pack CONTROL_FORMAT [SInt operation_id, SInt workload_id]))"

definition decode_status_payload :: "bytes \<Rightarrow> (int \<times> int \<times> int \<times> int \<times> int \<times> int) res" where
  "decode_status_payload payload =
     (if length payload \<noteq> calcsize STRUCTURED_STATUS
      then Inl (ValueError ''workload status payload must be exactly 52 bytes'')
      else rbind (unpack STRUCTURED_STATUS payload) (\<lambda>vs. case vs of
        SInt a # SInt b # SInt c # SInt d # SInt e # SInt f # _ \<Rightarrow> Inr (a, b, c, d, e, f)
      | _ \<Rightarrow> Inl (ValueError ''not enough values to unpack'')))"

type_synonym structured_status =
  "int \<times> int \<times> int \<times> int \<times> int \<times> int \<times> int \<times> int \<times> int \<times> bytes \<times> bool"

definition decode_structured_status_payload :: "bytes \<Rightarrow> structured_status res" where
  "decode_structured_status_payload payload =
     (if length payload \<noteq> calcsize STRUCTURED_STATUS
      then Inl (ValueError ''workload status payload must be exactly 52 bytes'')
      else rbind (unpack STRUCTURED_STATUS payload) (\<lambda>vs. case vs of
        [SInt a, SInt b, SInt c, SInt d, SInt e, SInt f, SInt result_flags,
         SInt completion_reason, SInt signature, SInt output_length, SBytes output] \<Rightarrow>
          if output_length > int (length output)
          then Inl (ValueError ''structured workload output length is invalid'')
          else Inr (a, b, c, d, e, f, result_flags, completion_reason, signature,
                    take (nat output_length) output, True)
      | _ \<Rightarrow> Inl (ValueError ''not enough values to unpack'')))"

section \<open>CRC and flag lemmas\<close>

lemma crc32_bounds [simp]: "0 \<le> crc32 d" "crc32 d < 0x100000000"
  using uint_lt2p [of "NOT (foldl crc32_byte (NOT 0) d)"] by (simp_all add: crc32_def)

lemma and_not_mask_zero: "(x::int) AND NOT (mask n) = 0 \<longleftrightarrow> 0 \<le> x \<and> x < 2 ^ n"
proof -
  have "x AND NOT (mask n) = push_bit n (drop_bit n x)"
    by (rule bit_eqI) (auto simp: bit_simps)
  then have "x AND NOT (mask n) = 0 \<longleftrightarrow> x div 2 ^ n = 0"
    by (simp add: push_bit_eq_mult drop_bit_eq_div)
  moreover have "\<not> (x \<le> 0 \<and> 2 ^ n < x)"
  proof
    assume "x \<le> 0 \<and> 2 ^ n < x"
    then have "2 ^ n < (0::int)" by linarith
    then show False by simp
  qed
  ultimately show ?thesis unfolding zdiv_eq_0_iff by simp
qed

lemma known_flags_mask: "known_flags = mask 6"
  by (simp add: known_flags_def mask_eq_exp_minus_1)

lemma unknown_flags_iff: "x AND NOT known_flags = 0 \<longleftrightarrow> 0 \<le> x \<and> x < 64"
  using and_not_mask_zero [of x 6] by (simp add: known_flags_mask)

section \<open>Validation\<close>

lemma linear_eq:
  "linear s o' = Inr a \<longleftrightarrow> 0 \<le> s \<and> s \<le> 0xFFFF \<and> 0 \<le> o' \<and> o' \<le> 0xFFFF
     \<and> a = 16 * s + o' \<and> a < PROCESSOR_ADDRESS_SPACE_SIZE"
  by (auto simp: linear_def Let_def push_bit_eq_mult)

text \<open>What a validated manifest promises of the 20-bit address space.\<close>

definition manifest_safe :: "manifest \<Rightarrow> bool" where
  "manifest_safe m \<longleftrightarrow>
     0 < mf_image_size m \<and> 0 \<le> mf_load_address m
     \<and> mf_load_address m + mf_image_size m \<le> PROCESSOR_ADDRESS_SPACE_SIZE
     \<and> 0 \<le> mf_image_crc32 m \<and> mf_image_crc32 m < 0x100000000
     \<and> 0 \<le> mf_entry_segment m \<and> mf_entry_segment m < 0x10000
     \<and> 0 \<le> mf_entry_offset m \<and> mf_entry_offset m < 0x10000
     \<and> mf_load_address m \<le> 16 * mf_entry_segment m + mf_entry_offset m
     \<and> 16 * mf_entry_segment m + mf_entry_offset m < mf_load_address m + mf_image_size m
     \<and> 0 \<le> mf_stack_segment m \<and> mf_stack_segment m < 0x10000
     \<and> 0 \<le> mf_stack_offset m \<and> mf_stack_offset m < 0x10000
     \<and> 16 * mf_stack_segment m + mf_stack_offset m < PROCESSOR_ADDRESS_SPACE_SIZE
     \<and> 0 \<le> mf_shared_base m \<and> mf_shared_base m < PROCESSOR_ADDRESS_SPACE_SIZE
     \<and> mf_shared_base m + mf_shared_size m \<le> PROCESSOR_ADDRESS_SPACE_SIZE
     \<and> (mf_shared_size m = 0 \<longrightarrow> mf_shared_base m = 0)
     \<and> (mf_flags m AND FLAG_SHARED_MEMORY \<noteq> 0 \<longleftrightarrow> mf_shared_size m \<noteq> 0)
     \<and> 0 \<le> mf_flags m \<and> mf_flags m < 64
     \<and> \<not> (mf_flags m AND FLAG_CLOCK_FREE_RUNNING \<noteq> 0 \<and> mf_flags m AND FLAG_CLOCK_STEPPED \<noteq> 0)
     \<and> (mf_flags m AND FLAG_PERIODIC_TICK \<noteq> 0 \<longrightarrow> mf_flags m AND FLAG_CLOCK_STEPPED \<noteq> 0)"

lemma check_shared_eq:
  "check_shared m = Inr u \<longleftrightarrow>
     0 \<le> mf_shared_base m \<and> mf_shared_base m < PROCESSOR_ADDRESS_SPACE_SIZE
     \<and> mf_shared_base m + mf_shared_size m \<le> PROCESSOR_ADDRESS_SPACE_SIZE
     \<and> (mf_shared_size m = 0 \<longrightarrow> mf_shared_base m = 0)
     \<and> (mf_flags m AND FLAG_SHARED_MEMORY \<noteq> 0 \<longleftrightarrow> mf_shared_size m \<noteq> 0)"
  by (auto simp: check_shared_def)

lemma check_flags_eq:
  "check_flags m = Inr u \<longleftrightarrow> 0 \<le> mf_flags m \<and> mf_flags m < 64
     \<and> \<not> (mf_flags m AND FLAG_CLOCK_FREE_RUNNING \<noteq> 0 \<and> mf_flags m AND FLAG_CLOCK_STEPPED \<noteq> 0)
     \<and> (mf_flags m AND FLAG_PERIODIC_TICK \<noteq> 0 \<longrightarrow> mf_flags m AND FLAG_CLOCK_STEPPED \<noteq> 0)"
  using unknown_flags_iff [of "mf_flags m"] by (auto simp: check_flags_def)

lemma validated_iff: "validated m = Inr x \<longleftrightarrow> x = m \<and> manifest_safe m"
  unfolding validated_def manifest_safe_def
  by (auto simp: linear_eq check_shared_eq check_flags_eq Let_def)

section \<open>The manifest codec\<close>

lemma manifest_fields:
  "unpack_fields MANIFEST_FORMAT b =
     [SInt (le_int (take 4 b)), SInt (le_int (take 2 (drop 4 b))),
      SInt (le_int (take 2 (drop 6 b))), SInt (le_int (take 4 (drop 8 b))),
      SInt (le_int (take 4 (drop 12 b))), SInt (le_int (take 4 (drop 16 b))),
      SInt (le_int (take 2 (drop 20 b))), SInt (le_int (take 2 (drop 22 b))),
      SInt (le_int (take 2 (drop 24 b))), SInt (le_int (take 2 (drop 26 b))),
      SInt (le_int (take 4 (drop 28 b))), SInt (le_int (take 4 (drop 32 b))),
      SInt (le_int (take 4 (drop 36 b)))]"
  by (simp add: codec_simps del: One_nat_def)

lemma manifest_decode_encode_aux:
  assumes enc: "manifest_encode m = Inr b"
  shows "manifest_decode b = Inr m"
proof -
  let ?vs = "[SInt MAGIC, SInt FORMAT_VERSION, SInt (int MANIFEST_SIZE), SInt (mf_image_size m),
      SInt (mf_image_crc32 m), SInt (mf_load_address m), SInt (mf_entry_segment m),
      SInt (mf_entry_offset m), SInt (mf_stack_segment m), SInt (mf_stack_offset m),
      SInt (mf_shared_base m), SInt (mf_shared_size m), SInt (mf_flags m)]"
  have v: "manifest_safe m" and p: "pack MANIFEST_FORMAT ?vs = Inr b"
    using enc by (auto simp: manifest_encode_def validated_iff)
  have "length b = 40" using length_pack [OF p] by simp
  moreover have "unpack MANIFEST_FORMAT b = Inr ?vs"
    using p by (rule unpack_pack) (simp add: codec_simps)
  ultimately show ?thesis using v by (cases m) (simp add: manifest_decode_def validated_iff)
qed

lemma manifest_encode_decode_aux:
  assumes dec: "manifest_decode b = Inr m"
  shows "manifest_encode m = Inr b"
proof -
  have len: "length b = 40" using dec by (auto simp: manifest_decode_def split: if_splits)
  then have "pack MANIFEST_FORMAT (unpack_fields MANIFEST_FORMAT b) = Inr b"
    using pack_unpack_fields [of MANIFEST_FORMAT b] by (simp add: codec_simps)
  with dec len show ?thesis
    by (auto simp: manifest_decode_def manifest_encode_def unpack_def manifest_fields
             validated_iff split: if_splits)
qed

interpretation manifest_codec: exact_codec manifest_encode manifest_decode "\<lambda>m. True"
  by unfold_locales (auto intro: manifest_decode_encode_aux manifest_encode_decode_aux)

lemma length_manifest_encode: "manifest_encode m = Inr b \<Longrightarrow> length b = MANIFEST_SIZE"
  by (auto simp: manifest_encode_def dest!: length_pack)

lemma manifest_encode_ok:
  "is_ok (manifest_encode m) \<longleftrightarrow> manifest_safe m \<and> 0 \<le> mf_shared_size m"
proof -
  have "is_ok (manifest_encode m) \<longleftrightarrow> manifest_safe m \<and> fits MANIFEST_FORMAT
     [SInt MAGIC, SInt FORMAT_VERSION, SInt (int MANIFEST_SIZE), SInt (mf_image_size m),
      SInt (mf_image_crc32 m), SInt (mf_load_address m), SInt (mf_entry_segment m),
      SInt (mf_entry_offset m), SInt (mf_stack_segment m), SInt (mf_stack_offset m),
      SInt (mf_shared_base m), SInt (mf_shared_size m), SInt (mf_flags m)]"
    by (subst fits_pack_iff [symmetric])
       (auto simp: is_ok_iff manifest_encode_def validated_iff codec_simps)
  also have "\<dots> \<longleftrightarrow> manifest_safe m \<and> 0 \<le> mf_shared_size m"
    by (auto simp: codec_simps manifest_safe_def)
  finally show ?thesis .
qed

lemma encode_workload_file_eq:
  "encode_workload_file m img = Inr b \<longleftrightarrow>
     image_matches m img \<and> (\<exists>h. manifest_encode m = Inr h \<and> b = h @ img)"
  by (auto simp: encode_workload_file_def manifest_encode_def)

interpretation file_codec: exact_codec "\<lambda>(m, img). encode_workload_file m img"
    decode_workload_file "\<lambda>x. True"
proof
  fix x b
  assume "(case x of (m, img) \<Rightarrow> encode_workload_file m img) = Inr b"
  then obtain h where "manifest_encode (fst x) = Inr h" "b = h @ snd x"
      "image_matches (fst x) (snd x)"
    by (cases x) (auto simp: encode_workload_file_eq)
  moreover from this have "length h = 40" by (auto dest: length_manifest_encode)
  ultimately show "decode_workload_file b = Inr x"
    by (simp add: decode_workload_file_def Let_def manifest_decode_encode_aux)
next
  fix x b
  assume "decode_workload_file b = Inr x"
  then show "(case x of (m, img) \<Rightarrow> encode_workload_file m img) = Inr b"
    by (auto simp: decode_workload_file_def encode_workload_file_eq Let_def
             dest!: manifest_encode_decode_aux split: if_splits)
qed simp

section \<open>Reassembly of an upload\<close>

text \<open>
  The receiving side as a specification: the data records carry consecutive non-empty
  chunks of one transfer, the first record its manifest, the last the CRC of the image.
\<close>

fun receive_data :: "int \<Rightarrow> bytes \<Rightarrow> message list \<Rightarrow> bytes option" where
  "receive_data t acc [] = Some acc"
| "receive_data t acc (m # ms) = (case decode_data_payload (msg_payload m) of
     Inr (t', offset, chunk) \<Rightarrow>
       if msg_type m = TYPE_WORKLOAD_DATA \<and> t' = t \<and> offset = int (length acc) \<and> chunk \<noteq> []
       then receive_data t (acc @ chunk) ms else None
   | Inl _ \<Rightarrow> None)"

definition receive_upload :: "int \<Rightarrow> message list \<Rightarrow> (manifest \<times> bytes) option" where
  "receive_upload t ms =
     (if length ms < 2 then None
      else let b = hd ms; c = last ms; data = butlast (tl ms) in
        case receive_data t [] data of
          None \<Rightarrow> None
        | Some img \<Rightarrow> (case manifest_decode (drop 4 (msg_payload b)) of
            Inl _ \<Rightarrow> None
          | Inr m \<Rightarrow>
              if msg_type b = TYPE_WORKLOAD_BEGIN \<and> le_int (take 4 (msg_payload b)) = t
                 \<and> msg_type c = TYPE_WORKLOAD_COMMIT
                 \<and> le_int (take 4 (msg_payload c)) = t
                 \<and> le_int (drop 4 (msg_payload c)) = crc32 img
                 \<and> image_matches m img
              then Some (m, img) else None))"

lemma decode_data_payload_pack:
  "pack DATA_PREFIX [SInt t, SInt i] = Inr p \<Longrightarrow> decode_data_payload (p @ c) = Inr (t, i, c)"
proof -
  assume p: "pack DATA_PREFIX [SInt t, SInt i] = Inr p"
  have "unpack_from DATA_PREFIX (p @ c) 0 = Inr [SInt t, SInt i]"
    using p by (rule unpack_from_pack) (simp add: codec_simps)
  with length_pack [OF p] show ?thesis by (simp add: decode_data_payload_def)
qed

lemma upload_data_ok:
  "0 \<le> t \<Longrightarrow> t < 0x100000000 \<Longrightarrow> length img < 0x100000000 \<Longrightarrow>
     is_ok (upload_data img t off s)"
proof (induction img t off s rule: upload_data.induct)
  case step: (1 img t off s)
  show ?case
  proof (cases "off < length img")
    case True
    then have "fits DATA_PREFIX [SInt t, SInt (int off)]" using step.prems by (simp add: codec_simps)
    then obtain p where p: "pack DATA_PREFIX [SInt t, SInt (int off)] = Inr p"
      using pack_ok by blast
    from step.IH [OF True] step.prems
    obtain d where "upload_data img t (off + DATA_BYTES) (s + 1) = Inr d"
      by (auto simp: is_ok_iff)
    then show ?thesis using True by (subst upload_data.simps) (cases d, simp add: p)
  next
    case False
    then show ?thesis by (subst upload_data.simps) simp
  qed
qed

lemma upload_data_receive:
  "upload_data img t off s = Inr (ms, s') \<Longrightarrow> off \<le> length img \<Longrightarrow>
     receive_data t (take off img) ms = Some img"
proof (induction img t off s arbitrary: ms s' rule: upload_data.induct)
  case step: (1 img t off s)
  show ?case
  proof (cases "off < length img")
    case True
    from step.prems(1) True obtain p rest where p: "pack DATA_PREFIX [SInt t, SInt (int off)] = Inr p"
      and rest: "upload_data img t (off + DATA_BYTES) (s + 1) = Inr (rest, s')"
      and ms: "ms = Message TYPE_WORKLOAD_DATA s (p @ pyslice off (off + DATA_BYTES) img) # rest"
      by (subst (asm) upload_data.simps) auto
    have chunk: "take off img @ pyslice off (off + 44) img = take (off + 44) img"
      by (simp add: pyslice_def take_add)
    have ne: "pyslice off (off + 44) img \<noteq> []" using True by (simp add: pyslice_def)
    show ?thesis
    proof (cases "off + 44 \<le> length img")
      case le: True
      from step.IH [OF True rest le] show ?thesis
        using True ne by (simp add: ms decode_data_payload_pack [OF p] chunk min_def)
    next
      case False
      then have "rest = []" using rest by (subst (asm) upload_data.simps) simp
      then show ?thesis
        using True False ne by (simp add: ms decode_data_payload_pack [OF p] chunk min_def)
    qed
  next
    case False
    with step.prems show ?thesis by (subst (asm) upload_data.simps) simp
  qed
qed

lemma upload_data_shape:
  "upload_data img t off s = Inr (ms, s') \<Longrightarrow>
     map msg_sequence ms = seq_from s (length ms)
     \<and> s' = s + int (length ms)
     \<and> length ms = (length img - off + 43) div 44
     \<and> (\<forall>m \<in> set ms. msg_type m = TYPE_WORKLOAD_DATA \<and> length (msg_payload m) \<le> PAYLOAD_SIZE
          \<and> msg_flags m = 0 \<and> msg_status m = 0 \<and> msg_version m = PROTOCOL_VERSION)"
proof (induction img t off s arbitrary: ms s' rule: upload_data.induct)
  case step: (1 img t off s)
  show ?case
  proof (cases "off < length img")
    case True
    from step.prems(1) True obtain p rest where p: "pack DATA_PREFIX [SInt t, SInt (int off)] = Inr p"
      and rest: "upload_data img t (off + DATA_BYTES) (s + 1) = Inr (rest, s')"
      and ms: "ms = Message TYPE_WORKLOAD_DATA s (p @ pyslice off (off + DATA_BYTES) img) # rest"
      by (subst (asm) upload_data.simps) auto
    note ih = step.IH [OF True rest]
    have "map msg_sequence ms = seq_from s (length ms)" "s' = s + int (length ms)"
      using ih by (simp_all add: ms)
    moreover have "length ms = (length img - off + 43) div 44"
      using ih True chunk_count_step [of "length img - off" 44] by (simp add: ms)
    moreover have "length p = 8" using length_pack [OF p] by simp
    then have "\<forall>m \<in> set ms. msg_type m = TYPE_WORKLOAD_DATA \<and> length (msg_payload m) \<le> PAYLOAD_SIZE
          \<and> msg_flags m = 0 \<and> msg_status m = 0 \<and> msg_version m = PROTOCOL_VERSION"
      using ih by (auto simp: ms)
    ultimately show ?thesis by blast
  next
    case False
    with step.prems show ?thesis by (subst (asm) upload_data.simps) auto
  qed
qed

lemma upload_records_eq:
  "upload_records m img t s = Inr ms \<longleftrightarrow>
     0 \<le> t \<and> t < 0x100000000 \<and> image_matches m img
     \<and> (\<exists>p h data s' c. pack BEGIN_PREFIX [SInt t] = Inr p \<and> manifest_encode m = Inr h
          \<and> upload_data img t 0 (s + 1) = Inr (data, s')
          \<and> pack COMMIT_FORMAT [SInt t, SInt (mf_image_crc32 m)] = Inr c
          \<and> ms = Message TYPE_WORKLOAD_BEGIN s (p @ h) # data
                 @ [Message TYPE_WORKLOAD_COMMIT s' c])"
  by (fastforce simp: upload_records_def encode_workload_file_eq)

lemma commit_fields:
  "pack COMMIT_FORMAT [SInt t, SInt v] = Inr c \<Longrightarrow>
     length c = 8 \<and> le_int (take 4 c) = t \<and> le_int (drop 4 c) = v"
  by (auto simp: codec_simps simp del: le_bytes.simps split: if_splits)

lemma begin_fields:
  "pack BEGIN_PREFIX [SInt t] = Inr p \<Longrightarrow> length p = 4 \<and> le_int p = t"
  by (auto simp: codec_simps simp del: le_bytes.simps split: if_splits)

lemma upload_records_receive:
  assumes "upload_records m img t s = Inr ms"
  shows "receive_upload t ms = Some (m, img)"
proof -
  obtain p h data s' c where
      p: "pack BEGIN_PREFIX [SInt t] = Inr p" and h: "manifest_encode m = Inr h"
      and data: "upload_data img t 0 (s + 1) = Inr (data, s')"
      and c: "pack COMMIT_FORMAT [SInt t, SInt (mf_image_crc32 m)] = Inr c"
      and ms: "ms = Message TYPE_WORKLOAD_BEGIN s (p @ h) # data
                 @ [Message TYPE_WORKLOAD_COMMIT s' c]"
      and match: "image_matches m img"
    using assms unfolding upload_records_eq by blast
  have "receive_data t [] data = Some img" using upload_data_receive [OF data] by simp
  moreover have "crc32 img = mf_image_crc32 m" using match by (simp add: image_matches_def)
  ultimately show ?thesis
    using begin_fields [OF p] commit_fields [OF c] match
    by (simp add: receive_upload_def ms Let_def manifest_decode_encode_aux [OF h])
qed

lemma upload_records_shape:
  assumes "upload_records m img t s = Inr ms"
  shows "map msg_sequence ms = seq_from s (length ms)"
    and "length ms = 2 + (length img + 43) div 44"
    and "\<forall>r \<in> set ms. length (msg_payload r) \<le> PAYLOAD_SIZE \<and> 0 \<le> msg_type r \<and> msg_type r < 256
           \<and> msg_flags r = 0 \<and> msg_status r = 0 \<and> msg_version r = PROTOCOL_VERSION"
proof -
  obtain p h data s' c where
      p: "pack BEGIN_PREFIX [SInt t] = Inr p" and h: "manifest_encode m = Inr h"
      and data: "upload_data img t 0 (s + 1) = Inr (data, s')"
      and c: "pack COMMIT_FORMAT [SInt t, SInt (mf_image_crc32 m)] = Inr c"
      and ms: "ms = Message TYPE_WORKLOAD_BEGIN s (p @ h) # data
                 @ [Message TYPE_WORKLOAD_COMMIT s' c]"
    using assms unfolding upload_records_eq by blast
  note shape = upload_data_shape [OF data]
  from shape show "map msg_sequence ms = seq_from s (length ms)"
    using seq_from_snoc [of "s + 1" "length data"] by (simp add: ms)
  show "length ms = 2 + (length img + 43) div 44" using shape by (simp add: ms)
  show "\<forall>r \<in> set ms. length (msg_payload r) \<le> PAYLOAD_SIZE \<and> 0 \<le> msg_type r \<and> msg_type r < 256
           \<and> msg_flags r = 0 \<and> msg_status r = 0 \<and> msg_version r = PROTOCOL_VERSION"
    using shape begin_fields [OF p] length_manifest_encode [OF h] commit_fields [OF c]
    by (auto simp: ms)
qed

lemma upload_records_ok:
  assumes "manifest_safe m" "0 \<le> mf_shared_size m" "image_matches m img"
    and "0 \<le> t" "t < 0x100000000"
  shows "is_ok (upload_records m img t s)"
proof -
  obtain h where h: "manifest_encode m = Inr h"
    using assms(1,2) manifest_encode_ok [of m] by (auto simp: is_ok_iff)
  have "int (length img) < 0x100000000"
    using assms(1,3) by (simp add: manifest_safe_def image_matches_def)
  then obtain d where d: "upload_data img t 0 (s + 1) = Inr d"
    using upload_data_ok [of t img 0 "s + 1"] assms(4,5) by (auto simp: is_ok_iff)
  obtain p where "pack BEGIN_PREFIX [SInt t] = Inr p"
    using pack_ok [of BEGIN_PREFIX "[SInt t]"] assms(4,5) by (auto simp: codec_simps)
  moreover obtain c where "pack COMMIT_FORMAT [SInt t, SInt (mf_image_crc32 m)] = Inr c"
    using pack_ok [of COMMIT_FORMAT "[SInt t, SInt (mf_image_crc32 m)]"] assms
    by (auto simp: codec_simps manifest_safe_def)
  ultimately show ?thesis
    unfolding is_ok_iff upload_records_eq using assms h d by (cases d) auto
qed

section \<open>Load options and status\<close>

lemma parse_far_pointer_bounds:
  "parse_far_pointer v = Inr (s, f) \<Longrightarrow>
     0 \<le> s \<and> s \<le> 0xFFFF \<and> 0 \<le> f \<and> f \<le> 0xFFFF \<and> 16 * s + f < PROCESSOR_ADDRESS_SPACE_SIZE"
  by (auto simp: parse_far_pointer_def linear_eq split: option.splits)

lemma and_15 [simp]: "(x::int) AND 15 = x mod 16"
proof -
  have "(15::int) = mask 4" by (simp add: mask_eq_exp_minus_1)
  then have "x AND 15 = take_bit 4 x" by (simp only: take_bit_eq_mask)
  then show ?thesis by (simp add: take_bit_eq_mod)
qed

lemma for_image_eq:
  "for_image img a es eo ss so sb sz fl = Inr m \<longleftrightarrow> manifest_safe m
     \<and> m = \<lparr>mf_image_size = int (length img), mf_image_crc32 = crc32 img, mf_load_address = a,
       mf_entry_segment = es, mf_entry_offset = eo, mf_stack_segment = ss, mf_stack_offset = so,
       mf_shared_base = sb, mf_shared_size = sz, mf_flags = fl\<rparr>"
  by (auto simp: for_image_def validated_iff)

lemma workload_from_bytes_records:
  assumes "workload_from_bytes encoded args t s = Inr (m, img, ms)"
  shows "upload_records m img t s = Inr ms"
  using assms by (auto simp: workload_from_bytes_def split: list.splits)

lemma upload_records_InrD:
  assumes "upload_records m img t s = Inr ms"
  shows "manifest_safe m" and "0 \<le> mf_shared_size m" and "image_matches m img"
  using assms manifest_encode_ok [of m] by (auto simp: upload_records_eq is_ok_iff)

text \<open>A one-byte image (\<open>HLT\<close>) and its manifest, for concrete instances.\<close>

definition sample_image :: bytes where "sample_image = [0xF4]"

definition sample_manifest :: manifest where
  "sample_manifest =
     \<lparr>mf_image_size = 1, mf_image_crc32 = 0x68D2D988, mf_load_address = 0x10000,
      mf_entry_segment = 0x1000, mf_entry_offset = 0, mf_stack_segment = 0, mf_stack_offset = 0,
      mf_shared_base = 0, mf_shared_size = 0, mf_flags = 2\<rparr>"

lemma crc32_sample: "crc32 [0xF4] = 0x68D2D988"
  by code_simp

lemma sample_safe:
  "manifest_safe sample_manifest" "0 \<le> mf_shared_size sample_manifest"
  "image_matches sample_manifest sample_image" "0 \<le> (7::int)" "(7::int) < 0x100000000"
  by (simp_all add: manifest_safe_def sample_manifest_def sample_image_def image_matches_def
      crc32_sample)

section \<open>Properties\<close>

text \<open>C14. The manifest decoder accepts a byte string exactly when it is the encoding of the
  manifest it returns, so no two encodings denote one manifest; exactly the manifests that
  respect the 20-bit address space and have a non-negative shared size have an encoding.\<close>

theorem manifest_exact:
  "(manifest_decode b = Inr m \<longleftrightarrow> manifest_encode m = Inr b)
   \<and> (is_ok (manifest_encode m) \<longleftrightarrow> manifest_safe m \<and> 0 \<le> mf_shared_size m)"
  using manifest_codec.dcd_iff_enc [of b m] manifest_encode_ok by simp

text \<open>C3. A workload file decodes to a manifest and an image exactly when encoding the two gives
  the file, and then the image has the size and CRC-32 the manifest announces and the manifest
  keeps image, entry point, stack and shared memory inside the 20-bit address space.\<close>

theorem workload_file_exact:
  "(decode_workload_file f = Inr (m, img) \<longleftrightarrow> encode_workload_file m img = Inr f)
   \<and> (is_ok (encode_workload_file m img) \<longleftrightarrow>
        manifest_safe m \<and> 0 \<le> mf_shared_size m
        \<and> int (length img) = mf_image_size m \<and> crc32 img = mf_image_crc32 m)"
proof -
  have "is_ok (encode_workload_file m img) \<longleftrightarrow> image_matches m img \<and> is_ok (manifest_encode m)"
    by (auto simp: is_ok_iff encode_workload_file_eq)
  then show ?thesis
    using file_codec.dcd_iff_enc [of f "(m, img)"]
    by (auto simp: manifest_encode_ok image_matches_def)
qed

text \<open>C2. The records of an upload, fed to a receiver that checks the transfer id, the offsets
  and the CRC, reassemble to exactly the manifest and the image; there are two more records
  than 44-byte chunks, the sequence numbers are consecutive and every payload fits a record.\<close>

theorem upload_reassembles:
  assumes "upload_records m img t s = Inr ms"
  shows "receive_upload t ms = Some (m, img)
    \<and> length ms = 2 + (length img + 43) div 44
    \<and> map msg_sequence ms = seq_from s (length ms)
    \<and> list_all (\<lambda>r. length (msg_payload r) \<le> PAYLOAD_SIZE) ms"
  using upload_records_receive [OF assms] upload_records_shape [OF assms]
  by (auto simp: list_all_iff)

theorem upload_reassembles_witness:
  "\<exists>ms. upload_records sample_manifest sample_image 7 1 = Inr ms
     \<and> receive_upload 7 ms = Some (sample_manifest, sample_image) \<and> length ms = 3"
proof -
  obtain ms where ms: "upload_records sample_manifest sample_image 7 1 = Inr ms"
    using upload_records_ok [OF sample_safe, of 1] by (auto simp: is_ok_iff)
  show ?thesis using upload_reassembles [OF ms] ms by (simp add: sample_image_def)
qed

text \<open>C15. Preparing an upload succeeds for every manifest that respects the address space, every
  image that matches it and every 32-bit transfer id; and the prepared records all fit the
  wire format exactly when the run of sequence numbers stays within 32 bits.\<close>

theorem upload_total:
  assumes "manifest_safe m" "0 \<le> mf_shared_size m" "image_matches m img"
    and "0 \<le> t" "t < 0x100000000"
  shows "\<exists>ms. upload_records m img t s = Inr ms
    \<and> (list_all (\<lambda>r. is_ok (message_encode r)) ms \<longleftrightarrow>
         0 \<le> s \<and> s + int (length ms) \<le> 0x100000000)"
proof -
  obtain ms where ms: "upload_records m img t s = Inr ms"
    using upload_records_ok [OF assms] by (auto simp: is_ok_iff)
  note sh = upload_records_shape [OF ms]
  have "list_all (\<lambda>r. is_ok (message_encode r)) ms
      \<longleftrightarrow> (\<forall>q \<in> set (map msg_sequence ms). 0 \<le> q \<and> q < 0x100000000)"
    using sh(3) by (auto simp: list_all_iff is_ok_iff message_encode_eq message_wf_def)
  also have "\<dots> \<longleftrightarrow> 0 \<le> s \<and> s + int (length ms) \<le> 0x100000000"
    unfolding sh(1) using sh(2) by (intro seq_from_bounded) simp
  finally show ?thesis using ms by blast
qed

theorem upload_total_witness:
  "\<exists>ms. upload_records sample_manifest sample_image 7 0xFFFFFFFE = Inr ms
     \<and> \<not> list_all (\<lambda>r. is_ok (message_encode r)) ms"
proof -
  obtain ms where ms: "upload_records sample_manifest sample_image 7 0xFFFFFFFE = Inr ms"
      and iff: "list_all (\<lambda>r. is_ok (message_encode r)) ms \<longleftrightarrow>
         0 \<le> (0xFFFFFFFE::int) \<and> 0xFFFFFFFE + int (length ms) \<le> 0x100000000"
    using upload_total [OF sample_safe, of "0xFFFFFFFE"] by auto
  have "length ms = 3" using upload_records_shape(2) [OF ms] by (simp add: sample_image_def)
  with ms iff show ?thesis by simp
qed

text \<open>C16. Whatever bytes and options \<open>load\<close> is given, a prepared workload is safe: the manifest
  respects the address space, the image matches it byte for byte, and the records are its
  upload.  An image that is not a workload file is loaded unchanged at the requested address.\<close>

theorem workload_from_bytes_sound:
  assumes "workload_from_bytes encoded (name # options) t s = Inr (m, img, ms)"
  shows "manifest_safe m \<and> image_matches m img \<and> receive_upload t ms = Some (m, img)
    \<and> (\<exists>opts. parse_load_options options default_load_options = Inr opts
         \<and> (if ends_with (lower name) ''.p86w'' then encode_workload_file m img = Inr encoded
            else img = encoded \<and> mf_load_address m = lo_address opts
              \<and> (lo_entry opts = None \<longrightarrow>
                   16 * mf_entry_segment m + mf_entry_offset m = lo_address opts)))"
proof -
  have ms: "upload_records m img t s = Inr ms"
    using assms by (rule workload_from_bytes_records)
  have "\<exists>opts. parse_load_options options default_load_options = Inr opts
         \<and> (if ends_with (lower name) ''.p86w'' then encode_workload_file m img = Inr encoded
            else img = encoded \<and> mf_load_address m = lo_address opts
              \<and> (lo_entry opts = None \<longrightarrow>
                   16 * mf_entry_segment m + mf_entry_offset m = lo_address opts))"
    using assms file_codec.enc_dcd
    by (fastforce simp: workload_from_bytes_def for_image_eq Let_def drop_bit_eq_div
        split: if_splits)
  with upload_records_InrD [OF ms] upload_records_receive [OF ms] show ?thesis by simp
qed

theorem workload_from_bytes_sound_witness:
  "\<exists>m ms. workload_from_bytes sample_image [''hlt.bin''] 7 1 = Inr (m, sample_image, ms)
     \<and> manifest_safe m \<and> mf_load_address m = 0x10000"
proof -
  obtain ms where ms: "upload_records sample_manifest sample_image 7 1 = Inr ms"
    using upload_records_ok [OF sample_safe, of 1] by (auto simp: is_ok_iff)
  have m: "for_image sample_image 0x10000 0x1000 0 0 0 0 0 2 = Inr sample_manifest"
    using sample_safe(1,3)
    by (auto simp: for_image_eq sample_manifest_def image_matches_def)
  have "workload_from_bytes sample_image [''hlt.bin''] 7 1 = Inr (sample_manifest, sample_image, ms)"
    by (simp add: workload_from_bytes_def default_load_options_def lower_def lower_char_def
        ends_with_def clock_flags_def drop_bit_eq_div m ms)
  with workload_from_bytes_sound [OF this] show ?thesis
    by (auto simp: default_load_options_def ends_with_def lower_def lower_char_def)
qed

end
