(* ===== verification/Memory.thy ===== *)
theory Memory
  imports Protocol Py_Text
begin

unbundle bit_operations_syntax

text \<open>
  Host access to the processor-visible Internal SRAM (\<open>host/rp86/memory.py\<close>) with the ABI
  constants of \<open>host/rp86/processor_abi.py\<close>: read requests, chunked write records, reply
  validation and the hexadecimal dump.  The locale \<open>byte_store\<close> is what a memory promises
  to the code that writes and reads it.
\<close>

section \<open>Processor ABI\<close>

abbreviation (input) INTERRUPT_VECTOR_COMPANION :: int where "INTERRUPT_VECTOR_COMPANION \<equiv> 0x20"
abbreviation (input) INTERRUPT_VECTOR_TICK :: int where "INTERRUPT_VECTOR_TICK \<equiv> 0x21"
abbreviation (input) INTERRUPT_VECTOR_NATIVE_SERVICE :: int where
  "INTERRUPT_VECTOR_NATIVE_SERVICE \<equiv> 0x60"
abbreviation (input) IVT_COMPANION_OFFSET_ADDRESS :: int where
  "IVT_COMPANION_OFFSET_ADDRESS \<equiv> 0x0080"
abbreviation (input) IVT_COMPANION_SEGMENT_ADDRESS :: int where
  "IVT_COMPANION_SEGMENT_ADDRESS \<equiv> 0x0082"
abbreviation (input) IVT_TICK_OFFSET_ADDRESS :: int where "IVT_TICK_OFFSET_ADDRESS \<equiv> 0x0084"
abbreviation (input) IVT_TICK_SEGMENT_ADDRESS :: int where "IVT_TICK_SEGMENT_ADDRESS \<equiv> 0x0086"
abbreviation (input) IVT_NATIVE_SERVICE_OFFSET_ADDRESS :: int where
  "IVT_NATIVE_SERVICE_OFFSET_ADDRESS \<equiv> 0x0180"
abbreviation (input) IVT_NATIVE_SERVICE_SEGMENT_ADDRESS :: int where
  "IVT_NATIVE_SERVICE_SEGMENT_ADDRESS \<equiv> 0x0182"
abbreviation (input) INTERNAL_SRAM_PROCESSOR_BASE :: int where
  "INTERNAL_SRAM_PROCESSOR_BASE \<equiv> 0x00000"
abbreviation (input) INTERNAL_SRAM_PROCESSOR_SIZE :: int where
  "INTERNAL_SRAM_PROCESSOR_SIZE \<equiv> 0x40000"
abbreviation (input) SHARED_MAILBOX_BASE :: int where "SHARED_MAILBOX_BASE \<equiv> 0x3F000"
abbreviation (input) SHARED_MAILBOX_SIZE :: int where "SHARED_MAILBOX_SIZE \<equiv> 0x1000"

section \<open>Requests and replies\<close>

definition MEMORY_HEADER :: "sfield list" where
  "MEMORY_HEADER = [SU 1, SX 3, SU 4, SU 4]"

definition memory_end :: int where
  "memory_end = INTERNAL_SRAM_PROCESSOR_BASE + INTERNAL_SRAM_PROCESSOR_SIZE"

definition check_address :: "int \<Rightarrow> int res" where
  "check_address value =
     (if \<not> (INTERNAL_SRAM_PROCESSOR_BASE \<le> value \<and> value < memory_end)
      then Inl (ValueError ''Internal SRAM address must be within 0x00000-0x3FFFF'')
      else Inr value)"

definition memory_read_request :: "int \<Rightarrow> int \<Rightarrow> int \<Rightarrow> message res" where
  "memory_read_request address len sequence =
     rbind (check_address address) (\<lambda>_.
       if \<not> (1 \<le> len \<and> len \<le> int MEMORY_DATA_BYTES) \<or> address + len > memory_end
       then Inl (ValueError ''memory read must contain 1-40 bytes'')
       else rmap (Message TYPE_MEMORY_REQUEST sequence)
              (pack MEMORY_HEADER [SInt MEMORY_READ, SInt address, SInt len]))"

function memory_write_loop :: "int \<Rightarrow> bytes \<Rightarrow> nat \<Rightarrow> int \<Rightarrow> message list res" where
  "memory_write_loop address data offset sequence =
     (if offset < length data
      then let chunk = pyslice offset (offset + MEMORY_DATA_BYTES) data in
        rbind (pack MEMORY_HEADER
            [SInt MEMORY_WRITE, SInt (address + int offset), SInt (int (length chunk))]) (\<lambda>h.
          rmap (\<lambda>rest. Message TYPE_MEMORY_REQUEST sequence (h @ chunk) # rest)
            (memory_write_loop address data (offset + length chunk) (next_sequence sequence)))
      else Inr [])"
  by pat_completeness auto
termination
  by (relation "measure (\<lambda>(a, data, offset, s). length data - offset)") auto

declare memory_write_loop.simps [simp del]

definition memory_write_records :: "int \<Rightarrow> bytes \<Rightarrow> int \<Rightarrow> message list res" where
  "memory_write_records address data first_sequence =
     rbind (check_address address) (\<lambda>_.
       if data = [] \<or> address + int (length data) > memory_end
       then Inl (ValueError ''memory write is empty or outside Internal SRAM'')
       else memory_write_loop address data 0 first_sequence)"

definition validate_memory_reply :: "message \<Rightarrow> message \<Rightarrow> bytes res" where
  "validate_memory_reply reply request =
     (if msg_type reply \<noteq> TYPE_MEMORY_RESULT
      then Inl (ValueError (''unexpected memory reply type: '' @ dec (msg_type reply)))
      else if msg_sequence reply \<noteq> msg_sequence request
      then Inl (ValueError (''memory reply sequence mismatch: '' @ dec (msg_sequence reply)
                  @ '' != '' @ dec (msg_sequence request)))
      else if msg_status reply = STATUS_BAD_STATE
              \<and> take 1 (msg_payload request) = [word_of_int MEMORY_WRITE]
      then Inl (ValueError (''memory write refused by active workload ownership policy; ''
                  @ ''only a Host-owned shared mailbox is writable''))
      else if msg_status reply \<noteq> STATUS_OK
      then Inl (ValueError (''memory request failed with status '' @ dec (msg_status reply)))
      else if length (msg_payload reply) < calcsize MEMORY_HEADER
      then Inl (ValueError ''memory reply is truncated'')
      else if take (calcsize MEMORY_HEADER) (msg_payload reply)
              \<noteq> take (calcsize MEMORY_HEADER) (msg_payload request)
      then Inl (ValueError ''memory operation/address/length echo mismatch'')
      else Inr (drop (calcsize MEMORY_HEADER) (msg_payload reply)))"

definition parse_memory_read :: "message \<Rightarrow> message \<Rightarrow> bytes res" where
  "parse_memory_read reply request =
     rbind (validate_memory_reply reply request) (\<lambda>data.
       rbind (unpack_from MEMORY_HEADER (msg_payload reply) 0) (\<lambda>vs. case vs of
         [SInt operation, SInt address_value, SInt len] \<Rightarrow>
           if operation \<noteq> MEMORY_READ \<or> int (length data) \<noteq> len
           then Inl (ValueError ''memory read reply length mismatch'')
           else Inr data
       | _ \<Rightarrow> Inl (ValueError ''not enough values to unpack'')))"

section \<open>Dump\<close>

definition pad_right :: "nat \<Rightarrow> string \<Rightarrow> string" where
  "pad_right w s = s @ replicate (w - length s) (CHR '' '')"

definition dump_line :: "int \<Rightarrow> bytes \<Rightarrow> nat \<Rightarrow> string" where
  "dump_line address data offset =
     (let chunk = pyslice offset (offset + 16) data;
          hexadecimal = join '' '' (map (\<lambda>b. hexX 2 (uint b)) chunk);
          body = map (\<lambda>b. if 32 \<le> uint b \<and> uint b < 127 then char_of (unat b) else CHR ''.'') chunk
      in hexX 5 (address + int offset) @ ''  '' @ pad_right 47 hexadecimal @ ''  |'' @ body @ ''|'')"

definition format_memory_dump :: "int \<Rightarrow> bytes \<Rightarrow> string" where
  "format_memory_dump address data =
     join [char_of (10::nat)]
       (map (\<lambda>i. dump_line address data (16 * i)) [0..<(length data + 15) div 16])"

section \<open>Byte stores\<close>

text \<open>
  What a memory promises: reading back a written range gives the bytes written, and a write
  leaves every disjoint range alone.
\<close>

locale byte_store =
  fixes store :: "'m \<Rightarrow> int \<Rightarrow> bytes \<Rightarrow> 'm"
    and load :: "'m \<Rightarrow> int \<Rightarrow> nat \<Rightarrow> bytes"
    and inside :: "int \<Rightarrow> nat \<Rightarrow> 'm \<Rightarrow> bool"
  assumes load_store_same: "inside a (length d) m \<Longrightarrow> load (store m a d) a (length d) = d"
    and load_store_other: "inside a (length d) m \<Longrightarrow> inside b n m \<Longrightarrow>
      a + int (length d) \<le> b \<or> b + int n \<le> a \<Longrightarrow> load (store m a d) b n = load m b n"
    and inside_store: "inside a (length d) m \<Longrightarrow> inside b n (store m a d) \<longleftrightarrow> inside b n m"
begin

text \<open>Two disjoint writes are both visible, whichever came first.\<close>

lemma load_store_twice:
  assumes "inside a (length d) m" "inside b (length e) m"
    and "a + int (length d) \<le> b \<or> b + int (length e) \<le> a"
  shows "load (store (store m a d) b e) a (length d) = d"
    and "load (store (store m a d) b e) b (length e) = e"
proof -
  have i: "inside a (length d) (store m a d)" "inside b (length e) (store m a d)"
    using assms by (simp_all add: inside_store)
  have "load (store (store m a d) b e) a (length d) = load (store m a d) a (length d)"
    using i assms(3) by (intro load_store_other) auto
  then show "load (store (store m a d) b e) a (length d) = d"
    using assms by (simp add: load_store_same)
  show "load (store (store m a d) b e) b (length e) = e"
    using i by (intro load_store_same)
qed

end

definition store_at :: "(int \<Rightarrow> byte) \<Rightarrow> int \<Rightarrow> bytes \<Rightarrow> int \<Rightarrow> byte" where
  "store_at mem a d = (\<lambda>x. if a \<le> x \<and> x < a + int (length d) then d ! nat (x - a) else mem x)"

definition load_at :: "(int \<Rightarrow> byte) \<Rightarrow> int \<Rightarrow> nat \<Rightarrow> bytes" where
  "load_at mem a n = map (\<lambda>i. mem (a + int i)) [0..<n]"

lemma length_load_at [simp]: "length (load_at mem a n) = n"
  by (simp add: load_at_def)

interpretation sram: byte_store store_at load_at "\<lambda>a n m. True"
  by unfold_locales (auto simp: load_at_def store_at_def intro: nth_equalityI)

lemma store_at_append: "store_at (store_at mem a d) (a + int (length d)) e = store_at mem a (d @ e)"
proof (rule ext)
  fix x
  have "nat (x - (a + int (length d))) = nat (x - a) - length d" by arith
  then show "store_at (store_at mem a d) (a + int (length d)) e x = store_at mem a (d @ e) x"
    by (auto simp: store_at_def nth_append)
qed

lemma store_at_Nil [simp]: "store_at mem a [] = mem"
  by (rule ext) (auto simp: store_at_def)

lemma load_at_append: "load_at mem a k @ load_at mem (a + int k) n = load_at mem a (k + n)"
  unfolding load_at_def by (rule nth_equalityI) (auto simp: nth_append)

lemma store_at_slice:
  assumes "off < length data"
  shows "store_at (store_at mem a (take off data)) (a + int off) (pyslice off (off + 40) data)
    = store_at mem a (take (off + length (pyslice off (off + 40) data)) data)"
proof -
  let ?c = "pyslice off (off + 40) data"
  have "store_at (store_at mem a (take off data)) (a + int off) ?c
      = store_at mem a (take off data @ ?c)"
    using store_at_append [of mem a "take off data" ?c] assms by (simp add: min_def)
  also have "take off data @ ?c = take (off + length ?c) data"
    by (simp add: pyslice_def take_add min_def)
  finally show ?thesis .
qed

text \<open>The effect of one write record on the SRAM: the addressed bytes become its data.\<close>

definition write_effect :: "(int \<Rightarrow> byte) \<Rightarrow> message \<Rightarrow> int \<Rightarrow> byte" where
  "write_effect mem m = (case unpack_from MEMORY_HEADER (msg_payload m) 0 of
     Inr [SInt op, SInt address, SInt len] \<Rightarrow>
       if msg_type m = TYPE_MEMORY_REQUEST \<and> op = MEMORY_WRITE
          \<and> len = int (length (msg_payload m) - 12)
       then store_at mem address (drop 12 (msg_payload m)) else mem
   | _ \<Rightarrow> mem)"

text \<open>The sequence numbers of consecutive records.\<close>

primrec seq_iter :: "int \<Rightarrow> nat \<Rightarrow> int list" where
  "seq_iter s 0 = []"
| "seq_iter s (Suc n) = s # seq_iter (next_sequence s) n"

lemmas memory_format_simps [codec_simps] = MEMORY_HEADER_def

lemma calcsize_MEMORY_HEADER [simp]: "calcsize MEMORY_HEADER = 12"
  by (simp add: codec_simps)

section \<open>Write records\<close>

lemma memory_header_ok:
  "0 \<le> v \<Longrightarrow> v < 256 \<Longrightarrow> 0 \<le> a \<Longrightarrow> a < 0x100000000 \<Longrightarrow> 0 \<le> n \<Longrightarrow> n < 0x100000000 \<Longrightarrow>
     \<exists>h. pack MEMORY_HEADER [SInt v, SInt a, SInt n] = Inr h"
  by (rule pack_ok) (simp add: codec_simps)

lemma memory_header_unpack:
  "pack MEMORY_HEADER [SInt v, SInt a, SInt n] = Inr h \<Longrightarrow>
     unpack_from MEMORY_HEADER (h @ c) 0 = Inr [SInt v, SInt a, SInt n]"
  by (rule unpack_from_pack) (simp_all add: codec_simps)

lemma write_effect_record:
  "pack MEMORY_HEADER [SInt MEMORY_WRITE, SInt a, SInt (int (length c))] = Inr h \<Longrightarrow>
     write_effect mem (Message TYPE_MEMORY_REQUEST s (h @ c)) = store_at mem a c"
  using memory_header_unpack [of MEMORY_WRITE a "int (length c)" h c]
    length_pack [of MEMORY_HEADER "[SInt MEMORY_WRITE, SInt a, SInt (int (length c))]" h]
  by (simp add: write_effect_def)

lemma memory_write_step:
  assumes "off < length data"
  shows "memory_write_loop a data off s = Inr ms \<longleftrightarrow>
    (let chunk = pyslice off (off + 40) data in
     \<exists>h rest. pack MEMORY_HEADER
         [SInt MEMORY_WRITE, SInt (a + int off), SInt (int (length chunk))] = Inr h
       \<and> memory_write_loop a data (off + length chunk) (next_sequence s) = Inr rest
       \<and> ms = Message TYPE_MEMORY_REQUEST s (h @ chunk) # rest)"
  by (subst memory_write_loop.simps) (auto simp: assms Let_def)

lemma memory_write_done: "\<not> off < length data \<Longrightarrow> memory_write_loop a data off s = Inr []"
  by (subst memory_write_loop.simps) simp

lemma memory_write_loop_ok:
  "0 \<le> a \<Longrightarrow> a + int (length data) \<le> 0x40000 \<Longrightarrow> is_ok (memory_write_loop a data off s)"
proof (induction a data off s rule: memory_write_loop.induct)
  case step: (1 a data off s)
  show ?case
  proof (cases "off < length data")
    case True
    let ?c = "pyslice off (off + 40) data"
    have "length ?c \<le> 40" by simp
    then have "int (length ?c) < 0x100000000" by linarith
    then obtain h where "pack MEMORY_HEADER
        [SInt MEMORY_WRITE, SInt (a + int off), SInt (int (length ?c))] = Inr h"
      using memory_header_ok [of MEMORY_WRITE "a + int off" "int (length ?c)"] step.prems True
      by (auto simp del: length_pyslice)
    with step.IH [OF True refl] step.prems True show ?thesis
      by (auto simp: is_ok_iff memory_write_step Let_def)
  qed (simp add: memory_write_done)
qed

lemma memory_write_loop_effect:
  "memory_write_loop a data off s = Inr ms \<Longrightarrow> off \<le> length data \<Longrightarrow>
     foldl write_effect (store_at mem a (take off data)) ms = store_at mem a data"
proof (induction a data off s arbitrary: ms rule: memory_write_loop.induct)
  case step: (1 a data off s)
  show ?case
  proof (cases "off < length data")
    case True
    let ?c = "pyslice off (off + 40) data"
    from step.prems True obtain h rest where
      h: "pack MEMORY_HEADER [SInt MEMORY_WRITE, SInt (a + int off), SInt (int (length ?c))] = Inr h"
      and rest: "memory_write_loop a data (off + length ?c) (next_sequence s) = Inr rest"
      and ms: "ms = Message TYPE_MEMORY_REQUEST s (h @ ?c) # rest"
      by (auto simp: memory_write_step Let_def)
    note e = store_at_slice [OF True, of mem a]
    have "off + length ?c \<le> length data" using True by simp
    then show ?thesis
      using step.IH [OF True refl rest] by (simp add: ms write_effect_record [OF h] e)
  next
    case False
    with step.prems show ?thesis by (simp add: memory_write_done)
  qed
qed

definition write_record_wf :: "message \<Rightarrow> bool" where
  "write_record_wf m \<longleftrightarrow> msg_type m = TYPE_MEMORY_REQUEST
     \<and> length (msg_payload m) \<le> PAYLOAD_SIZE \<and> 12 < length (msg_payload m)
     \<and> msg_flags m = 0 \<and> msg_status m = 0 \<and> msg_version m = PROTOCOL_VERSION"

lemma memory_write_loop_shape:
  "memory_write_loop a data off s = Inr ms \<Longrightarrow>
     map msg_sequence ms = seq_iter s (length ms)
     \<and> length ms = (length data - off + 39) div 40 \<and> list_all write_record_wf ms"
proof (induction a data off s arbitrary: ms rule: memory_write_loop.induct)
  case step: (1 a data off s)
  show ?case
  proof (cases "off < length data")
    case True
    let ?c = "pyslice off (off + 40) data"
    from step.prems True obtain h rest where
      h: "pack MEMORY_HEADER [SInt MEMORY_WRITE, SInt (a + int off), SInt (int (length ?c))] = Inr h"
      and rest: "memory_write_loop a data (off + length ?c) (next_sequence s) = Inr rest"
      and ms: "ms = Message TYPE_MEMORY_REQUEST s (h @ ?c) # rest"
      by (auto simp: memory_write_step Let_def)
    note ih = step.IH [OF True refl rest]
    have "length h = 12" using length_pack [OF h] by simp
    then have "write_record_wf (Message TYPE_MEMORY_REQUEST s (h @ ?c))"
      using True by (simp add: write_record_wf_def)
    moreover have "length data - (off + length ?c) = length data - off - 40" by simp
    then have "length ms = (length data - off + 39) div 40"
      using ih True chunk_count_step [of "length data - off" 40] by (simp add: ms)
    moreover have "map msg_sequence ms = seq_iter s (length ms)" using ih by (simp add: ms)
    ultimately show ?thesis using ih ms by (simp only: list.pred_inject)
  next
    case False
    with step.prems show ?thesis by (simp add: memory_write_done)
  qed
qed

lemma seq_iter_range [seq_simps]:
  "1 \<le> s \<Longrightarrow> s < 0x100000000 \<Longrightarrow> q \<in> set (seq_iter s n) \<Longrightarrow> 1 \<le> q \<and> q < 0x100000000"
proof (induction n arbitrary: s)
  case (Suc n)
  then show ?case using next_sequence_bounds [of s] by auto
qed simp

lemma memory_write_records_eq:
  "memory_write_records a data s = Inr ms \<longleftrightarrow> 0 \<le> a \<and> data \<noteq> []
     \<and> a + int (length data) \<le> 0x40000 \<and> memory_write_loop a data 0 s = Inr ms"
  by (cases data) (auto simp: memory_write_records_def check_address_def memory_end_def)

lemma memory_write_records_ok:
  "is_ok (memory_write_records a data s) \<longleftrightarrow>
     0 \<le> a \<and> data \<noteq> [] \<and> a + int (length data) \<le> 0x40000"
  using memory_write_loop_ok [of a data 0 s] by (auto simp: is_ok_iff memory_write_records_eq)

lemma memory_write_records_effect:
  "memory_write_records a data s = Inr ms \<Longrightarrow>
     foldl write_effect mem ms = store_at mem a data"
  using memory_write_loop_effect [of a data 0 s ms mem] by (simp add: memory_write_records_eq)

lemma memory_write_records_shape:
  assumes "memory_write_records a data s = Inr ms"
  shows "map msg_sequence ms = seq_iter s (length ms)"
    and "length ms = (length data + 39) div 40" and "list_all write_record_wf ms" and "ms \<noteq> []"
proof -
  have "memory_write_loop a data 0 s = Inr ms" "data \<noteq> []"
    using assms by (auto simp: memory_write_records_eq)
  note sh = memory_write_loop_shape [OF this(1)]
  then show "map msg_sequence ms = seq_iter s (length ms)"
    and l: "length ms = (length data + 39) div 40" and "list_all write_record_wf ms" by auto
  have "0 < length ms" unfolding l using \<open>data \<noteq> []\<close> by (cases data) auto
  then show "ms \<noteq> []" by simp
qed

lemma write_records_encodable:
  assumes "memory_write_records a data s = Inr ms" "1 \<le> s" "s < 0x100000000"
  shows "list_all (\<lambda>m. is_ok (message_encode m)) ms"
proof -
  note sh = memory_write_records_shape [OF assms(1)]
  have "\<forall>m \<in> set ms. 1 \<le> msg_sequence m \<and> msg_sequence m < 0x100000000"
    using seq_iter_range [OF assms(2,3)] sh(1) by (metis image_eqI list.set_map)
  then show ?thesis using sh(3)
    by (fastforce simp: list_all_iff write_record_wf_def is_ok_iff message_encode_eq message_wf_def)
qed

section \<open>Reads\<close>

lemma memory_header_fields:
  "unpack_fields MEMORY_HEADER b =
     [SInt (le_int (take 1 b)), SInt (le_int (take 4 (drop 4 b))), SInt (le_int (take 4 (drop 8 b)))]"
  by (simp add: codec_simps del: One_nat_def)

lemma validate_memory_reply_eq:
  "validate_memory_reply reply request = Inr data \<longleftrightarrow>
     msg_type reply = TYPE_MEMORY_RESULT \<and> msg_sequence reply = msg_sequence request
     \<and> msg_status reply = STATUS_OK \<and> 12 \<le> length (msg_payload reply)
     \<and> take 12 (msg_payload reply) = take 12 (msg_payload request)
     \<and> data = drop 12 (msg_payload reply)"
  by (auto simp: validate_memory_reply_def)

lemma memory_read_request_eq:
  "memory_read_request a n s = Inr m \<longleftrightarrow> 0 \<le> a \<and> 1 \<le> n \<and> n \<le> 40 \<and> a + n \<le> 0x40000
     \<and> (\<exists>h. pack MEMORY_HEADER [SInt MEMORY_READ, SInt a, SInt n] = Inr h
          \<and> m = Message TYPE_MEMORY_REQUEST s h)"
  by (auto simp: memory_read_request_def check_address_def memory_end_def)

lemma parse_memory_read_eq:
  assumes "memory_read_request a n s = Inr request"
  shows "parse_memory_read reply request = Inr data \<longleftrightarrow>
    validate_memory_reply reply request = Inr data \<and> int (length data) = n"
proof -
  obtain h where h: "pack MEMORY_HEADER [SInt MEMORY_READ, SInt a, SInt n] = Inr h"
      and r: "msg_payload request = h"
    using assms by (auto simp: memory_read_request_eq)
  have "length h = 12" using length_pack [OF h] by simp
  then have "validate_memory_reply reply request = Inr data \<Longrightarrow>
      msg_payload reply = h @ data" for data
    by (auto simp: validate_memory_reply_eq r)
  then show ?thesis
    using memory_header_unpack [OF h] by (auto simp: parse_memory_read_def)
qed

section \<open>Properties\<close>

text \<open>C12. Writing memory: exactly the non-empty ranges inside Internal SRAM are accepted; the
  records, applied in order, change exactly the addressed bytes to the data; there is one record
  per 40 bytes, every record is non-empty and fits a protocol record, and starting from a valid
  sequence number no record carries the number zero or overflows 32 bits.\<close>

theorem memory_write_correct:
  "(is_ok (memory_write_records a data s) \<longleftrightarrow>
      0 \<le> a \<and> data \<noteq> [] \<and> a + int (length data) \<le> 0x40000)
   \<and> (memory_write_records a data s = Inr ms \<longrightarrow>
        foldl write_effect mem ms = store_at mem a data
        \<and> length ms = (length data + 39) div 40
        \<and> map msg_sequence ms = seq_iter s (length ms)
        \<and> (1 \<le> s \<and> s < 0x100000000 \<longrightarrow>
             list_all (\<lambda>m. is_ok (message_encode m) \<and> msg_sequence m \<noteq> 0) ms))"
proof -
  have "list_all (\<lambda>m. is_ok (message_encode m) \<and> msg_sequence m \<noteq> 0) ms"
    if ms: "memory_write_records a data s = Inr ms" and s: "1 \<le> s" "s < 0x100000000"
  proof -
    have "\<forall>m \<in> set ms. 1 \<le> msg_sequence m"
      using seq_iter_range [OF s] memory_write_records_shape(1) [OF ms]
      by (metis image_eqI list.set_map)
    then show ?thesis using write_records_encodable [OF ms s] by (fastforce simp: list_all_iff)
  qed
  then show ?thesis
    using memory_write_records_effect [of a data s ms mem]
      memory_write_records_shape(1,2) [of a data s ms]
    by (simp only: memory_write_records_ok) simp
qed

theorem memory_write_correct_witness:
  "\<exists>ms. memory_write_records 0x100 (replicate 50 0xAA) 0xFFFFFFFF = Inr ms \<and> length ms = 2
     \<and> list_all (\<lambda>m. is_ok (message_encode m) \<and> msg_sequence m \<noteq> 0) ms
     \<and> foldl write_effect (\<lambda>_. 0) ms = store_at (\<lambda>_. 0) 0x100 (replicate 50 0xAA)"
proof -
  obtain ms where ms: "memory_write_records 0x100 (replicate 50 0xAA) 0xFFFFFFFF = Inr ms"
    using memory_write_correct [of "0x100" "replicate 50 0xAA" "0xFFFFFFFF"]
    by (auto simp: is_ok_iff)
  with memory_write_correct [of "0x100" "replicate 50 0xAA" "0xFFFFFFFF" ms "\<lambda>_. 0"]
  show ?thesis by simp
qed

text \<open>A memory read accepts only the answer to its own request: the reply has the result
  type, the request's sequence number and a success status, echoes the operation, address and
  length that were asked for, and carries exactly that many bytes.\<close>

theorem memory_read_sound:
  assumes "memory_read_request a n s = Inr request"
    and "parse_memory_read reply request = Inr data"
  shows "int (length data) = n \<and> msg_type reply = TYPE_MEMORY_RESULT
    \<and> msg_sequence reply = s \<and> msg_status reply = STATUS_OK
    \<and> msg_payload reply = msg_payload request @ data
    \<and> unpack_from MEMORY_HEADER (msg_payload reply) 0 = Inr [SInt MEMORY_READ, SInt a, SInt n]"
proof -
  obtain h where h: "pack MEMORY_HEADER [SInt MEMORY_READ, SInt a, SInt n] = Inr h"
      and r: "request = Message TYPE_MEMORY_REQUEST s h"
    using assms(1) by (auto simp: memory_read_request_eq)
  have "length h = 12" using length_pack [OF h] by simp
  moreover have v: "validate_memory_reply reply request = Inr data" "int (length data) = n"
    using assms parse_memory_read_eq by auto
  ultimately have "msg_payload reply = h @ data"
    by (auto simp: validate_memory_reply_eq r)
  then show ?thesis
    using v memory_header_unpack [OF h] by (simp add: r validate_memory_reply_eq)
qed

theorem memory_read_sound_witness:
  "\<exists>request reply. memory_read_request 0x100 2 9 = Inr request
     \<and> parse_memory_read reply request = Inr [1, 2] \<and> msg_sequence reply = 9"
proof -
  obtain h where h: "pack MEMORY_HEADER [SInt MEMORY_READ, SInt 0x100, SInt 2] = Inr h"
    using memory_header_ok [of MEMORY_READ "0x100" 2] by auto
  let ?request = "Message TYPE_MEMORY_REQUEST 9 h"
  let ?reply = "Message TYPE_MEMORY_RESULT 9 (h @ [1, 2])"
  have req: "memory_read_request 0x100 2 9 = Inr ?request"
    by (simp add: memory_read_request_eq h)
  have rep: "parse_memory_read ?reply ?request = Inr [1, 2]"
    unfolding parse_memory_read_eq [OF req]
    using length_pack [OF h] by (simp add: validate_memory_reply_eq)
  show ?thesis using memory_read_sound [OF req rep] req rep by blast
qed

end
