(* ===== verification/Mailbox.thy ===== *)
theory Mailbox
  imports Memory
begin

unbundle bit_operations_syntax

text \<open>
  The owner-transfer mailbox in the shared part of Internal SRAM (\<open>host/rp86/mailbox.py\<close>):
  its header, and the records that publish a request.  The order of the records is the
  protocol: the processor must not see itself as owner before data and header are complete.
\<close>

section \<open>Model\<close>

abbreviation (input) MAILBOX_BASE :: int where "MAILBOX_BASE \<equiv> 0x3F000"
abbreviation (input) MAILBOX_SIZE :: int where "MAILBOX_SIZE \<equiv> 0x1000"
abbreviation (input) MAILBOX_DATA_OFFSET :: int where "MAILBOX_DATA_OFFSET \<equiv> 32"
abbreviation (input) MAILBOX_DATA_SIZE :: int where "MAILBOX_DATA_SIZE \<equiv> 4064"

definition MAILBOX_MAGIC :: bytes where
  "MAILBOX_MAGIC = [0x52, 0x38, 0x36, 0x4D]"

abbreviation (input) MAILBOX_VERSION :: int where "MAILBOX_VERSION \<equiv> 1"
abbreviation (input) OWNER_HOST :: int where "OWNER_HOST \<equiv> 1"
abbreviation (input) OWNER_PROCESSOR :: int where "OWNER_PROCESSOR \<equiv> 2"
abbreviation (input) STATUS_EMPTY :: int where "STATUS_EMPTY \<equiv> 0"
abbreviation (input) STATUS_REQUEST_READY :: int where "STATUS_REQUEST_READY \<equiv> 1"
abbreviation (input) STATUS_PROCESSING :: int where "STATUS_PROCESSING \<equiv> 2"
abbreviation (input) STATUS_RESULT_READY :: int where "STATUS_RESULT_READY \<equiv> 3"
abbreviation (input) STATUS_ERROR :: int where "STATUS_ERROR \<equiv> 4"

definition MAILBOX_HEADER :: "sfield list" where
  "MAILBOX_HEADER = [SS 4, SU 2, SU 2, SU 2, SU 2, SU 4, SU 2, SU 2, SU 4, SU 4, SU 4]"

record mailbox_header =
  mb_owner :: int
  mb_status :: int
  mb_generation :: int
  mb_request_length :: int
  mb_response_length :: int
  mb_flags :: int

definition mailbox_decode :: "bytes \<Rightarrow> mailbox_header res" where
  "mailbox_decode data =
     (if length data \<noteq> calcsize MAILBOX_HEADER
      then Inl (ValueError ''shared mailbox header is truncated'')
      else rbind (unpack MAILBOX_HEADER data) (\<lambda>vs. case vs of
        [SBytes magic, SInt version, SInt size', SInt owner, SInt status, SInt generation,
         SInt request_length, SInt response_length, SInt flags, SInt reserved0, SInt reserved1] \<Rightarrow>
          if magic \<noteq> MAILBOX_MAGIC \<or> version \<noteq> MAILBOX_VERSION
             \<or> size' \<noteq> int (calcsize MAILBOX_HEADER)
          then Inl (ValueError ''shared mailbox header ABI mismatch'')
          else if reserved0 \<noteq> 0 \<or> reserved1 \<noteq> 0
          then Inl (ValueError ''shared mailbox reserved fields are not zero'')
          else if request_length > MAILBOX_DATA_SIZE \<or> response_length > MAILBOX_DATA_SIZE
          then Inl (ValueError ''shared mailbox length exceeds its data area'')
          else Inr \<lparr>mb_owner = owner, mb_status = status, mb_generation = generation,
                    mb_request_length = request_length, mb_response_length = response_length,
                    mb_flags = flags\<rparr>
      | _ \<Rightarrow> Inl (ValueError ''not enough values to unpack'')))"

definition mailbox_commit_records :: "bytes \<Rightarrow> int \<Rightarrow> int \<Rightarrow> message list res" where
  "mailbox_commit_records data generation first_sequence =
     (if data = [] \<or> int (length data) > MAILBOX_DATA_SIZE
      then Inl (ValueError ''mailbox request must contain 1-4064 bytes'')
      else rbind (pack MAILBOX_HEADER
          [SBytes MAILBOX_MAGIC, SInt MAILBOX_VERSION, SInt (int (calcsize MAILBOX_HEADER)),
           SInt OWNER_HOST, SInt STATUS_REQUEST_READY, SInt generation,
           SInt (int (length data)), SInt 0, SInt 0, SInt 0, SInt 0]) (\<lambda>header.
        rbind (memory_write_records (MAILBOX_BASE + MAILBOX_DATA_OFFSET) data first_sequence) (\<lambda>r1.
        rbind (memory_write_records MAILBOX_BASE header
                 (next_sequence (msg_sequence (last r1)))) (\<lambda>r2.
        rbind (pack [SU 2] [SInt OWNER_PROCESSOR]) (\<lambda>owner.
        rbind (memory_write_records (MAILBOX_BASE + 8) owner
                 (next_sequence (msg_sequence (last (r1 @ r2))))) (\<lambda>r3.
          Inr (r1 @ r2 @ r3)))))))"

section \<open>Layout\<close>

lemmas mailbox_format_simps [codec_simps] = MAILBOX_HEADER_def

lemma calcsize_MAILBOX_HEADER [simp]: "calcsize MAILBOX_HEADER = 32"
  by (simp add: codec_simps)

lemma length_MAILBOX_MAGIC [simp]: "length MAILBOX_MAGIC = 4"
  by (simp add: MAILBOX_MAGIC_def)

text \<open>The request header with a given owner.\<close>

definition request_header :: "int \<Rightarrow> int \<Rightarrow> int \<Rightarrow> bytes" where
  "request_header owner generation n =
     MAILBOX_MAGIC @ le_bytes 2 MAILBOX_VERSION @ le_bytes 2 32 @ le_bytes 2 owner
     @ le_bytes 2 STATUS_REQUEST_READY @ le_bytes 4 generation @ le_bytes 2 n
     @ le_bytes 2 0 @ le_bytes 4 0 @ le_bytes 4 0 @ le_bytes 4 0"

lemma pack_request_header:
  "0 \<le> owner \<Longrightarrow> owner < 65536 \<Longrightarrow> 0 \<le> n \<Longrightarrow> n < 65536 \<Longrightarrow>
   pack MAILBOX_HEADER
     [SBytes MAILBOX_MAGIC, SInt MAILBOX_VERSION, SInt 32, SInt owner, SInt STATUS_REQUEST_READY,
      SInt generation, SInt n, SInt 0, SInt 0, SInt 0, SInt 0] =
     (if 0 \<le> generation \<and> generation < 0x100000000
      then Inr (request_header owner generation n) else Inl StructError)"
  by (simp add: codec_simps request_header_def ljust_def del: le_bytes.simps)

lemma length_request_header [simp]: "length (request_header owner generation n) = 32"
  by (simp add: request_header_def del: le_bytes.simps)

lemma decode_request_header:
  assumes "0 \<le> owner" "owner < 65536" "0 \<le> n" "n \<le> MAILBOX_DATA_SIZE"
    and "0 \<le> generation" "generation < 0x100000000"
  shows "mailbox_decode (request_header owner generation n) = Inr
    \<lparr>mb_owner = owner, mb_status = STATUS_REQUEST_READY, mb_generation = generation,
     mb_request_length = n, mb_response_length = 0, mb_flags = 0\<rparr>"
proof -
  let ?vs = "[SBytes MAILBOX_MAGIC, SInt MAILBOX_VERSION, SInt 32, SInt owner,
     SInt STATUS_REQUEST_READY, SInt generation, SInt n, SInt 0, SInt 0, SInt 0, SInt 0]"
  have "pack MAILBOX_HEADER ?vs = Inr (request_header owner generation n)"
    using assms by (simp add: pack_request_header)
  then have "unpack MAILBOX_HEADER (request_header owner generation n) = Inr ?vs"
    by (rule unpack_pack) (simp add: codec_simps)
  then show ?thesis using assms by (simp add: mailbox_decode_def)
qed

text \<open>The publication: rewriting the two owner bytes of a header.\<close>

lemma store_at_splice:
  assumes "length y = length y'"
  shows "store_at (store_at mem b (x @ y @ z)) (b + int (length x)) y' = store_at mem b (x @ y' @ z)"
proof (rule ext)
  fix i
  have "nat (i - (b + int (length x))) = nat (i - b) - length x" by arith
  with assms show "store_at (store_at mem b (x @ y @ z)) (b + int (length x)) y' i
      = store_at mem b (x @ y' @ z) i"
    by (auto simp: store_at_def nth_append)
qed

lemma store_owner:
  "store_at (store_at mem b (request_header p g n)) (b + 8) (le_bytes 2 q)
     = store_at mem b (request_header q g n)"
  using store_at_splice [of "le_bytes 2 p" "le_bytes 2 q" mem b
      "MAILBOX_MAGIC @ le_bytes 2 MAILBOX_VERSION @ le_bytes 2 32"
      "le_bytes 2 STATUS_REQUEST_READY @ le_bytes 4 g @ le_bytes 2 n
       @ le_bytes 2 0 @ le_bytes 4 0 @ le_bytes 4 0 @ le_bytes 4 0"]
  by (simp add: request_header_def del: le_bytes.simps)

section \<open>The published records\<close>

lemma memory_write_loop_prefix:
  "memory_write_loop a data off s = Inr ms \<Longrightarrow> off \<le> length data \<Longrightarrow>
     foldl write_effect (store_at mem a (take off data)) (take k ms)
       = store_at mem a (take (off + 40 * k) data)"
proof (induction a data off s arbitrary: ms k rule: memory_write_loop.induct)
  case step: (1 a data off s)
  show ?case
  proof (cases "off < length data \<and> k \<noteq> 0")
    case True
    then obtain j where k: "k = Suc j" by (cases k) auto
    let ?c = "pyslice off (off + 40) data"
    from step.prems True obtain h rest where
      h: "pack MEMORY_HEADER [SInt MEMORY_WRITE, SInt (a + int off), SInt (int (length ?c))] = Inr h"
      and rest: "memory_write_loop a data (off + length ?c) (next_sequence s) = Inr rest"
      and ms: "ms = Message TYPE_MEMORY_REQUEST s (h @ ?c) # rest"
      by (auto simp: memory_write_step Let_def)
    have e: "store_at (store_at mem a (take off data)) (a + int off) ?c
        = store_at mem a (take (off + length ?c) data)" using store_at_slice True by blast
    have "take (off + length ?c + 40 * j) data = take (off + 40 * k) data"
      using True by (auto simp: k min_def add.assoc)
    moreover have "off + length ?c \<le> length data" using True by (auto simp: min_def)
    ultimately show ?thesis
      using step.IH [OF _ refl rest, of j] True
      by (simp add: ms k write_effect_record [OF h] e del: length_pyslice)
  next
    case False
    with step.prems show ?thesis by (auto simp: memory_write_done)
  qed
qed

lemma memory_write_records_prefix:
  "memory_write_records a data s = Inr ms \<Longrightarrow>
     foldl write_effect mem (take k ms) = store_at mem a (take (40 * k) data)"
  using memory_write_loop_prefix [of a data 0 s ms mem k] by (simp add: memory_write_records_eq)

text \<open>
  A commit consists of the data records, one record with the header owned by the host and
  one record with the new owner.
\<close>

lemma mailbox_commit_parts:
  assumes "mailbox_commit_records data generation s = Inr ms"
  obtains r1 w o' where "ms = r1 @ [w, o']"
    and "data \<noteq> []" "int (length data) \<le> MAILBOX_DATA_SIZE"
    and "0 \<le> generation" "generation < 0x100000000"
    and "memory_write_records (MAILBOX_BASE + MAILBOX_DATA_OFFSET) data s = Inr r1"
    and "memory_write_records MAILBOX_BASE (request_header OWNER_HOST generation (int (length data)))
           (next_sequence (msg_sequence (last r1))) = Inr [w]"
    and "memory_write_records (MAILBOX_BASE + 8) (le_bytes 2 OWNER_PROCESSOR)
           (next_sequence (msg_sequence w)) = Inr [o']"
proof -
  let ?h = "request_header OWNER_HOST generation (int (length data))"
  have d: "data \<noteq> []" "int (length data) \<le> MAILBOX_DATA_SIZE"
    using assms by (auto simp: mailbox_commit_records_def split: if_splits)
  have g: "0 \<le> generation \<and> generation < 0x100000000"
    using assms d by (auto simp: mailbox_commit_records_def pack_request_header split: if_splits)
  have o': "pack [SU 2] [SInt OWNER_PROCESSOR] = Inr (le_bytes 2 OWNER_PROCESSOR)"
    by (simp del: le_bytes.simps)
  obtain r1 r2 r3 where ms: "ms = r1 @ r2 @ r3"
      and r1: "memory_write_records (MAILBOX_BASE + MAILBOX_DATA_OFFSET) data s = Inr r1"
      and r2: "memory_write_records MAILBOX_BASE ?h (next_sequence (msg_sequence (last r1))) = Inr r2"
      and r3: "memory_write_records (MAILBOX_BASE + 8) (le_bytes 2 OWNER_PROCESSOR)
           (next_sequence (msg_sequence (last (r1 @ r2)))) = Inr r3"
    using assms d g
    by (auto simp: mailbox_commit_records_def pack_request_header o' simp del: le_bytes.simps pack.simps)
  have "length r2 = 1" "length r3 = 1"
    using memory_write_records_shape(2) [OF r2] memory_write_records_shape(2) [OF r3] by simp_all
  then obtain w q where "r2 = [w]" "r3 = [q]" by (auto simp: length_Suc_conv)
  with that ms r1 r2 r3 d g show ?thesis by auto
qed

definition owner_word :: "(int \<Rightarrow> byte) \<Rightarrow> int" where
  "owner_word mem = le_int (load_at mem (MAILBOX_BASE + 8) 2)"

lemma owner_word_data:
  "MAILBOX_BASE + 32 \<le> a \<Longrightarrow> owner_word (store_at mem a d) = owner_word mem"
  unfolding owner_word_def by (subst sram.load_store_other) auto

lemma owner_word_header:
  "owner_word (store_at mem MAILBOX_BASE (request_header owner g n)) = owner mod 65536"
proof -
  have "load_at (store_at mem MAILBOX_BASE (request_header owner g n)) (MAILBOX_BASE + 8) 2
      = le_bytes 2 owner"
    by (subst store_owner [of mem MAILBOX_BASE owner g n owner, symmetric])
       (use sram.load_store_same [where a = "MAILBOX_BASE + 8" and d = "le_bytes 2 owner"] in \<open>simp del: le_bytes.simps\<close>)
  then show ?thesis by (simp add: owner_word_def le_int_le_bytes del: le_bytes.simps)
qed

section \<open>Properties\<close>

text \<open>C1. Publication is atomic: after any proper prefix of the commit records the owner word is
  what it was or names the host, so the processor never owns a half-written request; after the
  last record the header names the processor as owner of a ready request with the right
  generation and length, and the data area holds the request bytes.\<close>

theorem mailbox_publication:
  assumes "mailbox_commit_records data generation s = Inr ms"
  shows "(\<forall>k < length ms. owner_word (foldl write_effect mem (take k ms))
             \<in> {owner_word mem, OWNER_HOST})
    \<and> mailbox_decode (load_at (foldl write_effect mem ms) MAILBOX_BASE 32) = Inr
        \<lparr>mb_owner = OWNER_PROCESSOR, mb_status = STATUS_REQUEST_READY,
         mb_generation = generation, mb_request_length = int (length data),
         mb_response_length = 0, mb_flags = 0\<rparr>
    \<and> load_at (foldl write_effect mem ms) (MAILBOX_BASE + MAILBOX_DATA_OFFSET) (length data) = data"
proof -
  let ?h = "\<lambda>owner. request_header owner generation (int (length data))"
  obtain r1 w q where ms: "ms = r1 @ [w, q]"
    and d: "int (length data) \<le> MAILBOX_DATA_SIZE" "0 \<le> generation" "generation < 0x100000000"
    and r1: "memory_write_records (MAILBOX_BASE + MAILBOX_DATA_OFFSET) data s = Inr r1"
    and w: "memory_write_records MAILBOX_BASE (?h OWNER_HOST)
              (next_sequence (msg_sequence (last r1))) = Inr [w]"
    and q: "memory_write_records (MAILBOX_BASE + 8) (le_bytes 2 OWNER_PROCESSOR)
              (next_sequence (msg_sequence w)) = Inr [q]"
    using mailbox_commit_parts [OF assms] by metis
  have host: "foldl write_effect mem (r1 @ [w])
      = store_at (store_at mem (MAILBOX_BASE + 32) data) MAILBOX_BASE (?h OWNER_HOST)"
    using memory_write_records_effect [OF r1, of mem]
      memory_write_records_effect [OF w, of "store_at mem (MAILBOX_BASE + 32) data"] by simp
  have final: "foldl write_effect mem ms
      = store_at (store_at mem (MAILBOX_BASE + 32) data) MAILBOX_BASE (?h OWNER_PROCESSOR)"
    using host memory_write_records_effect [OF q, of "foldl write_effect mem (r1 @ [w])"]
      store_owner [of "store_at mem (MAILBOX_BASE + 32) data" MAILBOX_BASE OWNER_HOST generation
        "int (length data)" OWNER_PROCESSOR]
    by (simp add: ms del: le_bytes.simps)
  have "owner_word (foldl write_effect mem (take k ms)) \<in> {owner_word mem, OWNER_HOST}"
    if k: "k < length ms" for k
  proof (cases "k \<le> length r1")
    case True
    then have "take k ms = take k r1" by (simp add: ms)
    then show ?thesis
      by (simp add: memory_write_records_prefix [OF r1] owner_word_data)
  next
    case False
    with k have "take k ms = r1 @ [w]" by (simp add: ms take_Cons' not_le)
    with host show ?thesis by (simp add: owner_word_header)
  qed
  moreover have "load_at (foldl write_effect mem ms) MAILBOX_BASE 32 = ?h OWNER_PROCESSOR"
    unfolding final
    using sram.load_store_same [where a = MAILBOX_BASE and d = "?h OWNER_PROCESSOR"] by simp
  moreover have "load_at (foldl write_effect mem ms) (MAILBOX_BASE + 32) (length data) = data"
    unfolding final using sram.load_store_twice(1) [where a = "MAILBOX_BASE + 32" and d = data
        and m = mem and b = MAILBOX_BASE and e = "?h OWNER_PROCESSOR"] by simp
  ultimately show ?thesis using d by (simp add: decode_request_header)
qed

theorem mailbox_publication_witness:
  "\<exists>ms. mailbox_commit_records [1, 2, 3] 5 1 = Inr ms
     \<and> owner_word (foldl write_effect (\<lambda>_. 0) (take 2 ms)) \<noteq> OWNER_PROCESSOR
     \<and> load_at (foldl write_effect (\<lambda>_. 0) ms) (MAILBOX_BASE + MAILBOX_DATA_OFFSET) 3 = [1, 2, 3]"
proof -
  have ok: "is_ok (memory_write_records (MAILBOX_BASE + 32) [1, 2, 3] 1)"
    "\<And>s. is_ok (memory_write_records MAILBOX_BASE (request_header OWNER_HOST 5 3) s)"
    "\<And>s. is_ok (memory_write_records (MAILBOX_BASE + 8) (le_bytes 2 OWNER_PROCESSOR) s)"
    by (simp_all add: memory_write_records_ok flip: length_greater_0_conv del: le_bytes.simps)
  then obtain ms where ms: "mailbox_commit_records [1, 2, 3] 5 1 = Inr ms"
    unfolding is_ok_iff
    by (fastforce simp: mailbox_commit_records_def pack_request_header simp del: le_bytes.simps)
  obtain r1 w q where "ms = r1 @ [w, q]"
      and r1: "memory_write_records (MAILBOX_BASE + MAILBOX_DATA_OFFSET) [1, 2, 3] 1 = Inr r1"
    using mailbox_commit_parts [OF ms] by metis
  then have "length ms = 3" using memory_write_records_shape(2) [OF r1] by simp
  then have "owner_word (foldl write_effect (\<lambda>_. 0) (take 2 ms)) \<in> {owner_word (\<lambda>_. 0), OWNER_HOST}"
    using mailbox_publication [OF ms, of "\<lambda>_. 0"] by simp
  moreover have "owner_word (\<lambda>_. 0) = 0" by (simp add: owner_word_def load_at_def numeral_2_eq_2)
  ultimately show ?thesis
    using ms mailbox_publication [OF ms, of "\<lambda>_. 0"] by (auto simp: numeral_3_eq_3)
qed

end
