(* ===== verification/Filesystem.thy ===== *)
theory Filesystem
  imports Workload
begin

unbundle bit_operations_syntax

text \<open>
  The RP-FLASH filesystem records (\<open>host/rp86/filesystem.py\<close>): requests to list, read and
  write, and the validation and parsing of their replies.
\<close>

section \<open>Model\<close>

definition STATUS_NAMES :: "int \<rightharpoonup> string" where
  "STATUS_NAMES = map_of
     [(STATUS_BAD_LENGTH, ''bad request length''),
      (STATUS_SERVICE_UNAVAILABLE, ''RP-FLASH service unavailable''),
      (STATUS_BAD_CRC, ''upload CRC mismatch''),
      (STATUS_BAD_STATE, ''filesystem transfer state mismatch''),
      (STATUS_IO_ERROR, ''RP-FLASH I/O error''),
      (STATUS_NOT_FOUND, ''path not found''),
      (STATUS_INVALID_PATH, ''invalid flash: path''),
      (STATUS_NO_SPACE, ''no space or target denied'')]"

record list_entry =
  le_name :: string
  le_size :: int
  le_directory :: bool
  le_next_cursor :: int
  le_eof :: bool

record disk_free =
  df_label :: string
  df_filesystem_type :: int
  df_total_kib :: int
  df_free_kib :: int
  df_cluster_bytes :: int
  df_erase_bytes :: int

record read_chunk =
  rc_offset :: int
  rc_total_size :: int
  rc_data :: bytes
  rc_eof :: bool

definition fs_path :: "string \<Rightarrow> nat \<Rightarrow> bytes res" where
  "fs_path path maximum =
     (if \<not> starts_with path ''flash:'' \<or> (length path > 6 \<and> path ! 6 \<noteq> CHR ''/'')
      then Inl (ValueError ''path must use flash: or flash:/...'')
      else if path = [] \<or> length path > maximum
      then Inl (ValueError (''flash: path exceeds '' @ dec (int maximum) @ '' UTF-8 bytes''))
      else Inr (bytes_of_string path))"

definition fs_request :: "byte \<Rightarrow> int \<Rightarrow> bytes \<Rightarrow> message" where
  "fs_request operation sequence payload =
     Message TYPE_FILESYSTEM_REQUEST sequence ([operation] @ payload)"

text \<open>\<open>bytes([len(encoded)])\<close>; the callers bound the length by 50.\<close>

definition len_byte :: "bytes \<Rightarrow> byte" where
  "len_byte b = word_of_int (int (length b))"

definition list_request :: "string \<Rightarrow> int \<Rightarrow> int \<Rightarrow> message res" where
  "list_request path cursor sequence =
     rbind (fs_path path 48) (\<lambda>encoded.
     rbind (pack [SU 2] [SInt cursor]) (\<lambda>c.
       Inr (fs_request FILESYSTEM_LIST sequence ([len_byte encoded] @ c @ encoded))))"

definition df_request :: "string \<Rightarrow> int \<Rightarrow> message res" where
  "df_request path sequence =
     rbind (fs_path path 50) (\<lambda>encoded.
       Inr (fs_request FILESYSTEM_DF sequence ([len_byte encoded] @ encoded)))"

definition read_request :: "string \<Rightarrow> int \<Rightarrow> int \<Rightarrow> message res" where
  "read_request path offset sequence =
     rbind (fs_path path FILESYSTEM_READ_PATH_BYTES) (\<lambda>encoded.
     rbind (pack [SU 4] [SInt offset]) (\<lambda>c.
       Inr (fs_request FILESYSTEM_READ sequence ([len_byte encoded, 0, 0] @ c @ encoded))))"

text \<open>\<open>(sequence + 1) & 0xFFFFFFFF\<close>, without the skip of zero.\<close>

definition wrap_sequence :: "int \<Rightarrow> int" where
  "wrap_sequence s = (s + 1) AND 0xFFFFFFFF"

function fs_write_loop :: "bytes \<Rightarrow> int \<Rightarrow> nat \<Rightarrow> int \<Rightarrow> (message list \<times> int) res" where
  "fs_write_loop data transfer_id offset sequence =
     (if offset < length data
      then let chunk = pyslice offset (offset + FILESYSTEM_WRITE_DATA_BYTES) data;
               sequence' = wrap_sequence sequence in
        rbind (pack [SU 2, SU 4, SU 4]
            [SInt (int (length chunk)), SInt transfer_id, SInt (int offset)]) (\<lambda>h.
          rmap (\<lambda>(rest, s). (fs_request FILESYSTEM_WRITE_DATA sequence' ([0] @ h @ chunk) # rest, s))
            (fs_write_loop data transfer_id (offset + length chunk) sequence'))
      else Inr ([], sequence))"
  by pat_completeness auto
termination
  by (relation "measure (\<lambda>(data, t, offset, s). length data - offset)") auto

declare fs_write_loop.simps [simp del]

definition write_records :: "string \<Rightarrow> bytes \<Rightarrow> int \<Rightarrow> int \<Rightarrow> message list res" where
  "write_records path data transfer_id first_sequence =
     rbind (fs_path path FILESYSTEM_WRITE_PATH_BYTES) (\<lambda>encoded.
       let crc = crc32 data AND 0xFFFFFFFF in
       rbind (pack [SU 4, SU 4, SU 4]
           [SInt transfer_id, SInt (int (length data)), SInt crc]) (\<lambda>h.
       rbind (fs_write_loop data transfer_id 0 first_sequence) (\<lambda>(records, sequence).
       rbind (pack [SU 4] [SInt transfer_id]) (\<lambda>t.
         Inr ([fs_request FILESYSTEM_WRITE_BEGIN first_sequence
                 ([len_byte encoded, 0, 0] @ h @ encoded)]
              @ records
              @ [fs_request FILESYSTEM_WRITE_COMMIT (wrap_sequence sequence) ([0, 0, 0] @ t)])))))"

definition validate_reply :: "message \<Rightarrow> message \<Rightarrow> bytes res" where
  "validate_reply reply request_record =
     (if msg_type reply \<noteq> TYPE_FILESYSTEM_RESULT
      then Inl (ValueError (''unexpected filesystem reply type: '' @ dec (msg_type reply)))
      else if msg_sequence reply \<noteq> msg_sequence request_record
      then Inl (ValueError (''filesystem reply sequence mismatch: '' @ dec (msg_sequence reply)
             @ '' != '' @ dec (msg_sequence request_record)))
      else if msg_status reply \<noteq> STATUS_OK
      then Inl (ValueError (case STATUS_NAMES (msg_status reply) of Some n \<Rightarrow> n
             | None \<Rightarrow> ''filesystem request failed with status '' @ dec (msg_status reply)))
      else case msg_payload reply of
        [] \<Rightarrow> Inl (ValueError ''filesystem operation echo mismatch'')
      | b # _ \<Rightarrow> (case msg_payload request_record of
          [] \<Rightarrow> Inl IndexError
        | c # _ \<Rightarrow> if b \<noteq> c then Inl (ValueError ''filesystem operation echo mismatch'')
                  else Inr (msg_payload reply)))"

definition parse_list :: "message \<Rightarrow> message \<Rightarrow> list_entry res" where
  "parse_list reply request_record =
     rbind (validate_reply reply request_record) (\<lambda>payload.
       if length payload < 10 then Inl (ValueError ''filesystem list reply is truncated'')
       else let flags = payload ! 1; name_length = unat (payload ! 3) in
       if name_length > length payload - 10
       then Inl (ValueError ''filesystem list name is truncated'')
       else rbind (unpack_from [SU 4] payload 6) (\<lambda>size'.
            rbind (unpack_from [SU 2] payload 4) (\<lambda>cursor. case (size', cursor) of
              ([SInt sz], [SInt c]) \<Rightarrow>
                Inr \<lparr>le_name = utf8_decode_replace (pyslice 10 (10 + name_length) payload),
                     le_size = sz,
                     le_directory = (flags AND FILESYSTEM_FLAG_DIRECTORY \<noteq> 0),
                     le_next_cursor = c,
                     le_eof = (flags AND FILESYSTEM_FLAG_EOF \<noteq> 0)\<rparr>
            | _ \<Rightarrow> Inl (ValueError ''not enough values to unpack''))))"

definition parse_df :: "message \<Rightarrow> message \<Rightarrow> disk_free res" where
  "parse_df reply request_record =
     rbind (validate_reply reply request_record) (\<lambda>payload.
       if length payload < 20 then Inl (ValueError ''filesystem df reply is truncated'')
       else let label_length = unat (payload ! 2) in
       if label_length > length payload - 20
       then Inl (ValueError ''filesystem label is truncated'')
       else rbind (unpack_from [SU 4, SU 4, SU 4, SU 4] payload 4) (\<lambda>vs. case vs of
         [SInt total_kib, SInt free, SInt cluster, SInt erase] \<Rightarrow>
           Inr \<lparr>df_label = ascii_decode_replace (pyslice 20 (20 + label_length) payload),
                df_filesystem_type = uint (payload ! 1), df_total_kib = total_kib,
                df_free_kib = free, df_cluster_bytes = cluster, df_erase_bytes = erase\<rparr>
       | _ \<Rightarrow> Inl (ValueError ''not enough values to unpack'')))"

definition parse_read :: "message \<Rightarrow> message \<Rightarrow> read_chunk res" where
  "parse_read reply request_record =
     rbind (validate_reply reply request_record) (\<lambda>payload.
       if length payload < 12 then Inl (ValueError ''filesystem read reply is truncated'')
       else rbind (unpack_from [SU 2] payload 2) (\<lambda>ls. case ls of
         [SInt data_length] \<Rightarrow>
           if data_length > int (length payload - 12)
           then Inl (ValueError ''filesystem read data is truncated'')
           else rbind (unpack_from [SU 4, SU 4] payload 4) (\<lambda>vs. case vs of
             [SInt offset, SInt total_size] \<Rightarrow>
               Inr \<lparr>rc_offset = offset, rc_total_size = total_size,
                    rc_data = pyslice 12 (12 + nat data_length) payload,
                    rc_eof = (payload ! 1 AND FILESYSTEM_FLAG_EOF \<noteq> 0)\<rparr>
           | _ \<Rightarrow> Inl (ValueError ''not enough values to unpack''))
       | _ \<Rightarrow> Inl (ValueError ''not enough values to unpack'')))"

section \<open>A receiver of write records\<close>

text \<open>
  The contract of an upload as its receiver sees it: the begin record announces path, size
  and CRC; each data record continues the file where it ends; the commit closes the transfer.
\<close>

fun receive_chunks :: "int \<Rightarrow> bytes \<Rightarrow> message list \<Rightarrow> bytes option" where
  "receive_chunks t acc [] = Some acc"
| "receive_chunks t acc (m # ms) = (case unpack_from [SU 2, SU 4, SU 4] (msg_payload m) 2 of
     Inr [SInt n, SInt t', SInt off] \<Rightarrow>
       if msg_type m = TYPE_FILESYSTEM_REQUEST \<and> take 1 (msg_payload m) = [FILESYSTEM_WRITE_DATA]
          \<and> t' = t \<and> off = int (length acc) \<and> n = int (length (msg_payload m) - 12) \<and> n \<noteq> 0
       then receive_chunks t (acc @ drop 12 (msg_payload m)) ms else None
   | _ \<Rightarrow> None)"

definition receive_file :: "message list \<Rightarrow> (bytes \<times> bytes) option" where
  "receive_file ms =
     (if length ms < 2 then None else
      case unpack_from [SU 4, SU 4, SU 4] (msg_payload (hd ms)) 4 of
        Inr [SInt t, SInt n, SInt crc] \<Rightarrow> (case receive_chunks t [] (butlast (tl ms)) of
            Some data \<Rightarrow>
              if take 1 (msg_payload (hd ms)) = [FILESYSTEM_WRITE_BEGIN]
                 \<and> unat (msg_payload (hd ms) ! 1) = length (drop 16 (msg_payload (hd ms)))
                 \<and> n = int (length data) \<and> crc = crc32 data
                 \<and> take 1 (msg_payload (last ms)) = [FILESYSTEM_WRITE_COMMIT]
                 \<and> le_int (drop 4 (msg_payload (last ms))) = t
              then Some (drop 16 (msg_payload (hd ms)), data) else None
          | None \<Rightarrow> None)
      | _ \<Rightarrow> None)"

primrec wrap_iter :: "int \<Rightarrow> nat \<Rightarrow> int list" where
  "wrap_iter s 0 = []"
| "wrap_iter s (Suc n) = s # wrap_iter (wrap_sequence s) n"

section \<open>Write records\<close>

lemma fs_path_eq:
  "fs_path path n = Inr e \<longleftrightarrow> starts_with path ''flash:'' \<and> (length path > 6 \<longrightarrow> path ! 6 = CHR ''/'')
     \<and> length path \<le> n \<and> e = bytes_of_string path"
  by (auto simp: fs_path_def starts_with_def)

lemma length_bytes_of_string [simp]: "length (bytes_of_string s) = length s"
  by (simp add: bytes_of_string_def)

lemma fs_request_simps [simp]:
  "msg_type (fs_request op s p) = TYPE_FILESYSTEM_REQUEST" "msg_sequence (fs_request op s p) = s"
  "msg_payload (fs_request op s p) = op # p" "msg_flags (fs_request op s p) = 0"
  "msg_status (fs_request op s p) = 0" "msg_version (fs_request op s p) = PROTOCOL_VERSION"
  by (simp_all add: fs_request_def)

lemma wrap_sequence_bounds [seq_simps]: "0 \<le> wrap_sequence s" "wrap_sequence s < 0x100000000"
  by (simp_all add: wrap_sequence_def)

lemma unpack_from_skip:
  assumes "pack fs vs = Inr b" "sized fs vs" "length p = n"
  shows "unpack_from fs (p @ b @ c) n = Inr vs"
  using assms unpack_from_pack [OF assms(1,2), of c] by (simp add: unpack_from_def split: if_splits)

lemma fs_chunk_unpack:
  assumes "pack [SU 2, SU 4, SU 4] [SInt n, SInt t, SInt i] = Inr h"
  shows "unpack_from [SU 2, SU 4, SU 4] (op # z # h @ c) 2 = Inr [SInt n, SInt t, SInt i]"
    and "length h = 10"
proof -
  show "unpack_from [SU 2, SU 4, SU 4] (op # z # h @ c) 2 = Inr [SInt n, SInt t, SInt i]"
    using unpack_from_skip [OF assms, of "[op, z]" 2 c] by simp
  show "length h = 10" using length_pack [OF assms] by simp
qed

lemma fs_write_step:
  assumes "off < length data"
  shows "fs_write_loop data t off s = Inr (ms, s') \<longleftrightarrow>
    (let chunk = pyslice off (off + 40) data in
     \<exists>h rest. pack [SU 2, SU 4, SU 4] [SInt (int (length chunk)), SInt t, SInt (int off)] = Inr h
       \<and> fs_write_loop data t (off + length chunk) (wrap_sequence s) = Inr (rest, s')
       \<and> ms = fs_request FILESYSTEM_WRITE_DATA (wrap_sequence s) ([0] @ h @ chunk) # rest)"
  by (subst fs_write_loop.simps) (auto simp: assms Let_def)

lemma fs_write_done: "\<not> off < length data \<Longrightarrow> fs_write_loop data t off s = Inr ([], s)"
  by (subst fs_write_loop.simps) simp

lemma fs_write_loop_ok:
  "0 \<le> t \<Longrightarrow> t < 0x100000000 \<Longrightarrow> length data < 0x100000000 \<Longrightarrow>
     is_ok (fs_write_loop data t off s)"
proof (induction data t off s rule: fs_write_loop.induct)
  case step: (1 data t off s)
  show ?case
  proof (cases "off < length data")
    case True
    let ?c = "pyslice off (off + 40) data"
    have "length ?c \<le> 40" by simp
    then have "int (length ?c) < 65536" by linarith
    then obtain h where "pack [SU 2, SU 4, SU 4]
        [SInt (int (length ?c)), SInt t, SInt (int off)] = Inr h"
      using pack_ok [of "[SU 2, SU 4, SU 4]" "[SInt (int (length ?c)), SInt t, SInt (int off)]"]
        step.prems True by (auto simp del: length_pyslice pack.simps)
    with step.IH [OF True refl refl] step.prems True show ?thesis
      by (force simp: is_ok_iff fs_write_step Let_def simp del: pack.simps)
  qed (simp add: fs_write_done)
qed

lemma fs_write_loop_receive:
  "fs_write_loop data t off s = Inr (ms, s') \<Longrightarrow> off \<le> length data \<Longrightarrow>
     receive_chunks t (take off data) ms = Some data"
proof (induction data t off s arbitrary: ms s' rule: fs_write_loop.induct)
  case step: (1 data t off s)
  show ?case
  proof (cases "off < length data")
    case True
    let ?c = "pyslice off (off + 40) data"
    from step.prems True obtain h rest where
      h: "pack [SU 2, SU 4, SU 4] [SInt (int (length ?c)), SInt t, SInt (int off)] = Inr h"
      and rest: "fs_write_loop data t (off + length ?c) (wrap_sequence s) = Inr (rest, s')"
      and ms: "ms = fs_request FILESYSTEM_WRITE_DATA (wrap_sequence s) ([0] @ h @ ?c) # rest"
      by (auto simp: fs_write_step Let_def simp del: pack.simps)
    have "take off data @ ?c = take (off + length ?c) data"
      by (simp add: pyslice_def take_add min_def)
    moreover have "off + length ?c \<le> length data" "length ?c \<noteq> 0" using True by auto
    ultimately show ?thesis
      using step.IH [OF True refl refl rest] True fs_chunk_unpack [OF h]
      by (simp add: ms min_def del: length_pyslice)
  next
    case False
    with step.prems show ?thesis by (simp add: fs_write_done)
  qed
qed

definition fs_record_wf :: "message \<Rightarrow> bool" where
  "fs_record_wf m \<longleftrightarrow> msg_type m = TYPE_FILESYSTEM_REQUEST \<and> length (msg_payload m) \<le> PAYLOAD_SIZE
     \<and> msg_flags m = 0 \<and> msg_status m = 0 \<and> msg_version m = PROTOCOL_VERSION"

lemma fs_write_loop_shape:
  "fs_write_loop data t off s = Inr (ms, s') \<Longrightarrow>
     s # map msg_sequence ms = wrap_iter s (Suc (length ms))
     \<and> s' = last (s # map msg_sequence ms)
     \<and> length ms = (length data - off + 39) div 40 \<and> list_all fs_record_wf ms"
proof (induction data t off s arbitrary: ms s' rule: fs_write_loop.induct)
  case step: (1 data t off s)
  show ?case
  proof (cases "off < length data")
    case True
    let ?c = "pyslice off (off + 40) data"
    from step.prems True obtain h rest where
      h: "pack [SU 2, SU 4, SU 4] [SInt (int (length ?c)), SInt t, SInt (int off)] = Inr h"
      and rest: "fs_write_loop data t (off + length ?c) (wrap_sequence s) = Inr (rest, s')"
      and ms: "ms = fs_request FILESYSTEM_WRITE_DATA (wrap_sequence s) ([0] @ h @ ?c) # rest"
      by (auto simp: fs_write_step Let_def simp del: pack.simps)
    note ih = step.IH [OF True refl refl rest]
    have "length h = 10" using fs_chunk_unpack(2) [OF h] .
    then have "fs_record_wf (fs_request FILESYSTEM_WRITE_DATA (wrap_sequence s) ([0] @ h @ ?c))"
      by (simp add: fs_record_wf_def)
    then have w: "list_all fs_record_wf ms" using ih by (simp add: ms)
    have "length data - (off + length ?c) = length data - off - 40" by simp
    then have l: "length ms = (length data - off + 39) div 40"
      using ih True chunk_count_step [of "length data - off" 40] by (simp add: ms)
    have q: "s # map msg_sequence ms = wrap_iter s (Suc (length ms))"
      using ih by (simp add: ms)
    have "s' = last (wrap_sequence s # map msg_sequence rest)" using ih by blast
    then have "s' = last (s # map msg_sequence ms)" by (simp add: ms)
    with w l q show ?thesis by blast
  next
    case False
    with step.prems show ?thesis by (simp add: fs_write_done)
  qed
qed

lemma length_wrap_iter [simp]: "length (wrap_iter s n) = n"
  by (induction n arbitrary: s) auto

lemma wrap_iter_snoc:
  "wrap_iter s (Suc (Suc n)) =
     wrap_iter s (Suc n) @ [wrap_sequence (last (wrap_iter s (Suc n)))]"
proof (induction n arbitrary: s)
  case (Suc n)
  let ?w = "wrap_iter (wrap_sequence s) (Suc n)"
  have ne: "?w \<noteq> []" by simp
  have "wrap_iter s (Suc (Suc (Suc n))) = s # wrap_iter (wrap_sequence s) (Suc (Suc n))"
    by (rule wrap_iter.simps(2))
  also have "wrap_iter (wrap_sequence s) (Suc (Suc n)) = ?w @ [wrap_sequence (last ?w)]"
    by (rule Suc.IH)
  also have "s # ?w @ [wrap_sequence (last ?w)]
      = wrap_iter s (Suc (Suc n)) @ [wrap_sequence (last (wrap_iter s (Suc (Suc n))))]"
    by (simp only: wrap_iter.simps(2) [of s "Suc n"] append_Cons last_ConsR [OF ne])
  finally show ?case .
qed simp

lemma wrap_iter_range [seq_simps]:
  "0 \<le> s \<Longrightarrow> s < 0x100000000 \<Longrightarrow> q \<in> set (wrap_iter s n) \<Longrightarrow> 0 \<le> q \<and> q < 0x100000000"
proof (induction n arbitrary: s)
  case (Suc n)
  then show ?case using wrap_sequence_bounds [of s] by auto
qed simp

lemma crc32_masked [simp]: "crc32 d mod 0x100000000 = crc32 d"
  using crc32_bounds [of d] by (intro mod_pos_pos_trivial)

lemma write_records_eq:
  "write_records path data t s = Inr ms \<longleftrightarrow>
     (\<exists>e h records s' c. fs_path path 36 = Inr e
        \<and> pack [SU 4, SU 4, SU 4] [SInt t, SInt (int (length data)), SInt (crc32 data)] = Inr h
        \<and> fs_write_loop data t 0 s = Inr (records, s') \<and> pack [SU 4] [SInt t] = Inr c
        \<and> ms = fs_request FILESYSTEM_WRITE_BEGIN s ([len_byte e, 0, 0] @ h @ e) # records
               @ [fs_request FILESYSTEM_WRITE_COMMIT (wrap_sequence s') ([0, 0, 0] @ c)])"
  by (fastforce simp: write_records_def Let_def simp del: pack.simps)

lemma len_byte_small: "length e < 256 \<Longrightarrow> unat (len_byte e) = length e"
  by (simp add: len_byte_def unat_of_nat)

lemma write_records_receive:
  assumes "write_records path data t s = Inr ms"
  shows "receive_file ms = Some (bytes_of_string path, data)"
proof -
  obtain e h records s' c where e: "fs_path path 36 = Inr e"
    and h: "pack [SU 4, SU 4, SU 4] [SInt t, SInt (int (length data)), SInt (crc32 data)] = Inr h"
    and l: "fs_write_loop data t 0 s = Inr (records, s')" and c: "pack [SU 4] [SInt t] = Inr c"
    and ms: "ms = fs_request FILESYSTEM_WRITE_BEGIN s ([len_byte e, 0, 0] @ h @ e) # records
               @ [fs_request FILESYSTEM_WRITE_COMMIT (wrap_sequence s') ([0, 0, 0] @ c)]"
    using assms unfolding write_records_eq by blast
  have "receive_chunks t [] records = Some data"
    using fs_write_loop_receive [OF l] by simp
  moreover have "le_int c = t" using c by (auto split: if_splits simp del: le_bytes.simps)
  moreover have "unpack_from [SU 4, SU 4, SU 4] (FILESYSTEM_WRITE_BEGIN # len_byte e # 0 # 0 # h @ e) 4
      = Inr [SInt t, SInt (int (length data)), SInt (crc32 data)]"
    using unpack_from_skip [OF h, of "[FILESYSTEM_WRITE_BEGIN, len_byte e, 0, 0]" 4 e] by simp
  moreover have "length h = 12" using length_pack [OF h] by simp
  moreover have p: "e = bytes_of_string path" "length e \<le> 36"
    using e by (auto simp: fs_path_eq)
  moreover have "unat (len_byte e) = length e" by (rule len_byte_small) (use p in linarith)
  ultimately show ?thesis by (simp add: receive_file_def ms)
qed

lemma write_records_shape:
  assumes "write_records path data t s = Inr ms"
  shows "map msg_sequence ms = wrap_iter s (length ms)"
    and "length ms = 2 + (length data + 39) div 40" and "list_all fs_record_wf ms"
proof -
  obtain e h records s' c where e: "fs_path path 36 = Inr e"
    and h: "pack [SU 4, SU 4, SU 4] [SInt t, SInt (int (length data)), SInt (crc32 data)] = Inr h"
    and l: "fs_write_loop data t 0 s = Inr (records, s')" and c: "pack [SU 4] [SInt t] = Inr c"
    and ms: "ms = fs_request FILESYSTEM_WRITE_BEGIN s ([len_byte e, 0, 0] @ h @ e) # records
               @ [fs_request FILESYSTEM_WRITE_COMMIT (wrap_sequence s') ([0, 0, 0] @ c)]"
    using assms unfolding write_records_eq by blast
  note sh = fs_write_loop_shape [OF l]
  have a: "s # map msg_sequence records = wrap_iter s (Suc (length records))"
    and b: "s' = last (s # map msg_sequence records)" using sh by blast+
  have "map msg_sequence ms = (s # map msg_sequence records) @ [wrap_sequence s']"
    by (simp add: ms)
  also have "\<dots> = wrap_iter s (Suc (Suc (length records)))"
    by (simp only: a b wrap_iter_snoc)
  finally show "map msg_sequence ms = wrap_iter s (length ms)" by (simp add: ms)
  show "length ms = 2 + (length data + 39) div 40" using sh by (simp add: ms)
  have "length h = 12" "length c = 4" "length e \<le> 36"
    using length_pack [OF h] length_pack [OF c] e by (auto simp: fs_path_eq)
  then show "list_all fs_record_wf ms" using sh by (simp add: ms fs_record_wf_def [of "fs_request _ _ _"])
qed

lemma write_records_ok:
  assumes "is_ok (fs_path path 36)" "0 \<le> t" "t < 0x100000000" "length data < 0x100000000"
  shows "is_ok (write_records path data t s)"
proof -
  obtain l where l: "fs_write_loop data t 0 s = Inr l"
    using fs_write_loop_ok [of t data 0 s] assms(2-4) by (auto simp: is_ok_iff)
  obtain h where "pack [SU 4, SU 4, SU 4]
      [SInt t, SInt (int (length data)), SInt (crc32 data)] = Inr h"
    using pack_ok [of "[SU 4, SU 4, SU 4]" "[SInt t, SInt (int (length data)), SInt (crc32 data)]"]
      assms by (auto simp del: pack.simps)
  moreover obtain c where "pack [SU 4] [SInt t] = Inr c"
    using pack_ok [of "[SU 4]" "[SInt t]"] assms by (auto simp del: pack.simps)
  ultimately show ?thesis
    using assms(1) l unfolding is_ok_iff write_records_eq by (cases l) blast
qed

section \<open>Replies\<close>

lemma validate_reply_eq:
  "validate_reply reply request = Inr p \<longleftrightarrow> msg_type reply = TYPE_FILESYSTEM_RESULT
     \<and> msg_sequence reply = msg_sequence request \<and> msg_status reply = STATUS_OK
     \<and> p = msg_payload reply
     \<and> (\<exists>b x y. msg_payload reply = b # x \<and> msg_payload request = b # y)"
  by (auto simp: validate_reply_def split: list.splits)

section \<open>Properties\<close>

text \<open>C13. Writing a file: for a valid path, a 32-bit transfer id and data below 4 GiB the records
  exist; a receiver that checks transfer id, offsets, announced size and CRC-32 reassembles
  exactly the path and the data; there are two more records than 40-byte chunks, each fits a
  protocol record, and every record can be encoded when the first sequence number is 32-bit.\<close>

theorem fs_write_correct:
  assumes "starts_with path ''flash:''" "length path > 6 \<longrightarrow> path ! 6 = CHR ''/''" "length path \<le> 36"
    and "0 \<le> t" "t < 0x100000000" "length data < 0x100000000" "0 \<le> s" "s < 0x100000000"
  shows "\<exists>ms. write_records path data t s = Inr ms
    \<and> receive_file ms = Some (bytes_of_string path, data)
    \<and> length ms = 2 + (length data + 39) div 40
    \<and> list_all (\<lambda>m. is_ok (message_encode m)) ms"
proof -
  have "is_ok (fs_path path 36)" using assms(1-3) by (auto simp: is_ok_iff fs_path_eq)
  then obtain ms where ms: "write_records path data t s = Inr ms"
    using write_records_ok [OF _ assms(4-6)] by (auto simp: is_ok_iff)
  note sh = write_records_shape [OF ms]
  have "\<forall>m \<in> set ms. 0 \<le> msg_sequence m \<and> msg_sequence m < 0x100000000"
    using wrap_iter_range [OF assms(7,8)] sh(1) by (metis image_eqI list.set_map)
  then have "list_all (\<lambda>m. is_ok (message_encode m)) ms" using sh(3)
    by (fastforce simp: list_all_iff fs_record_wf_def is_ok_iff message_encode_eq message_wf_def)
  then show ?thesis using ms write_records_receive [OF ms] sh(2) by blast
qed

theorem fs_write_correct_witness:
  "\<exists>ms. write_records ''flash:/a'' [1, 2, 3] 9 0xFFFFFFFF = Inr ms \<and> length ms = 3
     \<and> receive_file ms = Some (bytes_of_string ''flash:/a'', [1, 2, 3])"
  using fs_write_correct [of "''flash:/a''" 9 "[1, 2, 3]" "0xFFFFFFFF"]
  by (auto simp: starts_with_def)

end
