(* ===== verification/Core.thy ===== *)
theory Core
  imports Complex_Main Protocol Py_Text
begin

unbundle bit_operations_syntax

text \<open>
  Reply validation, heartbeat payloads and statistics (\<open>host/rp86/core.py\<close>) and the native
  calculator command (\<open>host/rp86/calculator.py\<close>).  Latencies are rational numbers: the
  rounding of floating-point sums is not modelled.
\<close>

section \<open>Calculator\<close>

abbreviation (input) CALCULATOR_MAGIC :: int where "CALCULATOR_MAGIC \<equiv> 0xCA1C"

definition CALCULATOR_OPERATIONS :: "char \<rightharpoonup> int" where
  "CALCULATOR_OPERATIONS =
     map_of [(CHR ''+'', 1), (CHR ''-'', 2), (CHR ''*'', 3), (CHR ''/'', 4)]"

definition CALCULATOR_FORMAT :: "sfield list" where
  "CALCULATOR_FORMAT = [SU 2, SU 2, SU 2, SU 2, SU 2, SU 2, SU 2]"

definition is_hex_char :: "char \<Rightarrow> bool" where
  "is_hex_char c = (case digit_value c of Some d \<Rightarrow> d < 16 | None \<Rightarrow> False)"

text \<open>
  One operand of the expression pattern: \<open>0[xX][0-9a-fA-F]+\<close> or \<open>\d+\<close>, the longest match.
  A shorter match is never followed by an operator, so the search never backtracks into it.
\<close>

definition scan_operand :: "string \<Rightarrow> (string \<times> string) option" where
  "scan_operand s =
     (if has_prefix 16 s \<and> takeWhile is_hex_char (drop 2 s) \<noteq> []
      then Some (take 2 s @ takeWhile is_hex_char (drop 2 s), dropWhile is_hex_char (drop 2 s))
      else if takeWhile is_digit_char s \<noteq> []
      then Some (takeWhile is_digit_char s, dropWhile is_digit_char s) else None)"

definition match_expression :: "string \<Rightarrow> (string \<times> char \<times> string) option" where
  "match_expression s = (case scan_operand (lstrip s) of
     None \<Rightarrow> None
   | Some (lhs, r) \<Rightarrow> (case lstrip r of
       [] \<Rightarrow> None
     | c # r' \<Rightarrow>
         if CALCULATOR_OPERATIONS c = None then None
         else (case scan_operand (lstrip r') of
           None \<Rightarrow> None
         | Some (rhs, t) \<Rightarrow> if list_all is_ws t then Some (lhs, c, rhs) else None)))"

definition int0_text :: "string \<Rightarrow> int res" where
  "int0_text s = (case py_int 0 s of
     Some n \<Rightarrow> Inr n
   | None \<Rightarrow> Inl (ValueError (''invalid literal for int() with base 0: '' @ py_repr s)))"

definition calculator_payload :: "string list \<Rightarrow> bytes res" where
  "calculator_payload arguments = (case match_expression (join '' '' arguments) of
     None \<Rightarrow> Inl (ValueError ''usage: calc <0..65535> <+|-|*|/> <0..65535>'')
   | Some (l, c, r) \<Rightarrow>
       rbind (int0_text l) (\<lambda>lhs.
       rbind (int0_text r) (\<lambda>rhs.
         if \<not> (0 \<le> lhs \<and> lhs \<le> 0xFFFF) \<or> \<not> (0 \<le> rhs \<and> rhs \<le> 0xFFFF)
         then Inl (ValueError ''calculator operands must be unsigned 16-bit values'')
         else case CALCULATOR_OPERATIONS c of
           None \<Rightarrow> Inl KeyError
         | Some operation \<Rightarrow>
             if operation = 4 \<and> rhs = 0
             then Inl (ValueError ''division by zero is not sent to the physical processor'')
             else pack CALCULATOR_FORMAT
               [SInt CALCULATOR_MAGIC, SInt operation, SInt lhs, SInt rhs, SInt 0, SInt 0, SInt 0])))"

definition is_calculator_payload :: "bytes \<Rightarrow> bool" where
  "is_calculator_payload payload \<longleftrightarrow> length payload = calcsize CALCULATOR_FORMAT
     \<and> unpack_from [SU 2] payload 0 = Inr [SInt CALCULATOR_MAGIC]"

section \<open>Heartbeats\<close>

definition HEARTBEAT_FORMAT :: "sfield list" where
  "HEARTBEAT_FORMAT = [SS 2, SU 4, SU 8]"

text \<open>\<open>nonce\<close> is the caller's, or 64 fresh random bits.\<close>

definition heartbeat_payload :: "int \<Rightarrow> int \<Rightarrow> bytes res" where
  "heartbeat_payload sequence nonce =
     pack HEARTBEAT_FORMAT [SBytes [0x48, 0x42], SInt (sequence AND 0xFFFFFFFF), SInt nonce]"

record heartbeat_stats =
  hs_completed :: int
  hs_lost :: int
  hs_last_ms :: rat
  hs_minimum_ms :: "rat option"
  hs_maximum_ms :: rat
  hs_total_ms :: rat

text \<open>\<open>None\<close> is the initial infinite minimum.\<close>

definition HeartbeatStats :: heartbeat_stats where
  "HeartbeatStats = \<lparr>hs_completed = 0, hs_lost = 0, hs_last_ms = 0, hs_minimum_ms = None,
                     hs_maximum_ms = 0, hs_total_ms = 0\<rparr>"

definition stats_accept :: "heartbeat_stats \<Rightarrow> rat \<Rightarrow> heartbeat_stats" where
  "stats_accept st latency_ms = st\<lparr>
     hs_completed := hs_completed st + 1,
     hs_last_ms := latency_ms,
     hs_minimum_ms := Some (case hs_minimum_ms st of None \<Rightarrow> latency_ms | Some m \<Rightarrow> min m latency_ms),
     hs_maximum_ms := max (hs_maximum_ms st) latency_ms,
     hs_total_ms := hs_total_ms st + latency_ms\<rparr>"

definition average_ms :: "heartbeat_stats \<Rightarrow> rat" where
  "average_ms st = (if hs_completed st \<noteq> 0 then hs_total_ms st / of_int (hs_completed st) else 0)"

section \<open>HID reports\<close>

definition hid_output_report :: "bytes \<Rightarrow> bytes res" where
  "hid_output_report record =
     (if length record \<noteq> MESSAGE_SIZE then Inl (ValueError ''record must be exactly 64 bytes'')
      else Inr ([0] @ record))"

definition normalize_hid_input :: "bytes \<Rightarrow> bytes res" where
  "normalize_hid_input report =
     (let r = (if length report = MESSAGE_SIZE + 1 \<and> hd report = 0 then tl report else report) in
      if length r \<noteq> MESSAGE_SIZE
      then Inl (ValueError (''HID reply must contain exactly 64 ABI bytes; got '' @ dec (int (length r))))
      else Inr r)"

section \<open>Reply validation\<close>

text \<open>\<open>repr\<close> of a byte string.\<close>

definition repr_byte :: "char \<Rightarrow> byte \<Rightarrow> string" where
  "repr_byte q b =
     (if unat b \<ge> 0x80 then [char_of (92::nat), CHR ''x''] @ lower (hexX 2 (uint b))
      else repr_char q (char_of (unat b)))"

definition bytes_repr :: "bytes \<Rightarrow> string" where
  "bytes_repr bs =
     (let q = (if (39::byte) \<in> set bs \<and> (34::byte) \<notin> set bs then char_of (34::nat)
               else char_of (39::nat))
      in ''b'' @ [q] @ concat (map (repr_byte q) bs) @ [q])"

definition decode_hid :: "bytes \<Rightarrow> message res" where
  "decode_hid record = rbind (normalize_hid_input record) message_decode"

definition validate_live_reply :: "bytes \<Rightarrow> message \<Rightarrow> string option \<Rightarrow> message res" where
  "validate_live_reply record request expected_processor =
     (let expected_type = (if msg_type request = TYPE_COMMAND then TYPE_RESULT else TYPE_HEARTBEAT);
          expected_payload =
            (if msg_type request = TYPE_COMMAND then COMMAND_REPLY else HEARTBEAT_REPLY) in
      rbind (decode_hid record) (\<lambda>reply.
      if msg_type reply \<noteq> expected_type
      then Inl (ValueError (''unexpected native reply type: '' @ dec (msg_type reply)))
      else if msg_sequence reply \<noteq> msg_sequence request
      then Inl (ValueError (''native reply sequence mismatch: '' @ dec (msg_sequence reply)
             @ '' != '' @ dec (msg_sequence request)))
      else if msg_status reply \<noteq> STATUS_OK
      then Inl (ValueError (''V30 live reply status is not OK: '' @ dec (msg_status reply)))
      else rbind (witness_decode (msg_payload reply)) (\<lambda>witness.
      if nw_service_type witness \<noteq> msg_type request
      then Inl (ValueError (''native witness service type mismatch: ''
             @ dec (nw_service_type witness) @ '' != '' @ dec (msg_type request)))
      else let calculator_reply = (msg_type request = TYPE_COMMAND
             \<and> is_calculator_payload (msg_payload request)
             \<and> starts_with (nw_text witness) (bytes_of_string ''CALC '')) in
      if nw_text witness \<noteq> expected_payload \<and> \<not> calculator_reply
      then Inl (ValueError (''unexpected native reply text: '' @ bytes_repr (nw_text witness)))
      else case expected_processor of
        Some p \<Rightarrow> if witness_processor witness \<noteq> Some p
          then Inl (ValueError (''native processor identity mismatch: AAD16=''
                 @ (case witness_processor witness of Some q \<Rightarrow> q | None \<Rightarrow> ''unknown'')
                 @ '' host='' @ p))
          else Inr reply
      | None \<Rightarrow> Inr reply)))"

definition validate_device_reply :: "bytes \<Rightarrow> message \<Rightarrow> string option \<Rightarrow> message res" where
  "validate_device_reply record request expected_processor =
     (if msg_type request \<in> {TYPE_COMMAND, TYPE_HEARTBEAT}
      then validate_live_reply record request expected_processor
      else if msg_type request = TYPE_WORKLOAD_TIMEOUT_REQUEST
      then rbind (decode_hid record) (\<lambda>reply.
        if msg_type reply \<noteq> TYPE_WORKLOAD_TIMEOUT_RESULT \<or> msg_sequence reply \<noteq> msg_sequence request
        then Inl (ValueError ''workload timeout reply type/sequence mismatch'') else Inr reply)
      else if msg_type request = TYPE_DIAGNOSTICS_REQUEST
      then rbind (decode_hid record) (\<lambda>reply.
        if msg_type reply \<noteq> TYPE_DIAGNOSTICS_RESULT \<or> msg_sequence reply \<noteq> msg_sequence request
        then Inl (ValueError ''diagnostics reply type/sequence mismatch'') else Inr reply)
      else if msg_type request = TYPE_FILESYSTEM_REQUEST
      then rbind (decode_hid record) (\<lambda>reply.
        if msg_type reply \<noteq> TYPE_FILESYSTEM_RESULT
        then Inl (ValueError (''unexpected filesystem reply type: '' @ dec (msg_type reply)))
        else if msg_sequence reply \<noteq> msg_sequence request
        then Inl (ValueError (''filesystem reply sequence mismatch: '' @ dec (msg_sequence reply)
               @ '' != '' @ dec (msg_sequence request)))
        else Inr reply)
      else if msg_type request = TYPE_MEMORY_REQUEST
      then rbind (decode_hid record) (\<lambda>reply.
        if msg_type reply \<noteq> TYPE_MEMORY_RESULT
        then Inl (ValueError (''unexpected memory reply type: '' @ dec (msg_type reply)))
        else if msg_sequence reply \<noteq> msg_sequence request
        then Inl (ValueError (''memory reply sequence mismatch: '' @ dec (msg_sequence reply)
               @ '' != '' @ dec (msg_sequence request)))
        else Inr reply)
      else if msg_type request \<notin> {TYPE_WORKLOAD_BEGIN, TYPE_WORKLOAD_DATA, TYPE_WORKLOAD_COMMIT,
                                   TYPE_WORKLOAD_CONTROL}
      then Inl (ValueError (''unsupported request type: '' @ dec (msg_type request)))
      else rbind (decode_hid record) (\<lambda>reply.
        if msg_type reply \<notin> {TYPE_WORKLOAD_RESULT, TYPE_WORKLOAD_STATUS}
        then Inl (ValueError (''unexpected workload reply type: '' @ dec (msg_type reply)))
        else if msg_sequence reply \<noteq> msg_sequence request
        then Inl (ValueError (''workload reply sequence mismatch: '' @ dec (msg_sequence reply)
               @ '' != '' @ dec (msg_sequence request)))
        else if msg_status reply \<noteq> STATUS_OK
        then Inl (ValueError (''workload request status is not OK: '' @ dec (msg_status reply)))
        else Inr reply))"

section \<open>Lemmas\<close>

lemmas core_format_simps [codec_simps] = CALCULATOR_FORMAT_def HEARTBEAT_FORMAT_def

lemma calcsize_CALCULATOR_FORMAT [simp]: "calcsize CALCULATOR_FORMAT = 14"
  by (simp add: codec_simps)

lemma hid_report_roundtrip: "hid_output_report r = Inr rep \<Longrightarrow> normalize_hid_input rep = Inr r"
  by (auto simp: hid_output_report_def normalize_hid_input_def)

lemma normalize_hid_raw: "length r = MESSAGE_SIZE \<Longrightarrow> normalize_hid_input r = Inr r"
  by (simp add: normalize_hid_input_def)

lemma decode_hid_sent:
  "message_encode m = Inr r \<Longrightarrow> hid_output_report r = Inr rep \<Longrightarrow> decode_hid rep = Inr m"
  by (simp add: decode_hid_def hid_report_roundtrip message_decode_encode_aux)

lemma decode_hid_raw: "message_encode m = Inr r \<Longrightarrow> decode_hid r = Inr m"
  by (simp add: decode_hid_def normalize_hid_raw length_message_encode message_decode_encode_aux)

lemma decode_hid_wf: "decode_hid r = Inr m \<Longrightarrow> message_wf m"
  by (auto simp: decode_hid_def intro: message_decode_wf)

text \<open>The reply types a request may be answered with.\<close>

definition reply_types :: "int \<Rightarrow> int set" where
  "reply_types t =
     (if t = TYPE_COMMAND then {TYPE_RESULT} else if t = TYPE_HEARTBEAT then {TYPE_HEARTBEAT}
      else if t = TYPE_WORKLOAD_TIMEOUT_REQUEST then {TYPE_WORKLOAD_TIMEOUT_RESULT}
      else if t = TYPE_DIAGNOSTICS_REQUEST then {TYPE_DIAGNOSTICS_RESULT}
      else if t = TYPE_FILESYSTEM_REQUEST then {TYPE_FILESYSTEM_RESULT}
      else if t = TYPE_MEMORY_REQUEST then {TYPE_MEMORY_RESULT}
      else if t \<in> {TYPE_WORKLOAD_BEGIN, TYPE_WORKLOAD_DATA, TYPE_WORKLOAD_COMMIT, TYPE_WORKLOAD_CONTROL}
      then {TYPE_WORKLOAD_RESULT, TYPE_WORKLOAD_STATUS} else {})"

lemma validate_live_reply_sound:
  assumes "validate_live_reply r request expected = Inr reply"
  shows "decode_hid r = Inr reply"
    and "msg_type reply = (if msg_type request = TYPE_COMMAND then TYPE_RESULT else TYPE_HEARTBEAT)"
    and "msg_sequence reply = msg_sequence request" and "msg_status reply = STATUS_OK"
    and "\<exists>w. witness_decode (msg_payload reply) = Inr w \<and> nw_service_type w = msg_type request
           \<and> (expected \<noteq> None \<longrightarrow> witness_processor w = expected)"
  using assms
  by (auto simp: validate_live_reply_def Let_def split: if_splits option.splits)

lemma validate_device_reply_cases:
  assumes "validate_device_reply r request expected = Inr reply"
  shows "decode_hid r = Inr reply" and "msg_sequence reply = msg_sequence request"
    and "msg_type reply \<in> reply_types (msg_type request)"
    and "msg_type request \<in> {TYPE_WORKLOAD_BEGIN, TYPE_WORKLOAD_DATA, TYPE_WORKLOAD_COMMIT,
           TYPE_WORKLOAD_CONTROL, TYPE_COMMAND, TYPE_HEARTBEAT} \<Longrightarrow> msg_status reply = STATUS_OK"
proof -
  consider (live) "msg_type request \<in> {TYPE_COMMAND, TYPE_HEARTBEAT}"
      "validate_live_reply r request expected = Inr reply"
    | (other) "msg_type request \<notin> {TYPE_COMMAND, TYPE_HEARTBEAT}"
    using assms by (auto simp: validate_device_reply_def split: if_splits)
  then have "decode_hid r = Inr reply \<and> msg_sequence reply = msg_sequence request
      \<and> msg_type reply \<in> reply_types (msg_type request)
      \<and> (msg_type request \<in> {TYPE_WORKLOAD_BEGIN, TYPE_WORKLOAD_DATA, TYPE_WORKLOAD_COMMIT,
           TYPE_WORKLOAD_CONTROL, TYPE_COMMAND, TYPE_HEARTBEAT} \<longrightarrow> msg_status reply = STATUS_OK)"
  proof cases
    case live
    then show ?thesis using validate_live_reply_sound [OF live(2)]
      by (auto simp: reply_types_def)
  next
    case other
    then show ?thesis using assms
      by (auto simp: validate_device_reply_def reply_types_def split: if_splits)
  qed
  then show "decode_hid r = Inr reply" and "msg_sequence reply = msg_sequence request"
    and "msg_type reply \<in> reply_types (msg_type request)"
    and "msg_type request \<in> {TYPE_WORKLOAD_BEGIN, TYPE_WORKLOAD_DATA, TYPE_WORKLOAD_COMMIT,
           TYPE_WORKLOAD_CONTROL, TYPE_COMMAND, TYPE_HEARTBEAT} \<Longrightarrow> msg_status reply = STATUS_OK"
    by blast+
qed

lemma validate_memory_type_reply:
  "msg_type request = TYPE_MEMORY_REQUEST \<Longrightarrow> decode_hid r = Inr reply \<Longrightarrow>
     msg_type reply = TYPE_MEMORY_RESULT \<Longrightarrow> msg_sequence reply = msg_sequence request \<Longrightarrow>
     validate_device_reply r request expected = Inr reply"
  by (simp add: validate_device_reply_def)

lemma validate_filesystem_type_reply:
  "msg_type request = TYPE_FILESYSTEM_REQUEST \<Longrightarrow> decode_hid r = Inr reply \<Longrightarrow>
     msg_type reply = TYPE_FILESYSTEM_RESULT \<Longrightarrow> msg_sequence reply = msg_sequence request \<Longrightarrow>
     validate_device_reply r request expected = Inr reply"
  by (simp add: validate_device_reply_def)

section \<open>Properties\<close>

text \<open>C4. A reply the host accepts is a well-formed protocol record that answers the request: it
  carries the request's sequence number and a reply type of that request; commands, heartbeats and
  workload requests are accepted only with a success status; and a native reply carries a witness
  of the requested service from the expected physical processor.\<close>

theorem device_reply_sound:
  assumes "validate_device_reply r request expected = Inr reply"
  shows "decode_hid r = Inr reply \<and> message_wf reply \<and> msg_sequence reply = msg_sequence request
    \<and> msg_type reply \<in> reply_types (msg_type request)
    \<and> (msg_type request \<in> {TYPE_WORKLOAD_BEGIN, TYPE_WORKLOAD_DATA, TYPE_WORKLOAD_COMMIT,
         TYPE_WORKLOAD_CONTROL, TYPE_COMMAND, TYPE_HEARTBEAT} \<longrightarrow> msg_status reply = STATUS_OK)
    \<and> (msg_type request \<in> {TYPE_COMMAND, TYPE_HEARTBEAT} \<longrightarrow>
         (\<exists>w. witness_decode (msg_payload reply) = Inr w \<and> nw_service_type w = msg_type request
            \<and> (expected \<noteq> None \<longrightarrow> witness_processor w = expected)))"
proof -
  have "msg_type request \<in> {TYPE_COMMAND, TYPE_HEARTBEAT} \<Longrightarrow>
      validate_live_reply r request expected = Inr reply"
    using assms by (simp add: validate_device_reply_def)
  then show ?thesis
    using validate_device_reply_cases [OF assms] decode_hid_wf [of r reply]
      validate_live_reply_sound(5) [of r request expected reply] by blast
qed

theorem device_reply_sound_witness:
  "\<exists>r. validate_device_reply r (Message TYPE_MEMORY_REQUEST 9 [1]) None
         = Inr (Message TYPE_MEMORY_RESULT 9 [1, 2])
     \<and> message_wf (Message TYPE_MEMORY_RESULT 9 [1, 2])"
proof -
  have "message_wf (Message TYPE_MEMORY_RESULT 9 [1, 2])" by (simp add: message_wf_def)
  then obtain r where "message_encode (Message TYPE_MEMORY_RESULT 9 [1, 2]) = Inr r"
    using message_encode_ok by blast
  then have "decode_hid r = Inr (Message TYPE_MEMORY_RESULT 9 [1, 2])" by (rule decode_hid_raw)
  then have v: "validate_device_reply r (Message TYPE_MEMORY_REQUEST 9 [1]) None
      = Inr (Message TYPE_MEMORY_RESULT 9 [1, 2])"
    by (intro validate_memory_type_reply) simp_all
  show ?thesis using device_reply_sound [OF v] v by blast
qed

text \<open>A calculator command that is sent consists of the magic word, one of the four operations
  and two 16-bit operands read from the text, never a division by zero, and is recognised as a
  calculator payload.\<close>

theorem calculator_payload_sound:
  assumes "calculator_payload arguments = Inr p"
  shows "\<exists>l c r operation lhs rhs. match_expression (join '' '' arguments) = Some (l, c, r)
    \<and> CALCULATOR_OPERATIONS c = Some operation \<and> py_int 0 l = Some lhs \<and> py_int 0 r = Some rhs
    \<and> 0 \<le> lhs \<and> lhs \<le> 0xFFFF \<and> 0 \<le> rhs \<and> rhs \<le> 0xFFFF \<and> \<not> (operation = 4 \<and> rhs = 0)
    \<and> unpack CALCULATOR_FORMAT p
        = Inr [SInt CALCULATOR_MAGIC, SInt operation, SInt lhs, SInt rhs, SInt 0, SInt 0, SInt 0]
    \<and> is_calculator_payload p"
proof -
  obtain l c r operation lhs rhs where m: "match_expression (join '' '' arguments) = Some (l, c, r)"
      "CALCULATOR_OPERATIONS c = Some operation" "py_int 0 l = Some lhs" "py_int 0 r = Some rhs"
      "0 \<le> lhs" "lhs \<le> 0xFFFF" "0 \<le> rhs" "rhs \<le> 0xFFFF" "\<not> (operation = 4 \<and> rhs = 0)"
    and p: "pack CALCULATOR_FORMAT [SInt CALCULATOR_MAGIC, SInt operation, SInt lhs, SInt rhs,
              SInt 0, SInt 0, SInt 0] = Inr p"
    using assms
    by (auto simp: calculator_payload_def int0_text_def split: option.splits prod.splits if_splits)
  have "unpack CALCULATOR_FORMAT p
      = Inr [SInt CALCULATOR_MAGIC, SInt operation, SInt lhs, SInt rhs, SInt 0, SInt 0, SInt 0]"
    using p by (rule unpack_pack) (simp add: codec_simps)
  moreover from this have "is_calculator_payload p"
    by (simp add: is_calculator_payload_def unpack_def unpack_from_def codec_simps split: if_splits)
  ultimately show ?thesis using m by blast
qed

theorem calculator_payload_sound_witness:
  "\<exists>p. calculator_payload [''0x10'', ''/'', ''3''] = Inr p \<and> is_calculator_payload p"
proof -
  have "is_ok (calculator_payload [''0x10'', ''/'', ''3''])" by code_simp
  then obtain p where p: "calculator_payload [''0x10'', ''/'', ''3''] = Inr p"
    by (auto simp: is_ok_iff)
  then show ?thesis using calculator_payload_sound [OF p] by blast
qed

end
