(* ===== verification/Channel.thy ===== *)
theory Channel
  imports Core
begin

text \<open>
  The sequence-bound request channel (\<open>host/rp86/request_channel.py\<close>) and the CDC and HID
  control transport (\<open>host/rp86/transport.py\<close>).

  The world answers the host's calls from a script: what each \<open>read\<close> returns (the text of an
  \<open>OSError\<close> on the left, bytes on the right), what the clock shows and what the transport
  service reports.  A loop consumes one entry per iteration, and the value \<open>None\<close> means that
  the script ended while the loop was still running.  Times are rational seconds.  The callback
  \<open>service_transport\<close> works on a state of the caller's; the script holds its input for each call.
\<close>

section \<open>Searching byte strings\<close>

text \<open>\<open>data.find(sub)\<close>, \<open>sub in data\<close> and \<open>data.rfind(sub, 0, end)\<close>.\<close>

definition bfind :: "bytes \<Rightarrow> bytes \<Rightarrow> nat option" where
  "bfind sub data = find (\<lambda>i. starts_with (drop i data) sub) [0..<Suc (length data)]"

definition contains :: "bytes \<Rightarrow> bytes \<Rightarrow> bool" where
  "contains sub data \<longleftrightarrow> bfind sub data \<noteq> None"

definition brfind :: "bytes \<Rightarrow> nat \<Rightarrow> bytes \<Rightarrow> nat option" where
  "brfind sub end' data =
     find (\<lambda>i. i + length sub \<le> end' \<and> starts_with (drop i data) sub) (rev [0..<Suc (length data)])"

section \<open>HID request exchange\<close>

record exchange_result =
  er_reply :: "message option"
  er_latency_ms :: rat
  er_error :: "string option"

type_synonym ('s, 'i) service = "'s \<Rightarrow> 'i \<Rightarrow> 's \<times> string option"

record 'i tick =
  tk_time :: rat
  tk_service :: 'i
  tk_read :: "string + bytes"
  tk_later :: rat

definition elapsed_ms :: "rat \<Rightarrow> rat \<Rightarrow> rat" where
  "elapsed_ms began now = (now - began) * 1000"

definition exchange_timeout :: "rat \<Rightarrow> 'i tick \<Rightarrow> string option \<Rightarrow> exchange_result" where
  "exchange_timeout began tk stale =
     \<lparr>er_reply = None, er_latency_ms = elapsed_ms began (tk_later tk),
      er_error = Some (''device reply timeout'' @ (case stale of None \<Rightarrow> []
        | Some m \<Rightarrow> '' after stale HID reply: '' @ m))\<rparr>"

definition exchange_disconnected :: "rat \<Rightarrow> rat \<Rightarrow> string \<Rightarrow> exchange_result" where
  "exchange_disconnected began now e =
     \<lparr>er_reply = None, er_latency_ms = elapsed_ms began now,
      er_error = Some (''USB HID disconnected: '' @ e)\<rparr>"

text \<open>
  After an accepted reply the code keeps servicing the transport for 50 ms, until the service
  reports an error; \<open>after\<close> are the inputs of those calls.
\<close>

fun drain_service :: "('s, 'i) service \<Rightarrow> 's \<Rightarrow> 'i list \<Rightarrow> 's" where
  "drain_service service s [] = s"
| "drain_service service s (i # after) = (case service s i of
     (s', None) \<Rightarrow> drain_service service s' after
   | (s', Some _) \<Rightarrow> s')"

fun exchange_loop ::
  "('s, 'i) service \<Rightarrow> 'i list \<Rightarrow> rat \<Rightarrow> rat \<Rightarrow> message \<Rightarrow> string option \<Rightarrow> string option \<Rightarrow> 's
     \<Rightarrow> 'i tick list \<Rightarrow> ('s \<times> exchange_result res) option"
where
  "exchange_loop service after began deadline request expected stale s [] = None"
| "exchange_loop service after began deadline request expected stale s (tk # ticks) =
     (if \<not> tk_time tk \<le> deadline then Some (s, Inr (exchange_timeout began tk stale))
      else case service s (tk_service tk) of
        (s', Some transport_error) \<Rightarrow>
          Some (s', Inr \<lparr>er_reply = None, er_latency_ms = elapsed_ms began (tk_later tk),
                         er_error = Some transport_error\<rparr>)
      | (s', None) \<Rightarrow> (case tk_read tk of
          Inl e \<Rightarrow> Some (s', Inr (exchange_disconnected began (tk_later tk) e))
        | Inr candidate \<Rightarrow>
            if candidate = []
            then exchange_loop service after began deadline request expected stale s' ticks
            else (case validate_device_reply candidate request expected of
              Inr reply \<Rightarrow>
                Some (drain_service service s' after,
                      Inr \<lparr>er_reply = Some reply,
                           er_latency_ms = elapsed_ms began (tk_later tk), er_error = None\<rparr>)
            | Inl (ValueError m) \<Rightarrow>
                exchange_loop service after began deadline request expected (Some m) s' ticks
            | Inl e \<Rightarrow> Some (s', Inl e))))"

text \<open>Draining the reports that are already queued: it ends at the first empty read.\<close>

fun drain :: "(string + bytes) list \<Rightarrow> (string + unit) option" where
  "drain [] = None"
| "drain (Inl e # rs) = Some (Inl e)"
| "drain (Inr b # rs) = (if b = [] then Some (Inr ()) else drain rs)"

record 'i hid_world =
  hw_began :: rat
  hw_queued :: "(string + bytes) list"
  hw_write :: "string + int"
  hw_now :: rat
  hw_ticks :: "'i tick list"
  hw_after :: "'i list"

definition exchange_hid_request ::
  "('s, 'i) service \<Rightarrow> 's \<Rightarrow> 'i hid_world \<Rightarrow> message \<Rightarrow> rat \<Rightarrow> string option
     \<Rightarrow> ('s \<times> exchange_result res) option" where
  "exchange_hid_request service s w request timeout expected =
     (let began = hw_began w in
      case drain (hw_queued w) of
        None \<Rightarrow> None
      | Some (Inl e) \<Rightarrow> Some (s, Inr (exchange_disconnected began (hw_now w) e))
      | Some (Inr _) \<Rightarrow> (case rbind (message_encode request) hid_output_report of
          Inl e \<Rightarrow> Some (s, Inl e)
        | Inr report \<Rightarrow> (case hw_write w of
            Inl e \<Rightarrow> Some (s, Inr (exchange_disconnected began (hw_now w) e))
          | Inr written \<Rightarrow>
              if written \<noteq> int (MESSAGE_SIZE + 1)
              then Some (s, Inr \<lparr>er_reply = None, er_latency_ms = 0,
                     er_error = Some (''short HID write: '' @ dec written @ ''/65 bytes'')\<rparr>)
              else exchange_loop service (hw_after w) began (began + timeout) request expected None s
                     (hw_ticks w))))"

section \<open>HID runtime control\<close>

definition check_control_reply :: "message \<Rightarrow> byte \<Rightarrow> bytes \<Rightarrow> message res" where
  "check_control_reply request operation candidate =
     rbind (decode_hid candidate) (\<lambda>reply.
       if msg_type reply \<noteq> TYPE_RUNTIME_STATUS
       then Inl (RuntimeError (''unexpected runtime control reply type: '' @ dec (msg_type reply)))
       else if msg_sequence reply \<noteq> msg_sequence request
       then Inl (RuntimeError (''runtime control sequence mismatch: '' @ dec (msg_sequence reply)
              @ '' != '' @ dec (msg_sequence request)))
       else if msg_status reply \<noteq> STATUS_OK
       then Inl (RuntimeError (''runtime control status is not OK: '' @ dec (msg_status reply)))
       else if msg_payload reply \<noteq> [operation]
       then Inl (RuntimeError ''runtime control operation ACK mismatch'')
       else Inr reply)"

fun control_loop :: "rat \<Rightarrow> message \<Rightarrow> byte \<Rightarrow> (rat \<times> (string + bytes)) list \<Rightarrow> message res option" where
  "control_loop deadline request operation [] = None"
| "control_loop deadline request operation ((now, read) # rest) =
     (if \<not> now \<le> deadline
      then Some (Inl (RuntimeError ''timed out waiting for HID runtime control ACK''))
      else case read of
        Inl e \<Rightarrow> Some (Inl (OSError e))
      | Inr candidate \<Rightarrow>
          if candidate = [] then control_loop deadline request operation rest
          else Some (check_control_reply request operation candidate))"

definition exchange_hid_runtime_control ::
  "(string + bytes) list \<Rightarrow> string + int \<Rightarrow> rat \<Rightarrow> (rat \<times> (string + bytes)) list
     \<Rightarrow> byte \<Rightarrow> int \<Rightarrow> rat \<Rightarrow> message res option" where
  "exchange_hid_runtime_control queued write' now reads operation sequence timeout =
     (let request = Message TYPE_RUNTIME_CONTROL sequence [operation] in
      case drain queued of
        None \<Rightarrow> None
      | Some (Inl e) \<Rightarrow> Some (Inl (OSError e))
      | Some (Inr _) \<Rightarrow> (case rbind (message_encode request) hid_output_report of
          Inl e \<Rightarrow> Some (Inl e)
        | Inr report \<Rightarrow> (case write' of
            Inl e \<Rightarrow> Some (Inl (OSError e))
          | Inr written \<Rightarrow>
              if written \<noteq> int (MESSAGE_SIZE + 1)
              then Some (Inl (RuntimeError (''short HID control write: '' @ dec written @ ''/65 bytes'')))
              else control_loop (now + timeout) request operation reads)))"

section \<open>CDC requests\<close>

text \<open>
  The bootloader and reboot requests wait for their acknowledgement text.  \<open>reads\<close> are the
  clock at the loop test and the answer of \<open>connection.read\<close>.
\<close>

fun cdc_ack_loop ::
  "bytes \<Rightarrow> string \<Rightarrow> rat \<Rightarrow> bytes \<Rightarrow> (rat \<times> (string + bytes)) list \<Rightarrow> bytes res option" where
  "cdc_ack_loop ack what deadline received [] = None"
| "cdc_ack_loop ack what deadline received ((now, read) # rest) =
     (if \<not> now \<le> deadline
      then Some (Inl (RuntimeError (''timed out waiting for RP2350 '' @ what @ '' ACK'')))
      else case read of
        Inl e \<Rightarrow> if contains ack received then Some (Inr received)
                 else Some (Inl (RuntimeError (''CDC disconnected before '' @ what @ '' ACK: '' @ e)))
      | Inr chunk \<Rightarrow>
          if chunk = [] then cdc_ack_loop ack what deadline received rest
          else let received' = received @ chunk in
            if contains ack received' then Some (Inr received')
            else cdc_ack_loop ack what deadline received' rest)"

definition send_bootloader_request :: "rat \<Rightarrow> (rat \<times> (string + bytes)) list \<Rightarrow> bytes res option" where
  "send_bootloader_request deadline reads =
     cdc_ack_loop BOOTLOADER_ACK ''bootloader'' deadline [] reads"

definition send_reboot_request :: "rat \<Rightarrow> (rat \<times> (string + bytes)) list \<Rightarrow> bytes res option" where
  "send_reboot_request deadline reads = cdc_ack_loop REBOOT_ACK ''reboot'' deadline [] reads"

fun status_loop :: "rat \<Rightarrow> bytes \<Rightarrow> (rat \<times> (string + bytes)) list \<Rightarrow> bytes res option" where
  "status_loop deadline received [] = None"
| "status_loop deadline received ((now, read) # rest) =
     (if \<not> now \<le> deadline
      then Some (Inl (RuntimeError ''timed out waiting for complete RP2350 status''))
      else case read of
        Inl e \<Rightarrow> Some (Inl (RuntimeError (''CDC disconnected before status completed: '' @ e)))
      | Inr chunk \<Rightarrow>
          if chunk = [] then status_loop deadline received rest
          else let received' = received @ chunk in
            (case bfind STATUS_END received' of
               None \<Rightarrow> status_loop deadline received' rest
             | Some end' \<Rightarrow> (case brfind STATUS_BEGIN end' received' of
                 None \<Rightarrow> Some (Inl (RuntimeError ''status end marker arrived without begin marker''))
               | Some begin' \<Rightarrow>
                   Some (Inr (pyslice begin' (end' + length STATUS_END) received')))))"

definition send_status_request :: "rat \<Rightarrow> (rat \<times> (string + bytes)) list \<Rightarrow> bytes res option" where
  "send_status_request deadline reads = status_loop deadline [] reads"

text \<open>\<open>str.splitlines\<close> on the ASCII line boundaries, after \<open>\r\n\<close> became \<open>\n\<close>.\<close>

fun crlf_to_lf :: "string \<Rightarrow> string" where
  "crlf_to_lf (a # b # s) =
     (if (of_char a :: nat) = 13 \<and> (of_char b :: nat) = 10 then b # crlf_to_lf s
      else a # crlf_to_lf (b # s))"
| "crlf_to_lf s = s"

definition is_linebreak :: "char \<Rightarrow> bool" where
  "is_linebreak c = (let n = (of_char c :: nat) in (10 \<le> n \<and> n \<le> 13) \<or> (28 \<le> n \<and> n \<le> 30))"

fun splitlines :: "string \<Rightarrow> string list" where
  "splitlines [] = []"
| "splitlines (c # s) =
     (if is_linebreak c
      then [] # splitlines (if (of_char c :: nat) = 13 \<and> s \<noteq> [] \<and> (of_char (hd s) :: nat) = 10
                            then tl s else s)
      else case splitlines s of
             [] \<Rightarrow> [[c]]
           | l # ls \<Rightarrow> (c # l) # ls)"

definition print_status_evidence :: "bytes \<Rightarrow> string list" where
  "print_status_evidence evidence =
     (let lines = splitlines (crlf_to_lf (utf8_decode_replace evidence));
          lines1 = (if lines \<noteq> [] \<and> hd lines = string_of_bytes STATUS_BEGIN then tl lines else lines);
          lines2 = (if lines1 \<noteq> [] \<and> last lines1 = string_of_bytes STATUS_END
                    then butlast lines1 else lines1)
      in [join [char_of (10::nat)] lines2, ''RP2350 STATUS RESULT      = PASS''])"

section \<open>Device selection\<close>

record cdc_port =
  cp_port :: string
  cp_serial :: string
  cp_description :: string

definition select_cdc_port :: "cdc_port list \<Rightarrow> string option \<Rightarrow> string res" where
  "select_cdc_port candidates serial_number =
     (let matches = (case serial_number of None \<Rightarrow> candidates
            | Some s \<Rightarrow> filter (\<lambda>item. cp_serial item = s) candidates) in
      if length matches = 1 then Inr (cp_port (hd matches))
      else let detail = join '', '' (map (\<lambda>item. cp_port item @ '' (serial=''
                 @ (if cp_serial item \<noteq> [] then cp_serial item else ''<none>'') @ '')'') matches);
               qualifier = (case serial_number of Some (c # s) \<Rightarrow> '' with serial '' @ (c # s) | _ \<Rightarrow> [])
           in Inl (RuntimeError (''expected exactly one pi86-rp2350 CDC interface (VID CAFE, PID 4011)''
                @ qualifier @ ''; found '' @ dec (int (length matches)) @ '': ''
                @ (if detail \<noteq> [] then detail else ''none'')
                @ ''. Use --port COMxx to select manually.'')))"

text \<open>\<open>ports\<close> is the enumeration of the host's serial ports.\<close>

definition resolve_cdc_port ::
  "cdc_port list \<Rightarrow> string option \<Rightarrow> string option \<Rightarrow> (string \<times> bool) res" where
  "resolve_cdc_port ports explicit_port serial_number = (case explicit_port of
     Some (c # p) \<Rightarrow> Inr (c # p, False)
   | _ \<Rightarrow> rmap (\<lambda>p. (p, True)) (select_cdc_port ports serial_number))"

definition cdc_serial_for_port :: "string \<Rightarrow> cdc_port list \<Rightarrow> string option" where
  "cdc_serial_for_port port candidates =
     (let matches = filter (\<lambda>item. lower (cp_port item) = lower port) candidates in
      if length matches = 1 \<and> cp_serial (hd matches) \<noteq> [] then Some (cp_serial (hd matches)) else None)"

section \<open>Lemmas\<close>

lemma bfind_Some:
  assumes "bfind sub d = Some i"
  shows "starts_with (drop i d) sub" "i \<le> length d" "\<forall>j < i. \<not> starts_with (drop j d) sub"
  using assms unfolding bfind_def find_Some_iff
  by (auto simp: less_Suc_eq nth_append simp del: upt_Suc)

lemma find_rev_Some: "find P (rev [0..<n]) = Some i \<Longrightarrow> P i \<and> i < n"
  unfolding find_Some_iff by (auto simp: rev_nth)

lemma brfind_Some:
  assumes "brfind sub e d = Some i"
  shows "starts_with (drop i d) sub" "i + length sub \<le> e"
  using find_rev_Some assms unfolding brfind_def by blast+

lemma starts_with_slice:
  "starts_with (drop b d) p \<Longrightarrow> b + length p \<le> e \<Longrightarrow> starts_with (pyslice b e d) p"
  unfolding starts_with_def pyslice_def by (subst take_take) (simp add: min_absorb1)

lemma ends_with_slice:
  assumes "starts_with (drop e d) q" "b \<le> e"
  shows "ends_with (pyslice b (e + length q) d) q"
proof -
  have t: "take (length q) (drop e d) = q" using assms(1) by (simp add: starts_with_def)
  then have l: "length q \<le> length d - e" by (metis length_drop length_take min.cobounded1)
  have "e + length q - b = (e - b) + length q" "e - b + b = e" using assms(2) by simp_all
  then have "pyslice b (e + length q) d = take (e - b) (drop b d) @ take (length q) (drop e d)"
    by (simp only: pyslice_def take_add drop_drop)
  then show ?thesis unfolding ends_with_def t using l by simp
qed

subsection \<open>The reply loop\<close>

text \<open>An iteration that goes on: in time, the transport in order, no record or one that is refused.\<close>

definition quiet_tick ::
  "('s, 'i) service \<Rightarrow> rat \<Rightarrow> message \<Rightarrow> string option \<Rightarrow> 'i tick \<Rightarrow> bool" where
  "quiet_tick service deadline request expected tk \<longleftrightarrow> tk_time tk \<le> deadline
     \<and> (\<forall>s. snd (service s (tk_service tk)) = None)
     \<and> (\<exists>c. tk_read tk = Inr c
          \<and> (c = [] \<or> (\<exists>m. validate_device_reply c request expected = Inl (ValueError m))))"

lemma exchange_loop_sound:
  "exchange_loop service after began deadline request expected stale s ticks = Some (s', Inr res) \<Longrightarrow>
     (case er_reply res of
        Some reply \<Rightarrow> er_error res = None
          \<and> (\<exists>tk c. tk \<in> set ticks \<and> tk_read tk = Inr c \<and> tk_time tk \<le> deadline
               \<and> validate_device_reply c request expected = Inr reply)
      | None \<Rightarrow> er_error res \<noteq> None)"
proof (induction service after began deadline request expected stale s ticks rule: exchange_loop.induct)
  case (2 service after began deadline request expected stale s tk ticks)
  obtain s1 e where sv: "service s (tk_service tk) = (s1, e)" by fastforce
  consider (stop) "\<not> tk_time tk \<le> deadline \<or> e \<noteq> None \<or> (\<exists>x. tk_read tk = Inl x)"
    | (empty) "tk_time tk \<le> deadline" "e = None" "tk_read tk = Inr []"
    | (some) c where "tk_time tk \<le> deadline" "e = None" "tk_read tk = Inr c" "c \<noteq> []"
    by (cases "tk_read tk") auto
  then show ?case
  proof cases
    case stop
    then show ?thesis using "2.prems" sv
      by (auto simp: exchange_timeout_def exchange_disconnected_def split: if_splits option.splits sum.splits)
  next
    case empty
    then show ?thesis using "2.prems" "2.IH"(1) sv by (fastforce split: option.splits)
  next
    case some
    then show ?thesis
    proof (cases "validate_device_reply c request expected")
      case (Inl x)
      then obtain m where "x = ValueError m" using "2.prems" sv some by (cases x) auto
      then show ?thesis using Inl "2.prems" "2.IH"(2) sv some by (fastforce split: option.splits)
    next
      case (Inr reply)
      then show ?thesis using "2.prems" sv some by fastforce
    qed
  qed
qed simp

lemma exchange_loop_terminates:
  "\<exists>tk \<in> set ticks. deadline < tk_time tk \<Longrightarrow>
     exchange_loop service after began deadline request expected stale s ticks \<noteq> None"
proof (induction service after began deadline request expected stale s ticks rule: exchange_loop.induct)
  case (2 service after began deadline request expected stale s tk ticks)
  then show ?case
    by (cases "tk_time tk \<le> deadline")
       (auto split: option.splits sum.splits exc.splits prod.splits simp: not_le)
qed simp

lemma exchange_loop_delivers:
  assumes "list_all (quiet_tick service deadline request expected) before"
    and "tk_time tk \<le> deadline" "\<forall>s. snd (service s (tk_service tk)) = None"
    and "tk_read tk = Inr c" "c \<noteq> []" "validate_device_reply c request expected = Inr reply"
  shows "\<exists>s'. exchange_loop service after began deadline request expected stale s (before @ tk # rest) =
    Some (s', Inr \<lparr>er_reply = Some reply, er_latency_ms = elapsed_ms began (tk_later tk),
               er_error = None\<rparr>)"
  using assms(1)
proof (induction before arbitrary: stale s)
  case Nil
  obtain s1 where "service s (tk_service tk) = (s1, None)" using assms(3) by (metis prod.collapse)
  then show ?case using assms by simp
next
  case (Cons q before)
  then obtain s1 c' where "service s (tk_service q) = (s1, None)" "tk_time q \<le> deadline" "tk_read q = Inr c'"
      "c' = [] \<or> (\<exists>m. validate_device_reply c' request expected = Inl (ValueError m))"
    unfolding quiet_tick_def list.pred_inject by (metis prod.collapse)
  then show ?case using Cons by auto
qed

lemma drain_all:
  "Inr [] \<in> set rs \<Longrightarrow> list_all (\<lambda>r. \<exists>b. r = Inr b) rs \<Longrightarrow> drain rs = Some (Inr ())"
  by (induction rs rule: drain.induct) auto

lemma validate_device_reply_nonempty: "validate_device_reply [] request expected \<noteq> Inr reply"
  using validate_device_reply_cases(1) [of "[]" request expected reply]
  by (auto simp: decode_hid_def normalize_hid_input_def)

lemma exchange_hid_request_loop:
  assumes "drain (hw_queued w) = Some (Inr ())" "message_encode request = Inr r"
    and "hw_write w = Inr 65"
  shows "exchange_hid_request service s w request timeout expected =
    exchange_loop service (hw_after w) (hw_began w) (hw_began w + timeout) request expected None s (hw_ticks w)"
  using assms by (simp add: exchange_hid_request_def Let_def hid_output_report_def length_message_encode)

text \<open>
  A script after which the device says nothing more: the queue of reports ends, and the clock goes
  on to the deadline.  An exchange in such a world returns.
\<close>

definition falls_silent :: "rat \<Rightarrow> 'i \<Rightarrow> 'i hid_world \<Rightarrow> 'i hid_world" where
  "falls_silent timeout i w = w\<lparr>hw_queued := hw_queued w @ [Inr []],
     hw_ticks := hw_ticks w @ [\<lparr>tk_time = hw_began w + timeout + 1, tk_service = i, tk_read = Inr [],
                               tk_later = hw_began w + timeout + 1\<rparr>]\<rparr>"

lemma drain_silent: "drain (rs @ [Inr []]) \<noteq> None"
  by (induction rs rule: drain.induct) auto

lemma exchange_returns:
  "exchange_hid_request service s (falls_silent timeout i w) request timeout expected \<noteq> None"
proof -
  have "exchange_loop service (hw_after w) (hw_began w) (hw_began w + timeout) request expected None s
      (hw_ticks (falls_silent timeout i w)) \<noteq> None"
    by (rule exchange_loop_terminates) (simp add: falls_silent_def)
  then show ?thesis
    using drain_silent [of "hw_queued w"]
    by (auto simp: exchange_hid_request_def Let_def falls_silent_def split: sum.split)
qed

text \<open>The bytes a list of reads delivered.\<close>

definition read_data :: "(rat \<times> (string + bytes)) list \<Rightarrow> bytes" where
  "read_data reads = concat (map (\<lambda>(_, r). case r of Inr c \<Rightarrow> c | Inl _ \<Rightarrow> []) reads)"

lemma read_data_Cons: "read_data ((now, Inr c) # reads) = c @ read_data reads"
  by (simp add: read_data_def)

lemma status_loop_sound:
  "status_loop deadline received reads = Some (Inr block) \<Longrightarrow>
     starts_with block STATUS_BEGIN \<and> ends_with block STATUS_END
     \<and> (\<exists>n b e. block = pyslice b e (received @ read_data (take n reads)))"
proof (induction deadline received reads rule: status_loop.induct)
  case (2 deadline received now read rest)
  from "2.prems" obtain chunk where t: "now \<le> deadline" and r: "read = Inr chunk"
    by (auto split: if_splits sum.splits)
  consider (more) "status_loop deadline (received @ chunk) rest = Some (Inr block)"
        "chunk = [] \<or> bfind STATUS_END (received @ chunk) = None"
    | (frame) e b where "bfind STATUS_END (received @ chunk) = Some e"
        "brfind STATUS_BEGIN e (received @ chunk) = Some b"
        "block = pyslice b (e + length STATUS_END) (received @ chunk)"
    using "2.prems" t r by (auto simp: Let_def split: if_splits option.splits)
  then show ?case
  proof cases
    case more
    then have "starts_with block STATUS_BEGIN \<and> ends_with block STATUS_END
        \<and> (\<exists>n b e. block = pyslice b e ((received @ chunk) @ read_data (take n rest)))"
      using "2.IH" t r by (cases "chunk = []") auto
    then obtain n b e where m: "starts_with block STATUS_BEGIN" "ends_with block STATUS_END"
        "block = pyslice b e ((received @ chunk) @ read_data (take n rest))" by blast
    then have "block = pyslice b e (received @ read_data (take (Suc n) ((now, read) # rest)))"
      using r by (simp add: read_data_Cons)
    with m show ?thesis by blast
  next
    case frame
    have "b \<le> e" using brfind_Some(2) [OF frame(2)] by simp
    have "starts_with block STATUS_BEGIN"
      unfolding frame(3) using brfind_Some [OF frame(2)] by (intro starts_with_slice) auto
    moreover have "ends_with block STATUS_END"
      unfolding frame(3) using bfind_Some(1) [OF frame(1)] \<open>b \<le> e\<close> by (rule ends_with_slice)
    moreover have "block = pyslice b (e + length STATUS_END)
        (received @ read_data (take 1 ((now, read) # rest)))"
      using frame(3) r by (simp add: read_data_def)
    ultimately show ?thesis by blast
  qed
qed simp

section \<open>Properties\<close>

text \<open>C23. An exchange never reports both a reply and an error, nor neither; a reply it reports was
  read before the deadline, after the request went out complete, and passed validation against
  that request, so records that belong to earlier requests are never returned.\<close>

theorem exchange_sound:
  assumes "exchange_hid_request service s w request timeout expected = Some (s', Inr res)"
  shows "case er_reply res of
      None \<Rightarrow> er_error res \<noteq> None
    | Some reply \<Rightarrow> er_error res = None \<and> message_wf request \<and> hw_write w = Inr 65
        \<and> msg_sequence reply = msg_sequence request
        \<and> (\<exists>tk c. tk \<in> set (hw_ticks w) \<and> tk_time tk \<le> hw_began w + timeout \<and> tk_read tk = Inr c
             \<and> validate_device_reply c request expected = Inr reply)"
proof -
  consider (failed) "er_reply res = None" "er_error res \<noteq> None"
    | (sent) "hw_write w = Inr 65" "is_ok (message_encode request)"
        "exchange_loop service (hw_after w) (hw_began w) (hw_began w + timeout) request expected None s
           (hw_ticks w) = Some (s', Inr res)"
    using assms
    by (auto simp: exchange_hid_request_def Let_def exchange_disconnected_def is_ok_iff
        split: option.splits sum.splits if_splits)
  then show ?thesis
  proof cases
    case failed
    then show ?thesis by simp
  next
    case sent
    have "message_wf request" using sent(2) by (auto simp: is_ok_iff message_encode_eq)
    then show ?thesis
      using exchange_loop_sound [OF sent(3)] sent(1) validate_device_reply_cases(2)
      by (fastforce split: option.splits)
  qed
qed

theorem exchange_sound_witness:
  "\<exists>s' res. exchange_hid_request (\<lambda>s i. (s, None)) ()
      \<lparr>hw_began = 0, hw_queued = [Inr []], hw_write = Inr 65, hw_now = 0,
       hw_ticks = [\<lparr>tk_time = 3, tk_service = (), tk_read = Inr [], tk_later = 3\<rparr>], hw_after = []\<rparr>
      (Message TYPE_MEMORY_REQUEST 9 [1]) 2 None = Some (s', Inr res) \<and> er_error res \<noteq> None"
proof -
  let ?w = "\<lparr>hw_began = 0, hw_queued = [Inr []], hw_write = Inr 65, hw_now = 0,
       hw_ticks = [\<lparr>tk_time = 3, tk_service = (), tk_read = Inr [], tk_later = 3\<rparr>], hw_after = []\<rparr>"
  obtain r where "message_encode (Message TYPE_MEMORY_REQUEST 9 [1]) = Inr r"
    using message_encode_ok [of "Message TYPE_MEMORY_REQUEST 9 [1]"] by (auto simp: message_wf_def)
  then obtain res where res: "exchange_hid_request (\<lambda>s i. (s, None)) () ?w (Message TYPE_MEMORY_REQUEST 9 [1]) 2 None
      = Some ((), Inr res)" and n: "er_reply res = None"
    by (simp add: exchange_hid_request_loop [of ?w] exchange_timeout_def)
  show ?thesis using exchange_sound [OF res] res n by auto
qed

text \<open>C24. The exchange returns and delivers: whatever was queued before, if the request is complete
  and the first record that validates arrives before the deadline, after any number of empty reads
  and stale records, then that reply is returned; and once the clock passes the deadline the loop
  ends.\<close>

theorem exchange_live:
  assumes "Inr [] \<in> set (hw_queued w)" "list_all (\<lambda>r. \<exists>b. r = Inr b) (hw_queued w)"
    and "message_wf request" "hw_write w = Inr 65"
  shows "((\<exists>tk \<in> set (hw_ticks w). hw_began w + timeout < tk_time tk) \<longrightarrow>
            exchange_hid_request service s w request timeout expected \<noteq> None)
    \<and> (\<forall>before tk rest c reply.
         hw_ticks w = before @ tk # rest
         \<and> list_all (quiet_tick service (hw_began w + timeout) request expected) before
         \<and> tk_time tk \<le> hw_began w + timeout \<and> (\<forall>s. snd (service s (tk_service tk)) = None)
         \<and> tk_read tk = Inr c \<and> validate_device_reply c request expected = Inr reply \<longrightarrow>
         (\<exists>s'. exchange_hid_request service s w request timeout expected = Some (s', Inr
           \<lparr>er_reply = Some reply, er_latency_ms = elapsed_ms (hw_began w) (tk_later tk),
            er_error = None\<rparr>)))"
proof -
  obtain r where "message_encode request = Inr r" using assms(3) message_encode_ok by blast
  note loop = exchange_hid_request_loop [OF drain_all [OF assms(1,2)] this assms(4), of service s timeout expected]
  have "\<exists>s'. exchange_hid_request service s w request timeout expected = Some (s', Inr
           \<lparr>er_reply = Some reply, er_latency_ms = elapsed_ms (hw_began w) (tk_later tk),
            er_error = None\<rparr>)"
    if "hw_ticks w = before @ tk # rest"
      "list_all (quiet_tick service (hw_began w + timeout) request expected) before"
      "tk_time tk \<le> hw_began w + timeout" "\<forall>s. snd (service s (tk_service tk)) = None" "tk_read tk = Inr c"
      "validate_device_reply c request expected = Inr reply" for before tk rest c reply
  proof -
    have "c \<noteq> []" using that(6) validate_device_reply_nonempty by blast
    then show ?thesis
      unfolding loop that(1) using exchange_loop_delivers [OF that(2-5) _ that(6)] by blast
  qed
  moreover have "(\<exists>tk \<in> set (hw_ticks w). hw_began w + timeout < tk_time tk) \<longrightarrow>
      exchange_hid_request service s w request timeout expected \<noteq> None"
    unfolding loop by (intro impI exchange_loop_terminates)
  ultimately show ?thesis by blast
qed

theorem exchange_live_witness:
  "\<exists>r s'. exchange_hid_request (\<lambda>s i. (s, None)) ()
      \<lparr>hw_began = 0, hw_queued = [Inr [1], Inr []], hw_write = Inr 65, hw_now = 0,
       hw_ticks = [\<lparr>tk_time = 0, tk_service = (), tk_read = Inr [], tk_later = 0\<rparr>,
                   \<lparr>tk_time = 1, tk_service = (), tk_read = Inr r, tk_later = 1\<rparr>], hw_after = []\<rparr>
      (Message TYPE_MEMORY_REQUEST 9 [1]) 2 None
    = Some (s', Inr \<lparr>er_reply = Some (Message TYPE_MEMORY_RESULT 9 [1, 2]), er_latency_ms = 1000,
                 er_error = None\<rparr>)"
proof -
  have wf: "message_wf (Message TYPE_MEMORY_RESULT 9 [1, 2])" "message_wf (Message TYPE_MEMORY_REQUEST 9 [1])"
    by (simp_all add: message_wf_def)
  then obtain r where "message_encode (Message TYPE_MEMORY_RESULT 9 [1, 2]) = Inr r"
    using message_encode_ok by blast
  then have v: "validate_device_reply r (Message TYPE_MEMORY_REQUEST 9 [1]) None
      = Inr (Message TYPE_MEMORY_RESULT 9 [1, 2])"
    by (intro validate_memory_type_reply decode_hid_raw) simp_all
  let ?t0 = "\<lparr>tk_time = 0, tk_service = (), tk_read = Inr [], tk_later = 0\<rparr>"
  let ?t1 = "\<lparr>tk_time = 1, tk_service = (), tk_read = Inr r, tk_later = 1\<rparr>"
  let ?w = "\<lparr>hw_began = 0, hw_queued = [Inr [1], Inr []], hw_write = Inr 65, hw_now = 0,
       hw_ticks = [?t0, ?t1], hw_after = []\<rparr>"
  have "\<exists>s'. exchange_hid_request (\<lambda>s i. (s, None)) () ?w (Message TYPE_MEMORY_REQUEST 9 [1]) 2 None = Some (s', Inr
     \<lparr>er_reply = Some (Message TYPE_MEMORY_RESULT 9 [1, 2]),
      er_latency_ms = elapsed_ms (hw_began ?w) (tk_later ?t1), er_error = None\<rparr>)"
    by (rule exchange_live [THEN conjunct2, rule_format, of ?w _ "[?t0]" ?t1 "[]" _ _ _ r])
       (use wf v in \<open>simp_all add: quiet_tick_def\<close>)
  then show ?thesis by (auto simp: elapsed_ms_def)
qed

text \<open>A status block the host accepts is one complete frame: it starts with the begin marker,
  ends with the end marker, and is a contiguous part of what the device sent.\<close>

theorem status_frame_sound:
  assumes "send_status_request deadline reads = Some (Inr block)"
  shows "starts_with block STATUS_BEGIN \<and> ends_with block STATUS_END
    \<and> (\<exists>n b e. block = pyslice b e (read_data (take n reads)))"
  using status_loop_sound [of deadline "[]" reads block] assms
  by (simp add: send_status_request_def)

theorem status_frame_sound_witness:
  "\<exists>block. send_status_request 1 [(0, Inr (STATUS_BEGIN @ [10] @ STATUS_END))] = Some (Inr block)
     \<and> starts_with block STATUS_BEGIN \<and> ends_with block STATUS_END"
proof -
  have "case_option False is_ok
      (send_status_request 1 [(0, Inr (STATUS_BEGIN @ [10] @ STATUS_END))])" by code_simp
  then obtain block where
      b: "send_status_request 1 [(0, Inr (STATUS_BEGIN @ [10] @ STATUS_END))] = Some (Inr block)"
    by (auto simp: is_ok_iff split: option.splits)
  show ?thesis using status_frame_sound [OF b] b by blast
qed

end
