(* ===== verification/Runtime_State.thy ===== *)
theory Runtime_State
  imports Workload Py_Json
begin

unbundle bit_operations_syntax

text \<open>
  The host's typed view of workload and processor (\<open>host/rp86/runtime_state.py\<close>): the request
  sequence counter, the native-processor observation, the workload state decoded from status
  payloads, and the snapshot published to clients.
\<close>

section \<open>Request sequence and observation\<close>

definition WORKLOAD_STATE_NAMES :: "int \<rightharpoonup> string" where
  "WORKLOAD_STATE_NAMES = map_of
     [(0, ''EMPTY''), (1, ''RECEIVING''), (2, ''STAGED''), (3, ''RUNNING''), (4, ''STOPPED''),
      (5, ''COMPLETED''), (6, ''FAULTED''), (7, ''TIMED_OUT'')]"

record request_sequence =
  rs_value :: int

definition RequestSequence :: "int \<Rightarrow> request_sequence" where
  "RequestSequence v = (let w = v AND 0xFFFFFFFF in \<lparr>rs_value = (if w = 0 then 1 else w)\<rparr>)"

definition advance_after :: "request_sequence \<Rightarrow> int \<Rightarrow> request_sequence \<times> int" where
  "advance_after rs sequence =
     (let v = (let n = (sequence + 1) AND 0xFFFFFFFF in if n \<noteq> 0 then n else 1)
      in (rs\<lparr>rs_value := v\<rparr>, v))"

record observation_state =
  ob_boot_id :: "int option"
  ob_cpu_sequence :: "int option"
  ob_command_sequence :: "int option"
  ob_processor :: "string option"
  ob_connected :: bool

definition ProcessorObservationState :: observation_state where
  "ProcessorObservationState = \<lparr>ob_boot_id = None, ob_cpu_sequence = None,
     ob_command_sequence = None, ob_processor = None, ob_connected = False\<rparr>"

definition accept_witness :: "observation_state \<Rightarrow> native_witness \<Rightarrow> observation_state" where
  "accept_witness st w = st\<lparr>ob_boot_id := Some (nw_boot_id w),
     ob_cpu_sequence := Some (nw_cpu_sequence w),
     ob_command_sequence := Some (nw_command_sequence w),
     ob_processor := witness_processor w, ob_connected := True\<rparr>"

definition mark_disconnected :: "observation_state \<Rightarrow> observation_state" where
  "mark_disconnected st = st\<lparr>ob_connected := False\<rparr>"

section \<open>Derived state\<close>

abbreviation (input) PROCESSOR_SIGNATURE_INTEL_8086 :: int where
  "PROCESSOR_SIGNATURE_INTEL_8086 \<equiv> 0x0012"
abbreviation (input) PROCESSOR_SIGNATURE_NEC_V30 :: int where
  "PROCESSOR_SIGNATURE_NEC_V30 \<equiv> 0x000C"

definition workload_state_name :: "int \<Rightarrow> string" where
  "workload_state_name state = (case WORKLOAD_STATE_NAMES state of
     Some n \<Rightarrow> n | None \<Rightarrow> ''UNKNOWN('' @ dec state @ '')'')"

definition processor_execution_state :: "int \<Rightarrow> int \<Rightarrow> string" where
  "processor_execution_state clock_mode processor_flags =
     (if processor_flags AND PROCESSOR_FLAG_IDLE \<noteq> 0 then ''IDLE / HLT''
      else if CLOCK_MODES ''stopped'' = Some clock_mode then ''STOPPED / RESET''
      else ''ACTIVE'')"

definition workload_upload_requires_stop :: "int \<Rightarrow> bool" where
  "workload_upload_requires_stop workload_state \<longleftrightarrow> workload_state \<in> {3, 5}"

definition prepared_runtime_is_available :: "int \<Rightarrow> int \<Rightarrow> int \<Rightarrow> bool" where
  "prepared_runtime_is_available clock_mode workload_state processor_flags \<longleftrightarrow>
     workload_state = 0
     \<and> processor_flags AND PROCESSOR_FLAG_PREPARED_RUNTIME_INITIALIZED \<noteq> 0
     \<and> Some clock_mode \<in> {CLOCK_MODES ''auto'', CLOCK_MODES ''free-running''}"

record workload_state =
  ws_workload_id :: int
  ws_lifecycle :: int
  ws_detail :: int
  ws_clock_mode :: int
  ws_cycles :: int
  ws_processor_flags :: int
  ws_result_flags :: int
  ws_completion_reason :: int
  ws_processor_signature :: int
  ws_native_output :: bytes
  ws_structured_result :: bool

definition WorkloadRuntimeState :: workload_state where
  "WorkloadRuntimeState = \<lparr>ws_workload_id = 0, ws_lifecycle = 0, ws_detail = 0, ws_clock_mode = 0,
     ws_cycles = 0, ws_processor_flags = 0, ws_result_flags = 0, ws_completion_reason = 0,
     ws_processor_signature = 0, ws_native_output = [], ws_structured_result = False\<rparr>"

definition from_payload :: "bytes \<Rightarrow> workload_state res" where
  "from_payload payload =
     rmap (\<lambda>(wid, lifecycle, detail, clock_mode, cycles, processor_flags, result_flags,
             completion_reason, signature, output, structured).
        \<lparr>ws_workload_id = wid, ws_lifecycle = lifecycle, ws_detail = detail,
         ws_clock_mode = clock_mode, ws_cycles = cycles, ws_processor_flags = processor_flags,
         ws_result_flags = result_flags, ws_completion_reason = completion_reason,
         ws_processor_signature = signature, ws_native_output = output,
         ws_structured_result = structured\<rparr>)
       (decode_structured_status_payload payload)"

text \<open>The update happens after the decoding succeeded; an exception leaves the state alone.\<close>

definition update_from_payload :: "workload_state \<Rightarrow> bytes \<Rightarrow> workload_state \<times> unit res" where
  "update_from_payload st payload = (case from_payload payload of
     Inl e \<Rightarrow> (st, Inl e)
   | Inr updated \<Rightarrow> (st\<lparr>ws_workload_id := ws_workload_id updated,
       ws_lifecycle := ws_lifecycle updated, ws_detail := ws_detail updated,
       ws_clock_mode := ws_clock_mode updated, ws_cycles := ws_cycles updated,
       ws_processor_flags := ws_processor_flags updated,
       ws_result_flags := ws_result_flags updated,
       ws_completion_reason := ws_completion_reason updated,
       ws_processor_signature := ws_processor_signature updated,
       ws_native_output := ws_native_output updated,
       ws_structured_result := ws_structured_result updated\<rparr>, Inr ()))"

definition lifecycle_name :: "workload_state \<Rightarrow> string" where
  "lifecycle_name st = workload_state_name (ws_lifecycle st)"

definition clock_name :: "workload_state \<Rightarrow> string" where
  "clock_name st = (case CLOCK_MODE_NAMES (ws_clock_mode st) of
     Some n \<Rightarrow> n | None \<Rightarrow> ''UNKNOWN('' @ dec (ws_clock_mode st) @ '')'')"

definition processor_state :: "workload_state \<Rightarrow> string" where
  "processor_state st = processor_execution_state (ws_clock_mode st) (ws_processor_flags st)"

definition prepared_runtime_available :: "workload_state \<Rightarrow> bool" where
  "prepared_runtime_available st =
     prepared_runtime_is_available (ws_clock_mode st) (ws_lifecycle st) (ws_processor_flags st)"

definition upload_requires_stop :: "workload_state \<Rightarrow> bool" where
  "upload_requires_stop st = workload_upload_requires_stop (ws_lifecycle st)"

definition ws_completed :: "workload_state \<Rightarrow> bool" where
  "ws_completed st \<longleftrightarrow> ws_lifecycle st = 5"

definition ws_passed :: "workload_state \<Rightarrow> bool" where
  "ws_passed st \<longleftrightarrow> ws_result_flags st AND RESULT_FLAG_PASS \<noteq> 0"

definition processor_identified :: "workload_state \<Rightarrow> bool" where
  "processor_identified st \<longleftrightarrow> ws_result_flags st AND RESULT_FLAG_PROCESSOR_IDENTIFIED \<noteq> 0
     \<and> ws_processor_signature st \<in> {PROCESSOR_SIGNATURE_INTEL_8086, PROCESSOR_SIGNATURE_NEC_V30}"

text \<open>The dictionary lookup raises \<open>KeyError\<close> for a missing signature.\<close>

definition ws_processor :: "workload_state \<Rightarrow> string option res" where
  "ws_processor st =
     (if \<not> processor_identified st then Inr None
      else case map_of [(PROCESSOR_SIGNATURE_INTEL_8086, ''intel-8086''),
                        (PROCESSOR_SIGNATURE_NEC_V30, ''nec-v30'')] (ws_processor_signature st) of
        Some n \<Rightarrow> Inr (Some n) | None \<Rightarrow> Inl KeyError)"

definition RESULT_PASS_TEXT :: bytes where
  "RESULT_PASS_TEXT = bytes_of_string ''RESULT: PASS''"

definition physical_regression_passed :: "workload_state \<Rightarrow> bool" where
  "physical_regression_passed st \<longleftrightarrow> ws_completed st \<and> ws_passed st \<and> processor_identified st
     \<and> ws_completion_reason st = 2 \<and> ws_native_output st = RESULT_PASS_TEXT"

definition completion_reason_name :: "workload_state \<Rightarrow> string" where
  "completion_reason_name st = (case COMPLETION_REASONS (ws_completion_reason st) of
     Some n \<Rightarrow> n | None \<Rightarrow> ''UNKNOWN('' @ dec (ws_completion_reason st) @ '')'')"

definition ELLIPSIS :: string where
  "ELLIPSIS = map char_of [0xE2, 0x80, 0xA6 :: nat]"

definition native_output_text :: "workload_state \<Rightarrow> string" where
  "native_output_text st =
     (let t = utf8_decode_replace (ws_native_output st) in
      if ws_result_flags st AND RESULT_FLAG_NATIVE_OUTPUT_TRUNCATED \<noteq> 0 then t @ ELLIPSIS else t)"

definition mark_idle :: "workload_state \<Rightarrow> workload_state" where
  "mark_idle st = st\<lparr>ws_processor_flags := ws_processor_flags st OR PROCESSOR_FLAG_IDLE\<rparr>"

definition mark_prepared_runtime_initialized :: "workload_state \<Rightarrow> workload_state" where
  "mark_prepared_runtime_initialized st = st\<lparr>ws_processor_flags :=
     ws_processor_flags st OR PROCESSOR_FLAG_PREPARED_RUNTIME_INITIALIZED\<rparr>"

section \<open>Snapshot\<close>

record runtime_snapshot =
  sn_transport_state :: string
  sn_processor_mode :: string
  sn_request_sequence :: int
  sn_observation :: observation_state
  sn_workload :: workload_state

definition snapshot_as_dict :: "runtime_snapshot \<Rightarrow> (string \<times> json) list" where
  "snapshot_as_dict sn = (let w = sn_workload sn; ob = sn_observation sn; result_pass = ws_passed w in
     [(''state'', JStr (sn_transport_state sn)),
      (''processor'', JStr (sn_processor_mode sn)),
      (''request_sequence'', JInt (sn_request_sequence sn)),
      (''boot_id'', opt_int (ob_boot_id ob)),
      (''cpu_sequence'', opt_int (ob_cpu_sequence ob)),
      (''command_sequence'', opt_int (ob_command_sequence ob)),
      (''native_processor'', opt_str (ob_processor ob)),
      (''workload_id'', JInt (ws_workload_id w)),
      (''workload_state'', JStr (lifecycle_name w)),
      (''workload_detail'', JInt (ws_detail w)),
      (''workload_clock_mode'', JStr (clock_name w)),
      (''workload_cycles'', JInt (ws_cycles w)),
      (''workload_processor_flags'', JInt (ws_processor_flags w)),
      (''workload_processor_state'', JStr (processor_state w)),
      (''workload_result_structured'', JBool (ws_structured_result w)),
      (''workload_result_pass'', JBool result_pass),
      (''workload_completion_reason'', JStr (completion_reason_name w)),
      (''workload_processor_signature'', JInt (ws_processor_signature w)),
      (''workload_native_output'', JStr (native_output_text w)),
      (''native_result_pass'', JBool result_pass)])"

section \<open>Lemmas\<close>

definition sequence_ok :: "request_sequence \<Rightarrow> bool" where
  "sequence_ok rs \<longleftrightarrow> 1 \<le> rs_value rs \<and> rs_value rs < 0x100000000"

lemma advance_after_next [simp]:
  "advance_after rs s = (rs\<lparr>rs_value := next_sequence s\<rparr>, next_sequence s)"
  by (simp add: advance_after_def next_sequence_def Let_def)

lemma sequence_ok_new: "sequence_ok (RequestSequence v)"
proof -
  have "0 \<le> v mod 0x100000000" "v mod 0x100000000 < 0x100000000" by simp_all
  then show ?thesis
    unfolding RequestSequence_def sequence_ok_def Let_def and_mask32
    by (auto simp: le_less)
qed

lemma sequence_ok_advance: "sequence_ok (fst (advance_after rs s))"
  using next_sequence_bounds [of s] by (simp add: sequence_ok_def)

lemma status_fields:
  "unpack_fields STRUCTURED_STATUS b =
     [SInt (le_int (take 4 b)), SInt (le_int (take 4 (drop 4 b))),
      SInt (le_int (take 4 (drop 8 b))), SInt (le_int (take 4 (drop 12 b))),
      SInt (le_int (take 4 (drop 16 b))), SInt (le_int (take 4 (drop 20 b))),
      SInt (le_int (take 4 (drop 24 b))), SInt (le_int (take 4 (drop 28 b))),
      SInt (le_int (take 2 (drop 32 b))), SInt (le_int (take 2 (drop 34 b))),
      SBytes (take 16 (drop 36 b))]"
  by (simp add: codec_simps del: One_nat_def)

lemma from_payload_eq:
  "from_payload p = Inr st \<longleftrightarrow> length p = 52 \<and> le_int (take 2 (drop 34 p)) \<le> 16
     \<and> st = \<lparr>ws_workload_id = le_int (take 4 p), ws_lifecycle = le_int (take 4 (drop 4 p)),
         ws_detail = le_int (take 4 (drop 8 p)), ws_clock_mode = le_int (take 4 (drop 12 p)),
         ws_cycles = le_int (take 4 (drop 16 p)), ws_processor_flags = le_int (take 4 (drop 20 p)),
         ws_result_flags = le_int (take 4 (drop 24 p)),
         ws_completion_reason = le_int (take 4 (drop 28 p)),
         ws_processor_signature = le_int (take 2 (drop 32 p)),
         ws_native_output = take (nat (le_int (take 2 (drop 34 p)))) (drop 36 p),
         ws_structured_result = True\<rparr>"
proof (cases "length p = 52")
  case True
  then show ?thesis
    by (auto simp: from_payload_def decode_structured_status_payload_def unpack_def status_fields
        min_absorb1 split: if_splits)
qed (simp add: from_payload_def decode_structured_status_payload_def)

lemma from_payload_bounds:
  assumes "from_payload p = Inr st"
  shows "length (ws_native_output st) \<le> 16"
    and "0 \<le> ws_lifecycle st" "ws_lifecycle st < 0x100000000"
    and "0 \<le> ws_processor_signature st" "ws_processor_signature st < 0x10000"
proof -
  have len: "length p = 52" using assms by (simp add: from_payload_eq)
  have b: "le_int (take n (drop i p)) < 256 ^ n" if "i + n \<le> 52" for n i
    by (rule le_int_take_less) (use len that in simp)
  show "length (ws_native_output st) \<le> 16" "0 \<le> ws_lifecycle st" "ws_lifecycle st < 0x100000000"
    "0 \<le> ws_processor_signature st" "ws_processor_signature st < 0x10000"
    using assms len b [of 4 4] b [of 32 2] by (auto simp: from_payload_eq min_def)
qed

lemma update_from_payload_eq:
  "update_from_payload st p = (case from_payload p of Inl e \<Rightarrow> (st, Inl e) | Inr u \<Rightarrow> (u, Inr ()))"
  by (auto simp: update_from_payload_def split: sum.split)

lemma ws_processor_total: "\<exists>p. ws_processor st = Inr p"
  by (auto simp: ws_processor_def processor_identified_def)

section \<open>Properties\<close>

text \<open>C25. The request counter never holds zero and never leaves 32 bits: the constructor
  normalises any integer, and advancing after any sequence number gives its successor, except
  that it wraps from the largest number to one.\<close>

theorem request_sequence_invariant:
  "1 \<le> rs_value (RequestSequence v) \<and> rs_value (RequestSequence v) < 0x100000000
   \<and> (1 \<le> v \<and> v < 0x100000000 \<longrightarrow> rs_value (RequestSequence v) = v)
   \<and> 1 \<le> rs_value (fst (advance_after rs s)) \<and> rs_value (fst (advance_after rs s)) < 0x100000000
   \<and> snd (advance_after rs s) = rs_value (fst (advance_after rs s))
   \<and> (0 \<le> s \<and> s < 0xFFFFFFFF \<longrightarrow> rs_value (fst (advance_after rs s)) = s + 1)
   \<and> rs_value (fst (advance_after rs 0xFFFFFFFF)) = 1"
proof -
  have "next_sequence 0xFFFFFFFF = 1" by (simp add: next_sequence_def)
  moreover have "0 \<le> s \<and> s < 0xFFFFFFFF \<longrightarrow> next_sequence s = s + 1"
    by (auto simp: next_sequence_def Let_def)
  moreover have "1 \<le> v \<and> v < 0x100000000 \<longrightarrow> rs_value (RequestSequence v) = v"
    by (auto simp: RequestSequence_def Let_def)
  ultimately show ?thesis
    using sequence_ok_new [of v] next_sequence_bounds [of s] by (simp add: sequence_ok_def)
qed

theorem request_sequence_invariant_witness:
  "rs_value (fst (advance_after (RequestSequence 5) 5)) = 6 \<and> rs_value (RequestSequence 5) = 5"
  using request_sequence_invariant [of 5 "RequestSequence 5" 5] by simp


text \<open>The snapshot published to clients has distinct keys, and its two pass keys agree with the
  result flags of the workload state it was made from.\<close>

theorem snapshot_coherent:
  "distinct (map fst (snapshot_as_dict sn))
   \<and> dget (snapshot_as_dict sn) ''workload_result_pass'' = JBool (ws_passed (sn_workload sn))
   \<and> dget (snapshot_as_dict sn) ''native_result_pass''
       = dget (snapshot_as_dict sn) ''workload_result_pass''
   \<and> dget (snapshot_as_dict sn) ''request_sequence'' = JInt (sn_request_sequence sn)"
  by (simp add: snapshot_as_dict_def Let_def dget_def)

end
