(* ===== verification/Diagnostics.thy ===== *)
theory Diagnostics
  imports Workload Py_Json
begin

unbundle bit_operations_syntax

text \<open>
  The two read-only supervision services: bus diagnostics of the stopped executor
  (\<open>host/rp86/diagnostics.py\<close>) and the workload execution limit
  (\<open>host/rp86/workload_timeout.py\<close>, without the decimal text parser \<open>parse_timeout\<close>).
  Both replies are thirteen little-endian words.
\<close>

definition WORDS13 :: "sfield list" where
  "WORDS13 = [SU 4, SU 4, SU 4, SU 4, SU 4, SU 4, SU 4, SU 4, SU 4, SU 4, SU 4, SU 4, SU 4]"

section \<open>Bus diagnostics\<close>

definition CYCLE_NAMES :: "int \<rightharpoonup> string" where
  "CYCLE_NAMES = map_of [(0, ''MEM_READ''), (1, ''MEM_WRITE''), (2, ''IO_READ''),
     (3, ''IO_WRITE''), (4, ''INTERRUPT_ACK''), (5, ''UNSUPPORTED'')]"

abbreviation (input) DIAGNOSTICS_CYCLE_VALID :: int where "DIAGNOSTICS_CYCLE_VALID \<equiv> 1"
abbreviation (input) DIAGNOSTICS_DATA_VALID :: int where "DIAGNOSTICS_DATA_VALID \<equiv> 2"
abbreviation (input) DIAGNOSTICS_NO_CYCLE :: int where "DIAGNOSTICS_NO_CYCLE \<equiv> 4"
abbreviation (input) DIAGNOSTICS_UNMAPPED :: int where "DIAGNOSTICS_UNMAPPED \<equiv> 8"
abbreviation (input) DIAGNOSTICS_INVALID_LANE :: int where "DIAGNOSTICS_INVALID_LANE \<equiv> 16"
abbreviation (input) DIAGNOSTICS_PAD_MISMATCH :: int where "DIAGNOSTICS_PAD_MISMATCH \<equiv> 32"
abbreviation (input) DIAGNOSTICS_CLOCK_FAILURE :: int where "DIAGNOSTICS_CLOCK_FAILURE \<equiv> 64"
abbreviation (input) DIAGNOSTICS_INTERRUPT_ACK :: int where "DIAGNOSTICS_INTERRUPT_ACK \<equiv> 128"

definition FAULT_FLAGS :: "(int \<times> string) list" where
  "FAULT_FLAGS = [(DIAGNOSTICS_NO_CYCLE, ''NO_CYCLE''), (DIAGNOSTICS_UNMAPPED, ''UNMAPPED''),
     (DIAGNOSTICS_INVALID_LANE, ''INVALID_LANE''), (DIAGNOSTICS_PAD_MISMATCH, ''PAD_MISMATCH''),
     (DIAGNOSTICS_CLOCK_FAILURE, ''CLOCK_FAILURE''), (DIAGNOSTICS_INTERRUPT_ACK, ''INTERRUPT_ACK'')]"

definition diagnostics_request :: "int \<Rightarrow> int \<Rightarrow> message res" where
  "diagnostics_request workload_id sequence =
     rmap (Message TYPE_DIAGNOSTICS_REQUEST sequence) (pack [SU 4] [SInt workload_id])"

record bus_diagnostics =
  bd_workload_id :: int
  bd_boot_id :: int
  bd_lifecycle :: int
  bd_completion_reason :: int
  bd_cycles :: int
  bd_last_address :: int
  bd_last_data :: int
  bd_cycle_type :: int
  bd_lanes :: int
  bd_flags :: int

definition diagnostics_reason :: "int \<rightharpoonup> string" where
  "diagnostics_reason = map_of
     [(STATUS_BAD_STATE, ''processor is executing; stop before trace''),
      (STATUS_BAD_WORKLOAD, ''workload changed before diagnostics read''),
      (STATUS_SERVICE_UNAVAILABLE, ''no stopped general-executor diagnostics available'')]"

definition check_diagnostics :: "bus_diagnostics \<Rightarrow> int \<Rightarrow> bus_diagnostics res" where
  "check_diagnostics snapshot expected_id =
     (if bd_workload_id snapshot = 0 \<or> (expected_id \<noteq> 0 \<and> bd_workload_id snapshot \<noteq> expected_id)
      then Inl (ValueError ''diagnostics workload mismatch'')
      else if bd_lifecycle snapshot \<notin> {4, 5, 6, 7}
      then Inl (ValueError ''diagnostics did not describe a stopped executor'')
      else if COMPLETION_REASONS (bd_completion_reason snapshot) = None
              \<or> bd_flags snapshot AND NOT 0xFF \<noteq> 0
      then Inl (ValueError ''unknown diagnostics reason or flags'')
      else if bd_flags snapshot AND DIAGNOSTICS_CYCLE_VALID \<noteq> 0
              \<and> (CYCLE_NAMES (bd_cycle_type snapshot) = None \<or> bd_last_address snapshot > 0xFFFFF
                 \<or> bd_lanes snapshot > 3)
      then Inl (ValueError ''invalid diagnostics bus cycle'')
      else if bd_flags snapshot AND DIAGNOSTICS_CYCLE_VALID = 0
              \<and> bd_flags snapshot AND DIAGNOSTICS_DATA_VALID \<noteq> 0
      then Inl (ValueError ''diagnostics data has no valid cycle'')
      else if bd_last_data snapshot > 0xFFFF
      then Inl (ValueError ''invalid diagnostics bus data'')
      else Inr snapshot)"

definition diagnostics_from_reply :: "message \<Rightarrow> message \<Rightarrow> bus_diagnostics res" where
  "diagnostics_from_reply reply request =
     (if msg_type reply \<noteq> TYPE_DIAGNOSTICS_RESULT \<or> msg_sequence reply \<noteq> msg_sequence request
      then Inl (ValueError ''diagnostics reply type/sequence mismatch'')
      else if msg_status reply \<noteq> STATUS_OK
      then Inl (ValueError (case diagnostics_reason (msg_status reply) of Some r \<Rightarrow> r
             | None \<Rightarrow> ''diagnostics status='' @ dec (msg_status reply)))
      else if length (msg_payload reply) \<noteq> calcsize WORDS13
      then Inl (ValueError ''diagnostics payload must be exactly 52 bytes'')
      else rbind (unpack WORDS13 (msg_payload reply)) (\<lambda>values. case values of
        [SInt wid, SInt boot, SInt life, SInt reason, SInt cycles, SInt address, SInt data,
         SInt ctype, SInt lanes, SInt flags, SInt r0, SInt r1, SInt r2] \<Rightarrow>
          if r0 \<noteq> 0 \<or> r1 \<noteq> 0 \<or> r2 \<noteq> 0
          then Inl (ValueError ''diagnostics reserved fields must be zero'')
          else rbind (unpack [SU 4] (msg_payload request)) (\<lambda>e. case e of
            [SInt expected_id] \<Rightarrow> check_diagnostics
               \<lparr>bd_workload_id = wid, bd_boot_id = boot, bd_lifecycle = life,
                bd_completion_reason = reason, bd_cycles = cycles, bd_last_address = address,
                bd_last_data = data, bd_cycle_type = ctype, bd_lanes = lanes, bd_flags = flags\<rparr>
               expected_id
          | _ \<Rightarrow> Inl (ValueError ''not enough values to unpack''))
      | _ \<Rightarrow> Inl (ValueError ''not enough values to unpack'')))"

definition fault_names :: "int \<Rightarrow> string list" where
  "fault_names flags = map snd (filter (\<lambda>(b, name). flags AND b \<noteq> 0) FAULT_FLAGS)"

definition diagnostics_as_dict :: "bus_diagnostics \<Rightarrow> (string \<times> json) list res" where
  "diagnostics_as_dict d =
     (let valid = (bd_flags d AND DIAGNOSTICS_CYCLE_VALID \<noteq> 0) in
      case COMPLETION_REASONS (bd_completion_reason d) of
        None \<Rightarrow> Inl KeyError
      | Some reason \<Rightarrow>
          if valid \<and> CYCLE_NAMES (bd_cycle_type d) = None then Inl KeyError
          else Inr (dmerge
            [(''workload_id'', JInt (bd_workload_id d)), (''boot_id'', JInt (bd_boot_id d)),
             (''lifecycle'', JInt (bd_lifecycle d)),
             (''completion_reason'', JInt (bd_completion_reason d)),
             (''cycles'', JInt (bd_cycles d)), (''last_address'', JInt (bd_last_address d)),
             (''last_data'', JInt (bd_last_data d)), (''cycle_type'', JInt (bd_cycle_type d)),
             (''lanes'', JInt (bd_lanes d)), (''flags'', JInt (bd_flags d))]
            [(''source'', JStr ''firmware_stopped_executor''),
             (''reason'', JStr reason),
             (''last_address'', if valid then JInt (bd_last_address d) else JNull),
             (''last_data'', if bd_flags d AND DIAGNOSTICS_DATA_VALID \<noteq> 0
                             then JInt (bd_last_data d) else JNull),
             (''cycle_name'', if valid then opt_str (CYCLE_NAMES (bd_cycle_type d)) else JNull),
             (''fault_flags'', JList (map JStr (fault_names (bd_flags d))))]))"

definition diagnostics_format :: "bus_diagnostics \<Rightarrow> string res" where
  "diagnostics_format d = rmap (\<lambda>values.
     let address = (if dget values ''last_address'' = JNull then ''unavailable''
                    else ''0x'' @ hexX 5 (bd_last_address d));
         data = (if dget values ''last_data'' = JNull then ''unavailable''
                 else ''0x'' @ hexX 4 (bd_last_data d));
         nl = [char_of (10::nat)];
         cycle = (if truthy (dget values ''cycle_name'') then json_str (dget values ''cycle_name'')
                  else ''unavailable'');
         names = join '','' (fault_names (bd_flags d)) in
     ''Stopped bus diagnostics: workload='' @ dec (bd_workload_id d) @ '' boot=''
       @ dec (bd_boot_id d) @ nl
     @ ''  reason='' @ json_str (dget values ''reason'') @ '' cycles='' @ dec (bd_cycles d) @ nl
     @ ''  last observed cycle='' @ cycle @ '' address='' @ address @ '' lanes=''
       @ dec (bd_lanes d) @ '' data='' @ data @ nl
     @ ''  flags='' @ (if names \<noteq> [] then names else ''none''))
    (diagnostics_as_dict d)"

section \<open>Execution limit\<close>

definition TIMEOUT_REQUEST_FORMAT :: "sfield list" where
  "TIMEOUT_REQUEST_FORMAT = [SU 4, SU 4]"

definition timeout_request :: "int option \<Rightarrow> int \<Rightarrow> message res" where
  "timeout_request timeout_ms sequence =
     (case timeout_ms of
        Some t \<Rightarrow>
          if \<not> (0 \<le> t \<and> t \<le> WORKLOAD_TIMEOUT_MAX_MS)
          then Inl (ValueError ''workload timeout is outside the supported range'')
          else rmap (Message TYPE_WORKLOAD_TIMEOUT_REQUEST sequence)
                 (pack TIMEOUT_REQUEST_FORMAT [SInt WORKLOAD_TIMEOUT_SET, SInt t])
      | None \<Rightarrow> rmap (Message TYPE_WORKLOAD_TIMEOUT_REQUEST sequence)
                 (pack TIMEOUT_REQUEST_FORMAT [SInt WORKLOAD_TIMEOUT_GET, SInt 0]))"

record workload_timeout =
  wt_timeout_ms :: int
  wt_remaining_ms :: int
  wt_workload_id :: int
  wt_boot_id :: int
  wt_armed :: int

definition timeout_from_reply :: "message \<Rightarrow> message \<Rightarrow> workload_timeout res" where
  "timeout_from_reply reply request =
     (if msg_type reply \<noteq> TYPE_WORKLOAD_TIMEOUT_RESULT \<or> msg_sequence reply \<noteq> msg_sequence request
      then Inl (ValueError ''workload timeout reply type/sequence mismatch'')
      else if msg_status reply \<noteq> STATUS_OK
      then if msg_status reply = STATUS_BAD_STATE
           then Inl (ValueError ''execution limit is unavailable for an active prepared workload'')
           else Inl (ValueError (''workload timeout status='' @ dec (msg_status reply)))
      else if length (msg_payload reply) \<noteq> calcsize WORDS13
      then Inl (ValueError ''workload timeout payload must be exactly 52 bytes'')
      else rbind (unpack WORDS13 (msg_payload reply)) (\<lambda>values. case values of
        SInt timeout_ms # SInt remaining_ms # SInt workload_id # SInt boot_id # SInt armed # rest \<Rightarrow>
          if \<exists>v \<in> set rest. v \<noteq> SInt 0
          then Inl (ValueError ''workload timeout reserved fields must be zero'')
          else if timeout_ms > WORKLOAD_TIMEOUT_MAX_MS \<or> armed \<notin> {0, 1}
               \<or> remaining_ms > timeout_ms \<or> (armed = 0 \<and> remaining_ms \<noteq> 0)
               \<or> (armed \<noteq> 0 \<and> \<not> (timeout_ms \<noteq> 0 \<and> workload_id \<noteq> 0 \<and> boot_id \<noteq> 0))
          then Inl (ValueError ''inconsistent workload timeout status'')
          else rbind (unpack TIMEOUT_REQUEST_FORMAT (msg_payload request)) (\<lambda>vs. case vs of
            [SInt operation, SInt value] \<Rightarrow>
              if operation = WORKLOAD_TIMEOUT_SET \<and> timeout_ms \<noteq> value
              then Inl (ValueError ''workload timeout setting was not applied'')
              else Inr \<lparr>wt_timeout_ms = timeout_ms, wt_remaining_ms = remaining_ms,
                        wt_workload_id = workload_id, wt_boot_id = boot_id, wt_armed = armed\<rparr>
          | _ \<Rightarrow> Inl (ValueError ''not enough values to unpack''))
      | _ \<Rightarrow> Inl (ValueError ''not enough values to unpack'')))"

text \<open>Milliseconds as seconds with three decimals (\<open>ms / 1000:.3f\<close>).\<close>

definition seconds3 :: "int \<Rightarrow> string" where
  "seconds3 ms = dec (ms div 1000) @ ''.'' @ zfill 3 (dec (ms mod 1000))"

definition timeout_format :: "workload_timeout \<Rightarrow> string" where
  "timeout_format t =
     (if wt_timeout_ms t = 0 then ''Workload execution limit: OFF (RP2350 supervised)''
      else let state = (if wt_armed t \<noteq> 0
                  then ''armed, remaining='' @ seconds3 (wt_remaining_ms t) @ ''s''
                  else ''not armed'') in
        ''Workload execution limit: '' @ seconds3 (wt_timeout_ms t) @ ''s ('' @ state @ '')''
        @ [char_of (10::nat)]
        @ ''  Deadline is measured from each run/restart, not from the last query.'')"

section \<open>Lemmas\<close>

lemmas diagnostics_format_simps [codec_simps] = WORDS13_def TIMEOUT_REQUEST_FORMAT_def

lemma calcsize_diagnostics [simp]:
  "calcsize WORDS13 = 52" "calcsize TIMEOUT_REQUEST_FORMAT = 8"
  by (simp_all add: codec_simps)

text \<open>Word \<open>i\<close> of a payload.\<close>

definition word_at :: "bytes \<Rightarrow> nat \<Rightarrow> int" where
  "word_at b i = le_int (take 4 (drop (4 * i) b))"

lemma words13_fields:
  "unpack_fields WORDS13 b =
     [SInt (word_at b 0), SInt (word_at b 1), SInt (word_at b 2), SInt (word_at b 3),
      SInt (word_at b 4), SInt (word_at b 5), SInt (word_at b 6), SInt (word_at b 7),
      SInt (word_at b 8), SInt (word_at b 9), SInt (word_at b 10), SInt (word_at b 11),
      SInt (word_at b 12)]"
  by (simp add: codec_simps word_at_def)

lemma word_at_bounds: "4 * i + 4 \<le> length b \<Longrightarrow> 0 \<le> word_at b i \<and> word_at b i < 0x100000000"
  using le_int_take_less [of 4 "drop (4 * i) b"] by (simp add: word_at_def)

lemma check_diagnostics_eq:
  "check_diagnostics d e = Inr d' \<longleftrightarrow> d' = d \<and> bd_workload_id d \<noteq> 0
     \<and> (e \<noteq> 0 \<longrightarrow> bd_workload_id d = e) \<and> bd_lifecycle d \<in> {4, 5, 6, 7}
     \<and> COMPLETION_REASONS (bd_completion_reason d) \<noteq> None \<and> bd_flags d AND NOT 0xFF = 0
     \<and> (bd_flags d AND DIAGNOSTICS_CYCLE_VALID \<noteq> 0 \<longrightarrow> CYCLE_NAMES (bd_cycle_type d) \<noteq> None
          \<and> bd_last_address d \<le> 0xFFFFF \<and> bd_lanes d \<le> 3)
     \<and> (bd_flags d AND DIAGNOSTICS_DATA_VALID \<noteq> 0 \<longrightarrow> bd_flags d AND DIAGNOSTICS_CYCLE_VALID \<noteq> 0)
     \<and> bd_last_data d \<le> 0xFFFF"
  by (auto simp: check_diagnostics_def)

lemma diagnostics_from_reply_InrD:
  assumes "diagnostics_from_reply reply request = Inr d"
  shows "msg_type reply = TYPE_DIAGNOSTICS_RESULT" "msg_sequence reply = msg_sequence request"
    "msg_status reply = STATUS_OK"
    "check_diagnostics d (le_int (msg_payload request)) = Inr d" "length (msg_payload request) = 4"
proof -
  have "length (msg_payload reply) = 52" "msg_type reply = TYPE_DIAGNOSTICS_RESULT"
      "msg_sequence reply = msg_sequence request" "msg_status reply = STATUS_OK"
    using assms by (auto simp: diagnostics_from_reply_def split: if_splits)
  moreover from this assms have "check_diagnostics d (le_int (msg_payload request)) = Inr d
      \<and> length (msg_payload request) = 4"
    by (auto simp: diagnostics_from_reply_def unpack_def words13_fields check_diagnostics_eq
        split: if_splits)
  ultimately show "msg_type reply = TYPE_DIAGNOSTICS_RESULT"
    "msg_sequence reply = msg_sequence request" "msg_status reply = STATUS_OK"
    "check_diagnostics d (le_int (msg_payload request)) = Inr d" "length (msg_payload request) = 4"
    by auto
qed

lemma diagnostics_as_dict_ok:
  assumes "check_diagnostics d e = Inr d"
  shows "\<exists>doc. diagnostics_as_dict d = Inr doc"
  using assms by (auto simp: diagnostics_as_dict_def check_diagnostics_eq Let_def split: option.split)

lemma timeout_from_reply_InrD:
  assumes "timeout_from_reply reply request = Inr t"
  shows "msg_type reply = TYPE_WORKLOAD_TIMEOUT_RESULT" "msg_sequence reply = msg_sequence request"
    "msg_status reply = STATUS_OK" "length (msg_payload reply) = 52"
    "t = \<lparr>wt_timeout_ms = word_at (msg_payload reply) 0, wt_remaining_ms = word_at (msg_payload reply) 1,
          wt_workload_id = word_at (msg_payload reply) 2, wt_boot_id = word_at (msg_payload reply) 3,
          wt_armed = word_at (msg_payload reply) 4\<rparr>"
    "wt_timeout_ms t \<le> WORKLOAD_TIMEOUT_MAX_MS" "wt_armed t \<in> {0, 1}"
    "wt_remaining_ms t \<le> wt_timeout_ms t" "wt_armed t = 0 \<longrightarrow> wt_remaining_ms t = 0"
    "wt_armed t = 1 \<longrightarrow> wt_timeout_ms t \<noteq> 0 \<and> wt_workload_id t \<noteq> 0 \<and> wt_boot_id t \<noteq> 0"
    "\<exists>operation value. unpack TIMEOUT_REQUEST_FORMAT (msg_payload request)
        = Inr [SInt operation, SInt value]
      \<and> (operation = WORKLOAD_TIMEOUT_SET \<longrightarrow> wt_timeout_ms t = value)"
proof -
  have r: "length (msg_payload reply) = 52" "msg_type reply = TYPE_WORKLOAD_TIMEOUT_RESULT"
      "msg_sequence reply = msg_sequence request" "msg_status reply = STATUS_OK"
    using assms by (auto simp: timeout_from_reply_def split: if_splits)
  then show "msg_type reply = TYPE_WORKLOAD_TIMEOUT_RESULT" "msg_sequence reply = msg_sequence request"
    "msg_status reply = STATUS_OK" "length (msg_payload reply) = 52" by simp_all
  have q: "\<exists>operation value. unpack TIMEOUT_REQUEST_FORMAT (msg_payload request)
        = Inr [SInt operation, SInt value]"
    using assms r
    by (auto simp: timeout_from_reply_def unpack_def words13_fields codec_simps split: if_splits)
  then obtain operation v where u: "unpack TIMEOUT_REQUEST_FORMAT (msg_payload request)
        = Inr [SInt operation, SInt v]" by blast
  show "t = \<lparr>wt_timeout_ms = word_at (msg_payload reply) 0, wt_remaining_ms = word_at (msg_payload reply) 1,
          wt_workload_id = word_at (msg_payload reply) 2, wt_boot_id = word_at (msg_payload reply) 3,
          wt_armed = word_at (msg_payload reply) 4\<rparr>"
    "wt_timeout_ms t \<le> WORKLOAD_TIMEOUT_MAX_MS" "wt_armed t \<in> {0, 1}"
    "wt_remaining_ms t \<le> wt_timeout_ms t" "wt_armed t = 0 \<longrightarrow> wt_remaining_ms t = 0"
    "wt_armed t = 1 \<longrightarrow> wt_timeout_ms t \<noteq> 0 \<and> wt_workload_id t \<noteq> 0 \<and> wt_boot_id t \<noteq> 0"
    "\<exists>operation value. unpack TIMEOUT_REQUEST_FORMAT (msg_payload request)
        = Inr [SInt operation, SInt value]
      \<and> (operation = WORKLOAD_TIMEOUT_SET \<longrightarrow> wt_timeout_ms t = value)"
    using assms r u
    by (auto simp: timeout_from_reply_def unpack_def [of WORDS13] words13_fields split: if_splits)
qed

lemma timeout_request_eq:
  "timeout_request tm s = Inr m \<Longrightarrow>
     msg_type m = TYPE_WORKLOAD_TIMEOUT_REQUEST \<and> msg_sequence m = s
     \<and> unpack TIMEOUT_REQUEST_FORMAT (msg_payload m)
         = Inr (case tm of None \<Rightarrow> [SInt WORKLOAD_TIMEOUT_GET, SInt 0]
                | Some t \<Rightarrow> [SInt WORKLOAD_TIMEOUT_SET, SInt t])"
  by (auto simp: timeout_request_def unpack_pack codec_simps split: option.splits
      simp del: pack.simps intro!: unpack_pack)

section \<open>Properties\<close>

text \<open>C27. Diagnostics the host accepts describe a stopped executor of the workload that was asked
  about: a known completion reason, only known flags, data only with a valid cycle, and a valid
  cycle of a known type inside the 20-bit address space; presenting them never fails.\<close>

theorem diagnostics_sound:
  assumes "diagnostics_from_reply reply request = Inr d"
  shows "msg_sequence reply = msg_sequence request \<and> bd_workload_id d \<noteq> 0
    \<and> (le_int (msg_payload request) \<noteq> 0 \<longrightarrow> bd_workload_id d = le_int (msg_payload request))
    \<and> bd_lifecycle d \<in> {4, 5, 6, 7} \<and> 0 \<le> bd_flags d \<and> bd_flags d < 256
    \<and> (bd_flags d AND DIAGNOSTICS_CYCLE_VALID \<noteq> 0 \<longrightarrow> bd_last_address d \<le> 0xFFFFF)
    \<and> (bd_flags d AND DIAGNOSTICS_DATA_VALID \<noteq> 0 \<longrightarrow> bd_flags d AND DIAGNOSTICS_CYCLE_VALID \<noteq> 0)
    \<and> is_ok (diagnostics_as_dict d) \<and> is_ok (diagnostics_format d)"
proof -
  note f = diagnostics_from_reply_InrD [OF assms]
  obtain doc where doc: "diagnostics_as_dict d = Inr doc" using diagnostics_as_dict_ok [OF f(4)] by blast
  have "(0xFF::int) = mask 8" by (simp add: mask_eq_exp_minus_1)
  then have "bd_flags d AND NOT 0xFF = 0 \<longleftrightarrow> 0 \<le> bd_flags d \<and> bd_flags d < 256"
    using and_not_mask_zero [of "bd_flags d" 8] by (simp only:) simp
  with f doc show ?thesis by (auto simp: check_diagnostics_eq diagnostics_format_def)
qed

theorem diagnostics_sound_witness:
  "\<exists>d. diagnostics_from_reply
      (Message TYPE_DIAGNOSTICS_RESULT 3 ([5, 0, 0, 0, 1, 0, 0, 0, 4, 0, 0, 0, 1, 0, 0, 0]
         @ replicate 20 0 @ [1, 0, 0, 0] @ replicate 12 0))
      (Message TYPE_DIAGNOSTICS_REQUEST 3 [5, 0, 0, 0]) = Inr d \<and> is_ok (diagnostics_format d)"
proof -
  have "is_ok (diagnostics_from_reply
      (Message TYPE_DIAGNOSTICS_RESULT 3 ([5, 0, 0, 0, 1, 0, 0, 0, 4, 0, 0, 0, 1, 0, 0, 0]
         @ replicate 20 0 @ [1, 0, 0, 0] @ replicate 12 0))
      (Message TYPE_DIAGNOSTICS_REQUEST 3 [5, 0, 0, 0]))" by code_simp
  then show ?thesis using diagnostics_sound unfolding is_ok_iff by blast
qed

text \<open>An accepted execution limit is consistent: at most 24 hours, the remaining time within the
  limit, a disarmed limit without remaining time, an armed one tied to a workload and a boot; and
  the reply to a setting reports exactly the requested limit.\<close>

theorem timeout_sound:
  assumes "timeout_request tm s = Inr request" and "timeout_from_reply reply request = Inr t"
  shows "msg_sequence reply = s \<and> msg_status reply = STATUS_OK
    \<and> 0 \<le> wt_remaining_ms t \<and> wt_remaining_ms t \<le> wt_timeout_ms t
    \<and> wt_timeout_ms t \<le> WORKLOAD_TIMEOUT_MAX_MS
    \<and> (wt_armed t = 0 \<and> wt_remaining_ms t = 0
       \<or> wt_armed t = 1 \<and> 0 < wt_timeout_ms t \<and> wt_workload_id t \<noteq> 0 \<and> wt_boot_id t \<noteq> 0)
    \<and> (tm \<noteq> None \<longrightarrow> Some (wt_timeout_ms t) = tm)"
proof -
  note f = timeout_from_reply_InrD [OF assms(2)]
  have "0 \<le> wt_remaining_ms t" using f(4,5) word_at_bounds [of 1 "msg_payload reply"] by simp
  moreover have "tm \<noteq> None \<longrightarrow> Some (wt_timeout_ms t) = tm"
    using f(11) timeout_request_eq [OF assms(1)] by (auto split: option.splits)
  ultimately show ?thesis
    using f(2,3,6-10) timeout_request_eq [OF assms(1)] by auto
qed

theorem timeout_sound_witness:
  "\<exists>request t. timeout_request (Some 5000) 3 = Inr request
     \<and> timeout_from_reply (Message TYPE_WORKLOAD_TIMEOUT_RESULT 3 ([0x88, 0x13] @ replicate 50 0))
         request = Inr t
     \<and> wt_timeout_ms t = 5000"
proof -
  let ?reply = "Message TYPE_WORKLOAD_TIMEOUT_RESULT 3 ([0x88, 0x13] @ replicate 50 0)"
  have "is_ok (rbind (timeout_request (Some 5000) 3) (timeout_from_reply ?reply))" by code_simp
  then obtain request t where r: "timeout_request (Some 5000) 3 = Inr request"
      and t: "timeout_from_reply ?reply request = Inr t" by (auto simp: is_ok_iff)
  then show ?thesis using timeout_sound [OF r t] by auto
qed

end
