(* ===== verification/Services.thy ===== *)
theory Services
  imports Channel Memory Filesystem Runtime_State Diagnostics
begin

text \<open>
  The clients of the request channel: memory and filesystem services
  (\<open>host/rp86/service_client.py\<close>) and workload transactions
  (\<open>host/rp86/workload_client.py\<close>).

  The objects the clients are constructed with are shared with the session that owns them: the
  exchange callable, the request sequence, the workload state and the callbacks.  They are a record
  of operations on the state of the owner, whatever that is.  A method returns the new state and a
  result: \<open>Inl\<close> an escaping exception, otherwise \<open>Inl\<close> the error text or \<open>Inr\<close> the value of the pair
  the code returns.
\<close>

type_synonym 'd exchange = "'d \<Rightarrow> message \<Rightarrow> 'd \<times> (message option \<times> rat \<times> string option) res"
type_synonym 'a answer = "(string + 'a) res"

text \<open>The callable \<open>exchange\<close>, \<open>sequence.value\<close>, \<open>sequence.advance_after\<close> and \<open>on_activity\<close>.\<close>

record 'c ops =
  op_exchange :: "'c exchange"
  op_sequence :: "'c \<Rightarrow> int"
  op_advance :: "int \<Rightarrow> 'c \<Rightarrow> 'c"
  op_activity :: "'c \<Rightarrow> 'c"

text \<open>The workload client has two more: \<open>state.update_from_payload\<close> and \<open>on_state_change\<close>.\<close>

record 'c workload_ops = "'c ops" +
  op_update :: "bytes \<Rightarrow> 'c \<Rightarrow> 'c \<times> unit res"
  op_state_change :: "'c \<Rightarrow> 'c \<times> unit res"

section \<open>Single requests\<close>

definition error_or :: "string option \<Rightarrow> string \<Rightarrow> string" where
  "error_or e d = (case e of Some (c # s) \<Rightarrow> c # s | _ \<Rightarrow> d)"

text \<open>\<open>try: ... except ValueError as exc: return None, str(exc)\<close>.\<close>

definition caught :: "'a res \<Rightarrow> 'a answer" where
  "caught m = (case m of Inr x \<Rightarrow> Inr (Inr x) | Inl (ValueError s) \<Rightarrow> Inr (Inl s) | Inl e \<Rightarrow> Inl e)"

text \<open>Exchange, advance the sequence, note the activity, then check the reply.\<close>

definition send_request ::
  "('c, 'x) ops_scheme \<Rightarrow> string \<Rightarrow> (message \<Rightarrow> message \<Rightarrow> 'a res) \<Rightarrow> 'c \<Rightarrow> message
     \<Rightarrow> 'c \<times> 'a answer" where
  "send_request ops failed check c request =
     (case op_exchange ops c request of
        (c1, Inl e) \<Rightarrow> (c1, Inl e)
      | (c1, Inr (reply, latency, error)) \<Rightarrow>
       (op_activity ops (op_advance ops (msg_sequence request) c1), case reply of
              None \<Rightarrow> Inr (Inl (error_or error failed))
            | Some r \<Rightarrow> caught (check r request)))"

definition filesystem_request :: "('c, 'x) ops_scheme \<Rightarrow> 'c \<Rightarrow> message \<Rightarrow> 'c \<times> message answer" where
  "filesystem_request ops = send_request ops ''filesystem exchange failed''
     (\<lambda>reply request. rmap (\<lambda>_. reply) (validate_reply reply request))"

definition memory_request :: "('c, 'x) ops_scheme \<Rightarrow> 'c \<Rightarrow> message \<Rightarrow> 'c \<times> message answer" where
  "memory_request ops = send_request ops ''memory exchange failed''
     (\<lambda>reply request. rmap (\<lambda>_. reply) (validate_memory_reply reply request))"

definition read_diagnostics ::
  "('c, 'x) ops_scheme \<Rightarrow> 'c \<Rightarrow> int \<Rightarrow> 'c \<times> bus_diagnostics answer" where
  "read_diagnostics ops c workload_id =
     (case diagnostics_request workload_id (op_sequence ops c) of
        Inl e \<Rightarrow> (c, Inl e)
      | Inr request \<Rightarrow> send_request ops ''diagnostics exchange failed'' diagnostics_from_reply c request)"

definition execution_timeout ::
  "('c, 'x) ops_scheme \<Rightarrow> 'c \<Rightarrow> int option \<Rightarrow> 'c \<times> workload_timeout answer" where
  "execution_timeout ops c timeout_ms =
     (case timeout_request timeout_ms (op_sequence ops c) of
        Inl e \<Rightarrow> (c, Inl e)
      | Inr request \<Rightarrow> send_request ops ''workload timeout exchange failed'' timeout_from_reply c request)"

section \<open>Memory\<close>

function read_memory_loop ::
  "('c, 'x) ops_scheme \<Rightarrow> int \<Rightarrow> int \<Rightarrow> 'c \<Rightarrow> bytes \<Rightarrow> 'c \<times> bytes answer" where
  "read_memory_loop ops address len c content =
     (if int (length content) < len
      then let chunk_length = min 40 (len - int (length content)) in
        case memory_read_request (address + int (length content)) chunk_length
               (op_sequence ops c) of
          Inl (ValueError m) \<Rightarrow> (c, Inr (Inl m))
        | Inl e \<Rightarrow> (c, Inl e)
        | Inr request \<Rightarrow> (case memory_request ops c request of
            (c', Inl e) \<Rightarrow> (c', Inl e)
          | (c', Inr (Inl error)) \<Rightarrow> (c', Inr (Inl error))
          | (c', Inr (Inr reply)) \<Rightarrow> (case parse_memory_read reply request of
              Inl (ValueError m) \<Rightarrow> (c', Inr (Inl m))
            | Inl e \<Rightarrow> (c', Inl e)
            | Inr data \<Rightarrow> read_memory_loop ops address len c' (content @ data)))
      else (c, Inr (Inr content)))"
  by pat_completeness auto
termination
proof (relation "measure (\<lambda>(ops, address, len, c, content). nat (len - int (length content)))",
    goal_cases)
  case 1
  show ?case by simp
next
  case (2 ops address len c content n request c' y z reply data)
  then have "int (length data) = n"
    using parse_memory_read_eq [of "address + int (length content)" n "op_sequence ops c"
        request reply data] by simp
  then show ?case using 2(1,2) by simp
qed

declare read_memory_loop.simps [simp del]

definition read_memory ::
  "('c, 'x) ops_scheme \<Rightarrow> 'c \<Rightarrow> int \<Rightarrow> int \<Rightarrow> 'c \<times> bytes answer" where
  "read_memory ops c address len = read_memory_loop ops address len c []"

fun write_memory_loop ::
  "('c, 'x) ops_scheme \<Rightarrow> 'c \<Rightarrow> message list \<Rightarrow> 'c \<times> string option res" where
  "write_memory_loop ops c [] = (c, Inr None)"
| "write_memory_loop ops c (request # records) = (case memory_request ops c request of
     (c', Inl e) \<Rightarrow> (c', Inl e)
   | (c', Inr (Inl error)) \<Rightarrow> (c', Inr (Some error))
   | (c', Inr (Inr reply)) \<Rightarrow> write_memory_loop ops c' records)"

definition write_memory ::
  "('c, 'x) ops_scheme \<Rightarrow> 'c \<Rightarrow> int \<Rightarrow> bytes \<Rightarrow> 'c \<times> string option res" where
  "write_memory ops c address data =
     (case memory_write_records address data (op_sequence ops c) of
        Inl (ValueError m) \<Rightarrow> (c, Inr (Some m))
      | Inl e \<Rightarrow> (c, Inl e)
      | Inr records \<Rightarrow> write_memory_loop ops c records)"

section \<open>Files\<close>

text \<open>
  Nothing bounds the number of entries a device may report, so the directory loop has fuel;
  \<open>None\<close> means that it is still running.
\<close>

fun read_directory_loop ::
  "nat \<Rightarrow> ('c, 'x) ops_scheme \<Rightarrow> string \<Rightarrow> 'c \<Rightarrow> int \<Rightarrow> list_entry list
     \<Rightarrow> ('c \<times> list_entry list answer) option" where
  "read_directory_loop 0 ops path c cursor entries = None"
| "read_directory_loop (Suc n) ops path c cursor entries =
     (case list_request path cursor (op_sequence ops c) of
        Inl (ValueError m) \<Rightarrow> Some (c, Inr (Inl m))
      | Inl e \<Rightarrow> Some (c, Inl e)
      | Inr request \<Rightarrow> (case filesystem_request ops c request of
          (c', Inl e) \<Rightarrow> Some (c', Inl e)
        | (c', Inr (Inl error)) \<Rightarrow> Some (c', Inr (Inl error))
        | (c', Inr (Inr reply)) \<Rightarrow> (case parse_list reply request of
            Inl (ValueError m) \<Rightarrow> Some (c', Inr (Inl (''invalid device reply: '' @ m)))
          | Inl e \<Rightarrow> Some (c', Inl e)
          | Inr entry \<Rightarrow>
              if le_eof entry then Some (c', Inr (Inr entries))
              else read_directory_loop n ops path c' (le_next_cursor entry) (entries @ [entry]))))"

definition read_directory ::
  "nat \<Rightarrow> ('c, 'x) ops_scheme \<Rightarrow> 'c \<Rightarrow> string \<Rightarrow> ('c \<times> list_entry list answer) option" where
  "read_directory n ops c path = read_directory_loop n ops path c 0 []"

text \<open>What one file chunk does to the loop: an error, the finished file, or the next round.\<close>

datatype file_step = Stop "string" | Done bytes | More int bytes

definition file_chunk_step :: "int \<Rightarrow> int option \<Rightarrow> bytes \<Rightarrow> read_chunk \<Rightarrow> file_step" where
  "file_chunk_step offset total_size content chunk =
     (if rc_offset chunk \<noteq> offset
      then Stop (''reply offset mismatch '' @ dec (rc_offset chunk) @ '' != '' @ dec offset)
      else if total_size \<noteq> None \<and> total_size \<noteq> Some (rc_total_size chunk)
      then Stop ''file size changed while reading''
      else let content' = content @ rc_data chunk in
        if rc_eof chunk
        then if rc_total_size chunk \<noteq> int (length content')
             then Stop (''file length mismatch '' @ dec (int (length content')) @ '' != ''
                        @ dec (rc_total_size chunk))
             else Done content'
        else if rc_data chunk = []
        then Stop ''device returned an empty non-final file chunk''
        else More (rc_total_size chunk) content')"

text \<open>\<open>offset\<close> is always the length of the content read so far.\<close>

text \<open>
  The loop below ends: every further round has at least one more byte, and the 32-bit offset of the
  request bounds the length of the content.
\<close>

lemma file_chunk_step_More:
  "file_chunk_step offset ts content chunk = More n content' \<Longrightarrow>
     content' = content @ rc_data chunk \<and> rc_data chunk \<noteq> [] \<and> \<not> rc_eof chunk
     \<and> n = rc_total_size chunk \<and> rc_offset chunk = offset"
  by (auto simp: file_chunk_step_def Let_def split: if_splits)

lemma read_request_bound: "read_request path offset s = Inr m \<Longrightarrow> 0 \<le> offset \<and> offset < 0x100000000"
  by (auto simp: read_request_def split: if_splits)

function read_file_loop ::
  "('c, 'x) ops_scheme \<Rightarrow> string \<Rightarrow> 'c \<Rightarrow> int option \<Rightarrow> bytes \<Rightarrow> 'c \<times> bytes answer" where
  "read_file_loop ops path c total_size content =
     (case read_request path (int (length content)) (op_sequence ops c) of
        Inl (ValueError m) \<Rightarrow> (c, Inr (Inl m))
      | Inl e \<Rightarrow> (c, Inl e)
      | Inr request \<Rightarrow> (case filesystem_request ops c request of
          (c', Inl e) \<Rightarrow> (c', Inl e)
        | (c', Inr (Inl error)) \<Rightarrow> (c', Inr (Inl error))
        | (c', Inr (Inr reply)) \<Rightarrow> (case parse_read reply request of
            Inl (ValueError m) \<Rightarrow> (c', Inr (Inl (''invalid device reply: '' @ m)))
          | Inl e \<Rightarrow> (c', Inl e)
          | Inr chunk \<Rightarrow> (case file_chunk_step (int (length content)) total_size content chunk of
              Stop m \<Rightarrow> (c', Inr (Inl m))
            | Done file \<Rightarrow> (c', Inr (Inr file))
            | More size' content' \<Rightarrow> read_file_loop ops path c' (Some size') content'))))"
  by pat_completeness auto

termination
proof (relation "measure (\<lambda>(ops, path, c, ts, content). 0x100000000 - length content)", goal_cases)
  case 1
  show ?case by simp
next
  case (2 ops path c ts content request c' y z reply chunk size' content')
  then have "int (length content) < 0x100000000" using read_request_bound by blast
  moreover have "length content < length content'" using file_chunk_step_More [OF 2(6)] by simp
  ultimately show ?case by simp
qed

declare read_file_loop.simps [simp del]

definition read_file :: "('c, 'x) ops_scheme \<Rightarrow> 'c \<Rightarrow> string \<Rightarrow> 'c \<times> bytes answer" where
  "read_file ops c path = read_file_loop ops path c None []"

section \<open>Workload transactions\<close>

record transaction_result =
  tr_success :: bool
  tr_count :: nat
  tr_failed_index :: "nat option"
  tr_error :: "string option"
  tr_latencies_ms :: "rat list"

fun transact_loop ::
  "('c, 'x) workload_ops_scheme \<Rightarrow> nat \<Rightarrow> 'c \<Rightarrow> nat \<Rightarrow> rat list \<Rightarrow> message list
     \<Rightarrow> 'c \<times> transaction_result res" where
  "transact_loop ops count c index latencies [] =
     (op_activity ops c,
      Inr \<lparr>tr_success = True, tr_count = count, tr_failed_index = None, tr_error = None,
           tr_latencies_ms = latencies\<rparr>)"
| "transact_loop ops count c index latencies (request # records) =
     (case op_exchange ops c request of
        (c1, Inl e) \<Rightarrow> (c1, Inl e)
      | (c1, Inr (None, latency_ms, error)) \<Rightarrow>
          (c1, Inr \<lparr>tr_success = False, tr_count = count, tr_failed_index = Some index,
                    tr_error = Some (error_or error ''workload exchange failed''),
                    tr_latencies_ms = latencies\<rparr>)
      | (c1, Inr (Some r, latency_ms, error)) \<Rightarrow>
          (case op_update ops (msg_payload r) (op_advance ops (msg_sequence request) c1) of
             (c2, Inl (ValueError m)) \<Rightarrow>
               (c2, Inr \<lparr>tr_success = False, tr_count = count, tr_failed_index = Some index,
                         tr_error = Some (''invalid status payload: '' @ m),
                         tr_latencies_ms = latencies @ [latency_ms]\<rparr>)
           | (c2, Inl e) \<Rightarrow> (c2, Inl e)
           | (c2, Inr _) \<Rightarrow> (case op_state_change ops c2 of
               (c3, Inl e) \<Rightarrow> (c3, Inl e)
             | (c3, Inr _) \<Rightarrow> transact_loop ops count c3 (Suc index) (latencies @ [latency_ms]) records)))"

definition transact ::
  "('c, 'x) workload_ops_scheme \<Rightarrow> 'c \<Rightarrow> message list \<Rightarrow> 'c \<times> transaction_result res" where
  "transact ops c records = transact_loop ops (length records) c 1 [] records"

section \<open>A client of its own\<close>

text \<open>
  The clients outside a session: the state is the device behind the exchange, the sequence, the
  workload state, and counters for the callbacks.
\<close>

record 'd client =
  cl_device :: 'd
  cl_sequence :: request_sequence
  cl_state :: workload_state
  cl_activity :: nat
  cl_state_changes :: nat

definition client_exchange :: "'d exchange \<Rightarrow> 'd client exchange" where
  "client_exchange exchange c request = (case exchange (cl_device c) request of
     (d, outcome) \<Rightarrow> (c\<lparr>cl_device := d\<rparr>, outcome))"

definition client_ops :: "'d exchange \<Rightarrow> 'd client workload_ops" where
  "client_ops exchange =
     \<lparr>op_exchange = client_exchange exchange,
      op_sequence = \<lambda>c. rs_value (cl_sequence c),
      op_advance = \<lambda>s c. c\<lparr>cl_sequence := fst (advance_after (cl_sequence c) s)\<rparr>,
      op_activity = \<lambda>c. c\<lparr>cl_activity := Suc (cl_activity c)\<rparr>,
      op_update = \<lambda>p c. (case update_from_payload (cl_state c) p of (st, r) \<Rightarrow> (c\<lparr>cl_state := st\<rparr>, r)),
      op_state_change = \<lambda>c. (c\<lparr>cl_state_changes := Suc (cl_state_changes c)\<rparr>, Inr ())\<rparr>"

definition Client :: "'d \<Rightarrow> int \<Rightarrow> 'd client" where
  "Client d s = \<lparr>cl_device = d, cl_sequence = RequestSequence s, cl_state = WorkloadRuntimeState,
     cl_activity = 0, cl_state_changes = 0\<rparr>"

lemma client_ops_simps [simp]:
  "op_exchange (client_ops x) = client_exchange x"
  "op_sequence (client_ops x) c = rs_value (cl_sequence c)"
  "op_advance (client_ops x) s c = c\<lparr>cl_sequence := fst (advance_after (cl_sequence c) s)\<rparr>"
  "op_activity (client_ops x) c = c\<lparr>cl_activity := Suc (cl_activity c)\<rparr>"
  "op_state_change (client_ops x) c = (c\<lparr>cl_state_changes := Suc (cl_state_changes c)\<rparr>, Inr ())"
  by (simp_all add: client_ops_def)

section \<open>The contract of an owner\<close>

text \<open>
  What the clients rely on of the objects they share: advancing the sequence after a request makes
  its successor the next sequence number, and neither that nor the activity callback touches the
  part of the state the device's answers depend on.
\<close>

definition ops_ready :: "('c, 'x) ops_scheme \<Rightarrow> 'c \<Rightarrow> bool" where
  "ops_ready ops c \<longleftrightarrow> 1 \<le> op_sequence ops c \<and> op_sequence ops c < 0x100000000"

definition settle :: "('c, 'x) ops_scheme \<Rightarrow> int \<Rightarrow> 'c \<Rightarrow> 'c" where
  "settle ops s c = op_activity ops (op_advance ops s c)"

locale host_ops =
  fixes ops :: "('c, 'x) ops_scheme"
    and view :: "'c \<Rightarrow> 'v"
    and wf :: "'c \<Rightarrow> bool"
  assumes settle_view: "view (settle ops s c) = view c"
    and settle_wf: "wf c \<Longrightarrow> wf (settle ops s c)"
    and settle_sequence: "op_sequence ops (settle ops s c) = next_sequence s"
begin

lemma settle_ready: "ops_ready ops (settle ops s c)"
  using next_sequence_bounds [of s] by (simp add: ops_ready_def settle_sequence)

lemma memory_request_reply:
  assumes "op_exchange ops c request = (c1, Inr (Some reply, latency, None))"
    and "validate_memory_reply reply request = Inr x"
  shows "memory_request ops c request = (settle ops (msg_sequence request) c1, Inr (Inr reply))"
  using assms by (simp add: memory_request_def send_request_def settle_def caught_def)

lemma filesystem_request_reply:
  assumes "op_exchange ops c request = (c1, Inr (Some reply, latency, None))"
    and "validate_reply reply request = Inr x"
  shows "filesystem_request ops c request = (settle ops (msg_sequence request) c1, Inr (Inr reply))"
  using assms by (simp add: filesystem_request_def send_request_def settle_def caught_def)

end

lemma client_settle:
  "settle (client_ops x) s c = c\<lparr>cl_sequence := fst (advance_after (cl_sequence c) s),
     cl_activity := Suc (cl_activity c)\<rparr>"
  by (simp add: settle_def)

section \<open>An exchange over the wire\<close>

text \<open>
  The exchange the session hands to the clients, run against a device that answers every
  request at once: the reply is encoded, read back as a HID report, and accepted by
  \<open>exchange_hid_request\<close>.  \<open>respond\<close> is the device.
\<close>

definition prompt_world :: "bytes \<Rightarrow> unit hid_world" where
  "prompt_world r = \<lparr>hw_began = 0, hw_queued = [Inr []], hw_write = Inr 65, hw_now = 0,
     hw_ticks = [\<lparr>tk_time = 0, tk_service = (), tk_read = Inr r, tk_later = 0\<rparr>], hw_after = []\<rparr>"

definition wire_exchange :: "('d \<Rightarrow> message \<Rightarrow> 'd \<times> message) \<Rightarrow> 'd exchange" where
  "wire_exchange respond d request = (case respond d request of (d', reply) \<Rightarrow>
     (case message_encode reply of
        Inl _ \<Rightarrow> (d', Inr (None, 0, Some ''device reply timeout''))
      | Inr r \<Rightarrow> (case exchange_hid_request (\<lambda>_ _. ((), None)) ()
            (falls_silent 1 () (prompt_world r)) request 1 None of
          Some (_, Inl e) \<Rightarrow> (d', Inl e)
        | Some (_, Inr res) \<Rightarrow> (d', Inr (er_reply res, er_latency_ms res, er_error res))
        | None \<Rightarrow> (d', Inr (None, 0, None)))))"

lemma wire_exchange_delivers:
  assumes "respond d request = (d', reply)" "message_wf request" "message_wf reply"
    and "\<And>r. decode_hid r = Inr reply \<Longrightarrow> validate_device_reply r request None = Inr reply"
  shows "wire_exchange respond d request = (d', Inr (Some reply, 0, None))"
proof -
  obtain r where r: "message_encode reply = Inr r" using assms(3) message_encode_ok by blast
  obtain q where q: "message_encode request = Inr q" using assms(2) message_encode_ok by blast
  have v: "validate_device_reply r request None = Inr reply"
    by (rule assms(4)) (rule decode_hid_raw [OF r])
  then have "r \<noteq> []" using validate_device_reply_nonempty by blast
  then have "exchange_hid_request (\<lambda>_ _. ((), None)) () (falls_silent 1 () (prompt_world r)) request 1 None =
      Some ((), Inr \<lparr>er_reply = Some reply, er_latency_ms = 0, er_error = None\<rparr>)"
    using v q by (subst exchange_hid_request_loop) (auto simp: prompt_world_def falls_silent_def elapsed_ms_def)
  then show ?thesis using assms(1) r by (simp add: wire_exchange_def)
qed

end
