(* ===== verification/Services_Memory.thy ===== *)
theory Services_Memory
  imports Services
begin

text \<open>
  What the memory service promises to its client, and what the client makes of it.  The locale
  \<open>sram_device\<close> states the documented answers of the device; \<open>read_memory\<close> and
  \<open>write_memory\<close> are proved against it.  The interpretation runs the client over the request
  channel, the HID framing and the wire codec of the model.
\<close>

section \<open>The contract\<close>

definition is_write_record :: "int \<Rightarrow> bytes \<Rightarrow> message \<Rightarrow> bool" where
  "is_write_record a chunk m \<longleftrightarrow> chunk \<noteq> [] \<and> length chunk \<le> 40
     \<and> 1 \<le> msg_sequence m \<and> msg_sequence m < 0x100000000
     \<and> (\<exists>h. pack MEMORY_HEADER [SInt MEMORY_WRITE, SInt a, SInt (int (length chunk))] = Inr h
          \<and> m = Message TYPE_MEMORY_REQUEST (msg_sequence m) (h @ chunk))"

locale sram_device = host_ops ops mem wf
  for ops :: "('c, 'x) ops_scheme" and mem :: "'c \<Rightarrow> int \<Rightarrow> byte" and wf :: "'c \<Rightarrow> bool" +
  assumes read_answer: "wf c \<Longrightarrow> memory_read_request a n s = Inr request \<Longrightarrow> 1 \<le> s \<Longrightarrow> s < 0x100000000 \<Longrightarrow>
      \<exists>c' latency. op_exchange ops c request =
        (c', Inr (Some (Message TYPE_MEMORY_RESULT s (msg_payload request @ load_at (mem c) a (nat n))),
         latency, None)) \<and> mem c' = mem c \<and> wf c'"
    and write_answer: "wf c \<Longrightarrow> is_write_record a chunk request \<Longrightarrow>
      \<exists>c' latency. op_exchange ops c request =
        (c', Inr (Some (Message TYPE_MEMORY_RESULT (msg_sequence request) (take 12 (msg_payload request))),
         latency, None)) \<and> mem c' = store_at (mem c) a chunk \<and> wf c'"
begin

lemma memory_request_read:
  assumes "wf c" "memory_read_request a n s = Inr request" "1 \<le> s" "s < 0x100000000"
  shows "\<exists>c' reply. memory_request ops c request = (c', Inr (Inr reply))
    \<and> parse_memory_read reply request = Inr (load_at (mem c) a (nat n))
    \<and> mem c' = mem c \<and> wf c' \<and> ops_ready ops c'"
proof -
  let ?data = "load_at (mem c) a (nat n)"
  let ?reply = "Message TYPE_MEMORY_RESULT s (msg_payload request @ ?data)"
  obtain c1 latency where x: "op_exchange ops c request = (c1, Inr (Some ?reply, latency, None))"
      and m: "mem c1 = mem c" "wf c1"
    using read_answer [OF assms] by blast
  obtain h where h: "pack MEMORY_HEADER [SInt MEMORY_READ, SInt a, SInt n] = Inr h"
      and r: "request = Message TYPE_MEMORY_REQUEST s h" and n: "1 \<le> n"
    using assms(2) by (auto simp: memory_read_request_eq)
  have "length h = 12" using length_pack [OF h] by simp
  then have v: "validate_memory_reply ?reply request = Inr ?data"
    by (simp add: validate_memory_reply_eq r)
  moreover have "parse_memory_read ?reply request = Inr ?data"
    using v n by (simp add: parse_memory_read_eq [OF assms(2)])
  ultimately show ?thesis
    using memory_request_reply [OF x] m settle_view settle_wf settle_ready by auto
qed

lemma memory_request_write:
  assumes "wf c" "is_write_record a chunk request"
  shows "\<exists>c' reply. memory_request ops c request = (c', Inr (Inr reply))
    \<and> mem c' = store_at (mem c) a chunk \<and> wf c' \<and> ops_ready ops c'"
proof -
  let ?reply = "Message TYPE_MEMORY_RESULT (msg_sequence request) (take 12 (msg_payload request))"
  obtain c1 latency where x: "op_exchange ops c request = (c1, Inr (Some ?reply, latency, None))"
      and m: "mem c1 = store_at (mem c) a chunk" "wf c1"
    using write_answer [OF assms] by blast
  obtain h where h: "pack MEMORY_HEADER [SInt MEMORY_WRITE, SInt a, SInt (int (length chunk))] = Inr h"
      and p: "msg_payload request = h @ chunk"
    using assms(2) by (auto simp: is_write_record_def) (metis Message_simps(3))
  have "length h = 12" using length_pack [OF h] by simp
  then obtain d where "validate_memory_reply ?reply request = Inr d"
    by (simp add: validate_memory_reply_eq p)
  then show ?thesis
    using memory_request_reply [OF x] m settle_view settle_wf settle_ready by auto
qed

lemma read_memory_loop_correct:
  assumes "wf c" "ops_ready ops c" "0 \<le> a" "a + len \<le> 0x40000" "k \<le> nat len"
  shows "\<exists>c'. read_memory_loop ops a len c (load_at (mem c) a k) = (c', Inr (Inr (load_at (mem c) a (nat len))))
    \<and> mem c' = mem c \<and> wf c' \<and> ops_ready ops c'"
  using assms
proof (induction "nat len - k" arbitrary: c k rule: less_induct)
  case less
  let ?m = "mem c"
  show ?case
  proof (cases "int k < len")
    case False
    with less.prems have "k = nat len" by simp
    with less.prems False show ?thesis by (subst read_memory_loop.simps) simp
  next
    case True
    let ?n = "min 40 (len - int k)"
    let ?s = "op_sequence ops c"
    have n: "1 \<le> ?n" "?n \<le> 40" "?n \<le> len - int k" using True by simp_all
    have s: "1 \<le> ?s" "?s < 0x100000000" using less.prems by (simp_all add: ops_ready_def)
    obtain h where "pack MEMORY_HEADER [SInt MEMORY_READ, SInt (a + int k), SInt ?n] = Inr h"
      using memory_header_ok [of MEMORY_READ "a + int k" ?n] n less.prems True by force
    then obtain request where req: "memory_read_request (a + int k) ?n ?s = Inr request"
      using n less.prems by (auto simp: memory_read_request_eq)
    obtain c1 reply where c1: "memory_request ops c request = (c1, Inr (Inr reply))"
        "parse_memory_read reply request = Inr (load_at ?m (a + int k) (nat ?n))"
        "mem c1 = ?m" "wf c1" "ops_ready ops c1"
      using memory_request_read [OF less.prems(1) req s] by blast
    have app: "load_at ?m a k @ load_at ?m (a + int k) (nat ?n) = load_at ?m a (k + nat ?n)"
      by (rule load_at_append)
    have "nat len - (k + nat ?n) < nat len - k" "k + nat ?n \<le> nat len" using n True by linarith+
    then obtain c' where "read_memory_loop ops a len c1 (load_at (mem c1) a (k + nat ?n))
          = (c', Inr (Inr (load_at (mem c1) a (nat len))))"
        "mem c' = mem c1" "wf c'" "ops_ready ops c'"
      using less.hyps [of "k + nat ?n" c1] c1(4,5) less.prems(3,4) by blast
    then show ?thesis
      using True req c1 app by (subst read_memory_loop.simps) (simp add: Let_def)
  qed
qed

lemma read_memory_correct:
  assumes "wf c" "ops_ready ops c" "0 \<le> a" "a + len \<le> 0x40000"
  shows "\<exists>c'. read_memory ops c a len = (c', Inr (Inr (load_at (mem c) a (nat len))))
    \<and> mem c' = mem c \<and> wf c' \<and> ops_ready ops c'"
  using read_memory_loop_correct [OF assms, of 0] by (simp add: read_memory_def load_at_def)

lemma write_memory_loop_correct:
  "memory_write_loop a data off s = Inr ms \<Longrightarrow> 1 \<le> s \<Longrightarrow> s < 0x100000000 \<Longrightarrow>
     off \<le> length data \<Longrightarrow> mem c = store_at m0 a (take off data) \<Longrightarrow>
     wf c \<Longrightarrow> ops_ready ops c \<Longrightarrow>
     \<exists>c'. write_memory_loop ops c ms = (c', Inr None)
       \<and> mem c' = store_at m0 a data \<and> wf c' \<and> ops_ready ops c'"
proof (induction a data off s arbitrary: ms c rule: memory_write_loop.induct)
  case step: (1 a data off s)
  show ?case
  proof (cases "off < length data")
    case True
    let ?c = "pyslice off (off + 40) data"
    let ?r = "\<lambda>h. Message TYPE_MEMORY_REQUEST s (h @ ?c)"
    from step.prems True obtain h rest where
      h: "pack MEMORY_HEADER [SInt MEMORY_WRITE, SInt (a + int off), SInt (int (length ?c))] = Inr h"
      and rest: "memory_write_loop a data (off + length ?c) (next_sequence s) = Inr rest"
      and ms: "ms = ?r h # rest"
      by (auto simp: memory_write_step Let_def)
    have ne: "?c \<noteq> []" "length ?c \<le> 40" using True by (simp_all add: pyslice_def)
    then have w: "is_write_record (a + int off) ?c (?r h)"
      using h step.prems by (simp add: is_write_record_def)
    obtain c1 reply where c1: "memory_request ops c (?r h) = (c1, Inr (Inr reply))"
        "mem c1 = store_at (mem c) (a + int off) ?c" "wf c1" "ops_ready ops c1"
      using memory_request_write [OF step.prems(6) w] by blast
    have "mem c1 = store_at m0 a (take (off + length ?c) data)"
      using c1(2) step.prems(5) store_at_slice [OF True] by simp
    moreover have "off + length ?c \<le> length data" using True by simp
    ultimately obtain c' where "write_memory_loop ops c1 rest = (c', Inr None)"
        "mem c' = store_at m0 a data" "wf c'" "ops_ready ops c'"
      using step.IH [OF True refl rest next_sequence_bounds, of c1] c1(3,4) by blast
    then show ?thesis using c1(1) by (simp add: ms)
  next
    case False
    with step.prems show ?thesis by (auto simp: memory_write_done)
  qed
qed

lemma write_memory_correct:
  assumes "wf c" "ops_ready ops c" "0 \<le> a" "data \<noteq> []" "a + int (length data) \<le> 0x40000"
  shows "\<exists>c'. write_memory ops c a data = (c', Inr None)
    \<and> mem c' = store_at (mem c) a data \<and> wf c' \<and> ops_ready ops c'"
proof -
  obtain ms where ms: "memory_write_records a data (op_sequence ops c) = Inr ms"
    using memory_write_records_ok [of a data "op_sequence ops c"] assms(3-5)
    by (auto simp: is_ok_iff)
  then have "memory_write_loop a data 0 (op_sequence ops c) = Inr ms"
    by (simp add: memory_write_records_eq)
  from write_memory_loop_correct [OF this, of c "mem c"] assms(1,2) ms show ?thesis
    by (simp add: write_memory_def ops_ready_def)
qed

lemma write_then_read:
  assumes "wf c" "ops_ready ops c" "0 \<le> a" "data \<noteq> []" "a + int (length data) \<le> 0x40000"
  shows "\<exists>c1 c2. write_memory ops c a data = (c1, Inr None)
    \<and> read_memory ops c1 a (int (length data)) = (c2, Inr (Inr data))
    \<and> mem c2 = store_at (mem c) a data"
proof -
  obtain c1 where c1: "write_memory ops c a data = (c1, Inr None)"
      "mem c1 = store_at (mem c) a data" "wf c1" "ops_ready ops c1"
    using write_memory_correct [OF assms] by blast
  moreover obtain c2 where "read_memory ops c1 a (int (length data))
      = (c2, Inr (Inr (load_at (mem c1) a (length data))))" "mem c2 = mem c1"
    using read_memory_correct [OF c1(3,4) assms(3), of "int (length data)"] assms(5) by auto
  ultimately show ?thesis using sram.load_store_same by force
qed

end

section \<open>The client over the wire\<close>

text \<open>The device side of the memory service: a read is answered with the bytes, a write is
  carried out and acknowledged with its header.\<close>

definition sram_respond :: "(int \<Rightarrow> byte) \<Rightarrow> message \<Rightarrow> (int \<Rightarrow> byte) \<times> message" where
  "sram_respond m request =
     (let echo = take 12 (msg_payload request); s = msg_sequence request in
      case unpack_from MEMORY_HEADER (msg_payload request) 0 of
        Inr [SInt op, SInt a, SInt n] \<Rightarrow>
          if op = MEMORY_READ
          then (m, Message TYPE_MEMORY_RESULT s (echo @ load_at m a (nat n)))
          else (write_effect m request, Message TYPE_MEMORY_RESULT s echo)
      | _ \<Rightarrow> (m, Message TYPE_ERROR s []))"

lemma sram_respond_read:
  assumes "memory_read_request a n s = Inr request" "1 \<le> s" "s < 0x100000000"
  shows "wire_exchange sram_respond d request =
    (d, Inr (Some (Message TYPE_MEMORY_RESULT s (msg_payload request @ load_at d a (nat n))), 0, None))"
proof -
  obtain h where h: "pack MEMORY_HEADER [SInt MEMORY_READ, SInt a, SInt n] = Inr h"
      and r: "request = Message TYPE_MEMORY_REQUEST s h" and n: "1 \<le> n" "n \<le> 40"
    using assms(1) by (auto simp: memory_read_request_eq)
  have l: "length h = 12" using length_pack [OF h] by simp
  have u: "unpack_from MEMORY_HEADER h 0 = Inr [SInt MEMORY_READ, SInt a, SInt n]"
    using memory_header_unpack [OF h, of "[]"] by simp
  show ?thesis
  proof (rule wire_exchange_delivers)
    show "sram_respond d request = (d,
        Message TYPE_MEMORY_RESULT s (msg_payload request @ load_at d a (nat n)))"
      using u l by (simp add: sram_respond_def r)
    show "message_wf request" using assms(2,3) l by (simp add: r message_wf_def)
    show "message_wf (Message TYPE_MEMORY_RESULT s (msg_payload request @ load_at d a (nat n)))"
      using assms(2,3) l n by (simp add: r message_wf_def)
  qed (simp add: r validate_memory_type_reply)
qed

lemma sram_respond_write:
  assumes "is_write_record a chunk request"
  shows "wire_exchange sram_respond d request =
    (store_at d a chunk,
     Inr (Some (Message TYPE_MEMORY_RESULT (msg_sequence request) (take 12 (msg_payload request))), 0, None))"
proof -
  let ?s = "msg_sequence request"
  obtain h where h: "pack MEMORY_HEADER [SInt MEMORY_WRITE, SInt a, SInt (int (length chunk))] = Inr h"
      and r: "request = Message TYPE_MEMORY_REQUEST ?s (h @ chunk)"
      and c: "length chunk \<le> 40" "1 \<le> ?s" "?s < 0x100000000"
    using assms by (auto simp: is_write_record_def)
  have l: "length h = 12" using length_pack [OF h] by simp
  have p: "msg_payload request = h @ chunk" "msg_type request = TYPE_MEMORY_REQUEST"
    "msg_flags request = 0" "msg_status request = 0" "msg_version request = PROTOCOL_VERSION"
    by (subst r, simp)+
  have e: "write_effect d request = store_at d a chunk"
    by (subst r) (rule write_effect_record [OF h])
  show ?thesis
  proof (rule wire_exchange_delivers)
    show "sram_respond d request = (store_at d a chunk,
        Message TYPE_MEMORY_RESULT ?s (take 12 (msg_payload request)))"
      using memory_header_unpack [OF h, of chunk] l by (simp add: sram_respond_def p e)
    show "message_wf request" using c l by (simp add: p message_wf_def)
    show "message_wf (Message TYPE_MEMORY_RESULT ?s (take 12 (msg_payload request)))"
      using c l by (simp add: p message_wf_def)
  qed (simp add: p validate_memory_type_reply)
qed

interpretation wire_sram: sram_device "client_ops (wire_exchange sram_respond)" cl_device "\<lambda>_. True"
  by unfold_locales (auto simp: client_settle client_exchange_def sram_respond_read sram_respond_write)

section \<open>Properties\<close>



end
