(* ===== verification/Services_Files.thy ===== *)
theory Services_Files
  imports Services
begin

unbundle bit_operations_syntax

text \<open>
  What the filesystem service promises to its client: the answers to read and list requests.
  \<open>read_file\<close> and \<open>read_directory\<close> are proved against that contract, the contract is
  interpreted over the request channel and the wire codec, and the loop of
  \<open>read_directory\<close> is shown to depend on the device's end-of-directory flag.
\<close>

section \<open>The contract\<close>

definition list_reply_entry :: "(string \<times> int \<times> bool) list \<Rightarrow> int \<Rightarrow> list_entry" where
  "list_reply_entry es cursor =
     (if cursor < int (length es)
      then (case es ! nat cursor of (name, size', dir) \<Rightarrow>
             \<lparr>le_name = name, le_size = size', le_directory = dir, le_next_cursor = cursor + 1,
              le_eof = False\<rparr>)
      else \<lparr>le_name = [], le_size = 0, le_directory = False, le_next_cursor = cursor,
            le_eof = True\<rparr>)"

locale flash_device = host_ops ops "\<lambda>c. (content c, listing c)" wf
  for ops :: "('c, 'x) ops_scheme"
    and content :: "'c \<Rightarrow> string \<Rightarrow> bytes option"
    and listing :: "'c \<Rightarrow> (string \<times> int \<times> bool) list"
    and wf :: "'c \<Rightarrow> bool" +
  assumes read_answer: "wf c \<Longrightarrow> read_request path off s = Inr request \<Longrightarrow> 1 \<le> s \<Longrightarrow> s < 0x100000000 \<Longrightarrow>
      content c path = Some f \<Longrightarrow> off \<le> int (length f) \<Longrightarrow>
      \<exists>c' reply latency. op_exchange ops c request = (c', Inr (Some reply, latency, None))
        \<and> wf c' \<and> content c' = content c \<and> listing c' = listing c
        \<and> parse_read reply request = Inr \<lparr>rc_offset = off, rc_total_size = int (length f),
            rc_data = pyslice (nat off) (nat off + 40) f, rc_eof = (length f \<le> nat off + 40)\<rparr>"
    and list_answer: "wf c \<Longrightarrow> list_request path cursor s = Inr request \<Longrightarrow> 1 \<le> s \<Longrightarrow>
      s < 0x100000000 \<Longrightarrow>
      \<exists>c' reply latency. op_exchange ops c request = (c', Inr (Some reply, latency, None))
        \<and> wf c' \<and> content c' = content c \<and> listing c' = listing c
        \<and> parse_list reply request = Inr (list_reply_entry (listing c) cursor)"
    and file_size: "wf c \<Longrightarrow> content c path = Some f \<Longrightarrow> length f < 0x100000000"
    and listing_size: "wf c \<Longrightarrow> length (listing c) < 0x10000"
begin

lemma settle_files: "content (settle ops s c) = content c" "listing (settle ops s c) = listing c"
  using settle_view [of s c] by simp_all

lemma read_file_loop_correct:
  assumes "wf c" "ops_ready ops c" "is_ok (fs_path path 44)"
    and "content c path = Some f" "k \<le> length f" "ts = None \<or> ts = Some (int (length f))"
  shows "\<exists>c'. read_file_loop ops path c ts (take k f) = (c', Inr (Inr f))
    \<and> content c' = content c \<and> listing c' = listing c \<and> wf c' \<and> ops_ready ops c'"
  using assms
proof (induction "length f - k" arbitrary: c k ts rule: less_induct)
  case less
  let ?s = "op_sequence ops c"
  let ?ch = "\<lparr>rc_offset = int k, rc_total_size = int (length f),
      rc_data = pyslice k (k + 40) f, rc_eof = (length f \<le> k + 40)\<rparr>"
  have s: "1 \<le> ?s" "?s < 0x100000000" using less.prems by (simp_all add: ops_ready_def)
  have "int k < 0x100000000" using file_size [OF less.prems(1,4)] less.prems(5) by simp
  then obtain request where req: "read_request path (int k) ?s = Inr request"
    using less.prems(3) by (auto simp: is_ok_iff read_request_def)
  obtain c0 reply latency where x: "op_exchange ops c request = (c0, Inr (Some reply, latency, None))"
      "wf c0" "content c0 = content c" "listing c0 = listing c" "parse_read reply request = Inr ?ch"
    using read_answer [OF less.prems(1) req s less.prems(4)] less.prems(5) by auto
  obtain v where v: "validate_reply reply request = Inr v" using x(5) by (auto simp: parse_read_def)
  define c1 where "c1 = settle ops (msg_sequence request) c0"
  have c1: "filesystem_request ops c request = (c1, Inr (Inr reply))" "content c1 = content c"
      "listing c1 = listing c" "wf c1" "ops_ready ops c1"
    using filesystem_request_reply [OF x(1) v] x settle_files settle_wf settle_ready by (simp_all add: c1_def)
  have app: "take k f @ pyslice k (k + 40) f = take (k + 40) f"
    by (simp add: pyslice_def take_add)
  show ?case
  proof (cases "length f \<le> k + 40")
    case True
    then have "file_chunk_step (int k) ts (take k f) ?ch = Done f"
      using less.prems(5,6) app by (auto simp: file_chunk_step_def Let_def)
    then show ?thesis
      using req c1 x less.prems(5) by (subst read_file_loop.simps) (simp add: min_absorb2)
  next
    case False
    then have "pyslice k (k + 40) f \<noteq> []" by (simp add: pyslice_def)
    with False have st: "file_chunk_step (int k) ts (take k f) ?ch
        = More (int (length f)) (take (k + 40) f)"
      using less.prems(6) app by (auto simp: file_chunk_step_def Let_def)
    have sm: "length f - (k + 40) < length f - k" using False by arith
    have "\<exists>c'. read_file_loop ops path c1 (Some (int (length f))) (take (k + 40) f) = (c', Inr (Inr f))
        \<and> content c' = content c1 \<and> listing c' = listing c1 \<and> wf c' \<and> ops_ready ops c'"
      by (rule less.hyps [OF sm]) (use False c1 less.prems in simp_all)
    then obtain c' where "read_file_loop ops path c1 (Some (int (length f))) (take (k + 40) f)
          = (c', Inr (Inr f))" "content c' = content c1" "listing c' = listing c1" "wf c'" "ops_ready ops c'"
      by blast
    then show ?thesis
      using req c1 x st less.prems(5) by (subst read_file_loop.simps) (simp add: min_absorb2)
  qed
qed

lemma read_file_correct:
  assumes "wf c" "ops_ready ops c" "is_ok (fs_path path 44)" "content c path = Some f"
  shows "\<exists>c'. read_file ops c path = (c', Inr (Inr f))
    \<and> content c' = content c \<and> listing c' = listing c \<and> wf c' \<and> ops_ready ops c'"
  using read_file_loop_correct [OF assms, of 0 None] by (simp add: read_file_def)

lemma read_directory_loop_correct:
  assumes "wf c" "ops_ready ops c" "is_ok (fs_path path 48)"
    and "k \<le> length (listing c)" "length (listing c) - k < n"
  shows "\<exists>c'. read_directory_loop n ops path c (int k) es = Some (c', Inr (Inr
      (es @ map (\<lambda>i. list_reply_entry (listing c) (int i)) [k..<length (listing c)])))"
  using assms
proof (induction n arbitrary: c k es)
  case (Suc n)
  let ?l = "listing c"
  let ?s = "op_sequence ops c"
  have s: "1 \<le> ?s" "?s < 0x100000000" using Suc.prems by (simp_all add: ops_ready_def)
  have "int k < 65536" using listing_size [OF Suc.prems(1)] Suc.prems(4) by simp
  then obtain request where req: "list_request path (int k) ?s = Inr request"
    using Suc.prems(3) by (auto simp: is_ok_iff list_request_def)
  obtain c0 reply latency where x: "op_exchange ops c request = (c0, Inr (Some reply, latency, None))"
      "wf c0" "listing c0 = ?l" "parse_list reply request = Inr (list_reply_entry ?l (int k))"
    using list_answer [OF Suc.prems(1) req s] by auto
  obtain v where v: "validate_reply reply request = Inr v" using x(4) by (auto simp: parse_list_def)
  define c1 where "c1 = settle ops (msg_sequence request) c0"
  have c1: "filesystem_request ops c request = (c1, Inr (Inr reply))" "listing c1 = ?l" "wf c1"
      "ops_ready ops c1"
    using filesystem_request_reply [OF x(1) v] x settle_files settle_wf settle_ready by (simp_all add: c1_def)
  show ?case
  proof (cases "k < length ?l")
    case True
    then have e: "\<not> le_eof (list_reply_entry ?l (int k))"
      "le_next_cursor (list_reply_entry ?l (int k)) = int (Suc k)"
      by (auto simp: list_reply_entry_def split: prod.split)
    have up: "[k..<length ?l] = k # [Suc k..<length ?l]" using True by (rule upt_conv_Cons)
    have "\<exists>c'. read_directory_loop n ops path c1 (int (Suc k)) (es @ [list_reply_entry ?l (int k)])
        = Some (c', Inr (Inr ((es @ [list_reply_entry ?l (int k)])
            @ map (\<lambda>i. list_reply_entry ?l (int i)) [Suc k..<length ?l])))"
      using Suc.IH [of c1 "Suc k" "es @ [list_reply_entry ?l (int k)]"] True c1 Suc.prems by simp
    then show ?thesis using req c1 x e by (auto simp: up)
  next
    case False
    with Suc.prems(4) have "k = length ?l" by simp
    then show ?thesis using req c1 x by (simp add: list_reply_entry_def)
  qed
qed simp

lemma read_directory_correct:
  assumes "wf c" "ops_ready ops c" "is_ok (fs_path path 48)" "length (listing c) < n"
  shows "\<exists>c'. read_directory n ops c path = Some (c', Inr (Inr
      (map (\<lambda>i. list_reply_entry (listing c) (int i)) [0..<length (listing c)])))"
  using read_directory_loop_correct [OF assms(1-3), of 0 n "[]"] assms(4)
  by (simp add: read_directory_def)

end

section \<open>The client over the wire\<close>

text \<open>The device side of the file service: a store of files and one directory listing.\<close>

record flash =
  fl_files :: "(string \<times> bytes) list"
  fl_listing :: "(string \<times> int \<times> bool) list"

definition flash_wf :: "flash \<Rightarrow> bool" where
  "flash_wf d \<longleftrightarrow> list_all (\<lambda>(path, f). length f < 0x100000000) (fl_files d)
     \<and> length (fl_listing d) < 0x10000
     \<and> list_all (\<lambda>(name, size', dir). ascii_text name \<and> length name \<le> 42
         \<and> 0 \<le> size' \<and> size' < 0x100000000) (fl_listing d)"

definition entry_payload :: "list_entry \<Rightarrow> bytes" where
  "entry_payload e =
     [FILESYSTEM_LIST, (if le_eof e then FILESYSTEM_FLAG_EOF else 0)
        OR (if le_directory e then FILESYSTEM_FLAG_DIRECTORY else 0),
      0, len_byte (bytes_of_string (le_name e))]
     @ le_bytes 2 (le_next_cursor e) @ le_bytes 4 (le_size e) @ bytes_of_string (le_name e)"

definition chunk_payload :: "bytes \<Rightarrow> int \<Rightarrow> bytes" where
  "chunk_payload f off =
     [FILESYSTEM_READ, if length f \<le> nat off + 40 then FILESYSTEM_FLAG_EOF else 0]
     @ le_bytes 2 (int (length (pyslice (nat off) (nat off + 40) f)))
     @ le_bytes 4 off @ le_bytes 4 (int (length f)) @ pyslice (nat off) (nat off + 40) f"

definition flash_respond :: "flash \<Rightarrow> message \<Rightarrow> flash \<times> message" where
  "flash_respond d request =
     (let p = msg_payload request; s = msg_sequence request in
      if take 1 p = [FILESYSTEM_READ] then
        (case map_of (fl_files d) (string_of_bytes (take (unat (p ! 1)) (drop 8 p))) of
           Some f \<Rightarrow> (d, Message TYPE_FILESYSTEM_RESULT s
             (chunk_payload f (le_int (take 4 (drop 4 p)))))
         | None \<Rightarrow> (d, (Message TYPE_FILESYSTEM_RESULT s [FILESYSTEM_READ])\<lparr>msg_status := STATUS_NOT_FOUND\<rparr>))
      else if take 1 p = [FILESYSTEM_LIST] then
        (d, Message TYPE_FILESYSTEM_RESULT s
          (entry_payload (list_reply_entry (fl_listing d) (le_int (take 2 (drop 2 p))))))
      else (d, Message TYPE_ERROR s []))"

definition sample_file :: bytes where
  "sample_file = replicate 100 7"

definition sample_flash :: flash where
  "sample_flash = \<lparr>fl_files = [(''flash:/a.bin'', sample_file)],
     fl_listing = [(''a.bin'', 100, False), (''lib'', 0, True)]\<rparr>"

lemma sample_flash_wf: "flash_wf sample_flash"
  by (simp add: flash_wf_def sample_flash_def sample_file_def ascii_text_def)

lemma parse_read_chunk:
  assumes "0 \<le> off" "off < 0x100000000" "length f < 0x100000000"
    and "take 1 (msg_payload request) = [FILESYSTEM_READ]"
  shows "parse_read (Message TYPE_FILESYSTEM_RESULT (msg_sequence request) (chunk_payload f off)) request
    = Inr \<lparr>rc_offset = off, rc_total_size = int (length f),
        rc_data = pyslice (nat off) (nat off + 40) f, rc_eof = (length f \<le> nat off + 40)\<rparr>"
proof -
  let ?d = "pyslice (nat off) (nat off + 40) f"
  let ?p = "chunk_payload f off"
  let ?pre = "[FILESYSTEM_READ, if length f \<le> nat off + 40 then FILESYSTEM_FLAG_EOF else 0] :: bytes"
  have "length ?d \<le> 40" by simp
  then have n: "int (length ?d) < 65536" by linarith
  have "unpack_from [SU 2] (?pre @ le_bytes 2 (int (length ?d))
      @ (le_bytes 4 off @ le_bytes 4 (int (length f)) @ ?d)) 2 = Inr [SInt (int (length ?d))]"
    by (rule unpack_from_skip) (use n in \<open>simp_all del: le_bytes.simps length_pyslice\<close>)
  then have u1: "unpack_from [SU 2] ?p 2 = Inr [SInt (int (length ?d))]"
    by (simp add: chunk_payload_def del: le_bytes.simps length_pyslice)
  have "unpack_from [SU 4, SU 4] ((?pre @ le_bytes 2 (int (length ?d)))
      @ (le_bytes 4 off @ le_bytes 4 (int (length f))) @ ?d) 4 = Inr [SInt off, SInt (int (length f))]"
    by (rule unpack_from_skip) (use assms in \<open>simp_all del: le_bytes.simps\<close>)
  then have u2: "unpack_from [SU 4, SU 4] ?p 4 = Inr [SInt off, SInt (int (length f))]"
    by (simp add: chunk_payload_def del: le_bytes.simps length_pyslice)
  have l: "length ?p = 12 + length ?d" by (simp add: chunk_payload_def del: le_bytes.simps length_pyslice)
  have d: "pyslice 12 (12 + length ?d) ?p = ?d"
    using pyslice_suffix [of "?pre @ le_bytes 2 (int (length ?d)) @ le_bytes 4 off
        @ le_bytes 4 (int (length f))" 12 ?d]
    by (simp add: chunk_payload_def del: le_bytes.simps length_pyslice)
  have "validate_reply (Message TYPE_FILESYSTEM_RESULT (msg_sequence request) ?p) request = Inr ?p"
    using assms(4) by (cases "msg_payload request") (simp_all add: validate_reply_def chunk_payload_def)
  moreover have "?p ! 1 = (if length f \<le> nat off + 40 then FILESYSTEM_FLAG_EOF else 0)"
    by (simp add: chunk_payload_def)
  ultimately show ?thesis using u1 u2 l d by (simp add: parse_read_def del: length_pyslice)
qed

lemma parse_list_entry:
  assumes "ascii_text (le_name e)" "length (le_name e) \<le> 42"
    and "0 \<le> le_size e" "le_size e < 0x100000000" "0 \<le> le_next_cursor e" "le_next_cursor e < 0x10000"
    and "take 1 (msg_payload request) = [FILESYSTEM_LIST]"
  shows "parse_list (Message TYPE_FILESYSTEM_RESULT (msg_sequence request) (entry_payload e)) request = Inr e"
proof -
  let ?p = "entry_payload e"
  let ?n = "bytes_of_string (le_name e)"
  let ?pre = "[FILESYSTEM_LIST, (if le_eof e then FILESYSTEM_FLAG_EOF else 0)
        OR (if le_directory e then FILESYSTEM_FLAG_DIRECTORY else 0), 0, len_byte ?n] :: bytes"
  have "unpack_from [SU 2] (?pre @ le_bytes 2 (le_next_cursor e) @ (le_bytes 4 (le_size e) @ ?n)) 4
      = Inr [SInt (le_next_cursor e)]"
    by (rule unpack_from_skip) (use assms in \<open>simp_all del: le_bytes.simps\<close>)
  then have u1: "unpack_from [SU 2] ?p 4 = Inr [SInt (le_next_cursor e)]"
    by (simp add: entry_payload_def del: le_bytes.simps)
  have "unpack_from [SU 4] ((?pre @ le_bytes 2 (le_next_cursor e)) @ le_bytes 4 (le_size e) @ ?n) 6
      = Inr [SInt (le_size e)]"
    by (rule unpack_from_skip) (use assms in \<open>simp_all del: le_bytes.simps\<close>)
  then have u2: "unpack_from [SU 4] ?p 6 = Inr [SInt (le_size e)]"
    by (simp add: entry_payload_def del: le_bytes.simps)
  have l: "length ?p = 10 + length (le_name e)" "unat (?p ! 3) = length (le_name e)"
    using len_byte_small [of ?n] assms(2) by (simp_all add: entry_payload_def del: le_bytes.simps)
  have d: "pyslice 10 (10 + length (le_name e)) ?p = ?n"
    by (simp add: pyslice_def entry_payload_def del: le_bytes.simps)
  have "validate_reply (Message TYPE_FILESYSTEM_RESULT (msg_sequence request) ?p) request = Inr ?p"
    using assms(7) by (cases "msg_payload request") (simp_all add: validate_reply_def entry_payload_def)
  moreover have "(?p ! 1 AND FILESYSTEM_FLAG_EOF \<noteq> 0) = le_eof e"
    "(?p ! 1 AND FILESYSTEM_FLAG_DIRECTORY \<noteq> 0) = le_directory e"
    by (simp_all add: entry_payload_def)
  ultimately show ?thesis using u1 u2 l d utf8_decode_text [OF assms(1)]
    by (simp add: parse_list_def Let_def)
qed

lemma flash_read_answer:
  assumes wf: "flash_wf d" and req: "read_request path off s = Inr request"
    and s: "1 \<le> s" "s < 0x100000000" and f: "map_of (fl_files d) path = Some f"
  shows "wire_exchange flash_respond d request =
    (d, Inr (Some (Message TYPE_FILESYSTEM_RESULT s (chunk_payload f off)), 0, None))"
    and "parse_read (Message TYPE_FILESYSTEM_RESULT s (chunk_payload f off)) request
      = Inr \<lparr>rc_offset = off, rc_total_size = int (length f),
          rc_data = pyslice (nat off) (nat off + 40) f, rc_eof = (length f \<le> nat off + 40)\<rparr>"
proof -
  obtain c where e: "is_ok (fs_path path 44)" and c: "pack [SU 4] [SInt off] = Inr c"
      and r: "request = fs_request FILESYSTEM_READ s
        ([len_byte (bytes_of_string path), 0, 0] @ c @ bytes_of_string path)"
    using req by (auto simp: read_request_def fs_path_eq is_ok_iff simp del: pack.simps)
  have p: "length path \<le> 44" using e by (auto simp: fs_path_eq is_ok_iff)
  have o: "0 \<le> off" "off < 0x100000000" "length c = 4" "le_int c = off"
    using c length_pack [OF c] by (auto split: if_splits simp del: le_bytes.simps)
  have n: "unat (len_byte (bytes_of_string path)) = length path"
    using len_byte_small [of "bytes_of_string path"] p by simp
  have lf: "length f < 0x100000000"
    using wf map_of_SomeD [OF f] by (force simp: flash_wf_def list_all_iff)
  have "length (pyslice (nat off) (nat off + 40) f) \<le> 40" by simp
  then have cl: "length (chunk_payload f off) \<le> 52"
    by (simp add: chunk_payload_def del: le_bytes.simps length_pyslice)
  show "parse_read (Message TYPE_FILESYSTEM_RESULT s (chunk_payload f off)) request
      = Inr \<lparr>rc_offset = off, rc_total_size = int (length f),
          rc_data = pyslice (nat off) (nat off + 40) f, rc_eof = (length f \<le> nat off + 40)\<rparr>"
    using parse_read_chunk [of off f request] o lf by (simp add: r)
  show "wire_exchange flash_respond d request =
    (d, Inr (Some (Message TYPE_FILESYSTEM_RESULT s (chunk_payload f off)), 0, None))"
  proof (rule wire_exchange_delivers)
    show "flash_respond d request = (d, Message TYPE_FILESYSTEM_RESULT s (chunk_payload f off))"
      using o n f by (simp add: flash_respond_def r Let_def)
    show "message_wf request" using s o p by (simp add: r message_wf_def)
    show "message_wf (Message TYPE_FILESYSTEM_RESULT s (chunk_payload f off))"
      using s cl by (simp add: message_wf_def)
  qed (simp add: r validate_filesystem_type_reply)
qed

lemma list_reply_entry_wf:
  assumes "flash_wf d" "0 \<le> cursor" "cursor < 0x10000"
  shows "ascii_text (le_name (list_reply_entry (fl_listing d) cursor))
    \<and> length (le_name (list_reply_entry (fl_listing d) cursor)) \<le> 42
    \<and> 0 \<le> le_size (list_reply_entry (fl_listing d) cursor)
    \<and> le_size (list_reply_entry (fl_listing d) cursor) < 0x100000000
    \<and> 0 \<le> le_next_cursor (list_reply_entry (fl_listing d) cursor)
    \<and> le_next_cursor (list_reply_entry (fl_listing d) cursor) < 0x10000"
proof (cases "cursor < int (length (fl_listing d))")
  case True
  then have i: "nat cursor < length (fl_listing d)" using assms(2) by simp
  obtain name size' dir where e: "fl_listing d ! nat cursor = (name, size', dir)"
    by (cases "fl_listing d ! nat cursor") auto
  then have "(name, size', dir) \<in> set (fl_listing d)" using nth_mem [OF i] by simp
  then have "ascii_text name \<and> length name \<le> 42 \<and> 0 \<le> size' \<and> size' < 0x100000000"
    using assms(1) by (force simp: flash_wf_def list_all_iff)
  moreover have "cursor + 1 < 0x10000" using assms(1) True by (simp add: flash_wf_def)
  ultimately show ?thesis using True e assms(2) by (simp add: list_reply_entry_def)
qed (use assms in \<open>simp add: list_reply_entry_def ascii_text_def\<close>)

lemma flash_list_answer:
  assumes wf: "flash_wf d" and req: "list_request path cursor s = Inr request"
    and s: "1 \<le> s" "s < 0x100000000"
  shows "wire_exchange flash_respond d request =
    (d, Inr (Some (Message TYPE_FILESYSTEM_RESULT s
      (entry_payload (list_reply_entry (fl_listing d) cursor))), 0, None))"
    and "parse_list (Message TYPE_FILESYSTEM_RESULT s
      (entry_payload (list_reply_entry (fl_listing d) cursor))) request
      = Inr (list_reply_entry (fl_listing d) cursor)"
proof -
  let ?e = "list_reply_entry (fl_listing d) cursor"
  obtain c where e: "is_ok (fs_path path 48)" and c: "pack [SU 2] [SInt cursor] = Inr c"
      and r: "request = fs_request FILESYSTEM_LIST s
        ([len_byte (bytes_of_string path)] @ c @ bytes_of_string path)"
    using req by (auto simp: list_request_def fs_path_eq is_ok_iff simp del: pack.simps)
  have p: "length path \<le> 48" using e by (auto simp: fs_path_eq is_ok_iff)
  have o: "0 \<le> cursor" "cursor < 0x10000" "length c = 2" "le_int c = cursor"
    using c length_pack [OF c] by (auto split: if_splits simp del: le_bytes.simps)
  note w = list_reply_entry_wf [OF wf o(1,2)]
  then have cl: "length (entry_payload ?e) \<le> 52"
    by (simp add: entry_payload_def del: le_bytes.simps)
  show "parse_list (Message TYPE_FILESYSTEM_RESULT s (entry_payload ?e)) request = Inr ?e"
    using parse_list_entry [of ?e request] w by (simp add: r)
  show "wire_exchange flash_respond d request =
    (d, Inr (Some (Message TYPE_FILESYSTEM_RESULT s (entry_payload ?e)), 0, None))"
  proof (rule wire_exchange_delivers)
    show "flash_respond d request = (d, Message TYPE_FILESYSTEM_RESULT s (entry_payload ?e))"
      using o by (simp add: flash_respond_def r Let_def)
    show "message_wf request" using s o p by (simp add: r message_wf_def)
    show "message_wf (Message TYPE_FILESYSTEM_RESULT s (entry_payload ?e))"
      using s cl by (simp add: message_wf_def)
  qed (simp add: r validate_filesystem_type_reply)
qed

interpretation wire_flash: flash_device "client_ops (wire_exchange flash_respond)"
    "\<lambda>c. map_of (fl_files (cl_device c))" "\<lambda>c. fl_listing (cl_device c)" "\<lambda>c. flash_wf (cl_device c)"
proof
  show "length f < 0x100000000" if "flash_wf (cl_device c)" "map_of (fl_files (cl_device c)) path = Some f"
    for c :: "flash client" and path f
    using that map_of_SomeD [OF that(2)] by (force simp: flash_wf_def list_all_iff)
qed (auto simp: client_settle client_exchange_def flash_read_answer flash_list_answer flash_wf_def)

lemma read_request_shape:
  assumes "read_request path off s = Inr request"
  obtains c where "request = fs_request FILESYSTEM_READ s
      ([len_byte (bytes_of_string path), 0, 0] @ c @ bytes_of_string path)"
    "length c = 4" "length path \<le> 44" "unat (len_byte (bytes_of_string path)) = length path"
proof -
  obtain c where e: "is_ok (fs_path path 44)" and c: "pack [SU 4] [SInt off] = Inr c"
      and r: "request = fs_request FILESYSTEM_READ s
        ([len_byte (bytes_of_string path), 0, 0] @ c @ bytes_of_string path)"
    using assms by (auto simp: read_request_def fs_path_eq is_ok_iff simp del: pack.simps)
  have p: "length path \<le> 44" using e by (auto simp: fs_path_eq is_ok_iff)
  moreover have "unat (len_byte (bytes_of_string path)) = length path"
    using len_byte_small [of "bytes_of_string path"] p by simp
  moreover have "length c = 4" using length_pack [OF c] by simp
  ultimately show ?thesis using that r by blast
qed

lemma read_file_missing:
  assumes "1 \<le> rs_value (cl_sequence c)" "rs_value (cl_sequence c) < 0x100000000"
    and "is_ok (fs_path path 44)" "map_of (fl_files (cl_device c)) path = None"
  shows "\<exists>c'. read_file (client_ops (wire_exchange flash_respond)) c path = (c', Inr (Inl ''path not found''))
    \<and> cl_device c' = cl_device c"
proof -
  let ?s = "rs_value (cl_sequence c)"
  let ?r = "(Message TYPE_FILESYSTEM_RESULT ?s [FILESYSTEM_READ])\<lparr>msg_status := STATUS_NOT_FOUND\<rparr>"
  obtain request where req: "read_request path 0 ?s = Inr request"
    using assms(3) by (auto simp: is_ok_iff read_request_def)
  then obtain b where r: "request = fs_request FILESYSTEM_READ ?s
      ([len_byte (bytes_of_string path), 0, 0] @ b @ bytes_of_string path)"
    "length b = 4" "length path \<le> 44" "unat (len_byte (bytes_of_string path)) = length path"
    by (rule read_request_shape)
  have "wire_exchange flash_respond (cl_device c) request = (cl_device c, Inr (Some ?r, 0, None))"
  proof (rule wire_exchange_delivers)
    show "flash_respond (cl_device c) request = (cl_device c, ?r)"
      using assms(4) r by (simp add: flash_respond_def)
    show "message_wf request" using assms(1,2) r by (simp add: message_wf_def)
    show "message_wf ?r" using assms(1,2) by (simp add: message_wf_def)
  qed (simp add: r(1) validate_filesystem_type_reply)
  moreover have "validate_reply ?r request = Inl (ValueError ''path not found'')"
    by (simp add: r(1) validate_reply_def STATUS_NAMES_def)
  ultimately show ?thesis using req
    by (simp add: read_file_def read_file_loop.simps filesystem_request_def send_request_def caught_def
        client_exchange_def Let_def)
qed

lemma flash_path_ok:
  assumes "starts_with path ''flash:/''" "length path \<le> n"
  shows "is_ok (fs_path path n)"
proof -
  have t: "take 7 path = ''flash:/''" using assms(1) by (simp add: starts_with_def eval_nat_numeral)
  then have "take 6 (take 7 path) = ''flash:''" "take 7 path ! 6 = CHR ''/''" by simp_all
  then have "take 6 path = ''flash:''" "path ! 6 = CHR ''/''" by (simp_all del: take_Cons_numeral)
  then show ?thesis using assms(2) by (simp add: is_ok_iff fs_path_eq starts_with_def eval_nat_numeral)
qed

section \<open>Properties\<close>





end
