(* ===== verification/Services_Workload.thy ===== *)
theory Services_Workload
  imports Services
begin

text \<open>
  Workload transactions: what a result of \<open>transact\<close> says about the exchange it reports, for every
  device, and that an upload to a device that answers each record reaches it whole and in order.
\<close>

section \<open>Transactions of any outcome\<close>

lemma client_update: "op_update (client_ops x) p c =
    (case from_payload p of Inl e \<Rightarrow> (c, Inl e) | Inr u \<Rightarrow> (c\<lparr>cl_state := u\<rparr>, Inr ()))"
  by (simp add: client_ops_def update_from_payload_eq split: sum.split)

lemma error_or_nonempty: "d \<noteq> [] \<Longrightarrow> error_or e d \<noteq> []"
  by (auto simp: error_or_def split: option.split list.split)

definition transaction_consistent :: "nat \<Rightarrow> nat \<Rightarrow> nat \<Rightarrow> transaction_result \<Rightarrow> bool" where
  "transaction_consistent index n changes r \<longleftrightarrow>
     (case tr_failed_index r of
        None \<Rightarrow> tr_success r \<and> tr_error r = None \<and> changes = n
      | Some i \<Rightarrow> \<not> tr_success r \<and> (case tr_error r of Some e \<Rightarrow> e \<noteq> [] | None \<Rightarrow> False)
          \<and> index \<le> i \<and> i < index + n \<and> changes = i - index)"

lemma transact_loop_sound:
  "transact_loop (client_ops exchange) count w index latencies records = (w', Inr r) \<Longrightarrow>
     sequence_ok (cl_sequence w) \<Longrightarrow>
     tr_count r = count \<and> sequence_ok (cl_sequence w')
     \<and> cl_state_changes w \<le> cl_state_changes w'
     \<and> transaction_consistent index (length records) (cl_state_changes w' - cl_state_changes w) r
     \<and> cl_activity w' = cl_activity w + (if tr_success r then 1 else 0)
     \<and> length (tr_latencies_ms r) \<le> length latencies + length records
     \<and> (tr_success r \<longrightarrow> length (tr_latencies_ms r) = length latencies + length records)"
proof (induction records arbitrary: w index latencies)
  case (Cons request records)
  obtain d outcome where o: "exchange (cl_device w) request = (d, outcome)" by fastforce
  then obtain reply lat error where x: "exchange (cl_device w) request = (d, Inr (reply, lat, error))"
    using Cons.prems(1) by (cases outcome) (auto simp: client_exchange_def)
  show ?case
  proof (cases reply)
    case None
    then show ?thesis using Cons.prems x error_or_nonempty [of "''workload exchange failed''" error]
      by (auto simp: transaction_consistent_def client_exchange_def)
  next
    case (Some rp)
    let ?w1 = "w\<lparr>cl_device := d, cl_sequence := fst (advance_after (cl_sequence w) (msg_sequence request))\<rparr>"
    have ok: "sequence_ok (cl_sequence ?w1)" using sequence_ok_advance by simp
    show ?thesis
    proof (cases "from_payload (msg_payload rp)")
      case (Inl e)
      then show ?thesis using Cons.prems x Some ok
        by (cases e) (auto simp: transaction_consistent_def client_exchange_def client_update)
    next
      case (Inr u)
      let ?w = "?w1\<lparr>cl_state := u, cl_state_changes := Suc (cl_state_changes w)\<rparr>"
      have "transact_loop (client_ops exchange) count ?w (Suc index) (latencies @ [lat]) records = (w', Inr r)"
        using Cons.prems x Some Inr by (simp add: client_exchange_def client_update)
      moreover have "sequence_ok (cl_sequence ?w)" using ok by simp
      ultimately have ih: "tr_count r = count \<and> sequence_ok (cl_sequence w')
         \<and> cl_state_changes ?w \<le> cl_state_changes w'
         \<and> transaction_consistent (Suc index) (length records) (cl_state_changes w' - cl_state_changes ?w) r
         \<and> cl_activity w' = cl_activity ?w + (if tr_success r then 1 else 0)
         \<and> length (tr_latencies_ms r) \<le> length (latencies @ [lat]) + length records
         \<and> (tr_success r \<longrightarrow> length (tr_latencies_ms r) = length (latencies @ [lat]) + length records)"
        by (rule Cons.IH)
      then have "transaction_consistent index (length (request # records))
          (cl_state_changes w' - cl_state_changes w) r"
        by (auto simp: transaction_consistent_def split: option.splits)
      with ih show ?thesis by auto
    qed
  qed
qed (auto simp: transaction_consistent_def)

section \<open>Delivery\<close>

abbreviation upload_types :: "int set" where
  "upload_types \<equiv> {TYPE_WORKLOAD_BEGIN, TYPE_WORKLOAD_DATA, TYPE_WORKLOAD_COMMIT, TYPE_WORKLOAD_CONTROL}"

text \<open>
  A device that answers every workload record with a status the owner accepts; \<open>taken\<close> is the state
  after the answer was taken into the workload state and the owner was told.
\<close>

definition taken :: "('c, 'x) workload_ops_scheme \<Rightarrow> message \<Rightarrow> message \<Rightarrow> 'c \<Rightarrow> 'c \<Rightarrow> bool" where
  "taken ops m reply c1 c' \<longleftrightarrow> (\<exists>c2. op_update ops (msg_payload reply) (op_advance ops (msg_sequence m) c1)
     = (c2, Inr ()) \<and> op_state_change ops c2 = (c', Inr ()))"

locale status_device =
  fixes ops :: "('c, 'x) workload_ops_scheme"
    and seen :: "'c \<Rightarrow> message list"
    and wf :: "'c \<Rightarrow> bool"
  assumes answer: "wf c \<Longrightarrow> message_wf m \<Longrightarrow> msg_type m \<in> upload_types \<Longrightarrow>
    \<exists>c1 reply latency c'. op_exchange ops c m = (c1, Inr (Some reply, latency, None)) \<and> taken ops m reply c1 c'
      \<and> seen c' = seen c @ [m] \<and> wf c'"
    and activity: "wf c \<Longrightarrow> seen (op_activity ops c) = seen c \<and> wf (op_activity ops c)"
begin

lemma transact_loop_delivers:
  "(\<forall>m \<in> set records. message_wf m \<and> msg_type m \<in> upload_types) \<Longrightarrow> wf c \<Longrightarrow>
     \<exists>c' r. transact_loop ops count c index latencies records = (c', Inr r)
       \<and> tr_success r \<and> seen c' = seen c @ records \<and> wf c'"
proof (induction records arbitrary: c index latencies)
  case (Cons request records)
  obtain c1 reply lat c2 where x: "op_exchange ops c request = (c1, Inr (Some reply, lat, None))"
      and t: "taken ops request reply c1 c2" and l: "seen c2 = seen c @ [request]" and w: "wf c2"
    using answer [of c request] Cons.prems by auto
  obtain c' r where "transact_loop ops count c2 (Suc index) (latencies @ [lat]) records = (c', Inr r)"
      "tr_success r" "seen c' = seen c2 @ records" "wf c'"
    using Cons.IH [OF _ w] Cons.prems by force
  then show ?case using x l t by (auto simp: taken_def)
qed (use activity in auto)

lemma transact_delivers:
  "(\<forall>m \<in> set records. message_wf m \<and> msg_type m \<in> upload_types) \<Longrightarrow> wf c \<Longrightarrow>
     \<exists>c' r. transact ops c records = (c', Inr r) \<and> tr_success r \<and> seen c' = seen c @ records \<and> wf c'"
  unfolding transact_def by (rule transact_loop_delivers)

end

section \<open>The client over the wire\<close>

text \<open>The device side of a transaction: every record is kept and answered with a status.\<close>

definition loader_respond :: "message list \<Rightarrow> message \<Rightarrow> message list \<times> message" where
  "loader_respond seen request =
     (seen @ [request], Message TYPE_WORKLOAD_STATUS (msg_sequence request) (replicate 52 0))"

lemma validate_workload_type_reply:
  "msg_type request \<in> upload_types \<Longrightarrow> decode_hid r = Inr reply \<Longrightarrow>
     msg_type reply = TYPE_WORKLOAD_STATUS \<Longrightarrow> msg_sequence reply = msg_sequence request \<Longrightarrow>
     msg_status reply = STATUS_OK \<Longrightarrow> validate_device_reply r request expected = Inr reply"
  by (auto simp: validate_device_reply_def)

lemma idle_status_ok: "is_ok (from_payload (replicate 52 0))"
  by (simp add: is_ok_iff from_payload_eq numeral_2_eq_2)

interpretation wire_loader: status_device "client_ops (wire_exchange loader_respond)" cl_device "\<lambda>_. True"
proof
  fix m :: message and c :: "message list client"
  assume m: "message_wf m" "msg_type m \<in> upload_types"
  let ?r = "Message TYPE_WORKLOAD_STATUS (msg_sequence m) (replicate 52 0)"
  have x: "wire_exchange loader_respond (cl_device c) m = (cl_device c @ [m], Inr (Some ?r, 0, None))"
  proof (rule wire_exchange_delivers)
    show "loader_respond (cl_device c) m = (cl_device c @ [m], ?r)" by (simp add: loader_respond_def)
    show "message_wf ?r" using m(1) by (simp add: message_wf_def)
  qed (use m in \<open>simp_all add: validate_workload_type_reply\<close>)
  obtain u where "from_payload (replicate 52 0) = Inr u" using idle_status_ok by (auto simp: is_ok_iff)
  with x show "\<exists>c1 reply latency c'. op_exchange (client_ops (wire_exchange loader_respond)) c m
        = (c1, Inr (Some reply, latency, None))
      \<and> taken (client_ops (wire_exchange loader_respond)) m reply c1 c'
      \<and> cl_device c' = cl_device c @ [m] \<and> True"
    by (simp add: taken_def client_exchange_def client_update)
qed simp

lemma upload_data_types:
  "upload_data img t off s = Inr (ms, s') \<Longrightarrow> \<forall>r \<in> set ms. msg_type r = TYPE_WORKLOAD_DATA"
proof (induction img t off s arbitrary: ms s' rule: upload_data.induct)
  case step: (1 img t off s)
  show ?case
  proof (cases "off < length img")
    case True
    then obtain rest where "upload_data img t (off + DATA_BYTES) (s + 1) = Inr (rest, s')"
        and "msg_type (hd ms) = TYPE_WORKLOAD_DATA" "tl ms = rest" "ms \<noteq> []"
      using step.prems by (subst (asm) upload_data.simps) auto
    with step.IH [OF True] show ?thesis by (cases ms) auto
  next
    case False
    with step.prems show ?thesis by (subst (asm) upload_data.simps) simp
  qed
qed

lemma upload_record_types:
  "upload_records m img t s = Inr ms \<Longrightarrow> \<forall>r \<in> set ms. msg_type r \<in> upload_types"
  by (auto simp: upload_records_eq dest!: upload_data_types)

section \<open>Properties\<close>





end
