(* ===== verification/Py_Codecs.thy ===== *)
theory Py_Codecs
  imports Py_Text
begin

text \<open>
  Text encodings of byte strings from Python's library: \<open>base64.b64encode\<close>,
  \<open>base64.b64decode(s, validate=True)\<close>, \<open>bytes.hex\<close> and \<open>bytes.fromhex\<close>, with the round trips
  the broker protocol rests on.
\<close>

section \<open>Base64\<close>

definition b64_char :: "nat \<Rightarrow> char" where
  "b64_char n = (if n < 26 then char_of (65 + n) else if n < 52 then char_of (71 + n)
     else if n < 62 then char_of (n - 4) else if n = 62 then CHR ''+'' else CHR ''/'')"

definition b64_value :: "char \<Rightarrow> nat option" where
  "b64_value c = (let n = (of_char c :: nat) in
     if 65 \<le> n \<and> n \<le> 90 then Some (n - 65) else if 97 \<le> n \<and> n \<le> 122 then Some (n - 71)
     else if 48 \<le> n \<and> n \<le> 57 then Some (n + 4) else if c = CHR ''+'' then Some 62
     else if c = CHR ''/'' then Some 63 else None)"

fun b64_groups :: "nat list \<Rightarrow> string" where
  "b64_groups (a # b # c # bs) =
     map b64_char [a div 4, a mod 4 * 16 + b div 16, b mod 16 * 4 + c div 64, c mod 64] @ b64_groups bs"
| "b64_groups [a, b] = map b64_char [a div 4, a mod 4 * 16 + b div 16, b mod 16 * 4] @ ''=''"
| "b64_groups [a] = map b64_char [a div 4, a mod 4 * 16] @ ''==''"
| "b64_groups [] = []"

definition b64encode :: "bytes \<Rightarrow> string" where
  "b64encode bs = b64_groups (map unat bs)"

text \<open>
  The decoder reads characters with its position in the current group of four, the bits left
  over from the last character, the pads counted so far, whether padding was seen, and the
  output.
\<close>

fun b64_steps :: "string \<Rightarrow> nat \<Rightarrow> nat \<Rightarrow> nat \<Rightarrow> bool \<Rightarrow> nat list \<Rightarrow> nat list res" where
  "b64_steps [] quad left pads padded out =
     (if quad = 0 then Inr out
      else if quad = 1
      then Inl (ValueError (''Invalid base64-encoded string: number of data characters (''
             @ dec (int (length out div 3 * 4 + 1)) @ '') cannot be 1 more than a multiple of 4''))
      else Inl (ValueError ''Incorrect padding''))"
| "b64_steps (ch # s) quad left pads padded out =
     (if ch = CHR ''='' then
        if quad \<ge> 2 \<and> quad + (pads + 1) \<ge> 4
        then (if s \<noteq> [] then Inl (ValueError ''Excess data after padding'') else Inr out)
        else b64_steps s quad left (if quad \<ge> 2 then pads + 1 else pads) True out
      else case b64_value ch of
        None \<Rightarrow> Inl (ValueError ''Only base64 data is allowed'')
      | Some v \<Rightarrow>
          if padded then Inl (ValueError ''Discontinuous padding not allowed'')
          else if quad = 0 then b64_steps s 1 v 0 padded out
          else if quad = 1 then b64_steps s 2 (v mod 16) 0 padded (out @ [left * 4 + v div 16])
          else if quad = 2 then b64_steps s 3 (v mod 4) 0 padded (out @ [left * 16 + v div 4])
          else b64_steps s 0 0 0 padded (out @ [left * 64 + v]))"

definition b64decode :: "string \<Rightarrow> bytes res" where
  "b64decode s =
     (if \<not> ascii_text s
      then Inl (ValueError ''string argument should contain only ASCII characters'')
      else if s \<noteq> [] \<and> hd s = CHR ''='' then Inl (ValueError ''Leading padding not allowed'')
      else rmap (map of_nat) (b64_steps s 0 0 0 False []))"

section \<open>Hexadecimal\<close>

definition hex_digit :: "nat \<Rightarrow> char" where
  "hex_digit n = (if n < 10 then char_of (48 + n) else char_of (87 + n))"

definition hex_value :: "char \<Rightarrow> nat option" where
  "hex_value c = (let n = (of_char c :: nat) in
     if 48 \<le> n \<and> n \<le> 57 then Some (n - 48) else if 65 \<le> n \<and> n \<le> 70 then Some (n - 55)
     else if 97 \<le> n \<and> n \<le> 102 then Some (n - 87) else None)"

definition bytes_hex :: "bytes \<Rightarrow> string" where
  "bytes_hex bs = concat (map (\<lambda>b. [hex_digit (unat b div 16), hex_digit (unat b mod 16)]) bs)"

definition hex_space :: "char \<Rightarrow> bool" where
  "hex_space c = (let n = (of_char c :: nat) in (9 \<le> n \<and> n \<le> 13) \<or> n = 32)"

definition fromhex_error :: "nat \<Rightarrow> exc" where
  "fromhex_error i =
     ValueError (''non-hexadecimal number found in fromhex() arg at position '' @ dec (int i))"

fun fromhex_steps :: "nat \<Rightarrow> string \<Rightarrow> bytes res" where
  "fromhex_steps i [] = Inr []"
| "fromhex_steps i (c # s) =
     (if hex_space c then fromhex_steps (Suc i) s
      else case hex_value c of
        None \<Rightarrow> Inl (fromhex_error i)
      | Some hi \<Rightarrow> (case s of
          [] \<Rightarrow> Inl (fromhex_error (Suc i))
        | d # s' \<Rightarrow> (case hex_value d of
            None \<Rightarrow> Inl (fromhex_error (Suc i))
          | Some lo \<Rightarrow>
              rmap (\<lambda>bs. word_of_int (int (hi * 16 + lo)) # bs) (fromhex_steps (Suc (Suc i)) s'))))"

definition fromhex :: "string \<Rightarrow> bytes res" where
  "fromhex s = (case dropWhile (\<lambda>(i, c). of_char c < (128 :: nat)) (zip [0..<length s] s) of
     (i, c) # _ \<Rightarrow> Inl (fromhex_error i) | [] \<Rightarrow> fromhex_steps 0 s)"

section \<open>Round trips\<close>

lemma byte_less: "unat (b :: byte) < 256"
  using unsigned_less [of b, where 'a = nat] by simp

lemma b64_char_value: "n < 64 \<Longrightarrow> b64_value (b64_char n) = Some n"
  by (auto simp: b64_char_def b64_value_def Let_def)

lemma b64_char_code: "n < 64 \<Longrightarrow> (of_char (b64_char n) :: nat) < 128 \<and> (of_char (b64_char n) :: nat) \<noteq> 61"
  by (auto simp: b64_char_def)

lemma b64_char_plain: "n < 64 \<Longrightarrow> b64_char n \<noteq> CHR ''='' \<and> (of_char (b64_char n) :: nat) < 128"
  using b64_char_code [of n] by auto

lemma b64_step_char:
  assumes "v < 64"
  shows "b64_steps (b64_char v # s) 0 left pads False out = b64_steps s 1 v 0 False out"
    and "b64_steps (b64_char v # s) 1 left pads False out
      = b64_steps s 2 (v mod 16) 0 False (out @ [left * 4 + v div 16])"
    and "b64_steps (b64_char v # s) 2 left pads False out
      = b64_steps s 3 (v mod 4) 0 False (out @ [left * 16 + v div 4])"
    and "b64_steps (b64_char v # s) 3 left pads False out
      = b64_steps s 0 0 0 False (out @ [left * 64 + v])"
  using b64_char_value [OF assms] b64_char_plain [OF assms] by simp_all

lemma b64_quad:
  assumes "x < 64" "y < 64" "z < 64"
  shows "w < 64 \<Longrightarrow> b64_steps (map b64_char [x, y, z, w] @ s) 0 0 0 False out =
      b64_steps s 0 0 0 False (out @ [x * 4 + y div 16, y mod 16 * 16 + z div 4, z mod 4 * 64 + w])"
    and "b64_steps (map b64_char [x, y, z] @ ''='') 0 0 0 False out
      = Inr (out @ [x * 4 + y div 16, y mod 16 * 16 + z div 4])"
    and "b64_steps (map b64_char [x, y] @ ''=='') 0 0 0 False out = Inr (out @ [x * 4 + y div 16])"
  using assms by (simp_all add: b64_step_char del: b64_steps.simps One_nat_def) simp_all

lemma b64_groups_steps:
  "list_all (\<lambda>n. n < 256) ns \<Longrightarrow> b64_steps (b64_groups ns) 0 0 0 False out = Inr (out @ ns)"
proof (induction ns arbitrary: out rule: b64_groups.induct)
  case (1 a b c bs)
  let ?x = "a div 4" and ?y = "a mod 4 * 16 + b div 16" and ?z = "b mod 16 * 4 + c div 64"
  have v: "?x < 64" "?y < 64" "?z < 64" "c mod 64 < 64" using 1 by auto
  have e: "[?x * 4 + ?y div 16, ?y mod 16 * 16 + ?z div 4, ?z mod 4 * 64 + c mod 64] = [a, b, c]"
    using 1 by auto
  show ?case
    unfolding b64_groups.simps b64_quad(1) [OF v] e using 1 by simp
next
  case (2 a b)
  let ?x = "a div 4" and ?y = "a mod 4 * 16 + b div 16" and ?z = "b mod 16 * 4"
  have v: "?x < 64" "?y < 64" "?z < 64" using 2 by auto
  have e: "[?x * 4 + ?y div 16, ?y mod 16 * 16 + ?z div 4] = [a, b]" using 2 by auto
  show ?case unfolding b64_groups.simps b64_quad(2) [OF v] e by simp
next
  case (3 a)
  let ?x = "a div 4" and ?y = "a mod 4 * 16"
  have v: "?x < 64" "?y < 64" "(0::nat) < 64" using 3 by auto
  have e: "[?x * 4 + ?y div 16] = [a]" using 3 by auto
  show ?case unfolding b64_groups.simps b64_quad(3) [OF v] e by simp
qed simp

lemma b64_digits:
  fixes a b c :: nat
  assumes "a < 256" "b < 256" "c < 256"
  shows "a div 4 < 64" "a mod 4 * 16 + b div 16 < 64" "b mod 16 * 4 + c div 64 < 64" "c mod 64 < 64"
    "b mod 16 * 4 < 64" "a mod 4 * 16 < 64"
  using assms by auto

lemma b64_groups_ascii: "list_all (\<lambda>n. n < 256) ns \<Longrightarrow> ascii_text (b64_groups ns)
    \<and> (b64_groups ns \<noteq> [] \<longrightarrow> hd (b64_groups ns) \<noteq> CHR ''='')"
proof (induction ns rule: b64_groups.induct)
  case (1 a b c bs)
  then show ?case using b64_digits [of a b c, THEN b64_char_plain] by (simp add: ascii_text_def)
next
  case (2 a b)
  then show ?case using b64_digits [of a b 0, THEN b64_char_plain] by (simp add: ascii_text_def)
next
  case (3 a)
  then show ?case using b64_digits [of a 0 0, THEN b64_char_plain] by (simp add: ascii_text_def)
qed (simp add: ascii_text_def)

lemma b64_roundtrip: "b64decode (b64encode bs) = Inr bs"
proof -
  have "list_all (\<lambda>n. n < 256) (map unat bs)" using byte_less by (auto simp: list_all_iff)
  with b64_groups_steps [OF this, of "[]"] b64_groups_ascii [OF this] show ?thesis
    by (auto simp: b64decode_def b64encode_def comp_def)
qed

lemma hex_digit_value: "n < 16 \<Longrightarrow> hex_value (hex_digit n) = Some n \<and> \<not> hex_space (hex_digit n)
    \<and> (of_char (hex_digit n) :: nat) < 128"
  by (auto simp: hex_digit_def hex_value_def hex_space_def Let_def)

lemma fromhex_steps_hex: "fromhex_steps i (bytes_hex bs) = Inr bs"
proof (induction bs arbitrary: i)
  case (Cons b bs)
  have n: "unat b < 256" using byte_less [of b] by simp
  then have "hex_value (hex_digit (unat b div 16)) = Some (unat b div 16)"
    "\<not> hex_space (hex_digit (unat b div 16))" "hex_value (hex_digit (unat b mod 16)) = Some (unat b mod 16)"
    using hex_digit_value [of "unat b div 16"] hex_digit_value [of "unat b mod 16"] by auto
  moreover have "word_of_int (int (unat b div 16 * 16 + unat b mod 16)) = b"
    by (simp only: div_mult_mod_eq uint_nat [symmetric] word_of_int_uint)
  ultimately show ?case using Cons by (simp add: bytes_hex_def)
qed (simp add: bytes_hex_def)

lemma bytes_hex_ascii: "ascii_text (bytes_hex bs)"
proof -
  have "(of_char (hex_digit (unat b div 16)) :: nat) < 128" "(of_char (hex_digit (unat b mod 16)) :: nat) < 128"
    for b :: byte
    using hex_digit_value [of "unat b div 16"] hex_digit_value [of "unat b mod 16"] byte_less [of b] by auto
  then show ?thesis by (induction bs) (auto simp: bytes_hex_def ascii_text_def)
qed

lemma hex_roundtrip: "fromhex (bytes_hex bs) = Inr bs"
proof -
  have "dropWhile (\<lambda>(i, c). of_char c < (128 :: nat)) (zip [0..<length (bytes_hex bs)] (bytes_hex bs)) = []"
    using bytes_hex_ascii [of bs] by (auto simp: ascii_text_def list_all_iff dest: set_zip_rightD)
  then show ?thesis unfolding fromhex_def by (simp only: list.case fromhex_steps_hex)
qed

end
