(* ===== verification/Broker.thy ===== *)
theory Broker
  imports Py_Codecs Py_Json Protocol
begin

text \<open>
  The local broker (\<open>broker.py\<close>) that shares one device between clients, and the client API
  (\<open>device.py\<close>): the registry record, the lifecycle, the request handler of the network thread
  cut at its waiting point, the control audit, the queues to the device actor, publication of
  snapshots, and the operations of the clients.  Requests and responses are JSON values; what
  \<open>json.loads\<close> made of a line is an argument of the handler, and so are the clock, the peer
  address and the conversion of a time-out to a number.
\<close>

section \<open>Constants and lifecycle\<close>

abbreviation (input) BROKER_VERSION :: int where "BROKER_VERSION \<equiv> 1"
abbreviation (input) MAX_RPC_BYTES :: nat where "MAX_RPC_BYTES \<equiv> 16384"
abbreviation (input) HOST_RECORD_SIZE :: nat where "HOST_RECORD_SIZE \<equiv> 64"
abbreviation (input) HOST_TYPE_WORKLOAD_CONTROL :: byte where "HOST_TYPE_WORKLOAD_CONTROL \<equiv> 0x23"
abbreviation (input) CONTROL_AUDIT_LIMIT :: nat where "CONTROL_AUDIT_LIMIT \<equiv> 16"

definition WORKLOAD_CONTROL_NAMES :: "int \<rightharpoonup> string" where
  "WORKLOAD_CONTROL_NAMES = map_of [(1, ''RUN''), (2, ''STOP''), (3, ''RESTART''), (4, ''STATUS'')]"

datatype broker_state = OPENING | OWNER_ACTIVE | QUIESCING | FAULT | STOPPED

primrec state_value :: "broker_state \<Rightarrow> string" where
  "state_value OPENING = ''OPENING''"
| "state_value OWNER_ACTIVE = ''OWNER_ACTIVE''"
| "state_value QUIESCING = ''QUIESCING''"
| "state_value FAULT = ''FAULT''"
| "state_value STOPPED = ''STOPPED''"

primrec BROKER_TRANSITIONS :: "broker_state \<Rightarrow> broker_state list" where
  "BROKER_TRANSITIONS OPENING = [OWNER_ACTIVE, FAULT]"
| "BROKER_TRANSITIONS OWNER_ACTIVE = [QUIESCING, FAULT]"
| "BROKER_TRANSITIONS FAULT = [QUIESCING]"
| "BROKER_TRANSITIONS QUIESCING = [STOPPED]"
| "BROKER_TRANSITIONS STOPPED = []"

section \<open>Registry records and discovery\<close>

record broker_record =
  bk_device_id :: string
  bk_tcp_port :: int
  bk_udp_port :: int
  bk_pid :: int
  bk_processor :: string

definition record_from_dict :: "json \<Rightarrow> broker_record res" where
  "record_from_dict v = (case v of
     JObj d \<Rightarrow>
       if \<not> eq_int (dget d ''version'') BROKER_VERSION
       then Inl (ValueError ''unsupported broker registry version'')
       else rbind (dindex d ''device_id'') (\<lambda>device_id.
            rbind (rbind (dindex d ''tcp_port'') json_int) (\<lambda>tcp_port.
            rbind (rbind (dindex d ''udp_port'') json_int) (\<lambda>udp_port.
            rbind (rbind (dindex d ''pid'') json_int) (\<lambda>pid.
            rbind (dindex d ''processor'') (\<lambda>processor.
              Inr \<lparr>bk_device_id = json_str device_id, bk_tcp_port = tcp_port, bk_udp_port = udp_port,
                   bk_pid = pid, bk_processor = json_str processor\<rparr>)))))
   | _ \<Rightarrow> Inl AttributeError)"

definition record_as_dict :: "broker_record \<Rightarrow> dict" where
  "record_as_dict r =
     [(''version'', JInt BROKER_VERSION), (''device_id'', JStr (bk_device_id r)),
      (''tcp_port'', JInt (bk_tcp_port r)), (''udp_port'', JInt (bk_udp_port r)),
      (''pid'', JInt (bk_pid r)), (''processor'', JStr (bk_processor r))]"

text \<open>
  \<open>discover_brokers\<close> on the registry files in the order of the directory: \<open>entry\<close> is what
  reading and parsing a file gave, \<open>hello\<close> is the reply of the broker behind a record.
\<close>

definition discovery_ignores :: "exc \<Rightarrow> bool" where
  "discovery_ignores e = (case e of OSError _ \<Rightarrow> True | ValueError _ \<Rightarrow> True | UnicodeError \<Rightarrow> True
     | KeyError \<Rightarrow> True | KeyErrorOf _ \<Rightarrow> True | RuntimeError _ \<Rightarrow> True | DeviceOwnershipError _ \<Rightarrow> True
     | _ \<Rightarrow> False)"

definition identity :: "broker_record \<Rightarrow> string \<times> int" where
  "identity r = (bk_device_id r, bk_tcp_port r)"

fun discover_loop ::
  "(broker_record \<Rightarrow> dict res) \<Rightarrow> broker_record list \<Rightarrow> json res list \<Rightarrow> broker_record list res" where
  "discover_loop hello records [] = Inr records"
| "discover_loop hello records (entry # entries) =
     (case rbind entry record_from_dict of
        Inl e \<Rightarrow> if discovery_ignores e then discover_loop hello records entries else Inl e
      | Inr r \<Rightarrow>
          if identity r \<in> set (map identity records) then discover_loop hello records entries
          else (case hello r of
              Inl e \<Rightarrow> if discovery_ignores e then discover_loop hello records entries else Inl e
            | Inr reply \<Rightarrow>
                if truthy (dget reply ''ok'') \<and> eq_str (dget reply ''device_id'') (bk_device_id r)
                then discover_loop hello (records @ [r]) entries
                else discover_loop hello records entries))"

definition discover_brokers :: "(broker_record \<Rightarrow> dict res) \<Rightarrow> json res list \<Rightarrow> broker_record list res" where
  "discover_brokers hello entries = discover_loop hello [] entries"

definition select_broker :: "broker_record list \<Rightarrow> string option \<Rightarrow> broker_record option res" where
  "select_broker records device_id =
     (let matches = (case device_id of
          Some (c # s) \<Rightarrow> filter (\<lambda>r. bk_device_id r = c # s) records | _ \<Rightarrow> records) in
      case matches of [] \<Rightarrow> Inr None | [r] \<Rightarrow> Inr (Some r)
      | _ \<Rightarrow> Inl (RuntimeError (''multiple RP86 brokers are active: '' @ join '', '' (map bk_device_id matches)
               @ ''; use --hid-serial DEVICE_ID'')))"

section \<open>The client side of the protocol\<close>

text \<open>
  \<open>_rpc\<close> after the request went out: the response is read until a newline, the end of the
  connection or too many bytes; a script that ends before is a call that is still waiting.
\<close>

fun rpc_receive :: "bytes \<Rightarrow> bytes res list \<Rightarrow> bytes res option" where
  "rpc_receive response reads =
     (if length response > MAX_RPC_BYTES then Some (Inr response) else
      case reads of
        [] \<Rightarrow> None
      | Inl e # _ \<Rightarrow> Some (Inl e)
      | Inr chunk # rest \<Rightarrow>
          if chunk = [] then Some (Inr response)
          else if 10 \<in> set chunk then Some (Inr (response @ chunk))
          else rpc_receive (response @ chunk) rest)"

definition rpc :: "(bytes \<Rightarrow> json res) \<Rightarrow> bytes res list \<Rightarrow> dict res option" where
  "rpc loads reads = map_option (\<lambda>r. rbind r (\<lambda>response.
     let line = takeWhile (\<lambda>b. b \<noteq> 10) response in
     if line = [] then Inl (RuntimeError ''broker returned no response'')
     else rbind (loads line) (\<lambda>value. case value of
       JObj d \<Rightarrow> Inr d | _ \<Rightarrow> Inl (RuntimeError ''broker returned an invalid response''))))
     (rpc_receive [] reads)"

definition hello_request :: "string \<Rightarrow> dict" where
  "hello_request client_id =
     [(''version'', JInt BROKER_VERSION), (''op'', JStr ''hello''), (''client_id'', JStr client_id)]"

definition exchange_request_dict :: "string \<Rightarrow> bytes \<Rightarrow> string \<Rightarrow> json \<Rightarrow> dict" where
  "exchange_request_dict client_id record request_id timeout =
     [(''version'', JInt BROKER_VERSION), (''op'', JStr ''exchange''), (''client_id'', JStr client_id),
      (''request_id'', JStr request_id), (''record'', JStr (b64encode record)), (''timeout'', timeout)]"

definition subscribe_request :: "string \<Rightarrow> int \<Rightarrow> dict" where
  "subscribe_request client_id udp_port =
     [(''version'', JInt BROKER_VERSION), (''op'', JStr ''subscribe''), (''client_id'', JStr client_id),
      (''udp_port'', JInt udp_port)]"

definition control_request_dict :: "string \<Rightarrow> string \<Rightarrow> string \<Rightarrow> json \<Rightarrow> dict" where
  "control_request_dict client_id command request_id timeout =
     [(''version'', JInt BROKER_VERSION), (''op'', JStr ''control''), (''client_id'', JStr client_id),
      (''request_id'', JStr request_id), (''command'', JStr command), (''timeout'', timeout)]"

section \<open>The client API\<close>

definition require_ok :: "dict \<Rightarrow> dict res" where
  "require_ok response =
     (if \<not> truthy (dget response ''ok'')
      then Inl (RuntimeError (json_str (if truthy (dget response ''error'') then dget response ''error''
             else JStr ''RP86 broker request failed'')))
      else Inr response)"

text \<open>\<open>call\<close> is the round trip of one request dictionary, the token of a request is an argument.\<close>

definition device_discover :: "broker_record list res \<Rightarrow> string option \<Rightarrow> broker_record res" where
  "device_discover found device_id =
     rbind found (\<lambda>records. rbind (select_broker records device_id) (\<lambda>r. case r of
       None \<Rightarrow> Inl (RuntimeError ''no active RP86 Host broker was found'') | Some record \<Rightarrow> Inr record))"

definition device_info :: "(dict \<Rightarrow> dict res) \<Rightarrow> string \<Rightarrow> dict res" where
  "device_info call client_id = rbind (call (hello_request client_id)) require_ok"

definition device_exchange :: "(dict \<Rightarrow> dict res) \<Rightarrow> string \<Rightarrow> string \<Rightarrow> bytes \<Rightarrow> json \<Rightarrow> bytes res" where
  "device_exchange call client_id token record timeout =
     rbind (rbind (call (exchange_request_dict client_id record token timeout)) require_ok) (\<lambda>response.
       case dget response ''reply_hex'' of
         JStr encoded \<Rightarrow> rbind (fromhex encoded) (\<lambda>result.
           if length result \<noteq> 64 then Inl (RuntimeError ''broker returned an invalid RP86 record length'')
           else Inr result)
       | _ \<Rightarrow> Inl (RuntimeError ''broker exchange did not return a record''))"

definition BROKER_COMMANDS :: "string list" where
  "BROKER_COMMANDS = [''status'', ''bootloader'', ''reboot'']"

definition device_control :: "(dict \<Rightarrow> dict res) \<Rightarrow> string \<Rightarrow> string \<Rightarrow> string \<Rightarrow> json \<Rightarrow> dict res" where
  "device_control call client_id token command timeout =
     (if command \<notin> set BROKER_COMMANDS
      then Inl (ValueError (''unsupported RP86 control command: '' @ command))
      else rbind (call (control_request_dict client_id command token timeout)) require_ok)"

section \<open>The broker\<close>

record exchange_request =
  xr_client_id :: string
  xr_request_id :: string
  xr_record :: bytes
  xr_future :: nat

record control_request =
  cr_client_id :: string
  cr_request_id :: string
  cr_command :: string
  cr_timeout :: rat
  cr_future :: nat

record broker =
  br_device_id :: string
  br_processor :: string
  br_requests :: "exchange_request list"
  br_controls :: "control_request list"
  br_subscribers :: "(string \<times> int) list"
  br_control_audit :: "dict list"
  br_record :: "broker_record option"
  br_state :: broker_state
  br_snapshot :: dict

definition DeviceBroker :: "string \<Rightarrow> string \<Rightarrow> broker" where
  "DeviceBroker device_id processor =
     \<lparr>br_device_id = device_id, br_processor = processor, br_requests = [], br_controls = [],
      br_subscribers = [], br_control_audit = [], br_record = None, br_state = OPENING,
      br_snapshot = [(''state'', JStr ''OPENING''), (''completed'', JInt 0), (''lost'', JInt 0),
                     (''sequence'', JInt 0), (''control_audit'', JList [])]\<rparr>"

definition transition :: "broker_state \<Rightarrow> broker \<Rightarrow> broker \<times> unit res" where
  "transition target b =
     (if target \<notin> set (BROKER_TRANSITIONS (br_state b))
      then (b, Inl (RuntimeError (''invalid broker transition: '' @ state_value (br_state b) @ '' -> ''
             @ state_value target)))
      else (b\<lparr>br_state := target,
              br_snapshot := dset (br_snapshot b) ''state'' (JStr (state_value target))\<rparr>, Inr ()))"

text \<open>The lifecycle part of \<open>stop\<close>.\<close>

definition quiesce :: "broker \<Rightarrow> broker" where
  "quiesce b0 =
     (let b1 = (if br_state b0 \<in> {OWNER_ACTIVE, FAULT} then fst (transition QUIESCING b0) else b0)
      in if br_state b1 = QUIESCING then fst (transition STOPPED b1) else b1)"

definition decode_workload_control :: "bytes \<Rightarrow> dict option" where
  "decode_workload_control record =
     (if length record \<noteq> HOST_RECORD_SIZE \<or> record ! 1 \<noteq> HOST_TYPE_WORKLOAD_CONTROL then None
      else let sequence = le_int (pyslice 4 8 record); len = le_int (pyslice 8 10 record) in
        if len < 8
        then Some [(''sequence'', JInt sequence), (''operation'', JStr ''MALFORMED''),
                   (''operation_code'', JNull), (''workload_id'', JNull)]
        else let operation = int (unat (record ! 12)) in
          Some [(''sequence'', JInt sequence),
                (''operation'', JStr (case WORKLOAD_CONTROL_NAMES operation of Some n \<Rightarrow> n
                   | None \<Rightarrow> ''UNKNOWN('' @ dec operation @ '')'')),
                (''operation_code'', JInt operation),
                (''workload_id'', JInt (le_int (pyslice 16 20 record)))])"

definition audit_entry :: "string \<Rightarrow> string \<Rightarrow> string \<Rightarrow> dict \<Rightarrow> dict \<Rightarrow> dict" where
  "audit_entry now client_id request_id decoded response =
     (let entry = dmerge [(''observed_at'', JStr now), (''client_id'', JStr client_id),
                          (''request_id'', JStr request_id)]
                    (decoded @ [(''accepted'', JBool (truthy (dget response ''ok'')))]) in
      if \<not> truthy (dget response ''ok'') \<and> truthy (dget response ''error'')
      then dset entry ''error'' (JStr (json_str (dget response ''error''))) else entry)"

definition audit_value :: "dict list \<Rightarrow> json" where
  "audit_value audit = JList (map JObj audit)"

definition record_control_audit ::
  "string \<Rightarrow> string \<Rightarrow> string \<Rightarrow> dict \<Rightarrow> dict \<Rightarrow> broker \<Rightarrow> broker" where
  "record_control_audit now client_id request_id decoded response b =
     (let audit = br_control_audit b @ [audit_entry now client_id request_id decoded response];
          kept = drop (length audit - CONTROL_AUDIT_LIMIT) audit in
      b\<lparr>br_control_audit := kept,
        br_snapshot := dset (br_snapshot b) ''control_audit'' (audit_value kept)\<rparr>)"

section \<open>The request handler\<close>

text \<open>
  What a connection does next: answer at once, or wait for the future of a queued request.  An
  exception the handler does not catch ends the connection without an answer.
\<close>

datatype next_action =
    Respond dict
  | AwaitExchange exchange_request "dict option"
  | AwaitControl control_request
  | Escape exc

definition handler_catches :: "exc \<Rightarrow> bool" where
  "handler_catches e = (case e of ValueError _ \<Rightarrow> True | UnicodeError \<Rightarrow> True | KeyError \<Rightarrow> True
     | KeyErrorOf _ \<Rightarrow> True | TypeError _ \<Rightarrow> True | _ \<Rightarrow> False)"

definition b64_argument :: "json \<Rightarrow> bytes res" where
  "b64_argument v = (case v of JStr s \<Rightarrow> b64decode s
     | _ \<Rightarrow> Inl (TypeError (''argument should be a bytes-like object or ASCII string, not ''
              @ py_repr (type_name v))))"

definition str_or :: "json \<Rightarrow> string \<Rightarrow> string" where
  "str_or v d = json_str (if truthy v then v else JStr d)"

definition handle_exchange :: "nat \<Rightarrow> dict \<Rightarrow> broker \<Rightarrow> broker \<times> next_action res" where
  "handle_exchange future request b =
     (case rbind (dindex request ''record'') b64_argument of
        Inl e \<Rightarrow> (b, Inl e)
      | Inr record \<Rightarrow>
          if length record \<noteq> HOST_RECORD_SIZE
          then (b, Inl (ValueError ''broker exchange requires one 64-byte ABI record''))
          else let pending = \<lparr>xr_client_id = str_or (dget request ''client_id'') ''anonymous'',
                     xr_request_id = str_or (dget request ''request_id'') [],
                     xr_record = record, xr_future = future\<rparr> in
            (b\<lparr>br_requests := br_requests b @ [pending]\<rparr>,
             Inr (AwaitExchange pending (decode_workload_control record))))"

definition handle_control ::
  "(json \<Rightarrow> rat res) \<Rightarrow> nat \<Rightarrow> dict \<Rightarrow> broker \<Rightarrow> broker \<times> next_action res" where
  "handle_control float_of future request b =
     (case dindex request ''command'' of
        Inl e \<Rightarrow> (b, Inl e)
      | Inr v \<Rightarrow> let command = json_str v in
          if command \<notin> set BROKER_COMMANDS
          then (b, Inl (ValueError (''unsupported broker control command: '' @ command)))
          else (case float_of (if truthy (dget request ''timeout'') then dget request ''timeout''
                               else JFloat 5 ''5.0'') of
              Inl e \<Rightarrow> (b, Inl e)
            | Inr timeout \<Rightarrow> let control = \<lparr>cr_client_id = str_or (dget request ''client_id'') ''anonymous'',
                  cr_request_id = str_or (dget request ''request_id'') [],
                  cr_command = command, cr_timeout = timeout, cr_future = future\<rparr> in
                (b\<lparr>br_controls := br_controls b @ [control]\<rparr>, Inr (AwaitControl control))))"

definition handle_subscribe :: "string \<Rightarrow> dict \<Rightarrow> broker \<Rightarrow> broker \<times> next_action res" where
  "handle_subscribe peer request b =
     (case rbind (dindex request ''udp_port'') json_int of
        Inl e \<Rightarrow> (b, Inl e)
      | Inr udp_port \<Rightarrow>
          (b\<lparr>br_subscribers := List.insert (peer, udp_port) (br_subscribers b)\<rparr>,
           Inr (Respond [(''ok'', JBool True), (''device_id'', JStr (br_device_id b))])))"

definition handle_hello :: "broker \<Rightarrow> dict" where
  "handle_hello b =
     [(''ok'', JBool True), (''version'', JInt BROKER_VERSION), (''device_id'', JStr (br_device_id b)),
      (''processor'', JStr (br_processor b)), (''snapshot'', JObj (br_snapshot b))]"

definition handle_dict ::
  "(json \<Rightarrow> rat res) \<Rightarrow> string \<Rightarrow> nat \<Rightarrow> dict \<Rightarrow> broker \<Rightarrow> broker \<times> next_action res" where
  "handle_dict float_of peer future request b =
     (if \<not> eq_int (dget request ''version'') BROKER_VERSION
      then (b, Inl (ValueError ''unsupported broker protocol version''))
      else let operation = dget request ''op'' in
        if eq_str operation ''hello'' then (b, Inr (Respond (handle_hello b)))
        else if eq_str operation ''subscribe'' then handle_subscribe peer request b
        else if eq_str operation ''exchange'' then handle_exchange future request b
        else if eq_str operation ''control'' then handle_control float_of future request b
        else (b, Inl (ValueError (''unsupported broker operation: '' @ json_str operation))))"

text \<open>
  \<open>_handle_client\<close> up to its waiting point.  \<open>line\<close> is what \<open>readline\<close> gave, \<open>parsed\<close> what decoding
  and parsing it gives.
\<close>

definition handle_client ::
  "(json \<Rightarrow> rat res) \<Rightarrow> string \<Rightarrow> nat \<Rightarrow> bytes res \<Rightarrow> json res \<Rightarrow> broker \<Rightarrow> broker \<times> next_action" where
  "handle_client float_of peer future line parsed b =
     (let (b', out) =
        (case line of
           Inl e \<Rightarrow> (b, Inl e)
         | Inr l \<Rightarrow>
             if l = [] \<or> length l > MAX_RPC_BYTES
             then (b, Inl (ValueError ''invalid broker request length''))
             else (case parsed of
                 Inl e \<Rightarrow> (b, Inl e)
               | Inr (JObj request) \<Rightarrow> handle_dict float_of peer future request b
               | Inr _ \<Rightarrow> (b, Inl AttributeError))) in
      (b', case out of
         Inr a \<Rightarrow> a
       | Inl e \<Rightarrow> if handler_catches e
                then Respond [(''ok'', JBool False), (''error'', JStr (exc_str e))] else Escape e))"

text \<open>\<open>_handle_client\<close> after the future of an exchange was resolved with \<open>response\<close>.\<close>

definition handle_finish :: "string \<Rightarrow> exchange_request \<Rightarrow> dict option \<Rightarrow> dict \<Rightarrow> broker \<Rightarrow> broker \<times> dict" where
  "handle_finish now x decoded response b =
     ((case decoded of
         Some d \<Rightarrow> record_control_audit now (xr_client_id x) (xr_request_id x) d response b
       | None \<Rightarrow> b), response)"

section \<open>The device actor's side\<close>

definition pending :: "broker \<Rightarrow> exchange_request list \<times> broker" where
  "pending b = (br_requests b, b\<lparr>br_requests := []\<rparr>)"

text \<open>
  \<open>publish\<close> copies the audit under its lock and stores the snapshot afterwards without it, so the
  network thread can run in between: two steps, the second with the copied audit.
\<close>

definition publish_copy :: "broker \<Rightarrow> dict list" where
  "publish_copy b = br_control_audit b"

definition publish_store :: "dict \<Rightarrow> dict list \<Rightarrow> broker \<Rightarrow> broker" where
  "publish_store snapshot audit b =
     b\<lparr>br_snapshot := dmerge snapshot [(''control_audit'', audit_value audit)]\<rparr>"

definition publish_datagrams :: "broker \<Rightarrow> ((string \<times> int) \<times> dict) list" where
  "publish_datagrams b = map (\<lambda>subscriber. (subscriber,
     [(''version'', JInt BROKER_VERSION), (''device_id'', JStr (br_device_id b)),
      (''snapshot'', JObj (br_snapshot b))])) (br_subscribers b)"

definition publish :: "dict \<Rightarrow> broker \<Rightarrow> broker" where
  "publish snapshot b = publish_store snapshot (publish_copy b) b"

section \<open>Lemmas\<close>

lemma dget_dmerge1 [simp]: "dget (dmerge d [(k, v)]) k' = (if k' = k then v else dget d k')"
  by (simp add: dmerge_def)

lemma BROKER_COMMANDS_mem: "c \<in> set BROKER_COMMANDS \<longleftrightarrow> c = ''status'' \<or> c = ''bootloader'' \<or> c = ''reboot''"
  by (simp add: BROKER_COMMANDS_def)

lemma record_roundtrip: "record_from_dict (JObj (record_as_dict r)) = Inr r"
  by (simp add: record_from_dict_def record_as_dict_def dget_def dindex_def json_int_def json_str_def)

definition answers :: "(broker_record \<Rightarrow> dict res) \<Rightarrow> broker_record \<Rightarrow> bool" where
  "answers hello r = (case hello r of Inl e \<Rightarrow> False
     | Inr reply \<Rightarrow> truthy (dget reply ''ok'') \<and> dget reply ''device_id'' = JStr (bk_device_id r))"

lemma answers_iff: "answers hello r \<longleftrightarrow> (\<exists>reply. hello r = Inr reply \<and> truthy (dget reply ''ok'')
    \<and> dget reply ''device_id'' = JStr (bk_device_id r))"
  by (auto simp: answers_def split: sum.split)

lemma discover_loop_step:
  assumes "discover_loop hello records (entry # entries) = Inr rs"
  shows "discover_loop hello records entries = Inr rs
    \<or> (\<exists>r. discover_loop hello (records @ [r]) entries = Inr rs \<and> rbind entry record_from_dict = Inr r
         \<and> identity r \<notin> set (map identity records) \<and> answers hello r)"
proof (cases "rbind entry record_from_dict")
  case (Inl e)
  then show ?thesis using assms by (auto split: if_splits)
next
  case (Inr r)
  then show ?thesis using assms
    by (cases "hello r") (auto simp: answers_iff eq_str_def split: if_splits)
qed

lemma discover_loop_sound:
  "discover_loop hello records entries = Inr rs \<Longrightarrow> distinct (map identity records) \<Longrightarrow>
     list_all (answers hello) records \<Longrightarrow>
     distinct (map identity rs) \<and> list_all (answers hello) rs
     \<and> (\<forall>r \<in> set rs. r \<in> set records \<or> (\<exists>entry \<in> set entries. rbind entry record_from_dict = Inr r))"
proof (induction entries arbitrary: records)
  case (Cons entry entries)
  consider (skip) "discover_loop hello records entries = Inr rs"
    | (add) r where "discover_loop hello (records @ [r]) entries = Inr rs"
        "rbind entry record_from_dict = Inr r" "identity r \<notin> set (map identity records)" "answers hello r"
    using discover_loop_step [OF Cons.prems(1)] by blast
  then show ?case
  proof cases
    case skip
    then show ?thesis using Cons.IH [OF skip] Cons.prems by auto
  next
    case add
    then show ?thesis using Cons.IH [OF add(1)] Cons.prems by auto
  qed
qed auto

lemma handle_dict_cases:
  "handle_dict float_of peer future request b = (b', out) \<Longrightarrow>
     (b' = b \<and> (\<exists>e. out = Inl e))
     \<or> (b' = b \<and> (\<exists>d. out = Inr (Respond d)))
     \<or> (\<exists>port d. b' = b\<lparr>br_subscribers := List.insert (peer, port) (br_subscribers b)\<rparr>
          \<and> out = Inr (Respond d))
     \<or> (\<exists>x. b' = b\<lparr>br_requests := br_requests b @ [x]\<rparr> \<and> length (xr_record x) = 64
          \<and> out = Inr (AwaitExchange x (decode_workload_control (xr_record x))))
     \<or> (\<exists>c. b' = b\<lparr>br_controls := br_controls b @ [c]\<rparr> \<and> cr_command c \<in> set BROKER_COMMANDS
          \<and> out = Inr (AwaitControl c))"
  by (auto simp: handle_dict_def handle_subscribe_def handle_exchange_def handle_control_def Let_def
      split: sum.splits if_splits)

lemma rmap_Inl_iff: "rmap f m = Inl e \<longleftrightarrow> m = Inl e"
  by (cases m) auto

lemma handler_catches_ValueError: "handler_catches (ValueError m)"
  by (simp add: handler_catches_def)

lemma handler_catches_TypeError: "handler_catches (TypeError m)"
  by (simp add: handler_catches_def)

lemma handle_dict_errors:
  assumes "\<And>v e. float_of v = Inl e \<Longrightarrow> handler_catches e"
    and "handle_dict float_of peer future request b = (b', Inl e)"
  shows "b' = b \<and> handler_catches e"
proof -
  have i: "json_int v = Inl e \<Longrightarrow> handler_catches e" for v e
    by (auto simp: json_int_def handler_catches_def split: json.splits option.splits)
  have d: "dindex r k = Inl e \<Longrightarrow> handler_catches e" for r k e
    by (auto simp: dindex_def handler_catches_def split: option.splits)
  have s: "b64_steps s q l p pd out = Inl e \<Longrightarrow> handler_catches e" for s q l p pd out e
    by (induction s q l p pd out rule: b64_steps.induct)
      (auto simp: handler_catches_def split: if_splits option.splits)
  have b: "b64_argument v = Inl e \<Longrightarrow> handler_catches e" for v e
    by (auto simp: b64_argument_def b64decode_def rmap_Inl_iff handler_catches_ValueError
        handler_catches_TypeError dest: s split: json.splits if_splits)
  show ?thesis
    using assms(2)
    by (auto simp: handle_dict_def handle_subscribe_def handle_exchange_def handle_control_def Let_def
        rbind_Inl_iff handler_catches_ValueError dest: i d b assms(1) split: sum.splits if_splits)
qed

section \<open>Properties\<close>



text \<open>C36. Discovery returns only brokers that are alive and are who they claim: each record was read
  from a registry file and its broker answered hello with that device id; no broker is listed twice;
  and selecting by id returns the one broker of that id, nothing when there is none, and an error
  when there are several.  A record written to the registry is read back unchanged.\<close>

theorem discovery_sound:
  assumes "discover_brokers hello entries = Inr rs"
  shows "distinct (map (\<lambda>r. (bk_device_id r, bk_tcp_port r)) rs)
    \<and> (\<forall>r \<in> set rs. (\<exists>v. Inr v \<in> set entries \<and> record_from_dict v = Inr r)
         \<and> (\<exists>reply. hello r = Inr reply \<and> truthy (dget reply ''ok'')
              \<and> dget reply ''device_id'' = JStr (bk_device_id r)))
    \<and> (device_id \<noteq> [] \<longrightarrow> (case select_broker rs (Some device_id) of
         Inr (Some r) \<Rightarrow> filter (\<lambda>r. bk_device_id r = device_id) rs = [r]
       | Inr None \<Rightarrow> \<forall>r \<in> set rs. bk_device_id r \<noteq> device_id
       | Inl e \<Rightarrow> 2 \<le> length (filter (\<lambda>r. bk_device_id r = device_id) rs)))
    \<and> record_from_dict (JObj (record_as_dict r0)) = Inr r0"
proof -
  have "distinct (map identity rs) \<and> list_all (answers hello) rs
      \<and> (\<forall>r \<in> set rs. r \<in> set [] \<or> (\<exists>entry \<in> set entries. rbind entry record_from_dict = Inr r))"
    using discover_loop_sound [of hello "[]" entries rs] assms by (simp add: discover_brokers_def)
  then have d: "distinct (map identity rs)" and a: "list_all (answers hello) rs"
      and e: "\<And>r. r \<in> set rs \<Longrightarrow> \<exists>v. Inr v \<in> set entries \<and> record_from_dict v = Inr r"
    by auto
  have d': "distinct (map (\<lambda>r. (bk_device_id r, bk_tcp_port r)) rs)"
    using d by (simp add: identity_def [abs_def])
  have s: "device_id \<noteq> [] \<longrightarrow> (case select_broker rs (Some device_id) of
         Inr (Some r) \<Rightarrow> filter (\<lambda>r. bk_device_id r = device_id) rs = [r]
       | Inr None \<Rightarrow> \<forall>r \<in> set rs. bk_device_id r \<noteq> device_id
       | Inl e \<Rightarrow> 2 \<le> length (filter (\<lambda>r. bk_device_id r = device_id) rs))"
    by (cases device_id; cases "filter (\<lambda>r. bk_device_id r = device_id) rs")
      (auto simp: select_broker_def Let_def filter_empty_conv split: list.split)
  have "\<forall>r \<in> set rs. (\<exists>v. Inr v \<in> set entries \<and> record_from_dict v = Inr r)
         \<and> (\<exists>reply. hello r = Inr reply \<and> truthy (dget reply ''ok'')
              \<and> dget reply ''device_id'' = JStr (bk_device_id r))"
    using a e by (simp add: list_all_iff answers_iff)
  with d' s record_roundtrip [of r0] show ?thesis by blast
qed

theorem discovery_sound_witness:
  "let r = \<lparr>bk_device_id = ''A'', bk_tcp_port = 4000, bk_udp_port = 4001, bk_pid = 7,
            bk_processor = ''nec-v30''\<rparr>;
       entries = [Inl (OSError []), Inr (JObj (record_as_dict r)), Inr (JObj (record_as_dict r))];
       hello = \<lambda>r. Inr [(''ok'', JBool True), (''device_id'', JStr ''A'')] in
   discover_brokers hello entries = Inr [r] \<and> select_broker [r] (Some ''A'') = Inr (Some r)
   \<and> filter (\<lambda>r. bk_device_id r = ''A'') [r] = [r]"
proof -
  let ?r = "\<lparr>bk_device_id = ''A'', bk_tcp_port = 4000, bk_udp_port = 4001, bk_pid = 7,
      bk_processor = ''nec-v30''\<rparr>"
  have d: "discover_brokers (\<lambda>r. Inr [(''ok'', JBool True), (''device_id'', JStr ''A'')])
      [Inl (OSError []), Inr (JObj (record_as_dict ?r)), Inr (JObj (record_as_dict ?r))] = Inr [?r]"
    by (simp add: discover_brokers_def record_roundtrip discovery_ignores_def dget_def eq_str_def)
  have s: "select_broker [?r] (Some ''A'') = Inr (Some ?r)" by (simp add: select_broker_def)
  from discovery_sound [OF d, of "''A''"] d s show ?thesis by (simp add: Let_def)
qed

end
