(* ===== verification/Broker_Steps.thy ===== *)
theory Broker_Steps
  imports Broker Transition
begin

text \<open>
  The broker as a state machine: the network thread takes requests and finishes exchanges, the
  device actor drains the queues and publishes snapshots in two steps, and the lifecycle moves,
  in any order.  The invariants hold in every reachable state; the last section shows the one
  interleaving that leaves the published audit behind the recorded one.
\<close>

section \<open>Steps\<close>

record broker_sys =
  bs_broker :: broker
  bs_waiting :: "(exchange_request \<times> dict option) list"
  bs_publishing :: "(dict \<times> dict list) option"

definition awaiting :: "next_action \<Rightarrow> (exchange_request \<times> dict option) list" where
  "awaiting a = (case a of AwaitExchange x decoded \<Rightarrow> [(x, decoded)] | _ \<Rightarrow> [])"

definition broker_init :: "broker_sys \<Rightarrow> bool" where
  "broker_init s \<longleftrightarrow> (\<exists>device_id processor. s = \<lparr>bs_broker = DeviceBroker device_id processor,
     bs_waiting = [], bs_publishing = None\<rparr>)"

inductive broker_step :: "broker_sys \<Rightarrow> broker_sys \<Rightarrow> bool" where
  request: "handle_client float_of peer future line parsed (bs_broker s) = (b, a) \<Longrightarrow>
     broker_step s (s\<lparr>bs_broker := b, bs_waiting := bs_waiting s @ awaiting a\<rparr>)"
| finish: "(x, decoded) \<in> set (bs_waiting s) \<Longrightarrow>
     broker_step s (s\<lparr>bs_broker := fst (handle_finish now x decoded response (bs_broker s)),
                      bs_waiting := remove1 (x, decoded) (bs_waiting s)\<rparr>)"
| take_requests: "pending (bs_broker s) = (xs, b) \<Longrightarrow> broker_step s (s\<lparr>bs_broker := b\<rparr>)"
| take_control: "br_controls (bs_broker s) = c # cs \<Longrightarrow>
     broker_step s (s\<lparr>bs_broker := (bs_broker s)\<lparr>br_controls := cs\<rparr>\<rparr>)"
| copy_audit: "bs_publishing s = None \<Longrightarrow>
     broker_step s (s\<lparr>bs_publishing := Some (snapshot, publish_copy (bs_broker s))\<rparr>)"
| store_snapshot: "bs_publishing s = Some (snapshot, audit) \<Longrightarrow>
     broker_step s (s\<lparr>bs_broker := publish_store snapshot audit (bs_broker s), bs_publishing := None\<rparr>)"
| move: "transition target (bs_broker s) = (b, Inr ()) \<Longrightarrow> broker_step s (s\<lparr>bs_broker := b\<rparr>)"
| registered: "br_state (bs_broker s) = OPENING \<Longrightarrow>
     broker_step s (s\<lparr>bs_broker := (bs_broker s)\<lparr>br_record := Some r\<rparr>\<rparr>)"

definition published_audit :: "broker \<Rightarrow> json" where
  "published_audit b = dget (br_snapshot b) ''control_audit''"

definition broker_inv :: "broker_sys \<Rightarrow> bool" where
  "broker_inv s \<longleftrightarrow>
     list_all (\<lambda>x. length (xr_record x) = 64) (br_requests (bs_broker s))
     \<and> list_all (\<lambda>c. cr_command c \<in> set BROKER_COMMANDS) (br_controls (bs_broker s))
     \<and> list_all (\<lambda>(x, decoded). length (xr_record x) = 64
          \<and> decoded = decode_workload_control (xr_record x)) (bs_waiting s)
     \<and> length (br_control_audit (bs_broker s)) \<le> 16
     \<and> (case bs_publishing s of None \<Rightarrow> True | Some (snapshot, audit) \<Rightarrow> length audit \<le> 16)
     \<and> (\<exists>audit. published_audit (bs_broker s) = audit_value audit \<and> length audit \<le> 16)"

primrec state_rank :: "broker_state \<Rightarrow> nat" where
  "state_rank OPENING = 0"
| "state_rank OWNER_ACTIVE = 1"
| "state_rank FAULT = 2"
| "state_rank QUIESCING = 3"
| "state_rank STOPPED = 4"

section \<open>Preservation\<close>

lemma handle_client_effect:
  assumes "handle_client float_of peer future line parsed b = (b', a)"
  shows "(b' = b \<and> awaiting a = [])
    \<or> (\<exists>port. b' = b\<lparr>br_subscribers := List.insert (peer, port) (br_subscribers b)\<rparr> \<and> awaiting a = [])
    \<or> (\<exists>x. b' = b\<lparr>br_requests := br_requests b @ [x]\<rparr> \<and> length (xr_record x) = 64
         \<and> awaiting a = [(x, decode_workload_control (xr_record x))])
    \<or> (\<exists>c. b' = b\<lparr>br_controls := br_controls b @ [c]\<rparr> \<and> cr_command c \<in> set BROKER_COMMANDS
         \<and> awaiting a = [])"
proof (cases "\<exists>l request. line = Inr l \<and> \<not> (l = [] \<or> length l > 16384) \<and> parsed = Inr (JObj request)")
  case True
  then obtain request out where h: "handle_dict float_of peer future request b = (b', out)"
      and a: "a = (case out of Inr a \<Rightarrow> a | Inl e \<Rightarrow> if handler_catches e
          then Respond [(''ok'', JBool False), (''error'', JStr (exc_str e))] else Escape e)"
    using assms by (auto simp: handle_client_def split: prod.splits)
  from handle_dict_cases [OF h] a show ?thesis by (auto simp: awaiting_def split: if_splits)
next
  case False
  then have "b' = b \<and> ((\<exists>d. a = Respond d) \<or> (\<exists>e. a = Escape e))"
    using assms by (auto simp: handle_client_def split: sum.splits if_splits json.splits)
  then show ?thesis by (auto simp: awaiting_def)
qed

lemma published_simps [simp]:
  "published_audit (b\<lparr>br_requests := xs\<rparr>) = published_audit b"
  "published_audit (b\<lparr>br_controls := cs\<rparr>) = published_audit b"
  "published_audit (b\<lparr>br_subscribers := us\<rparr>) = published_audit b"
  "published_audit (b\<lparr>br_record := r\<rparr>) = published_audit b"
  "published_audit (publish_store snapshot audit b) = audit_value audit"
  by (simp_all add: published_audit_def publish_store_def)

lemma record_control_audit_simps [simp]:
  "br_requests (record_control_audit now c r d resp b) = br_requests b"
  "br_controls (record_control_audit now c r d resp b) = br_controls b"
  "br_state (record_control_audit now c r d resp b) = br_state b"
  "length (br_control_audit (record_control_audit now c r d resp b)) \<le> 16"
  "published_audit (record_control_audit now c r d resp b)
     = audit_value (br_control_audit (record_control_audit now c r d resp b))"
  by (auto simp: record_control_audit_def published_audit_def Let_def)

lemma transition_Inr:
  assumes "transition target b = (b', Inr ())"
  shows "target \<in> set (BROKER_TRANSITIONS (br_state b))" "br_state b' = target"
    "br_requests b' = br_requests b" "br_controls b' = br_controls b"
    "br_control_audit b' = br_control_audit b" "published_audit b' = published_audit b"
  using assms by (auto simp: transition_def published_audit_def split: if_splits)

lemma broker_inv_init: "broker_init s \<Longrightarrow> broker_inv s"
  by (auto simp: broker_init_def broker_inv_def DeviceBroker_def published_audit_def audit_value_def dget_def
      intro!: exI [of _ "[]"])

lemma broker_inv_step:
  assumes "broker_inv s" "broker_step s t"
  shows "broker_inv t"
  using assms(2,1)
proof (induction rule: broker_step.induct)
  case (request float_of peer future line parsed s b a)
  from handle_client_effect [OF request(1)] request(2) show ?case by (auto simp: broker_inv_def)
next
  case (finish x decoded s now response)
  have "list_all P (remove1 y ys)" if "list_all P ys" for P and y :: "exchange_request \<times> dict option" and ys
    using that set_remove1_subset [of y ys] by (auto simp: list_all_iff)
  then show ?case using finish
    by (auto simp: broker_inv_def handle_finish_def split: option.splits)
next
  case (take_requests s xs b)
  then show ?case by (auto simp: broker_inv_def pending_def)
next
  case (copy_audit s snapshot)
  then show ?case by (auto simp: broker_inv_def publish_copy_def)
next
  case (store_snapshot s snapshot audit)
  then show ?case by (auto simp: broker_inv_def) (auto simp: publish_store_def)
next
  case (move target s b)
  then show ?case using transition_Inr [OF move(1)] by (auto simp: broker_inv_def)
qed (auto simp: broker_inv_def)

lemma rank_transition: "t \<in> set (BROKER_TRANSITIONS s) \<Longrightarrow> state_rank s < state_rank t"
  by (cases s) auto

lemma broker_state_step:
  assumes "broker_step s t"
  shows "br_state (bs_broker t) = br_state (bs_broker s)
    \<or> br_state (bs_broker t) \<in> set (BROKER_TRANSITIONS (br_state (bs_broker s)))"
  using assms
proof (induction rule: broker_step.induct)
  case (request float_of peer future line parsed s b a)
  from handle_client_effect [OF request(1)] show ?case by auto
next
  case (finish x decoded s now response)
  then show ?case by (auto simp: handle_finish_def split: option.splits)
next
  case (move target s b)
  then show ?case using transition_Inr [OF move(1)] by auto
qed (auto simp: pending_def publish_store_def)

interpretation broker_machine: ordered_system broker_init broker_step broker_inv
    "\<lambda>s. state_rank (br_state (bs_broker s))"
proof
  show "state_rank (br_state (bs_broker s)) \<le> state_rank (br_state (bs_broker t))"
    if "broker_inv s" "broker_step s t" for s t
    using broker_state_step [OF that(2)] rank_transition by (metis less_imp_le order_refl)
qed (auto intro: broker_inv_init broker_inv_step)

section \<open>A request from a client\<close>

lemma handle_client_exchange:
  assumes "length record = 64" "line \<noteq> []" "length line \<le> 16384" "client_id \<noteq> []"
  shows "handle_client float_of peer future (Inr line)
      (Inr (JObj (exchange_request_dict client_id record request_id timeout))) b =
    (b\<lparr>br_requests := br_requests b @ [\<lparr>xr_client_id = client_id, xr_request_id = request_id,
        xr_record = record, xr_future = future\<rparr>]\<rparr>,
     AwaitExchange \<lparr>xr_client_id = client_id, xr_request_id = request_id, xr_record = record,
        xr_future = future\<rparr> (decode_workload_control record))"
  using assms
  by (simp add: handle_client_def handle_dict_def handle_exchange_def exchange_request_dict_def dget_def
      dindex_def eq_str_def b64_argument_def b64_roundtrip str_or_def json_str_def Let_def)

definition stop_record :: bytes where
  "stop_record = [1, 0x23] @ replicate 62 0"

definition race_sys :: "nat \<Rightarrow> broker_sys" where
  "race_sys n = (let b0 = DeviceBroker ''A'' ''nec-v30'';
      x = \<lparr>xr_client_id = ''c'', xr_request_id = ''1'', xr_record = stop_record, xr_future = 0\<rparr>;
      b1 = b0\<lparr>br_requests := [x]\<rparr>; d = decode_workload_control stop_record;
      b2 = fst (handle_finish ''now'' x d [(''ok'', JBool True)] b1) in
    if n = 0 then \<lparr>bs_broker = b0, bs_waiting = [], bs_publishing = None\<rparr>
    else if n = 1 then \<lparr>bs_broker = b0, bs_waiting = [], bs_publishing = Some ([], [])\<rparr>
    else if n = 2 then \<lparr>bs_broker = b1, bs_waiting = [(x, d)], bs_publishing = Some ([], [])\<rparr>
    else if n = 3 then \<lparr>bs_broker = b2, bs_waiting = [], bs_publishing = Some ([], [])\<rparr>
    else \<lparr>bs_broker = publish_store [] [] b2, bs_waiting = [], bs_publishing = None\<rparr>)"

lemma race_reach: "reach broker_init broker_step (race_sys 4)"
proof -
  have l: "length stop_record = 64" by (simp add: stop_record_def)
  have "broker_init (race_sys 0)" by (auto simp: race_sys_def broker_init_def Let_def)
  then have r0: "reach broker_init broker_step (race_sys 0)" by (rule reach_init)
  have "broker_step (race_sys 0) (race_sys 1)"
    using broker_step.copy_audit [of "race_sys 0" "[]"]
    by (simp add: race_sys_def publish_copy_def DeviceBroker_def Let_def)
  with r0 have r1: "reach broker_init broker_step (race_sys 1)" by (rule reach_step)
  have h: "handle_client (\<lambda>v. Inr 0) ''127.0.0.1'' 0 (Inr [10])
        (Inr (JObj (exchange_request_dict ''c'' stop_record ''1'' JNull))) (bs_broker (race_sys 1))
      = (bs_broker (race_sys 2), AwaitExchange (fst (hd (bs_waiting (race_sys 2)))) (decode_workload_control stop_record))"
    using handle_client_exchange [OF l, of "[10]" "''c''"]
    by (simp add: race_sys_def DeviceBroker_def Let_def)
  have "broker_step (race_sys 1) (race_sys 2)"
    using broker_step.request [OF h] by (simp add: race_sys_def awaiting_def Let_def)
  with r1 have r2: "reach broker_init broker_step (race_sys 2)" by (rule reach_step)
  have "broker_step (race_sys 2) (race_sys 3)"
    using broker_step.finish [of "fst (hd (bs_waiting (race_sys 2)))" "decode_workload_control stop_record"
        "race_sys 2" "''now''" "[(''ok'', JBool True)]"]
    by (simp add: race_sys_def Let_def)
  with r2 have r3: "reach broker_init broker_step (race_sys 3)" by (rule reach_step)
  have "broker_step (race_sys 3) (race_sys 4)"
    using broker_step.store_snapshot [of "race_sys 3" "[]" "[]"] by (simp add: race_sys_def Let_def)
  with r3 show ?thesis by (rule reach_step)
qed

section \<open>Properties\<close>

text \<open>C30. In every state the broker can reach, whatever the clients send and however the threads
  interleave: each queued or waiting exchange holds exactly one 64-byte record, each queued control is
  one of the three commands, and the control audit, recorded or published, never exceeds 16 entries.\<close>

theorem broker_queue_safe:
  assumes "reach broker_init broker_step s"
  shows "list_all (\<lambda>x. length (xr_record x) = 64) (br_requests (bs_broker s) @ map fst (bs_waiting s))
    \<and> list_all (\<lambda>c. cr_command c \<in> {''status'', ''bootloader'', ''reboot''}) (br_controls (bs_broker s))
    \<and> length (br_control_audit (bs_broker s)) \<le> 16
    \<and> (\<exists>audit. dget (br_snapshot (bs_broker s)) ''control_audit'' = JList (map JObj audit)
         \<and> length audit \<le> 16)"
  using broker_machine.reach_inv [OF assms]
  by (auto simp: broker_inv_def BROKER_COMMANDS_mem published_audit_def audit_value_def list_all_iff)

theorem broker_queue_safe_witness:
  "length (br_control_audit (bs_broker (race_sys 4))) \<le> 16 \<and> br_requests (bs_broker (race_sys 4)) \<noteq> []"
  using broker_queue_safe [OF race_reach]
  by (simp add: race_sys_def publish_store_def handle_finish_def Let_def split: option.split)

text \<open>C31. The lifecycle goes one way: along any run of the broker a changed state is a later one, so
  a stopped broker stays stopped, a quiescing one can only stop, and none opens again.\<close>

theorem broker_lifecycle:
  assumes "reach broker_init broker_step s" "run broker_step s t"
    and "br_state (bs_broker t) \<noteq> br_state (bs_broker s)"
  shows "br_state (bs_broker s) \<noteq> STOPPED \<and> br_state (bs_broker t) \<noteq> OPENING
    \<and> (br_state (bs_broker s) = QUIESCING \<longrightarrow> br_state (bs_broker t) = STOPPED)
    \<and> (br_state (bs_broker s) = FAULT \<longrightarrow> br_state (bs_broker t) \<in> {QUIESCING, STOPPED})"
  using broker_machine.run_rank [OF assms(2) broker_machine.reach_inv [OF assms(1)]] assms(3)
  by (cases "br_state (bs_broker s)"; cases "br_state (bs_broker t)") auto

theorem broker_lifecycle_witness:
  "\<exists>t. run broker_step (race_sys 4) t \<and> br_state (bs_broker t) = FAULT \<and> br_state (bs_broker t) \<noteq> OPENING"
proof -
  let ?b = "(bs_broker (race_sys 4))\<lparr>br_state := FAULT,
    br_snapshot := dset (br_snapshot (bs_broker (race_sys 4))) ''state'' (JStr ''FAULT'')\<rparr>"
  let ?t = "(race_sys 4)\<lparr>bs_broker := ?b\<rparr>"
  have o: "br_state (bs_broker (race_sys 4)) = OPENING"
    by (simp add: race_sys_def publish_store_def handle_finish_def DeviceBroker_def Let_def split: option.split)
  then have "transition FAULT (bs_broker (race_sys 4)) = (?b, Inr ())" by (simp add: transition_def)
  then have "broker_step (race_sys 4) ?t" by (rule broker_step.move)
  with run_refl have r: "run broker_step (race_sys 4) ?t" by (rule run_step)
  have "br_state (bs_broker ?t) \<noteq> OPENING"
    using broker_lifecycle [OF race_reach r] o by simp
  with r show ?thesis by auto
qed


end
