(* ===== verification/Ownership.thy ===== *)
theory Ownership
  imports Broker Transition
begin

text \<open>
  Exclusive ownership of a device (\<open>device_ownership.py\<close>) and its use when a broker starts and
  stops.  The operating system's lock table maps the path of a locked file to the open handle that
  holds the lock; an ownership object has at most one open handle, which is named by the object's
  number.  Objects of different processes share the table.
\<close>

section \<open>Acquire and release\<close>

type_synonym lock_table = "(string \<times> nat) list"

record ownership =
  ow_id :: nat
  ow_device_id :: string
  ow_path :: string
  ow_file :: bool

definition DeviceOwnership :: "nat \<Rightarrow> string \<Rightarrow> string \<Rightarrow> ownership" where
  "DeviceOwnership i device_id path =
     \<lparr>ow_id = i, ow_device_id = device_id, ow_path = path, ow_file = False\<rparr>"

text \<open>\<open>opened\<close> is the outcome of creating the directory and opening and initialising the file.\<close>

definition acquire :: "unit res \<Rightarrow> ownership \<Rightarrow> lock_table \<Rightarrow> ownership \<times> lock_table \<times> unit res" where
  "acquire opened o' locks =
     (if ow_file o'
      then (o', locks, Inl (DeviceOwnershipError
             (''device '' @ ow_device_id o' @ '' ownership is already held'')))
      else case opened of
        Inl e \<Rightarrow> (o', locks, Inl e)
      | Inr _ \<Rightarrow>
          if map_of locks (ow_path o') \<noteq> None
          then (o', locks, Inl (DeviceOwnershipError
                 (''device '' @ ow_device_id o' @ '' already has an active owner'')))
          else (o'\<lparr>ow_file := True\<rparr>, (ow_path o', ow_id o') # locks, Inr ()))"

definition unlock :: "ownership \<Rightarrow> lock_table \<Rightarrow> lock_table" where
  "unlock o' locks = filter (\<lambda>l. l \<noteq> (ow_path o', ow_id o')) locks"

definition release :: "ownership \<Rightarrow> lock_table \<Rightarrow> ownership \<times> lock_table" where
  "release o' locks =
     (if \<not> ow_file o' then (o', locks) else (o'\<lparr>ow_file := False\<rparr>, unlock o' locks))"

section \<open>Starting and stopping a broker\<close>

record broker_process =
  bp_broker :: broker
  bp_ownership :: ownership
  bp_thread :: bool
  bp_ready :: bool
  bp_startup_error :: "exc option"
  bp_registered :: bool

text \<open>
  \<open>_run\<close> until the broker serves: \<open>ports\<close> is the outcome of binding the two sockets, \<open>written\<close> the
  outcome of writing the registry file.
\<close>

definition run_startup ::
  "(int \<times> int) res \<Rightarrow> int \<Rightarrow> unit res \<Rightarrow> broker \<Rightarrow> broker \<times> bool \<times> unit res" where
  "run_startup ports pid written b = (case ports of
     Inl e \<Rightarrow> (b, False, Inl e)
   | Inr (tcp_port, udp_port) \<Rightarrow>
       let b1 = b\<lparr>br_record := Some \<lparr>bk_device_id = br_device_id b, bk_tcp_port = tcp_port,
             bk_udp_port = udp_port, bk_pid = pid, bk_processor = br_processor b\<rparr>\<rparr> in
       (case written of
          Inl e \<Rightarrow> (b1, False, Inl e)
        | Inr _ \<Rightarrow> (case transition OWNER_ACTIVE b1 of (b2, r) \<Rightarrow> (b2, True, r))))"

text \<open>
  \<open>start\<close>: \<open>thread_error\<close> is an exception of the thread's start, \<open>in_time\<close> says whether the new
  thread reports before the time-out.  The ready event and the startup error keep what an earlier
  start left in them.
\<close>

definition start_broker ::
  "unit res \<Rightarrow> exc option \<Rightarrow> bool \<Rightarrow> (int \<times> int) res \<Rightarrow> int \<Rightarrow> unit res
     \<Rightarrow> broker_process \<Rightarrow> lock_table \<Rightarrow> broker_process \<times> lock_table \<times> broker_record res" where
  "start_broker opened thread_error in_time ports pid written p locks =
     (if bp_thread p then (p, locks, Inl (RuntimeError ''broker is already started''))
      else case acquire opened (bp_ownership p) locks of
        (o', locks1, Inl e) \<Rightarrow> (p\<lparr>bp_ownership := o'\<rparr>, locks1, Inl e)
      | (o', locks1, Inr _) \<Rightarrow>
          (case thread_error of
             Some e \<Rightarrow> (case release o' locks1 of (o2, locks2) \<Rightarrow> (p\<lparr>bp_ownership := o2\<rparr>, locks2, Inl e))
           | None \<Rightarrow>
               if \<not> (bp_ready p \<or> in_time)
               then (p\<lparr>bp_ownership := o', bp_thread := True\<rparr>, locks1,
                     Inl (RuntimeError ''broker startup timed out; ownership retained''))
               else (case run_startup ports pid written (bp_broker p) of (b, registered, r) \<Rightarrow>
                 let error = (case r of Inl e \<Rightarrow> Some e | Inr _ \<Rightarrow> bp_startup_error p);
                     p1 = p\<lparr>bp_broker := b, bp_ownership := o', bp_thread := True, bp_ready := True,
                            bp_startup_error := error, bp_registered := bp_registered p \<or> registered\<rparr> in
                 (case (error, br_record b) of
                    (None, Some record) \<Rightarrow> (p1, locks1, Inr record)
                  | _ \<Rightarrow> (case release o' locks1 of (o2, locks2) \<Rightarrow>
                      (p1\<lparr>bp_ownership := o2, bp_thread := False\<rparr>, locks2,
                       Inl (RuntimeError ''broker did not start'')))))))"

definition stop_broker :: "broker_process \<Rightarrow> lock_table \<Rightarrow> broker_process \<times> lock_table" where
  "stop_broker p locks =
     (case release (bp_ownership p) locks of (o', locks') \<Rightarrow>
        (p\<lparr>bp_broker := quiesce (bp_broker p), bp_ownership := o', bp_registered := False\<rparr>, locks'))"

definition BrokerProcess :: "nat \<Rightarrow> string \<Rightarrow> string \<Rightarrow> string \<Rightarrow> broker_process" where
  "BrokerProcess i device_id processor path =
     \<lparr>bp_broker = DeviceBroker device_id processor, bp_ownership = DeviceOwnership i device_id path,
      bp_thread = False, bp_ready = False, bp_startup_error = None, bp_registered = False\<rparr>"

section \<open>Owners that compete\<close>

record own_sys =
  os_object :: "nat \<Rightarrow> ownership"
  os_locks :: lock_table

definition own_init :: "own_sys \<Rightarrow> bool" where
  "own_init s \<longleftrightarrow> (\<forall>i. ow_id (os_object s i) = i \<and> \<not> ow_file (os_object s i)) \<and> os_locks s = []"

inductive own_step :: "own_sys \<Rightarrow> own_sys \<Rightarrow> bool" where
  try_acquire: "acquire opened (os_object s i) (os_locks s) = (o', locks, r) \<Longrightarrow>
     own_step s (s\<lparr>os_object := (os_object s)(i := o'), os_locks := locks\<rparr>)"
| give_up: "release (os_object s i) (os_locks s) = (o', locks) \<Longrightarrow>
     own_step s (s\<lparr>os_object := (os_object s)(i := o'), os_locks := locks\<rparr>)"

definition own_inv :: "own_sys \<Rightarrow> bool" where
  "own_inv s \<longleftrightarrow> (\<forall>i. ow_id (os_object s i) = i)
     \<and> (\<forall>path i. (path, i) \<in> set (os_locks s) \<longleftrightarrow>
          ow_file (os_object s i) \<and> ow_path (os_object s i) = path)
     \<and> distinct (map fst (os_locks s))"

lemma map_of_filter_neq:
  "distinct (map fst l) \<Longrightarrow> map_of (filter (\<lambda>e. e \<noteq> (k, v)) l) =
     (if map_of l k = Some v then (map_of l)(k := None) else map_of l)"
proof (induction l)
  case (Cons a l)
  have "map_of l (fst a) = None" using Cons.prems by (simp add: map_of_eq_None_iff)
  with Cons show ?case by (cases a) (auto simp: fun_eq_iff)
qed (auto simp: fun_eq_iff)

lemma acquire_cases:
  assumes "acquire opened o' locks = (o2, locks2, r)"
  shows "(o2 = o' \<and> locks2 = locks \<and> (\<exists>e. r = Inl e))
    \<or> (\<not> ow_file o' \<and> map_of locks (ow_path o') = None \<and> o2 = o'\<lparr>ow_file := True\<rparr>
       \<and> locks2 = (ow_path o', ow_id o') # locks \<and> r = Inr ())"
  using assms by (auto simp: acquire_def split: if_splits sum.splits)

lemma distinct_unlock: "distinct (map fst l) \<Longrightarrow> distinct (map fst (unlock o' l))"
  by (auto simp: unlock_def distinct_map intro: inj_on_subset)

lemma own_inv_step:
  assumes "own_inv s" "own_step s t"
  shows "own_inv t"
  using assms(2,1)
proof (induction rule: own_step.induct)
  case (try_acquire opened s i o' locks r)
  from acquire_cases [OF try_acquire(1)] show ?case
  proof (elim disjE conjE)
    assume "o' = os_object s i" "locks = os_locks s"
    then show ?thesis using try_acquire(2) by simp
  next
    assume "map_of (os_locks s) (ow_path (os_object s i)) = None"
      "o' = (os_object s i)\<lparr>ow_file := True\<rparr>"
      "locks = (ow_path (os_object s i), ow_id (os_object s i)) # os_locks s"
    then show ?thesis using try_acquire(2) by (force simp: own_inv_def map_of_eq_None_iff)
  qed
next
  case (give_up s i o' locks)
  show ?case
  proof (cases "ow_file (os_object s i)")
    case False
    then show ?thesis using give_up by (auto simp: release_def)
  next
    case True
    have d: "distinct (map fst (os_locks s))" using give_up(2) by (simp add: own_inv_def)
    have i: "ow_id (os_object s i) = i" using give_up(2) by (simp add: own_inv_def)
    show ?thesis using True give_up i distinct_unlock [OF d, of "os_object s i"]
      by (auto simp: own_inv_def release_def unlock_def)
  qed
qed

interpretation owners: invariant_system own_init own_step own_inv
proof
  show "own_inv s" if "own_init s" for s using that by (simp add: own_init_def own_inv_def)
qed (rule own_inv_step)

lemma release_releases:
  assumes "ow_file o'" "map_of locks (ow_path o') = Some (ow_id o')" "distinct (map fst locks)"
  shows "map_of (snd (release o' locks)) (ow_path o') = None"
  using assms map_of_filter_neq [OF assms(3), of "ow_path o'" "ow_id o'"] by (simp add: release_def unlock_def)

lemma release_acquired:
  assumes "acquire opened o' locks = (o2, locks2, Inr ())" "(ow_path o', ow_id o') \<notin> set locks"
  shows "release o2 locks2 = (o', locks)"
proof -
  have "\<not> ow_file o'" "o2 = o'\<lparr>ow_file := True\<rparr>" "locks2 = (ow_path o', ow_id o') # locks"
    using acquire_cases [OF assms(1)] by auto
  moreover have "filter (\<lambda>l. l \<noteq> (ow_path o', ow_id o')) locks = locks"
    using assms(2) by (auto simp: filter_id_conv)
  ultimately show ?thesis by (cases o') (simp add: release_def unlock_def)
qed

section \<open>Properties\<close>

text \<open>C29. A device has at most one owner: in every state that any number of processes reach by
  acquiring and releasing, in any order, two objects that hold the ownership of the same path are the
  same object.  And the lock is never stuck: when no object holds a path, an attempt that can open the
  file succeeds.\<close>

theorem single_owner:
  assumes "reach own_init own_step s"
  shows "(ow_file (os_object s i) \<and> ow_file (os_object s j)
       \<and> ow_path (os_object s i) = ow_path (os_object s j) \<longrightarrow> i = j)
    \<and> ((\<forall>k. ow_path (os_object s k) = ow_path (os_object s i) \<longrightarrow> \<not> ow_file (os_object s k)) \<longrightarrow>
         (\<exists>o' locks. acquire (Inr ()) (os_object s i) (os_locks s) = (o', locks, Inr ()) \<and> ow_file o'))"
proof -
  have inv: "own_inv s" by (rule owners.reach_inv [OF assms])
  have "map_of (os_locks s) (ow_path (os_object s i)) = None"
    if "\<forall>k. ow_path (os_object s k) = ow_path (os_object s i) \<longrightarrow> \<not> ow_file (os_object s k)"
    using that inv by (cases "map_of (os_locks s) (ow_path (os_object s i))")
      (auto simp: own_inv_def dest!: map_of_SomeD)
  moreover have "i = j" if "ow_file (os_object s i)" "ow_file (os_object s j)"
      "ow_path (os_object s i) = ow_path (os_object s j)"
    using inv that eq_key_imp_eq_value [of "os_locks s" "ow_path (os_object s j)" i j]
    by (auto simp: own_inv_def)
  ultimately show ?thesis by (auto simp: acquire_def)
qed

definition two_owners :: own_sys where
  "two_owners = \<lparr>os_object = (\<lambda>i. DeviceOwnership i ''A'' ''/tmp/A''), os_locks = []\<rparr>"

theorem single_owner_witness:
  "\<exists>s. reach own_init own_step s \<and> ow_file (os_object s 1) \<and> \<not> ow_file (os_object s 2)"
proof -
  let ?s = "two_owners\<lparr>os_object := (os_object two_owners)(1 := (DeviceOwnership 1 ''A'' ''/tmp/A'')\<lparr>ow_file := True\<rparr>),
    os_locks := [(''/tmp/A'', 1)]\<rparr>"
  have "acquire (Inr ()) (os_object two_owners 1) (os_locks two_owners)
      = ((DeviceOwnership 1 ''A'' ''/tmp/A'')\<lparr>ow_file := True\<rparr>, [(''/tmp/A'', 1)], Inr ())"
    by (simp add: acquire_def two_owners_def DeviceOwnership_def)
  then have st: "own_step two_owners ?s" by (rule own_step.try_acquire)
  have "own_init two_owners" by (simp add: own_init_def two_owners_def DeviceOwnership_def)
  then have "reach own_init own_step two_owners" by (rule reach_init)
  then have r: "reach own_init own_step ?s" using st by (rule reach_step)
  have "ow_path (os_object ?s 1) = ow_path (os_object ?s 2)" "ow_file (os_object ?s 1)"
    by (simp_all add: two_owners_def DeviceOwnership_def)
  then have "\<not> ow_file (os_object ?s 2)" using single_owner [OF r, of 1 2] by auto
  with r \<open>ow_file (os_object ?s 1)\<close> show ?thesis by blast
qed




end
