(* ===== verification/Shell.thy ===== *)
theory Shell
  imports Memory Py_Json
begin

text \<open>
  The command vocabulary of the host shell (\<open>shell_commands.py\<close>): history, command table,
  splitting a line into words as \<open>shlex\<close> does with the options the shell sets, completion and
  help.  Host paths are POSIX paths as text; user expansion, case folding beyond ASCII and the
  contents of host directories are arguments.
\<close>

section \<open>History\<close>

record history =
  hi_entries :: "string list"
  hi_cursor :: nat
  hi_draft :: string

definition CommandHistory :: history where
  "CommandHistory = \<lparr>hi_entries = [], hi_cursor = 0, hi_draft = []\<rparr>"

definition remember :: "string \<Rightarrow> history \<Rightarrow> history" where
  "remember command h =
     (let c = strip command;
          es = (if c \<noteq> [] \<and> (hi_entries h = [] \<or> last (hi_entries h) \<noteq> c)
                then hi_entries h @ [c] else hi_entries h) in
      \<lparr>hi_entries = es, hi_cursor = length es, hi_draft = []\<rparr>)"

definition history_edit :: "string \<Rightarrow> history \<Rightarrow> history" where
  "history_edit buffer h = h\<lparr>hi_cursor := length (hi_entries h), hi_draft := buffer\<rparr>"

definition history_move :: "string \<Rightarrow> int \<Rightarrow> history \<Rightarrow> history \<times> string" where
  "history_move buffer delta h =
     (if hi_entries h = [] \<or> delta = 0 then (h, buffer)
      else let n = length (hi_entries h);
               h1 = (if hi_cursor h = n then h\<lparr>hi_draft := buffer\<rparr> else h) in
        if delta < 0 \<and> hi_cursor h1 > 0
        then (h1\<lparr>hi_cursor := hi_cursor h1 - 1\<rparr>, hi_entries h1 ! (hi_cursor h1 - 1))
        else if delta > 0 \<and> hi_cursor h1 + 1 < n
        then (h1\<lparr>hi_cursor := hi_cursor h1 + 1\<rparr>, hi_entries h1 ! (hi_cursor h1 + 1))
        else if delta > 0 \<and> hi_cursor h1 + 1 = n
        then (h1\<lparr>hi_cursor := n\<rparr>, hi_draft h1)
        else (h1, buffer))"

section \<open>The command table\<close>

record command_spec =
  cs_name :: string
  cs_usage :: string
  cs_group :: string
  cs_summary :: string
  cs_capability :: "string option"
  cs_aliases :: "string list"

definition CommandSpec ::
  "string \<Rightarrow> string \<Rightarrow> string \<Rightarrow> string \<Rightarrow> string option \<Rightarrow> string list \<Rightarrow> command_spec" where
  "CommandSpec n u g s c a = \<lparr>cs_name = n, cs_usage = u, cs_group = g, cs_summary = s,
     cs_capability = c, cs_aliases = a\<rparr>"

record shell_command =
  sc_spec :: command_spec
  sc_arguments :: "string list"
  sc_raw :: string

definition COMMANDS :: "command_spec list" where
  "COMMANDS = [
     CommandSpec ''help''
       ''help [command]'' ''shell''
       ''show commands or command help'' None [''?''],
     CommandSpec ''pwd''
       ''pwd'' ''shell''
       ''show the current Host directory'' None [],
     CommandSpec ''cd''
       ''cd [<Host path>]'' ''shell''
       ''change the current Host directory'' None [],
     CommandSpec ''status''
       ''status'' ''observe''
       ''show a concise runtime status'' None [],
     CommandSpec ''top''
       ''top'' ''observe''
       ''show the live physical-processor summary'' None [],
     CommandSpec ''info''
       ''info'' ''observe''
       ''show negotiated Host/RP2350 capabilities'' None [],
     CommandSpec ''probe''
       ''probe'' ''observe''
       ''run one prepared-runtime processor identity/liveness diagnostic'' None [],
     CommandSpec ''load''
       ''load <Host bin|p86w|flash:/file.p86w> [--address N] [--entry CS:IP] [--stack SS:SP] [--clock MODE]'' ''workload''
       ''load a native workload'' (Some ''workload'') [],
     CommandSpec ''run''
       ''run'' ''workload''
       ''start the loaded workload'' (Some ''workload'') [],
     CommandSpec ''stop''
       ''stop'' ''workload''
       ''stop the active workload safely'' (Some ''workload'') [],
     CommandSpec ''restart''
       ''restart'' ''workload''
       ''reset and restart the workload'' (Some ''restart'') [],
     CommandSpec ''bootloader''
       ''bootloader'' ''control''
       ''stop the processor and enter RP2350 UF2 download mode'' (Some ''bootloader'') [''bootsel''],
     CommandSpec ''send''
       ''send <text>'' ''console''
       ''send stdin/command text to the processor'' (Some ''console'') [],
     CommandSpec ''calc''
       ''calc <lhs> <+|-|*|/> <rhs>'' ''console''
       ''calculate on the physical processor'' (Some ''console'') [],
     CommandSpec ''console''
       ''console'' ''console''
       ''enter or describe the interactive console'' (Some ''console'') [],
     CommandSpec ''stdin''
       ''stdin <file>'' ''console''
       ''stream a Host file to processor stdin'' (Some ''console'') [],
     CommandSpec ''stdout''
       ''stdout <file|off>'' ''console''
       ''capture processor stdout'' (Some ''console'') [],
     CommandSpec ''ls''
       ''ls [flash:/path|<Host path>]'' ''files''
       ''list an RP-FLASH or Host directory'' (Some ''filesystem'') [],
     CommandSpec ''cat''
       ''cat <flash:|sd:/file>'' ''files''
       ''read a shared file'' (Some ''filesystem'') [],
     CommandSpec ''put''
       ''put <host-file> <flash:|sd:/path>'' ''files''
       ''upload an existing Host file; example: put README.md flash:/README.TXT'' (Some ''filesystem'') [],
     CommandSpec ''get''
       ''get <flash:|sd:/file> [host-file]'' ''files''
       ''download a shared file'' (Some ''filesystem'') [],
     CommandSpec ''rm''
       ''rm <flash:|sd:/path>'' ''files''
       ''remove a shared file'' (Some ''filesystem'') [],
     CommandSpec ''mv''
       ''mv <source> <destination>'' ''files''
       ''rename a shared file'' (Some ''filesystem'') [],
     CommandSpec ''df''
       ''df [flash:|sd:]'' ''storage''
       ''show storage capacity and availability'' (Some ''storage'') [],
     CommandSpec ''mount''
       ''mount sd:'' ''storage''
       ''mount removable SD storage'' (Some ''sd'') [],
     CommandSpec ''unmount''
       ''unmount sd:'' ''storage''
       ''flush and unmount SD storage'' (Some ''sd'') [],
     CommandSpec ''sync''
       ''sync [flash:|sd:]'' ''storage''
       ''flush persistent filesystem state'' (Some ''storage'') [],
     CommandSpec ''mem''
       ''mem read|write|load|save ...'' ''memory''
       ''inspect or change processor-visible memory'' (Some ''memory'') [],
     CommandSpec ''mailbox''
       ''mailbox <text>'' ''memory''
       ''exchange one message through shared Internal SRAM'' (Some ''memory'') [],
     CommandSpec ''trace''
       ''trace [save <host-file>]'' ''observe''
       (''read/save the stopped executor'' @ [CHR 0x27] @ ''s last bus cycle and fault flags'') (Some ''trace'') [],
     CommandSpec ''selftest''
       ''selftest [psram|all]'' ''observe''
       ''run a canonical runtime resource self-test'' (Some ''selftest'') [],
     CommandSpec ''timeout''
       ''timeout [seconds|off]'' ''control''
       ''query/set the RP2350 general-workload execution limit'' (Some ''watchdog'') [],
     CommandSpec ''regs''
       ''regs'' ''observe''
       ''show workload-published processor registers'' (Some ''registers'') [],
     CommandSpec ''quiet''
       ''quiet'' ''shell''
       ''show errors and command results only'' None [],
     CommandSpec ''verbose''
       ''verbose'' ''shell''
       ''show every native diagnostic probe result'' None [],
     CommandSpec ''quit''
       ''quit'' ''shell''
       ''close the Host shell'' None [''exit'']]"

definition command_index :: "(string \<times> command_spec) list" where
  "command_index = concat (map (\<lambda>spec. map (\<lambda>n. (n, spec)) (cs_name spec # cs_aliases spec)) COMMANDS)"

text \<open>\<open>COMMAND_INDEX.get(key)\<close>: a later assignment to a key replaces an earlier one.\<close>

definition lookup_command :: "string \<Rightarrow> command_spec option" where
  "lookup_command key = map_of (rev command_index) key"

section \<open>Words\<close>

datatype lex_state = LexSpace | LexQuote char | LexWord

definition is_lex_space :: "char \<Rightarrow> bool" where
  "is_lex_space c \<longleftrightarrow> (of_char c :: nat) \<in> {32, 9, 13, 10}"

definition is_quote :: "char \<Rightarrow> bool" where
  "is_quote c \<longleftrightarrow> c = CHR 0x22 \<or> c = CHR 0x27"

fun shlex_steps :: "lex_state \<Rightarrow> string \<Rightarrow> bool \<Rightarrow> string \<Rightarrow> string list res" where
  "shlex_steps LexSpace token quoted [] = Inr []"
| "shlex_steps LexSpace token quoted (c # s) =
     (if is_lex_space c then shlex_steps LexSpace [] False s
      else if is_quote c then shlex_steps (LexQuote c) [] False s
      else shlex_steps LexWord [c] False s)"
| "shlex_steps (LexQuote q) token quoted [] = Inl (ValueError ''No closing quotation'')"
| "shlex_steps (LexQuote q) token quoted (c # s) =
     (if c = q then shlex_steps LexWord token True s
      else shlex_steps (LexQuote q) (token @ [c]) True s)"
| "shlex_steps LexWord token quoted [] = Inr (if token \<noteq> [] \<or> quoted then [token] else [])"
| "shlex_steps LexWord token quoted (c # s) =
     (if is_lex_space c
      then (if token \<noteq> [] \<or> quoted then rmap (\<lambda>ws. token # ws) (shlex_steps LexSpace [] False s)
            else shlex_steps LexSpace [] False s)
      else if is_quote c then shlex_steps (LexQuote c) token quoted s
      else shlex_steps LexWord (token @ [c]) quoted s)"

definition shlex_words :: "string \<Rightarrow> string list res" where
  "shlex_words line = shlex_steps LexSpace [] False line"

definition parse_command :: "string \<Rightarrow> shell_command option res" where
  "parse_command line = (case shlex_words line of
     Inl (ValueError m) \<Rightarrow> Inl (ValueError (''command syntax error: '' @ m))
   | Inl e \<Rightarrow> Inl e
   | Inr [] \<Rightarrow> Inr None
   | Inr (w # ws) \<Rightarrow> (case lookup_command (lower w) of
       None \<Rightarrow> Inl (ValueError (''unknown command: '' @ py_repr w @ ''; type help''))
     | Some spec \<Rightarrow> Inr (Some \<lparr>sc_spec = spec, sc_arguments = ws, sc_raw = line\<rparr>)))"

section \<open>Help and messages\<close>

abbreviation nl :: string where "nl \<equiv> [CHR 0x0A]"

definition pad_left :: "nat \<Rightarrow> string \<Rightarrow> string" where
  "pad_left w s = replicate (w - length s) (CHR '' '') @ s"

definition help_group :: "string \<Rightarrow> string list" where
  "help_group g = (''  '' @ g @ '':'') #
     map (\<lambda>spec. ''    '' @ pad_right 44 (cs_usage spec) @ '' '' @ cs_summary spec)
       (filter (\<lambda>spec. cs_group spec = g) COMMANDS)"

definition command_help :: "string option \<Rightarrow> string res" where
  "command_help name = (case name of
     Some (c # s) \<Rightarrow> (case lookup_command (lower (c # s)) of
         None \<Rightarrow> Inl (ValueError (''unknown command: '' @ py_repr (c # s)))
       | Some spec \<Rightarrow> Inr (cs_usage spec @ nl @ ''  '' @ cs_summary spec @ nl @ ''  '' @
           (case cs_capability spec of
              Some (k # ks) \<Rightarrow> ''available when capability is negotiated: '' @ (k # ks)
            | _ \<Rightarrow> ''Host shell command'')))
   | _ \<Rightarrow> Inr (join nl (''Commands:'' #
       concat (map help_group (rev (remdups (rev (map cs_group COMMANDS))))))))"

definition unavailable_message :: "shell_command \<Rightarrow> string" where
  "unavailable_message command =
     (let spec = sc_spec command;
          capability = (case cs_capability spec of Some (k # ks) \<Rightarrow> k # ks | _ \<Rightarrow> cs_name spec) in
      cs_name spec @ '': NOT AVAILABLE (RP2350 capability '' @ py_repr capability
        @ '' was not negotiated)'')"

section \<open>Paths\<close>

definition is_device_path :: "string \<Rightarrow> bool" where
  "is_device_path path = (let l = lower path in
     l = ''flash:'' \<or> starts_with l ''flash:/'' \<or> l = ''sd:'' \<or> starts_with l ''sd:/'')"

definition is_drive :: "string \<Rightarrow> bool" where
  "is_drive path \<longleftrightarrow> length path = 2 \<and> is_alpha_char (path ! 0) \<and> path ! 1 = CHR '':''"

text \<open>\<open>Path.expanduser\<close> raises \<open>RuntimeError\<close> when it cannot determine a home directory.\<close>

definition host_list_path :: "(string \<Rightarrow> string res) \<Rightarrow> string \<Rightarrow> string option \<Rightarrow> string res" where
  "host_list_path expanduser path base =
     rmap (\<lambda>p. case base of
         Some b \<Rightarrow> if starts_with p ''/'' then p else path_str (b @ ''/'' @ p)
       | None \<Rightarrow> p)
       (expanduser (path_str (if is_drive path then path @ ''/'' else path)))"

text \<open>
  A host directory as the listing sees it: absent, no directory, unreadable, or its entries in
  the order \<open>sorted\<close> gave them; an entry is a directory, a file of a size, or fails to answer.
\<close>

datatype host_entry_kind = HostDir | HostFile int | HostError

datatype host_directory =
    HostMissing
  | HostNoDirectory
  | HostUnreadable string
  | HostEntries "(string \<times> host_entry_kind) list"

definition format_host_directory ::
  "(string \<Rightarrow> host_directory) \<Rightarrow> (string \<Rightarrow> string res) \<Rightarrow> string \<Rightarrow> string option \<Rightarrow> string res" where
  "format_host_directory listing expanduser path base =
     rbind (host_list_path expanduser path base) (\<lambda>directory.
      case listing directory of
        HostMissing \<Rightarrow> Inl (ValueError (''Host path does not exist: '' @ path))
      | HostNoDirectory \<Rightarrow> Inl (ValueError (''Host path is not a directory: '' @ path))
      | HostUnreadable e \<Rightarrow> Inl (ValueError (''cannot list Host directory '' @ path @ '': '' @ e))
      | HostEntries entries \<Rightarrow>
          let lines = map (\<lambda>(name, kind). pad_left 10 (case kind of
                  HostDir \<Rightarrow> ''<DIR>'' | HostFile n \<Rightarrow> pad_left 10 (dec n) | HostError \<Rightarrow> ''<ERR>'')
                @ ''  '' @ name) entries in
          Inr (''Directory of Host '' @ directory @ nl @
               (if lines \<noteq> [] then join nl lines else ''<empty>'')))"

section \<open>Completion\<close>

definition token_start :: "string \<Rightarrow> nat" where
  "token_start line = max (case rfind_char (CHR '' '') line of Some i \<Rightarrow> i + 1 | None \<Rightarrow> 0)
                          (case rfind_char (CHR 0x09) line of Some i \<Rightarrow> i + 1 | None \<Rightarrow> 0)"

definition replace_last_token :: "string \<Rightarrow> string \<Rightarrow> string" where
  "replace_last_token line replacement = take (token_start line) line @ replacement"

definition strip_quote :: "string \<Rightarrow> string" where
  "strip_quote s = rev (dropWhile (\<lambda>c. c = CHR 0x22) (rev (dropWhile (\<lambda>c. c = CHR 0x22) s)))"

definition completion_token :: "string \<Rightarrow> string" where
  "completion_token line = strip_quote (drop (token_start line) line)"

definition device_matches :: "(string \<Rightarrow> string) \<Rightarrow> string \<Rightarrow> (string \<times> bool) list \<Rightarrow> string list" where
  "device_matches casefold token remote_entries =
     (let (base, prefix) = (case rfind_char (CHR ''/'') token of
            Some i \<Rightarrow> (take (i + 1) token, drop (i + 1) token)
          | None \<Rightarrow> (token @ ''/'', [])) in
      map (\<lambda>(name, directory). base @ name @ (if directory then ''/'' else []))
        (filter (\<lambda>(name, directory). starts_with (casefold name) (casefold prefix)) remote_entries))"

definition complete_line :: "string \<Rightarrow> string list \<Rightarrow> string \<times> string list" where
  "complete_line line matches = (case matches of
     [m] \<Rightarrow> (replace_last_token line
              (if CHR '' '' \<in> set m \<and> \<not> starts_with m [CHR 0x22] then [CHR 0x22] @ m @ [CHR 0x22] else m),
            matches)
   | _ \<Rightarrow> (line, matches))"

text \<open>
  \<open>complete_shell_input\<close> for the first word and for device paths; \<open>host_matches\<close> are the matches of a
  host path.
\<close>

definition complete_shell_input ::
  "(string \<Rightarrow> string) \<Rightarrow> (string \<Rightarrow> string list) \<Rightarrow> string \<Rightarrow> (string \<times> bool) list \<Rightarrow> string \<times> string list" where
  "complete_shell_input casefold host_matches line remote_entries =
     (let token = completion_token line in
      if strip line = [] \<or> (CHR '' '' \<notin> set line \<and> CHR 0x09 \<notin> set line)
      then let prefix = casefold (strip line);
               names = map cs_name (filter (\<lambda>spec. starts_with (casefold (cs_name spec)) prefix) COMMANDS) in
           (case names of [n] \<Rightarrow> (n @ '' '', names) | _ \<Rightarrow> (line, names))
      else complete_line line
        (if starts_with (lower token) ''flash:'' \<or> starts_with (lower token) ''sd:''
         then device_matches casefold token remote_entries else host_matches token))"

section \<open>Lemmas\<close>

definition quote_word :: "string \<Rightarrow> string" where
  "quote_word w = [CHR 0x22] @ w @ [CHR 0x22]"

lemma shlex_quoted_body:
  "CHR 0x22 \<notin> set w \<Longrightarrow> shlex_steps (LexQuote (CHR 0x22)) token quoted (w @ CHR 0x22 # s)
     = shlex_steps LexWord (token @ w) True s"
  by (induction w arbitrary: token quoted) auto

lemma shlex_quote_word:
  assumes "CHR 0x22 \<notin> set w"
  shows "shlex_steps LexSpace [] False (quote_word w @ s) = shlex_steps LexWord w True s"
  using shlex_quoted_body [OF assms, of "[]" False s]
  by (simp add: quote_word_def is_lex_space_def is_quote_def)

lemma shlex_quoted_words:
  "\<forall>w \<in> set ws. CHR 0x22 \<notin> set w \<Longrightarrow> shlex_words (join '' '' (map quote_word ws)) = Inr ws"
proof (induction ws rule: join.induct [of "\<lambda>_ ws. _ ws" "[]"])
  case (1 sep)
  then show ?case by (simp add: shlex_words_def)
next
  case (2 sep w)
  then show ?case using shlex_quote_word [of w "[]"] by (simp add: shlex_words_def)
next
  case (3 sep w v ws)
  then show ?case using shlex_quote_word [of w "'' '' @ join '' '' (map quote_word (v # ws))"]
    by (simp add: shlex_words_def is_lex_space_def)
qed

definition plain_word :: "string \<Rightarrow> bool" where
  "plain_word w \<longleftrightarrow> w \<noteq> [] \<and> list_all (\<lambda>c. \<not> is_lex_space c \<and> \<not> is_quote c) w"

lemma shlex_plain_body:
  "list_all (\<lambda>c. \<not> is_lex_space c \<and> \<not> is_quote c) w \<Longrightarrow>
     shlex_steps LexWord token quoted (w @ s) = shlex_steps LexWord (token @ w) quoted s"
  by (induction w arbitrary: token) auto

lemma shlex_plain_word:
  "plain_word w \<Longrightarrow> shlex_steps LexSpace [] False (w @ s) = shlex_steps LexWord w False s"
  using shlex_plain_body [of "tl w" "[hd w]" False s] by (cases w) (auto simp: plain_word_def)

lemma shlex_command_quoted:
  assumes "plain_word c" "CHR 0x22 \<notin> set w"
  shows "shlex_words (c @ '' '' @ quote_word w) = Inr [c, w]"
  using assms shlex_plain_word [of c "'' '' @ quote_word w"] shlex_quote_word [of w "[]"]
  by (simp add: shlex_words_def is_lex_space_def plain_word_def)

definition history_ok :: "history \<Rightarrow> bool" where
  "history_ok h \<longleftrightarrow> hi_cursor h \<le> length (hi_entries h) \<and> [] \<notin> set (hi_entries h)
     \<and> (\<forall>i. Suc i < length (hi_entries h) \<longrightarrow> hi_entries h ! i \<noteq> hi_entries h ! Suc i)"

lemma history_ok_new: "history_ok CommandHistory"
  by (simp add: history_ok_def CommandHistory_def)

lemma adjacent_snoc:
  assumes "\<forall>i. Suc i < length es \<longrightarrow> es ! i \<noteq> es ! Suc i" "es = [] \<or> last es \<noteq> c"
  shows "\<forall>i. Suc i < length (es @ [c]) \<longrightarrow> (es @ [c]) ! i \<noteq> (es @ [c]) ! Suc i"
proof (intro allI impI)
  fix i assume "Suc i < length (es @ [c])"
  then consider "Suc i < length es" | "Suc i = length es" by force
  then show "(es @ [c]) ! i \<noteq> (es @ [c]) ! Suc i"
  proof cases
    case 2
    then have "es \<noteq> []" "i = length es - 1" by auto
    then show ?thesis using 2 assms(2) by (simp add: nth_append last_conv_nth)
  qed (use assms in \<open>auto simp: nth_append\<close>)
qed

lemma history_ok_remember: "history_ok h \<Longrightarrow> history_ok (remember c h)"
  using adjacent_snoc [of "hi_entries h" "strip c"] by (auto simp: history_ok_def remember_def Let_def)

lemma history_ok_edit: "history_ok h \<Longrightarrow> history_ok (history_edit b h)"
  by (simp add: history_ok_def history_edit_def)

lemma history_ok_move: "history_ok h \<Longrightarrow> history_ok (fst (history_move b d h))"
  by (auto simp: history_ok_def history_move_def Let_def)

section \<open>Properties\<close>



end
