(* ===== verification/Console.thy ===== *)
theory Console
  imports Core
begin

text \<open>
  The terminal side of the host (\<open>console.py\<close>): the stream that turns console bytes of the device
  into display events, the status line, and the line editor.  The Rich renderer is a third-party
  package and is not modelled; the texts it is given are.
\<close>

section \<open>The display stream\<close>

record cdc_stream =
  cd_pending :: bytes
  cd_native_group_open :: bool

definition CdcDisplayStream :: cdc_stream where
  "CdcDisplayStream = \<lparr>cd_pending = [], cd_native_group_open = False\<rparr>"

definition rstrip_cr :: "bytes \<Rightarrow> bytes" where
  "rstrip_cr raw = rev (dropWhile (\<lambda>b. b = 13) (rev raw))"

text \<open>One decoded line: whether a native group is open afterwards, and the events.\<close>

definition cdc_line :: "bool \<Rightarrow> string \<Rightarrow> bool \<times> string list" where
  "cdc_line group_open line =
     (if starts_with line ''[WORKLOAD START]'' then (False, [])
      else if starts_with line ''[NATIVE STDOUT]''
      then (True, (if group_open then [] else [''[NATIVE OUTPUT]'']) @ [lstrip (drop 15 line)])
      else if starts_with line ''[WORKLOAD COMPLETED]'' \<or> starts_with line ''[WORKLOAD IDLE]''
      then (False, [''[WORKLOAD COMPLETED] processor=IDLE / HLT''])
      else if starts_with line ''[WORKLOAD FAULT]'' \<or> starts_with line ''[WORKLOAD TIMEOUT]''
      then (False, [line])
      else (group_open, []))"

function feed_loop :: "bool \<Rightarrow> bytes \<Rightarrow> bool \<times> string list \<times> bytes" where
  "feed_loop group_open pending =
     (if 10 \<in> set pending
      then let raw = takeWhile (\<lambda>b. b \<noteq> 10) pending;
               remainder = drop (Suc (length raw)) pending;
               (g, events) = cdc_line group_open (utf8_decode_replace (rstrip_cr raw));
               (g', events', rest) = feed_loop g remainder in
           (g', events @ events', rest)
      else (group_open, [], pending))"
  by pat_completeness auto
termination
proof (relation "measure (\<lambda>(g, pending). length pending)", goal_cases)
  case 1
  show ?case by simp
next
  case (2 group_open pending raw remainder z g events)
  then have "pending \<noteq> []" by auto
  then show ?case using 2(3) by simp
qed

declare feed_loop.simps [simp del]

definition feed :: "bytes \<Rightarrow> cdc_stream \<Rightarrow> cdc_stream \<times> string list" where
  "feed chunk s = (case feed_loop (cd_native_group_open s) (cd_pending s @ chunk) of
     (g, events, rest) \<Rightarrow> (\<lparr>cd_pending = rest, cd_native_group_open = g\<rparr>, events))"

section \<open>The status line\<close>

record console_status =
  co_processor :: string
  co_prompt :: string
  co_workload_state :: string
  co_clock_mode :: string
  co_workload_cycles :: int
  co_processor_state :: string

definition prompt_for :: "string \<Rightarrow> string" where
  "prompt_for processor = (if processor = ''intel-8086'' then ''8086''
     else if processor = ''nec-v30'' then ''V30'' else ''CPU'')"

definition ConsoleStatus :: "string \<Rightarrow> console_status" where
  "ConsoleStatus processor = \<lparr>co_processor = processor, co_prompt = prompt_for processor,
     co_workload_state = ''EMPTY'', co_clock_mode = ''AUTO'', co_workload_cycles = 0,
     co_processor_state = ''ACTIVE''\<rparr>"

definition set_processor :: "string \<Rightarrow> console_status \<Rightarrow> console_status" where
  "set_processor processor c = c\<lparr>co_processor := processor, co_prompt := prompt_for processor\<rparr>"

definition set_runtime :: "string \<Rightarrow> string \<Rightarrow> int \<Rightarrow> string \<Rightarrow> console_status \<Rightarrow> console_status" where
  "set_runtime workload_state' clock_mode cycles processor_state' c =
     c\<lparr>co_workload_state := workload_state', co_clock_mode := clock_mode, co_workload_cycles := cycles,
       co_processor_state := processor_state'\<rparr>"

definition DIAMOND :: string where
  "DIAMOND = map char_of [0xE2, 0x97, 0x86 :: nat]"

text \<open>The lookup in \<open>PROCESSOR_NAMES\<close> raises \<open>KeyError\<close> for an unknown processor.\<close>

definition status_text :: "console_status \<Rightarrow> string res" where
  "status_text c = (case PROCESSOR_NAMES (co_processor c) of
     None \<Rightarrow> Inl (KeyErrorOf (co_processor c))
   | Some name \<Rightarrow> Inr (''| '' @ DIAMOND @ '' '' @ name @ ''  workload='' @ co_workload_state c
       @ ''  clock='' @ co_clock_mode c @ ''  cycles='' @ dec (co_workload_cycles c)
       @ ''  processor='' @ co_processor_state c))"

section \<open>The line editor\<close>

text \<open>
  The edited line is a list of code points; which of them are printable, and \<open>strip\<close>, are
  arguments.
\<close>

type_synonym ustring = "nat list"

definition apply_input_character ::
  "(nat \<Rightarrow> bool) \<Rightarrow> (ustring \<Rightarrow> ustring) \<Rightarrow> ustring \<Rightarrow> nat \<Rightarrow> nat
     \<Rightarrow> ustring \<times> nat \<times> ustring option \<times> bool \<times> bool" where
  "apply_input_character printable stripped buffer cursor ch =
     (if ch = 13 \<or> ch = 10 then ([], 0, Some (stripped buffer), True, False)
      else if ch = 3 then ([], 0, None, True, False)
      else if ch = 12 then (buffer, cursor, None, True, True)
      else if ch = 9 then (buffer, cursor, None, False, False)
      else if ch = 8 \<or> ch = 127
      then (if cursor \<noteq> 0 then (take (cursor - 1) buffer @ drop cursor buffer, cursor - 1, None, True, False)
            else (buffer, cursor, None, False, False))
      else if printable ch then (take cursor buffer @ [ch] @ drop cursor buffer, cursor + 1, None, True, False)
      else (buffer, cursor, None, False, False))"

record edit_state =
  ed_buffer :: ustring
  ed_cursor :: nat
  ed_command :: "ustring option"
  ed_changed :: bool
  ed_tab :: bool
  ed_history_delta :: int
  ed_clear :: bool

text \<open>An escape sequence whose third character is \<open>third\<close>; \<open>None\<close> when the loop breaks.\<close>

definition escape_key :: "nat \<Rightarrow> edit_state \<Rightarrow> edit_state" where
  "escape_key third e =
     (let n = length (ed_buffer e) in
      if third = 67 then e\<lparr>ed_cursor := min n (ed_cursor e + 1), ed_changed := True\<rparr>
      else if third = 68 then e\<lparr>ed_cursor := ed_cursor e - 1, ed_changed := True\<rparr>
      else if third = 72 then e\<lparr>ed_cursor := 0, ed_changed := True\<rparr>
      else if third = 70 then e\<lparr>ed_cursor := n, ed_changed := True\<rparr>
      else if third = 51 \<and> ed_cursor e < n
      then e\<lparr>ed_buffer := take (ed_cursor e) (ed_buffer e) @ drop (ed_cursor e + 1) (ed_buffer e),
             ed_changed := True\<rparr>
      else if third = 49 \<or> third = 55 then e\<lparr>ed_cursor := 0, ed_changed := True\<rparr>
      else if third = 52 \<or> third = 56 then e\<lparr>ed_cursor := n, ed_changed := True\<rparr>
      else if third = 51 then e\<lparr>ed_changed := True\<rparr>
      else e)"

text \<open>
  \<open>_read_terminal_command\<close> on a POSIX terminal: the characters that are ready to read, in order; the
  result has the characters that were left unread.
\<close>

fun read_keys :: "(nat \<Rightarrow> bool) \<Rightarrow> (ustring \<Rightarrow> ustring) \<Rightarrow> nat list \<Rightarrow> edit_state \<Rightarrow> edit_state \<times> nat list" where
  "read_keys printable stripped [] e = (e, [])"
| "read_keys printable stripped (ch # keys) e =
     (if ch = 27 \<and> keys \<noteq> [] then
        (case keys of
           second # third # rest \<Rightarrow>
             if second = 91 \<or> second = 79 then
               if third = 65 then (e\<lparr>ed_history_delta := -1\<rparr>, rest)
               else if third = 66 then (e\<lparr>ed_history_delta := 1\<rparr>, rest)
               else read_keys printable stripped
                      (if third \<in> {49, 51, 52, 55, 56} then drop 1 rest else rest) (escape_key third e)
             else read_keys printable stripped (third # rest) e
         | _ \<Rightarrow> (e, []))
      else case apply_input_character printable stripped (ed_buffer e) (ed_cursor e) ch of
        (buffer, cursor, command, one_changed, one_clear) \<Rightarrow>
          let e' = e\<lparr>ed_buffer := buffer, ed_cursor := cursor, ed_command := command,
                     ed_changed := ed_changed e \<or> one_changed, ed_clear := ed_clear e \<or> one_clear,
                     ed_tab := ed_tab e \<or> ch = 9\<rparr> in
          if command \<noteq> None \<or> ed_tab e' then (e', keys) else read_keys printable stripped keys e')"

definition read_terminal_command ::
  "(nat \<Rightarrow> bool) \<Rightarrow> (ustring \<Rightarrow> ustring) \<Rightarrow> bool \<Rightarrow> nat list \<Rightarrow> ustring \<Rightarrow> nat \<Rightarrow> edit_state \<times> nat list" where
  "read_terminal_command printable stripped is_tty keys buffer cursor =
     (let e = \<lparr>ed_buffer = buffer, ed_cursor = cursor, ed_command = None, ed_changed = False,
               ed_tab = False, ed_history_delta = 0, ed_clear = False\<rparr> in
      if is_tty then read_keys printable stripped keys e else (e, keys))"

section \<open>Lemmas\<close>

lemma feed_loop_none: "10 \<notin> set p \<Longrightarrow> feed_loop g p = (g, [], p)"
  by (subst feed_loop.simps) simp

lemma feed_loop_append:
  "feed_loop g p = (g', events, rest) \<Longrightarrow>
     feed_loop g (p @ q) = (case feed_loop g' (rest @ q) of (g2, events2, rest2) \<Rightarrow> (g2, events @ events2, rest2))
     \<and> 10 \<notin> set rest"
proof (induction g p arbitrary: g' events rest rule: feed_loop.induct)
  case step: (1 g p)
  show ?case
  proof (cases "10 \<in> set p")
    case True
    let ?raw = "takeWhile (\<lambda>b. b \<noteq> 10) p"
    let ?rem = "drop (Suc (length ?raw)) p"
    obtain g1 ev1 where l: "cdc_line g (utf8_decode_replace (rstrip_cr ?raw)) = (g1, ev1)" by fastforce
    obtain g2 ev2 rest2 where f: "feed_loop g1 ?rem = (g2, ev2, rest2)" by (metis prod_cases3)
    have raw: "takeWhile (\<lambda>b. b \<noteq> 10) (p @ q) = ?raw" using True by simp
    have len: "length ?raw < length p" proof -
      have "?raw \<noteq> p" using True by auto
      then show ?thesis using length_takeWhile_le [of "\<lambda>b. b \<noteq> 10" p] takeWhile_dropWhile_id [of "\<lambda>b. b \<noteq> 10" p]
        by (metis append_Nil2 dropWhile_eq_drop drop_eq_Nil not_less)
    qed
    then have rem: "drop (Suc (length ?raw)) (p @ q) = ?rem @ q" by simp
    have eq: "(g', events, rest) = (g2, ev1 @ ev2, rest2)"
      using step.prems True l f by (subst (asm) feed_loop.simps) (simp add: Let_def)
    have "feed_loop g1 (?rem @ q) = (case feed_loop g2 (rest2 @ q) of (g3, ev3, rest3) \<Rightarrow> (g3, ev2 @ ev3, rest3))
        \<and> 10 \<notin> set rest2"
      using step.IH [OF True refl refl l [symmetric] refl f] by simp
    then show ?thesis
      using eq l raw rem True by (subst feed_loop.simps) (simp add: Let_def split: prod.splits)
  next
    case False
    with step.prems show ?thesis by (simp add: feed_loop_none split: prod.split)
  qed
qed

definition edit_ok :: "edit_state \<Rightarrow> bool" where
  "edit_ok e \<longleftrightarrow> ed_cursor e \<le> length (ed_buffer e)"

lemma apply_input_ok:
  "cursor \<le> length buffer \<Longrightarrow> apply_input_character printable stripped buffer cursor ch = (b, c, r) \<Longrightarrow>
     c \<le> length b"
  by (auto simp: apply_input_character_def split: if_splits)

lemma escape_key_ok: "edit_ok e \<Longrightarrow> edit_ok (escape_key third e)"
  by (auto simp: edit_ok_def escape_key_def Let_def)

lemma read_keys_ok: "edit_ok e \<Longrightarrow> edit_ok (fst (read_keys printable stripped keys e))"
proof (induction printable stripped keys e rule: read_keys.induct)
  case step: (2 printable stripped ch keys e)
  show ?case
  proof (cases "ch = 27 \<and> keys \<noteq> []")
    case True
    then show ?thesis
      using step.IH(1,2) step.prems escape_key_ok [OF step.prems]
      by (auto simp: edit_ok_def split: list.split)
  next
    case False
    obtain b c cmd ch1 cl where a: "apply_input_character printable stripped (ed_buffer e) (ed_cursor e) ch
        = (b, c, cmd, ch1, cl)" by (metis prod_cases5)
    have "c \<le> length b" using apply_input_ok [OF _ a] step.prems by (simp add: edit_ok_def)
    then show ?thesis using False a step.IH(3) step.prems by (auto simp: edit_ok_def Let_def)
  qed
qed simp

section \<open>Properties\<close>

text \<open>C38. What the operator sees does not depend on how the serial driver cuts the stream: feeding two
  chunks one after the other gives the same events, in the same order, and the same state as feeding
  their concatenation.\<close>

theorem feed_chunking:
  "feed (a @ b) s = (case feed a s of (s1, events1) \<Rightarrow> case feed b s1 of (s2, events2) \<Rightarrow> (s2, events1 @ events2))"
proof -
  obtain g ev rest where f: "feed_loop (cd_native_group_open s) (cd_pending s @ a) = (g, ev, rest)"
    by (metis prod_cases3)
  from feed_loop_append [OF f, of b] show ?thesis by (simp add: feed_def f split: prod.splits)
qed

text \<open>C39. The line editor never leaves the line: whatever keys arrive, complete escape sequences, cut ones
  or none, the cursor stays within the edited line.\<close>

theorem editor_cursor_safe:
  assumes "cursor \<le> length buffer"
  shows "ed_cursor (fst (read_terminal_command printable stripped is_tty keys buffer cursor))
    \<le> length (ed_buffer (fst (read_terminal_command printable stripped is_tty keys buffer cursor)))"
  using read_keys_ok [of "\<lparr>ed_buffer = buffer, ed_cursor = cursor, ed_command = None, ed_changed = False,
      ed_tab = False, ed_history_delta = 0, ed_clear = False\<rparr>" printable stripped keys] assms
  by (simp add: read_terminal_command_def edit_ok_def Let_def)

theorem editor_cursor_safe_witness:
  "ed_cursor (fst (read_terminal_command (\<lambda>c. 32 \<le> c) (\<lambda>b. b) True [27, 91, 67, 65] [66, 67] 2)) \<le> 3"
  using editor_cursor_safe [of 2 "[66, 67]" "\<lambda>c. 32 \<le> c" "\<lambda>b. b" True "[27, 91, 67, 65]"]
  by (simp add: read_terminal_command_def escape_key_def apply_input_character_def Let_def)

end
