(* ===== verification/Evidence.thy ===== *)
theory Evidence
  imports Diagnostics Runtime_State Py_Codecs
begin

unbundle bit_operations_syntax

text \<open>
  The evidence of a session (\<open>session_evidence.py\<close>): captured console bytes, events, terminal
  workload results, failures and bus diagnostics, and the document that is written at the end.
  The clock is an argument of the operations that read it; files are what \<open>evidence_write\<close> returns.
\<close>

section \<open>State and operations\<close>

definition regression_failure_reasons :: "workload_state \<Rightarrow> string list" where
  "regression_failure_reasons st =
     map snd (filter (\<lambda>(accepted, reason). \<not> accepted)
       [(ws_completed st, ''workload did not complete''),
        (ws_passed st, ''native PASS flag absent''),
        (processor_identified st, ''validated processor identity unavailable''),
        (ws_completion_reason st = 2, ''completion reason is not NATIVE_HLT''),
        (ws_native_output st = RESULT_PASS_TEXT, ''native output is not exact RESULT: PASS'')])"

record evidence =
  ev_raw_path :: string
  ev_json_path :: string
  ev_captured :: bytes
  ev_events :: "dict list"
  ev_workload_results :: "dict list"
  ev_errors :: "dict list"
  ev_bus_diagnostics :: "dict list"
  ev_image :: "dict option"
  ev_image_workload_id :: "int option"
  ev_last_terminal :: "dict option"

definition create :: "string \<Rightarrow> string \<Rightarrow> evidence" where
  "create output_dir timestamp =
     \<lparr>ev_raw_path = path_str (output_dir @ ''/runtime_session_'' @ timestamp @ ''.log''),
      ev_json_path = path_str (output_dir @ ''/runtime_session_'' @ timestamp @ ''.json''),
      ev_captured = [], ev_events = [], ev_workload_results = [], ev_errors = [],
      ev_bus_diagnostics = [], ev_image = None, ev_image_workload_id = None, ev_last_terminal = None\<rparr>"

definition capture :: "bytes \<Rightarrow> evidence \<Rightarrow> evidence" where
  "capture data e = e\<lparr>ev_captured := ev_captured e @ data\<rparr>"

definition record_event :: "dict \<Rightarrow> evidence \<Rightarrow> evidence" where
  "record_event event e = e\<lparr>ev_events := ev_events e @ [event]\<rparr>"

definition manifest_as_dict :: "manifest \<Rightarrow> dict" where
  "manifest_as_dict m =
     [(''image_size'', JInt (mf_image_size m)), (''image_crc32'', JInt (mf_image_crc32 m)),
      (''load_address'', JInt (mf_load_address m)), (''entry_segment'', JInt (mf_entry_segment m)),
      (''entry_offset'', JInt (mf_entry_offset m)), (''stack_segment'', JInt (mf_stack_segment m)),
      (''stack_offset'', JInt (mf_stack_offset m)), (''shared_base'', JInt (mf_shared_base m)),
      (''shared_size'', JInt (mf_shared_size m)), (''flags'', JInt (mf_flags m))]"

definition base_name :: "string \<Rightarrow> string" where
  "base_name source =
     (let s = map (\<lambda>c. if c = CHR 0x5C then CHR ''/'' else c) source in
      case rfind_char (CHR ''/'') s of Some i \<Rightarrow> drop (i + 1) s | None \<Rightarrow> s)"

definition bind_workload :: "int \<Rightarrow> string \<Rightarrow> manifest \<Rightarrow> evidence \<Rightarrow> evidence" where
  "bind_workload workload_id source m e =
     e\<lparr>ev_image_workload_id := Some workload_id,
       ev_image := Some ([(''source'', JStr source), (''name'', JStr (base_name source)),
         (''metadata_source'', JStr ''host_accepted_upload'')] @ manifest_as_dict m)\<rparr>"

definition failure :: "string \<Rightarrow> string \<Rightarrow> string \<Rightarrow> dict \<Rightarrow> evidence \<Rightarrow> evidence" where
  "failure now operation reason details e =
     e\<lparr>ev_errors := ev_errors e @ [dmerge [(''observed_at'', JStr now), (''operation'', JStr operation),
         (''reason'', JStr reason)] details]\<rparr>"

definition snapshot_passed :: "workload_state \<Rightarrow> bool option" where
  "snapshot_passed st =
     (if ws_lifecycle st \<in> {6, 7} then Some False
      else if ws_structured_result st \<and> ws_completed st then Some (ws_passed st) else None)"

definition snapshot_failure :: "workload_state \<Rightarrow> string option" where
  "snapshot_failure st =
     (if ws_lifecycle st \<in> {6, 7} then Some (completion_reason_name st)
      else if ws_completed st \<and> snapshot_passed st = Some False then Some ''native PASS flag absent''
      else if ws_completed st \<and> \<not> ws_structured_result st then Some ''structured result unavailable''
      else None)"

definition opt_bool :: "bool option \<Rightarrow> json" where
  "opt_bool b = (case b of None \<Rightarrow> JNull | Some x \<Rightarrow> JBool x)"

definition workload_snapshot :: "evidence \<Rightarrow> workload_state \<Rightarrow> dict res" where
  "workload_snapshot e st = rmap (\<lambda>processor.
     [(''workload_id'', JInt (ws_workload_id st)),
      (''image'', case ev_image e of
         Some img \<Rightarrow> if ev_image_workload_id e = Some (ws_workload_id st) then JObj img else JNull
       | None \<Rightarrow> JNull),
      (''lifecycle'', JStr (lifecycle_name st)), (''lifecycle_code'', JInt (ws_lifecycle st)),
      (''detail'', JInt (ws_detail st)), (''clock_mode'', JStr (clock_name st)),
      (''cycles'', JInt (ws_cycles st)), (''processor_state'', JStr (processor_state st)),
      (''processor_flags'', JInt (ws_processor_flags st)),
      (''processor_identity'', JObj
         [(''processor'', opt_str processor), (''signature'', JInt (ws_processor_signature st)),
          (''validated'', JBool (processor_identified st)),
          (''source'', if processor_identified st then JStr ''firmware_boot_aad16'' else JNull),
          (''fresh_liveness_proof'', JBool False)]),
      (''structured'', JBool (ws_structured_result st)),
      (''completion_reason'', JStr (completion_reason_name st)),
      (''completion_reason_code'', JInt (ws_completion_reason st)),
      (''result_flags'', JInt (ws_result_flags st)),
      (''native_output'', JObj
         [(''hex'', JStr (bytes_hex (ws_native_output st))),
          (''byte_length'', JInt (int (length (ws_native_output st)))),
          (''text'', JStr (utf8_decode_replace (ws_native_output st))),
          (''truncated'', JBool (ws_result_flags st AND RESULT_FLAG_NATIVE_OUTPUT_TRUNCATED \<noteq> 0))]),
      (''passed'', opt_bool (snapshot_passed st)),
      (''outcome'', JStr (case snapshot_passed st of Some True \<Rightarrow> ''PASS'' | Some False \<Rightarrow> ''FAIL''
         | None \<Rightarrow> if ws_completed st then ''UNPROVEN'' else ''INCOMPLETE'')),
      (''failure_reason'', opt_str (snapshot_failure st))]) (ws_processor st)"

definition observe_workload :: "string \<Rightarrow> workload_state \<Rightarrow> evidence \<Rightarrow> evidence res" where
  "observe_workload now st e =
     (let e1 = (if ev_image_workload_id e \<noteq> Some (ws_workload_id st)
                then e\<lparr>ev_image := None, ev_image_workload_id := None\<rparr> else e) in
      if ws_lifecycle st \<notin> {4, 5, 6, 7} then Inr (e1\<lparr>ev_last_terminal := None\<rparr>)
      else rmap (\<lambda>snapshot.
        if ev_last_terminal e1 \<noteq> Some snapshot
        then e1\<lparr>ev_workload_results := ev_workload_results e1 @ [(''observed_at'', JStr now) # snapshot],
                ev_last_terminal := Some snapshot\<rparr>
        else e1) (workload_snapshot e1 st))"

definition retain_diagnostics :: "string \<Rightarrow> bus_diagnostics \<Rightarrow> evidence \<Rightarrow> evidence res" where
  "retain_diagnostics now d e = rmap (\<lambda>document.
     if ev_bus_diagnostics e \<noteq> []
        \<and> list_all (\<lambda>(k, v). dget (last (ev_bus_diagnostics e)) k = v) document
     then e
     else e\<lparr>ev_bus_diagnostics := ev_bus_diagnostics e @ [(''observed_at'', JStr now) # document]\<rparr>)
     (diagnostics_as_dict d)"

text \<open>The two files: the raw console log and the session document.\<close>

definition evidence_write :: "(string \<Rightarrow> string) \<Rightarrow> dict \<Rightarrow> evidence \<Rightarrow> (string \<times> bytes) \<times> (string \<times> dict)" where
  "evidence_write resolve summary e =
     ((ev_raw_path e, ev_captured e),
      (ev_json_path e, dmerge summary
         [(''events'', JList (map JObj (ev_events e))),
          (''workload_results'', JList (map JObj (ev_workload_results e))),
          (''errors'', JList (map JObj (ev_errors e))),
          (''bus_diagnostics'', JList (map JObj (ev_bus_diagnostics e))),
          (''raw_cdc_log'', JStr (resolve (ev_raw_path e)))]))"

section \<open>Lemmas\<close>

lemma regression_reasons_iff: "regression_failure_reasons st = [] \<longleftrightarrow> physical_regression_passed st"
  by (simp add: regression_failure_reasons_def physical_regression_passed_def)

lemma workload_snapshot_total: "\<exists>d. workload_snapshot e st = Inr d"
  using ws_processor_total [of st] by (auto simp: workload_snapshot_def)

lemma observe_workload_total: "\<exists>e'. observe_workload now st e = Inr e'"
  using workload_snapshot_total by (auto simp: observe_workload_def Let_def)

section \<open>Properties\<close>

text \<open>C37. The recorded result of a workload says what the device reported: the outcome is PASS exactly
  for a completed workload with a structured result and the native pass flag, FAIL exactly for a fault,
  a time-out or a completed structured result without the flag; the native output is kept without
  loss; an image is attributed only to the workload it was uploaded as; and the reasons against a
  physical regression are empty exactly when it passed.\<close>

theorem recorded_result_exact:
  assumes "workload_snapshot e st = Inr d"
  shows "(dget d ''outcome'' = JStr ''PASS'' \<longleftrightarrow>
        ws_lifecycle st = 5 \<and> ws_structured_result st \<and> ws_passed st)
    \<and> (dget d ''outcome'' = JStr ''FAIL'' \<longleftrightarrow> ws_lifecycle st \<in> {6, 7}
        \<or> ws_lifecycle st = 5 \<and> ws_structured_result st \<and> \<not> ws_passed st)
    \<and> (\<exists>out h. dget d ''native_output'' = JObj out \<and> dget out ''hex'' = JStr h
        \<and> fromhex h = Inr (ws_native_output st))
    \<and> (dget d ''image'' \<noteq> JNull \<longrightarrow> ev_image_workload_id e = Some (ws_workload_id st))
    \<and> (regression_failure_reasons st = [] \<longleftrightarrow> physical_regression_passed st)
    \<and> (physical_regression_passed st \<and> ws_structured_result st \<longrightarrow> dget d ''outcome'' = JStr ''PASS'')"
proof -
  obtain p where d: "d = the (case workload_snapshot e st of Inr x \<Rightarrow> Some x)" "ws_processor st = Inr p"
    using assms ws_processor_total by auto
  have o: "dget d ''outcome'' = JStr (case snapshot_passed st of Some True \<Rightarrow> ''PASS'' | Some False \<Rightarrow> ''FAIL''
         | None \<Rightarrow> if ws_completed st then ''UNPROVEN'' else ''INCOMPLETE'')"
    and n: "dget d ''native_output'' = JObj
         [(''hex'', JStr (bytes_hex (ws_native_output st))),
          (''byte_length'', JInt (int (length (ws_native_output st)))),
          (''text'', JStr (utf8_decode_replace (ws_native_output st))),
          (''truncated'', JBool (ws_result_flags st AND RESULT_FLAG_NATIVE_OUTPUT_TRUNCATED \<noteq> 0))]"
    and i: "dget d ''image'' = (case ev_image e of
         Some img \<Rightarrow> if ev_image_workload_id e = Some (ws_workload_id st) then JObj img else JNull
       | None \<Rightarrow> JNull)"
    using assms d(2) by (auto simp: workload_snapshot_def dget_def)
  have "dget d ''image'' \<noteq> JNull \<longrightarrow> ev_image_workload_id e = Some (ws_workload_id st)"
    by (simp add: i split: option.split)
  moreover have "\<exists>out h. dget d ''native_output'' = JObj out \<and> dget out ''hex'' = JStr h
        \<and> fromhex h = Inr (ws_native_output st)"
    by (simp add: n) (simp add: dget_def hex_roundtrip)
  moreover have "dget d ''outcome'' = JStr ''PASS'' \<longleftrightarrow>
        ws_lifecycle st = 5 \<and> ws_structured_result st \<and> ws_passed st"
    "dget d ''outcome'' = JStr ''FAIL'' \<longleftrightarrow> ws_lifecycle st \<in> {6, 7}
        \<or> ws_lifecycle st = 5 \<and> ws_structured_result st \<and> \<not> ws_passed st"
    by (auto simp: o snapshot_passed_def ws_completed_def split: bool.splits)
  moreover have "physical_regression_passed st \<longrightarrow> ws_lifecycle st = 5 \<and> ws_passed st"
    by (simp add: physical_regression_passed_def ws_completed_def)
  ultimately show ?thesis using regression_reasons_iff [of st] by blast
qed

theorem recorded_result_exact_witness:
  "\<exists>d. workload_snapshot (create ''out'' ''t'') (WorkloadRuntimeState\<lparr>ws_lifecycle := 5, ws_structured_result := True,
       ws_result_flags := 1\<rparr>) = Inr d \<and> dget d ''outcome'' = JStr ''PASS''"
proof -
  let ?st = "WorkloadRuntimeState\<lparr>ws_lifecycle := 5, ws_structured_result := True, ws_result_flags := 1\<rparr>"
  obtain d where d: "workload_snapshot (create ''out'' ''t'') ?st = Inr d" using workload_snapshot_total by blast
  have "ws_passed ?st" by (simp add: ws_passed_def)
  then show ?thesis using recorded_result_exact [OF d] d by (simp add: WorkloadRuntimeState_def)
qed

end
