(* ===== verification/Py_Number.thy ===== *)
theory Py_Number
  imports Complex_Main Py_Text
begin

text \<open>
  Printing and rounding of numbers.  A Python \<open>float\<close> is a rational, so its decimal expansion is
  exact; \<open>format\<close> and \<open>round\<close> round half to even.
\<close>

definition round_half_even :: "rat \<Rightarrow> int" where
  "round_half_even x = (let f = \<lfloor>x\<rfloor>; d = x - of_int f in
     if d < 1 / 2 then f else if d > 1 / 2 then f + 1 else if even f then f else f + 1)"

text \<open>\<open>f"{x:.nf}"\<close> for \<open>n > 0\<close>.\<close>

definition fixed :: "nat \<Rightarrow> rat \<Rightarrow> string" where
  "fixed n x = (let k = round_half_even (\<bar>x\<bar> * 10 ^ n) in
     (if x < 0 then ''-'' else []) @ dec (k div 10 ^ n) @ ''.'' @ zfill n (dec (k mod 10 ^ n)))"

definition round_to :: "nat \<Rightarrow> rat \<Rightarrow> rat" where
  "round_to n x = of_int (round_half_even (x * 10 ^ n)) / 10 ^ n"

lemma round_half_even_nearest: "\<bar>of_int (round_half_even x) - x\<bar> \<le> 1 / 2"
proof -
  have "of_int \<lfloor>x\<rfloor> \<le> x" "x < of_int \<lfloor>x\<rfloor> + 1" by linarith+
  then show ?thesis by (auto simp: round_half_even_def Let_def abs_le_iff)
qed

lemma round_half_even_int [simp]: "round_half_even (of_int n) = n"
  by (simp add: round_half_even_def)

end
