(* ===== verification/Timeout.thy ===== *)
theory Timeout
  imports Diagnostics Py_Number
begin

text \<open>
  The argument of the \<open>timeout\<close> command (\<open>parse_timeout\<close> of \<open>host/rp86/workload_timeout.py\<close>), with the part
  of \<open>decimal.Decimal\<close> it uses: the numeric string, and the product with 1000 in the default context of
  28 digits, rounding half to even.
\<close>

section \<open>Decimal numbers\<close>

datatype decimal =
    DFinite bool nat int
  | DInfinity
  | DNaN
  | DSignalNaN

definition digits_value :: "string \<Rightarrow> nat" where
  "digits_value ds = foldl (\<lambda>n c. 10 * n + (of_char c - 48)) 0 ds"

text \<open>The exponent part after the digits: nothing, or \<open>E\<close> with an optionally signed number.\<close>

definition exponent_part :: "string \<Rightarrow> int option" where
  "exponent_part r = (case r of
     [] \<Rightarrow> Some 0
   | c # r1 \<Rightarrow>
       if lower_char c \<noteq> CHR ''e'' then None
       else let neg = (r1 \<noteq> [] \<and> hd r1 = CHR ''-'');
                ds = (if r1 \<noteq> [] \<and> hd r1 \<in> {CHR ''+'', CHR ''-''} then tl r1 else r1) in
         if ds \<noteq> [] \<and> list_all is_digit_char ds
         then Some (if neg then - int (digits_value ds) else int (digits_value ds)) else None)"

definition decimal_magnitude :: "string \<Rightarrow> (nat \<times> int) option" where
  "decimal_magnitude s =
     (let i = takeWhile is_digit_char s; r = dropWhile is_digit_char s;
          (f, r2) = (case r of
             c # r1 \<Rightarrow> if c = CHR ''.'' then (takeWhile is_digit_char r1, dropWhile is_digit_char r1) else ([], r)
           | [] \<Rightarrow> ([], r)) in
      if i = [] \<and> f = [] then None
      else map_option (\<lambda>e. (digits_value (i @ f), e - int (length f))) (exponent_part r2))"

text \<open>
  \<open>Decimal(s)\<close>; \<open>None\<close> is \<open>InvalidOperation\<close>, which a number outside the exponent range of the
  implementation raises as well.
\<close>

definition decimal_of :: "string \<Rightarrow> decimal option" where
  "decimal_of s =
     (let t = filter (\<lambda>c. c \<noteq> CHR ''_'') (strip s);
          neg = (t \<noteq> [] \<and> hd t = CHR ''-'');
          u = (if t \<noteq> [] \<and> hd t \<in> {CHR ''+'', CHR ''-''} then tl t else t);
          l = lower u in
      if l = ''inf'' \<or> l = ''infinity'' then Some DInfinity
      else if starts_with l ''nan'' \<and> list_all is_digit_char (drop 3 l) then Some DNaN
      else if starts_with l ''snan'' \<and> list_all is_digit_char (drop 4 l) then Some DSignalNaN
      else case decimal_magnitude u of
        None \<Rightarrow> None
      | Some (c, e) \<Rightarrow>
          if e < -1999999999999999997 \<or> e + int (length (dec (int c))) > 1000000000000000000 then None
          else Some (DFinite neg c e))"

definition round_digits :: "nat \<Rightarrow> int \<Rightarrow> nat \<times> int" where
  "round_digits c e = (let n = length (dec (int c)) in
     if n \<le> 28 then (c, e)
     else (nat (round_half_even (of_nat c / 10 ^ (n - 28))), e + int (n - 28)))"

text \<open>\<open>value * 1000\<close>; \<open>None\<close> is a trapped signal (overflow, or a signalling NaN).\<close>

definition times_thousand :: "decimal \<Rightarrow> decimal option" where
  "times_thousand d = (case d of
     DFinite neg c e \<Rightarrow> (case round_digits (c * 1000) e of (c', e') \<Rightarrow>
       if c' \<noteq> 0 \<and> e' + int (length (dec (int c'))) - 1 > 999999 then None else Some (DFinite neg c' e'))
   | DSignalNaN \<Rightarrow> None
   | _ \<Rightarrow> Some d)"

definition decimal_value :: "bool \<Rightarrow> nat \<Rightarrow> int \<Rightarrow> rat" where
  "decimal_value neg c e = (let v = of_nat c * 10 powi e in if neg then - v else v)"

section \<open>The argument\<close>

definition EN_DASH :: string where
  "EN_DASH = map char_of [0xE2, 0x80, 0x93 :: nat]"

definition parse_timeout :: "string list \<Rightarrow> int option res" where
  "parse_timeout arguments = (case arguments of
     [] \<Rightarrow> Inr None
   | [a] \<Rightarrow>
       if lower a = ''off'' then Inr (Some 0)
       else (case Option.bind (decimal_of a) times_thousand of
          None \<Rightarrow> Inl (ValueError ''timeout requires seconds or off'')
        | Some (DFinite neg c e) \<Rightarrow>
            let v = decimal_value neg c e in
            if 1 \<le> v \<and> v \<le> of_int WORKLOAD_TIMEOUT_MAX_MS \<and> v = of_int \<lfloor>v\<rfloor> then Inr (Some \<lfloor>v\<rfloor>)
            else Inl (ValueError (''timeout must be 0.001'' @ EN_DASH
                   @ ''86400 seconds in whole milliseconds, or off''))
        | Some _ \<Rightarrow> Inl (ValueError (''timeout must be 0.001'' @ EN_DASH
                   @ ''86400 seconds in whole milliseconds, or off'')))
   | _ \<Rightarrow> Inl (ValueError ''usage: timeout [seconds|off]''))"

section \<open>Lemmas\<close>

lemma digits_value_append: "digits_value (a @ b) = digits_value a * 10 ^ length b + digits_value b"
proof -
  let ?g = "\<lambda>n c. 10 * n + (of_char c - 48) :: nat"
  have "foldl ?g k b = k * 10 ^ length b + foldl ?g 0 b" for k
  proof (induction b arbitrary: k)
    case (Cons x xs)
    show ?case
      using Cons.IH [of "?g k x"] Cons.IH [of "?g 0 x"] by (simp add: algebra_simps)
  qed simp
  then show ?thesis unfolding digits_value_def foldl_append by blast
qed

lemma digits_base_step: "10 \<le> n \<Longrightarrow> digits_base 10 n = digits_base 10 (n div 10) @ [digit_char (n mod 10)]"
  by (subst digits_base.simps) simp

lemma digit_char_value: "k < 10 \<Longrightarrow> is_digit_char (digit_char k) \<and> digits_value [digit_char k] = k"
  by (simp add: is_digit_char_def digits_value_def Let_def)

lemma digits_base_digits:
  "list_all is_digit_char (digits_base 10 n)" "digits_value (digits_base 10 n) = n" "digits_base 10 n \<noteq> []"
proof -
  have "list_all is_digit_char (digits_base 10 n) \<and> digits_value (digits_base 10 n) = n"
  proof (induction n rule: less_induct)
    case (less n)
    show ?case
    proof (cases "n < 10")
      case True
      then show ?thesis using digit_char_value [of n] by (simp add: digits_base.simps)
    next
      case False
      then have "n div 10 < n" by simp
      from less.IH [OF this] show ?thesis
        using False digit_char_value [of "n mod 10"] by (simp add: digits_base_step digits_value_append)
    qed
  qed
  then show "list_all is_digit_char (digits_base 10 n)" "digits_value (digits_base 10 n) = n" by simp_all
  show "digits_base 10 n \<noteq> []" by (subst digits_base.simps) simp
qed

lemma length_digits_base: "n < 10 ^ k \<Longrightarrow> 0 < k \<Longrightarrow> length (digits_base 10 n) \<le> k"
proof (induction k arbitrary: n)
  case (Suc k)
  show ?case
  proof (cases "n < 10")
    case True
    then show ?thesis by (simp add: digits_base.simps)
  next
    case False
    then have "0 < k" using Suc.prems by (cases k) auto
    moreover have "n div 10 < 10 ^ k" using Suc.prems by (simp add: less_mult_imp_div_less mult.commute)
    ultimately show ?thesis using Suc.IH [of "n div 10"] False by (simp add: digits_base_step)
  qed
qed simp

lemma digits_zfill:
  "list_all is_digit_char ds \<Longrightarrow> list_all is_digit_char (zfill k ds) \<and> digits_value (zfill k ds) = digits_value ds"
proof -
  have "digits_value (replicate n (CHR ''0'')) = 0" for n
    by (induction n) (simp_all add: digits_value_def)
  then show "list_all is_digit_char ds \<Longrightarrow> ?thesis"
    by (auto simp: zfill_def digits_value_append list_all_iff is_digit_char_def)
qed

lemma digit_char_facts:
  assumes "is_digit_char c"
  shows "\<not> is_ws c" "c \<noteq> CHR ''_''" "c \<noteq> CHR ''.''" "c \<noteq> CHR ''+''" "c \<noteq> CHR ''-''" "lower_char c = c"
    "c \<noteq> CHR ''i''" "c \<noteq> CHR ''n''" "c \<noteq> CHR ''s''" "c \<noteq> CHR ''o''"
  using assms by (auto simp: is_digit_char_def is_ws_def lower_char_def Let_def)

text \<open>Digits, a point and three digits.\<close>

lemma decimal_of_point:
  assumes "list_all is_digit_char i" "i \<noteq> []" "list_all is_digit_char f" "length f = 3"
    and "length (dec (int (digits_value (i @ f)))) < 1000"
  shows "decimal_of (i @ ''.'' @ f) = Some (DFinite False (digits_value (i @ f)) (- 3))"
proof -
  let ?s = "i @ ''.'' @ f"
  obtain c i' where i: "i = c # i'" using assms(2) by (cases i) auto
  have c: "is_digit_char c" using assms(1) i by simp
  have "f \<noteq> []" using assms(4) by auto
  then have f: "f \<noteq> []" "is_digit_char (last f)" using assms(3) last_in_set [of f] by (simp_all add: list_all_iff)
  have "dropWhile is_ws (rev ?s) = rev ?s"
    using f digit_char_facts(1) by (cases f rule: rev_cases) auto
  then have st: "strip ?s = ?s" using c digit_char_facts(1) i by (simp add: strip_def)
  have fl: "filter (\<lambda>c. c \<noteq> CHR ''_'') ?s = ?s"
    using assms(1,3) digit_char_facts(2) by (auto simp: list_all_iff filter_id_conv)
  have tw: "takeWhile is_digit_char ?s = i" "dropWhile is_digit_char ?s = ''.'' @ f"
    using assms(1) by (simp_all add: list_all_iff takeWhile_append dropWhile_append is_digit_char_def)
  have tf: "takeWhile is_digit_char f = f" "dropWhile is_digit_char f = []"
    using assms(3) by (simp_all add: list_all_iff)
  have m: "decimal_magnitude ?s = Some (digits_value (i @ f), - 3)"
    unfolding decimal_magnitude_def tw by (simp add: tf assms(2,4) exponent_part_def)
  have l: "lower (c # i' @ CHR ''.'' # f) = c # lower (i' @ CHR ''.'' # f)"
    using c digit_char_facts(6) by (simp add: lower_def)
  have h: "hd ?s = c" using i by simp
  show ?thesis
    unfolding decimal_of_def st Let_def fl h
    using digit_char_facts [OF c] assms(5) m i l by (simp add: starts_with_def)
qed

section \<open>Properties\<close>

text \<open>C28. The argument of the \<open>timeout\<close> command is read exactly: every execution limit the host prints
  (milliseconds as seconds with three decimals) is read back as the same number of milliseconds, and
  whatever is accepted lies between one millisecond and one day, or is zero for \<open>off\<close>.\<close>

theorem timeout_argument_exact:
  "(1 \<le> ms \<and> ms \<le> WORKLOAD_TIMEOUT_MAX_MS \<longrightarrow> parse_timeout [seconds3 ms] = Inr (Some ms))
   \<and> (parse_timeout arguments = Inr (Some t) \<longrightarrow>
        0 \<le> t \<and> t \<le> WORKLOAD_TIMEOUT_MAX_MS \<and> (t = 0 \<longrightarrow> (\<exists>a. arguments = [a] \<and> lower a = ''off'')))"
proof
  show "1 \<le> ms \<and> ms \<le> WORKLOAD_TIMEOUT_MAX_MS \<longrightarrow> parse_timeout [seconds3 ms] = Inr (Some ms)"
  proof
    assume ms: "1 \<le> ms \<and> ms \<le> WORKLOAD_TIMEOUT_MAX_MS"
    let ?i = "digits_base 10 (nat (ms div 1000))" and ?d = "digits_base 10 (nat (ms mod 1000))"
    have "length ?d \<le> 3" using ms by (intro length_digits_base) (auto simp: nat_less_iff)
    then have f: "length (zfill 3 ?d) = 3" "list_all is_digit_char (zfill 3 ?d)"
        "digits_value (zfill 3 ?d) = nat (ms mod 1000)"
      using digits_zfill [OF digits_base_digits(1)] digits_base_digits(2) by (simp_all add: zfill_def)
    have "nat (ms div 1000) * 1000 + nat (ms mod 1000) = nat ms"
      using ms by (simp add: nat_div_distrib nat_mod_distrib)
    then have v: "digits_value (?i @ zfill 3 ?d) = nat ms"
      by (simp add: digits_value_append digits_base_digits(2) f)
    have b: "nat ms < 10 ^ 8" "nat ms * 1000 < 10 ^ 11" using ms by (simp_all add: nat_less_iff)
    have len: "length (dec (int (nat ms))) \<le> 8" "length (dec (int (nat ms * 1000))) \<le> 11"
      using length_digits_base [OF b(1)] length_digits_base [OF b(2)] by (simp_all add: dec_def del: of_nat_mult int_nat_eq)
    have "\<not> ms div 1000 < 0" "\<not> ms mod 1000 < 0" using ms by (simp_all add: pos_imp_zdiv_nonneg_iff not_less)
    then have s: "seconds3 ms = ?i @ ''.'' @ zfill 3 ?d" by (simp only: seconds3_def dec_def if_False)
    have d: "decimal_of (seconds3 ms) = Some (DFinite False (nat ms) (- 3))"
      unfolding s using decimal_of_point [OF digits_base_digits(1,3) f(2,1)] v len by simp
    have t: "times_thousand (DFinite False (nat ms) (- 3)) = Some (DFinite False (nat ms * 1000) (- 3))"
      using len by (simp add: times_thousand_def round_digits_def Let_def)
    have "decimal_value False (nat ms * 1000) (- 3) = of_int ms"
      using ms by (simp add: decimal_value_def power_int_minus)
    moreover obtain c r where "?i = c # r" "is_digit_char c"
      using digits_base_digits(1,3) [of "nat (ms div 1000)"] by (cases ?i) auto
    then have "lower (seconds3 ms) \<noteq> ''off''"
      using s digit_char_facts(6,10) [of c] by (simp add: lower_def)
    ultimately show "parse_timeout [seconds3 ms] = Inr (Some ms)"
      using ms d t by (simp add: parse_timeout_def)
  qed
  have "1 \<le> \<lfloor>v\<rfloor> \<and> \<lfloor>v\<rfloor> \<le> WORKLOAD_TIMEOUT_MAX_MS"
    if "1 \<le> v" "v \<le> of_int WORKLOAD_TIMEOUT_MAX_MS" for v :: rat
    using that floor_mono [of v "of_int WORKLOAD_TIMEOUT_MAX_MS"] by (simp add: le_floor_iff)
  then show "parse_timeout arguments = Inr (Some t) \<longrightarrow>
        0 \<le> t \<and> t \<le> WORKLOAD_TIMEOUT_MAX_MS \<and> (t = 0 \<longrightarrow> (\<exists>a. arguments = [a] \<and> lower a = ''off''))"
    by (fastforce simp: parse_timeout_def Let_def split: list.splits if_splits option.splits decimal.splits)
qed

theorem timeout_argument_exact_witness:
  "parse_timeout [seconds3 1500] = Inr (Some 1500) \<and> parse_timeout [''OFF''] = Inr (Some 0)"
proof -
  have "lower ''OFF'' = ''off''" by code_simp
  then have "parse_timeout [''OFF''] = Inr (Some 0)" by (simp add: parse_timeout_def)
  then show ?thesis using timeout_argument_exact [of 1500 "[''OFF'']" 0] by simp
qed

end
