(* ===== verification/Actions.thy ===== *)
theory Actions
  imports Prelude
begin

text \<open>
  Methods that work on the attributes of an object and may raise: an action maps a state to a new
  state and a result.  The state a raising action reached is kept, as in Python.  The second half is
  a small calculus for what every run of an action preserves and which exceptions may leave it.
\<close>

type_synonym ('s, 'a) action = "'s \<Rightarrow> 's \<times> 'a res"

section \<open>Combinators\<close>

definition aret :: "'a \<Rightarrow> ('s, 'a) action" where
  "aret x s = (s, Inr x)"

definition athrow :: "exc \<Rightarrow> ('s, 'a) action" where
  "athrow e s = (s, Inl e)"

definition ares :: "'a res \<Rightarrow> ('s, 'a) action" where
  "ares r s = (s, r)"

definition aget :: "('s \<Rightarrow> 'a) \<Rightarrow> ('s, 'a) action" where
  "aget f s = (s, Inr (f s))"

definition aupd :: "('s \<Rightarrow> 's) \<Rightarrow> ('s, unit) action" where
  "aupd f s = (f s, Inr ())"

definition abind :: "('s, 'a) action \<Rightarrow> ('a \<Rightarrow> ('s, 'b) action) \<Rightarrow> ('s, 'b) action" where
  "abind m f s = (case m s of (s', Inl e) \<Rightarrow> (s', Inl e) | (s', Inr x) \<Rightarrow> f x s')"

definition athen :: "('s, 'a) action \<Rightarrow> ('s, 'b) action \<Rightarrow> ('s, 'b) action" where
  "athen m n = abind m (\<lambda>_. n)"

definition awhen :: "bool \<Rightarrow> ('s, unit) action \<Rightarrow> ('s, unit) action" where
  "awhen b m = (if b then m else aret ())"

text \<open>\<open>try: m except ...\<close>: the handler answers the exceptions it has a clause for.\<close>

definition acatch :: "('s, 'a) action \<Rightarrow> (exc \<Rightarrow> ('s, 'a) action option) \<Rightarrow> ('s, 'a) action" where
  "acatch m handler s = (case m s of
     (s', Inl e) \<Rightarrow> (case handler e of None \<Rightarrow> (s', Inl e) | Some n \<Rightarrow> n s')
   | (s', Inr x) \<Rightarrow> (s', Inr x))"

text \<open>\<open>for x in xs: f(x)\<close>.\<close>

fun afor :: "'a list \<Rightarrow> ('a \<Rightarrow> ('s, unit) action) \<Rightarrow> ('s, unit) action" where
  "afor [] f = aret ()"
| "afor (x # xs) f = athen (f x) (afor xs f)"

named_theorems action_simps

lemma action_apply [action_simps]:
  "aret x s = (s, Inr x)" "athrow e s = (s, Inl e)" "ares r s = (s, r)" "aget g s = (s, Inr (g s))"
  "aupd u s = (u s, Inr ())"
  by (simp_all add: aret_def athrow_def ares_def aget_def aupd_def)

lemma abind_apply [action_simps]:
  "m s = (s', Inr x) \<Longrightarrow> abind m f s = f x s'"
  "m s = (s', Inl e) \<Longrightarrow> abind m f s = (s', Inl e)"
  by (simp_all add: abind_def)

lemma athen_apply [action_simps]:
  "m s = (s', Inr x) \<Longrightarrow> athen m n s = n s'"
  "m s = (s', Inl e) \<Longrightarrow> athen m n s = (s', Inl e)"
  by (simp_all add: athen_def abind_def)

lemma awhen_apply [action_simps]:
  "awhen True m = m" "awhen False m = aret ()"
  by (simp_all add: awhen_def)

section \<open>What a run preserves, and what may leave it\<close>

definition safe :: "('s \<Rightarrow> bool) \<Rightarrow> (exc \<Rightarrow> bool) \<Rightarrow> ('s, 'a) action \<Rightarrow> bool" where
  "safe I X m \<longleftrightarrow> (\<forall>s. I s \<longrightarrow> I (fst (m s)) \<and> (\<forall>e. snd (m s) = Inl e \<longrightarrow> X e))"

named_theorems safe_intros

lemma safeI: "(\<And>s. I s \<Longrightarrow> I (fst (m s))) \<Longrightarrow> (\<And>s e. I s \<Longrightarrow> snd (m s) = Inl e \<Longrightarrow> X e) \<Longrightarrow> safe I X m"
  by (simp add: safe_def)

lemma safeD:
  assumes "safe I X m" "I s" "m s = (s', r)"
  shows "I s'" "r = Inl e \<Longrightarrow> X e"
  using assms by (fastforce simp: safe_def)+

lemma safe_aret [safe_intros]: "safe I X (aret x)"
  by (simp add: safe_def aret_def)

lemma safe_aget [safe_intros]: "safe I X (aget f)"
  by (simp add: safe_def aget_def)

lemma safe_athrow: "X e \<Longrightarrow> safe I X (athrow e)"
  by (simp add: safe_def athrow_def)

lemma safe_ares: "(\<And>e. r = Inl e \<Longrightarrow> X e) \<Longrightarrow> safe I X (ares r)"
  by (simp add: safe_def ares_def)

lemma safe_aupd: "(\<And>s. I s \<Longrightarrow> I (f s)) \<Longrightarrow> safe I X (aupd f)"
  by (simp add: safe_def aupd_def)

lemma safe_abind [safe_intros]:
  assumes "safe I X m" "\<And>x. safe I X (f x)"
  shows "safe I X (abind m f)"
proof (rule safeI)
  fix s
  assume I: "I s"
  obtain s' r where m: "m s = (s', r)" by fastforce
  note m' = safeD [OF assms(1) I m]
  show "I (fst (abind m f s))"
    using m m'(1) assms(2) by (cases r) (auto simp: abind_def safe_def)
  show "X e" if "snd (abind m f s) = Inl e" for e
    using that m m' assms(2) by (cases r) (auto simp: abind_def safe_def)
qed

lemma safe_athen [safe_intros]: "safe I X m \<Longrightarrow> safe I X n \<Longrightarrow> safe I X (athen m n)"
  by (simp add: athen_def safe_abind)

lemma safe_awhen [safe_intros]: "(b \<Longrightarrow> safe I X m) \<Longrightarrow> safe I X (awhen b m)"
  by (simp add: awhen_def safe_aret)

lemma safe_if [safe_intros]:
  "(b \<Longrightarrow> safe I X m) \<Longrightarrow> (\<not> b \<Longrightarrow> safe I X n) \<Longrightarrow> safe I X (if b then m else n)"
  by simp

lemma safe_option [safe_intros]:
  "(x = None \<Longrightarrow> safe I X m) \<Longrightarrow> (\<And>y. x = Some y \<Longrightarrow> safe I X (f y)) \<Longrightarrow>
     safe I X (case x of None \<Rightarrow> m | Some y \<Rightarrow> f y)"
  by (cases x) simp_all

lemma safe_sum [safe_intros]:
  "(\<And>y. x = Inl y \<Longrightarrow> safe I X (f y)) \<Longrightarrow> (\<And>y. x = Inr y \<Longrightarrow> safe I X (g y)) \<Longrightarrow>
     safe I X (case x of Inl y \<Rightarrow> f y | Inr y \<Rightarrow> g y)"
  by (cases x) simp_all

lemma safe_prod [safe_intros]:
  "(\<And>y z. x = (y, z) \<Longrightarrow> safe I X (f y z)) \<Longrightarrow> safe I X (case x of (y, z) \<Rightarrow> f y z)"
  by (cases x) simp_all

lemma safe_list [safe_intros]:
  "(x = [] \<Longrightarrow> safe I X m) \<Longrightarrow> (\<And>y ys. x = y # ys \<Longrightarrow> safe I X (f y ys)) \<Longrightarrow>
     safe I X (case x of [] \<Rightarrow> m | y # ys \<Rightarrow> f y ys)"
  by (cases x) simp_all

lemma safe_let [safe_intros]: "safe I X (f x) \<Longrightarrow> safe I X (let y = x in f y)"
  by simp

lemma safe_afor [safe_intros]: "(\<And>x. x \<in> set xs \<Longrightarrow> safe I X (f x)) \<Longrightarrow> safe I X (afor xs f)"
  by (induction xs) (auto intro: safe_intros)

lemma safe_weaken: "safe I Y m \<Longrightarrow> (\<And>e. Y e \<Longrightarrow> X e) \<Longrightarrow> safe I X m"
  by (auto simp: safe_def)

text \<open>The body of a \<open>try\<close> may raise what the handler answers.\<close>

lemma safe_acatch:
  assumes "safe I Y m" "\<And>e n. handler e = Some n \<Longrightarrow> safe I X n" "\<And>e. Y e \<Longrightarrow> handler e = None \<Longrightarrow> X e"
  shows "safe I X (acatch m handler)"
proof (rule safeI)
  fix s
  assume I: "I s"
  obtain s' r where m: "m s = (s', r)" by fastforce
  note m' = safeD [OF assms(1) I m]
  show "I (fst (acatch m handler s))"
    using m m'(1) assms(2) by (cases r) (auto simp: acatch_def safe_def split: option.split)
  show "X e" if "snd (acatch m handler s) = Inl e" for e
    using that m m' assms(2,3) by (cases r) (auto simp: acatch_def safe_def split: option.splits)
qed

end
