(* ===== verification/Session.thy ===== *)
theory Session
  imports Services Evidence Console Shell Broker Actions Py_Number Mailbox
begin

unbundle bit_operations_syntax

text \<open>
  The persistent session (\<open>host/rp86/session.py\<close>): its state, the exchange it hands to the clients,
  and the callbacks and helpers that the shell commands and the main loop share.

  The variables of \<open>persistent_monitor\<close> that its nested functions share are the fields of one record.
  The host and the device behind it are a world of any type; \<open>host\<close> are the operations on it: clocks,
  random bits, what the device sends, the file system, and the coding of floats.  An exchange over HID
  is a script of what the device does from the request on, with the bytes the console has waiting at
  each call of the transport service; after the script the device is silent.  What the thread of the
  broker queues is what \<open>ho_network\<close> makes of the broker between two iterations.  The session is either
  the owner of the device, then it has a broker, or attached to the broker of another process.
  Every text \<open>print_event\<close> is given is kept in the order of printing; the banner, the closing lines
  and the rendering of the status line are not part of the model.
\<close>

section \<open>State\<close>

type_synonym cdc_input = "string + bytes"

record 'w host =
  ho_clock :: "'w \<Rightarrow> 'w \<times> rat"
  ho_now :: "'w \<Rightarrow> 'w \<times> string"
  ho_randbits :: "nat \<Rightarrow> 'w \<Rightarrow> 'w \<times> int"
  ho_hid :: "'w \<Rightarrow> message \<Rightarrow> 'w \<times> cdc_input hid_world"
  ho_cdc :: "'w \<Rightarrow> 'w \<times> cdc_input"
  ho_call :: "'w \<Rightarrow> dict \<Rightarrow> 'w \<times> dict res"
  ho_read_bytes :: "'w \<Rightarrow> string \<Rightarrow> string + bytes"
  ho_write_bytes :: "'w \<Rightarrow> string \<Rightarrow> bytes \<Rightarrow> 'w \<times> string option"
  ho_write_json :: "'w \<Rightarrow> string \<Rightarrow> dict \<Rightarrow> 'w \<times> string option"
  ho_expanduser :: "string \<Rightarrow> string res"
  ho_home :: string
  ho_resolve :: "'w \<Rightarrow> string \<Rightarrow> string res"
  ho_absolute :: "string \<Rightarrow> string"
  ho_is_dir :: "'w \<Rightarrow> string \<Rightarrow> bool res"
  ho_listing :: "'w \<Rightarrow> string \<Rightarrow> host_directory"
  ho_float :: "json \<Rightarrow> rat res"
  ho_float_repr :: "rat \<Rightarrow> string"
  ho_network :: "'w \<Rightarrow> broker \<Rightarrow> 'w \<times> broker"
  ho_status :: "'w \<Rightarrow> 'w \<times> rat \<times> (rat \<times> (string + bytes)) list"
  ho_control :: "'w \<Rightarrow> byte \<Rightarrow> 'w \<times> (string + bytes) list \<times> (string + int) \<times> rat \<times> (rat \<times> (string + bytes)) list"
  ho_keys :: "'w \<Rightarrow> 'w \<times> nat list"
  ho_tty :: bool
  ho_printable :: "nat \<Rightarrow> bool"
  ho_strip :: "nat list \<Rightarrow> nat list"
  ho_casefold :: "string \<Rightarrow> string"
  ho_host_matches :: "'w \<Rightarrow> string \<Rightarrow> string \<Rightarrow> string list"
  ho_fuel :: nat

record session_config =
  sf_processor :: string
  sf_timeout :: rat
  sf_interval :: rat
  sf_interactive :: bool
  sf_rounds :: int
  sf_native_probe :: bool
  sf_regression_workload :: "string option"
  sf_client_id :: string
  sf_pid :: int

record 'w session =
  se_world :: 'w
  se_broker :: "broker option"
  se_answers :: "(nat \<times> dict) list"
  se_sequence :: request_sequence
  se_workload :: workload_state
  se_observation :: observation_state
  se_stats :: heartbeat_stats
  se_evidence :: evidence
  se_console :: console_status
  se_cdc :: cdc_stream
  se_printed :: "string list"
  se_processor_name :: string
  se_display :: string
  se_manifest :: "manifest option"
  se_prepared :: bool
  se_completion_pending :: bool
  se_result_reported :: "(int \<times> int \<times> int) option"
  se_diagnostics_observed :: "(int \<times> int \<times> int \<times> int) option"
  se_regression_commands :: "string list"
  se_regression_deadline :: "rat option"
  se_regression_started :: bool
  se_regression_passed :: "bool option"
  se_identity_failed :: bool
  se_next_due :: rat
  se_stop :: bool
  se_transport_error :: "string option"
  se_history :: history
  se_cwd :: string
  se_buffer :: "nat list"
  se_cursor :: nat

type_synonym ('w, 'a) act = "('w session, 'a) action"

definition expected_processor :: "session_config \<Rightarrow> string option" where
  "expected_processor cfg = (if sf_processor cfg = ''auto'' then None else Some (sf_processor cfg))"

section \<open>Helpers without state\<close>

definition broker_runtime_state :: "string option \<Rightarrow> string" where
  "broker_runtime_state transport_error =
     (if transport_error = None then ''OWNER_ACTIVE'' else ''FAULT'')"

definition native_probe_unavailable :: "string option \<Rightarrow> bool" where
  "native_probe_unavailable error = (case error of
     None \<Rightarrow> False | Some e \<Rightarrow> e \<noteq> [] \<and> ends_with e ''status is not OK: 4'')"

definition MIDDLE_DOT :: string where
  "MIDDLE_DOT = map char_of [0xC2, 0xB7 :: nat]"

definition format_runtime_top ::
  "string \<Rightarrow> bool \<Rightarrow> workload_state \<Rightarrow> manifest option \<Rightarrow> string" where
  "format_runtime_top processor_name processor_identified' w m =
     (let state_name = workload_state_name (ws_lifecycle w);
          workload_text =
            (if ws_lifecycle w \<in> {1, 2}
             then state_name @ '' id='' @ dec (ws_workload_id w) @ '' size='' @ dec (ws_detail w) @ '' bytes''
             else state_name @ '' id='' @ dec (ws_workload_id w) @ '' detail='' @ dec (ws_detail w));
          clock_name' = (case CLOCK_MODE_NAMES (ws_clock_mode w) of Some n \<Rightarrow> n
            | None \<Rightarrow> ''UNKNOWN('' @ dec (ws_clock_mode w) @ '')'');
          processor_clock = (if ws_clock_mode w \<in> {0, 1} then ''@ 1.000 MHz'' else ''['' @ clock_name' @ '']'');
          execution_state = processor_execution_state (ws_clock_mode w) (ws_processor_flags w)
      in join nl
       ([''Physical processor runtime top'',
         ''  Processor  '' @ processor_name @ '' '' @ MIDDLE_DOT @ '' '' @ execution_state @ '' '' @ processor_clock,
         ''  Identity   '' @ (if processor_identified' then ''NATIVE AAD 16 IDENTIFIED'' else ''NOT PROBED''),
         ''  Workload   '' @ workload_text,
         ''  Clock mode '' @ clock_name',
         ''  Bus cycles '' @ dec (ws_cycles w),
         ''  Processor '' @ execution_state]
        @ (case m of None \<Rightarrow> [] | Some mf \<Rightarrow>
            [''  Load       0x'' @ hexX 5 (mf_load_address mf) @ '' entry='' @ hexX 4 (mf_entry_segment mf)
             @ '':'' @ hexX 4 (mf_entry_offset mf)])
        @ [''  Memory     INTERNAL SRAM 00000-3FFFF 256 KiB'',
           ''  PSRAM      NOT AVAILABLE (optional expansion)'',
           ''  flash:     RP-FLASH FAT16 AVAILABLE'',
           ''  sd:        NOT AVAILABLE'']))"

text \<open>\<open>PROCESSOR_NAMES[processor]\<close>; a missing identity is the key \<open>None\<close>.\<close>

definition processor_label :: "string option \<Rightarrow> string res" where
  "processor_label p = (case p of
     None \<Rightarrow> Inl KeyError
   | Some k \<Rightarrow> (case PROCESSOR_NAMES k of Some n \<Rightarrow> Inr n | None \<Rightarrow> Inl (KeyErrorOf k)))"

section \<open>World access and output\<close>

definition monotonic :: "'w host \<Rightarrow> ('w, rat) act" where
  "monotonic H s = (case ho_clock H (se_world s) of (w, t) \<Rightarrow> (s\<lparr>se_world := w\<rparr>, Inr t))"

definition now_text :: "'w host \<Rightarrow> ('w, string) act" where
  "now_text H s = (case ho_now H (se_world s) of (w, t) \<Rightarrow> (s\<lparr>se_world := w\<rparr>, Inr t))"

definition randbits :: "'w host \<Rightarrow> nat \<Rightarrow> ('w, int) act" where
  "randbits H n s = (case ho_randbits H n (se_world s) of (w, k) \<Rightarrow> (s\<lparr>se_world := w\<rparr>, Inr k))"

definition print_event :: "string \<Rightarrow> ('w, unit) act" where
  "print_event text = aupd (\<lambda>s. s\<lparr>se_printed := se_printed s @ [text]\<rparr>)"

definition report_failure :: "'w host \<Rightarrow> string \<Rightarrow> string \<Rightarrow> dict \<Rightarrow> ('w, unit) act" where
  "report_failure H operation reason details = abind (now_text H) (\<lambda>now.
     aupd (\<lambda>s. s\<lparr>se_evidence := failure now operation reason details (se_evidence s)\<rparr>))"

definition update_console_runtime :: "'w session \<Rightarrow> 'w session" where
  "update_console_runtime s = (let w = se_workload s in
     s\<lparr>se_console := set_runtime (lifecycle_name w) (clock_name w) (ws_cycles w) (processor_state w)
                      (se_console s)\<rparr>)"

section \<open>The transport\<close>

definition cdc_event :: "session_config \<Rightarrow> string \<Rightarrow> 'w session \<Rightarrow> 'w session" where
  "cdc_event cfg line s =
     (let s1 = (if starts_with line ''[WORKLOAD COMPLETED]''
                then update_console_runtime (s\<lparr>se_workload := mark_idle (se_workload s),
                       se_prepared := False, se_completion_pending := True\<rparr>)
                else if starts_with line ''[WORKLOAD FAULT]'' \<or> starts_with line ''[WORKLOAD TIMEOUT]''
                then s\<lparr>se_completion_pending := True\<rparr> else s)
      in if sf_interactive cfg \<and> se_display s1 \<noteq> ''quiet'' then fst (print_event line s1) else s1)"

definition drain_input :: "session_config \<Rightarrow> cdc_input \<Rightarrow> 'w session \<Rightarrow> 'w session" where
  "drain_input cfg input s = (case input of
     Inl e \<Rightarrow> s\<lparr>se_transport_error := Some (''USB CDC disconnected: '' @ e)\<rparr>
   | Inr chunk \<Rightarrow>
       if chunk = [] then s
       else (let (cdc, lines) = feed chunk (se_cdc s) in
         foldl (\<lambda>s line. cdc_event cfg line s)
           (s\<lparr>se_evidence := capture chunk (se_evidence s), se_cdc := cdc\<rparr>) lines))"

definition drain_cdc :: "session_config \<Rightarrow> 'w host \<Rightarrow> 'w session \<Rightarrow> 'w session" where
  "drain_cdc cfg H s =
     (if se_transport_error s \<noteq> None \<or> se_broker s = None then s
      else case ho_cdc H (se_world s) of (w, input) \<Rightarrow> drain_input cfg input (s\<lparr>se_world := w\<rparr>))"

text \<open>\<open>service_transport\<close>, with the bytes that wait at this call.\<close>

definition service_transport :: "session_config \<Rightarrow> ('w session, cdc_input) service" where
  "service_transport cfg s input =
     (let s' = (if se_transport_error s = None then drain_input cfg input s else s)
      in (s', se_transport_error s'))"

definition hid_exchange :: "session_config \<Rightarrow> 'w host \<Rightarrow> 'w session exchange" where
  "hid_exchange cfg H s request =
     (let (w, script) = ho_hid H (se_world s) request; s1 = s\<lparr>se_world := w\<rparr> in
       case exchange_hid_request (service_transport cfg) s1
              (falls_silent (sf_timeout cfg) (Inr []) script) request (sf_timeout cfg)
              (expected_processor cfg) of
         None \<Rightarrow> (s1, Inl StillRunning)
       | Some (s2, Inl e) \<Rightarrow> (s2, Inl e)
       | Some (s2, Inr result) \<Rightarrow>
           (case er_error result of
              Some e \<Rightarrow> if starts_with e ''USB HID disconnected:''
                        then s2\<lparr>se_transport_error := Some e\<rparr> else s2
            | None \<Rightarrow> s2,
            Inr (er_reply result, er_latency_ms result, er_error result)))"

text \<open>The reply of a broker: \<open>float(response.get("latency_ms", 0.0))\<close> and the rest of the \<open>try\<close> body.\<close>

definition broker_latency :: "'w host \<Rightarrow> dict \<Rightarrow> rat res" where
  "broker_latency H response = (case map_of response ''latency_ms'' of
     None \<Rightarrow> Inr 0 | Some v \<Rightarrow> ho_float H v)"

definition broker_reply ::
  "session_config \<Rightarrow> 'w host \<Rightarrow> message \<Rightarrow> dict \<Rightarrow> (message option \<times> rat \<times> string option) res" where
  "broker_reply cfg H request response =
     rbind (broker_latency H response) (\<lambda>latency_ms.
       if \<not> truthy (dget response ''ok'')
       then Inr (None, latency_ms, Some (json_str (if truthy (dget response ''error'')
              then dget response ''error'' else JStr ''broker exchange failed'')))
       else rbind (dindex response ''reply_hex'') (\<lambda>h.
         rbind (fromhex (json_str h)) (\<lambda>candidate.
         rmap (\<lambda>reply. (Some reply, latency_ms, None))
           (validate_device_reply candidate request (expected_processor cfg)))))"

text \<open>\<open>except (OSError, RuntimeError, ValueError, KeyError)\<close>, with the subclasses.\<close>

definition broker_catches :: "exc \<Rightarrow> bool" where
  "broker_catches e = (case e of ValueError _ \<Rightarrow> True | UnicodeError \<Rightarrow> True | KeyError \<Rightarrow> True
     | KeyErrorOf _ \<Rightarrow> True | OSError _ \<Rightarrow> True | RuntimeError _ \<Rightarrow> True
     | DeviceOwnershipError _ \<Rightarrow> True | _ \<Rightarrow> False)"

definition broker_exchange :: "session_config \<Rightarrow> 'w host \<Rightarrow> 'w session exchange" where
  "broker_exchange cfg H s request =
     (let (w0, began) = ho_clock H (se_world s);
          outcome = (case message_encode request of
              Inl e \<Rightarrow> (w0, Inl e)
            | Inr r \<Rightarrow> (case ho_call H w0 (exchange_request_dict (sf_client_id cfg) r
                    (dec (sf_pid cfg) @ ''-'' @ dec (msg_sequence request))
                    (JFloat (sf_timeout cfg) (ho_float_repr H (sf_timeout cfg)))) of
                (w1, response) \<Rightarrow> (w1, rbind response (broker_reply cfg H request)))) in
      case outcome of
        (w, Inr result) \<Rightarrow> (s\<lparr>se_world := w\<rparr>, Inr result)
      | (w, Inl e) \<Rightarrow>
          if broker_catches e
          then let error = ''Host broker disconnected: '' @ exc_str e in
            (case ho_clock H w of (w2, now) \<Rightarrow>
              (s\<lparr>se_world := w2, se_transport_error := Some error\<rparr>,
               Inr (None, (now - began) * 1000, Some error)))
          else (s\<lparr>se_world := w\<rparr>, Inl e))"

definition session_exchange :: "session_config \<Rightarrow> 'w host \<Rightarrow> 'w session exchange" where
  "session_exchange cfg H s request =
     (if se_broker s = None then broker_exchange cfg H s request else hid_exchange cfg H s request)"

section \<open>The clients' view\<close>

definition defer_periodic_probe :: "session_config \<Rightarrow> 'w host \<Rightarrow> 'w session \<Rightarrow> 'w session" where
  "defer_periodic_probe cfg H s = (case ho_clock H (se_world s) of
     (w, now) \<Rightarrow> s\<lparr>se_world := w, se_next_due := now + sf_interval cfg\<rparr>)"

definition advance_sequence :: "int \<Rightarrow> 'w session \<Rightarrow> 'w session" where
  "advance_sequence sequence s = s\<lparr>se_sequence := fst (advance_after (se_sequence s) sequence)\<rparr>"

definition service_ops :: "session_config \<Rightarrow> 'w host \<Rightarrow> 'w session ops" where
  "service_ops cfg H =
     \<lparr>op_exchange = session_exchange cfg H,
      op_sequence = \<lambda>s. rs_value (se_sequence s),
      op_advance = advance_sequence,
      op_activity = defer_periodic_probe cfg H\<rparr>"

definition update_workload :: "bytes \<Rightarrow> 'w session \<Rightarrow> 'w session \<times> unit res" where
  "update_workload payload s = (case update_from_payload (se_workload s) payload of
     (w, r) \<Rightarrow> (s\<lparr>se_workload := w\<rparr>, r))"

section \<open>Accepting a workload state\<close>

definition diagnostics_key :: "workload_state \<Rightarrow> int \<times> int \<times> int \<times> int" where
  "diagnostics_key w = (ws_workload_id w, ws_lifecycle w, ws_cycles w, ws_completion_reason w)"

definition retain :: "'w host \<Rightarrow> bus_diagnostics \<Rightarrow> ('w, unit) act" where
  "retain H d = abind (now_text H) (\<lambda>now. abind (aget se_evidence) (\<lambda>e.
     abind (ares (retain_diagnostics now d e)) (\<lambda>e'. aupd (\<lambda>s. s\<lparr>se_evidence := e'\<rparr>))))"

definition collect_diagnostics :: "session_config \<Rightarrow> 'w host \<Rightarrow> int \<Rightarrow> ('w, unit) act" where
  "collect_diagnostics cfg H workload_id =
     abind (\<lambda>s. read_diagnostics (service_ops cfg H) s workload_id) (\<lambda>answer. case answer of
       Inl error \<Rightarrow>
         athen (report_failure H ''diagnostics'' (error_or (Some error) ''diagnostics unavailable'') [])
           (print_event (''diagnostics: '' @ error))
     | Inr d \<Rightarrow> abind (aget se_workload) (\<lambda>w.
         if (bd_lifecycle d, bd_cycles d, bd_completion_reason d)
              = (ws_lifecycle w, ws_cycles w, ws_completion_reason w)
         then athen (retain H d) (abind (ares (diagnostics_format d)) print_event)
         else report_failure H ''diagnostics'' ''executor changed after fault status'' []))"

definition observe_fault :: "session_config \<Rightarrow> 'w host \<Rightarrow> ('w, unit) act" where
  "observe_fault cfg H = abind (aget se_workload) (\<lambda>w.
     if ws_lifecycle w \<notin> {6, 7} then aupd (\<lambda>s. s\<lparr>se_diagnostics_observed := None\<rparr>)
     else abind (aget se_diagnostics_observed) (\<lambda>seen.
       awhen (Some (diagnostics_key w) \<noteq> seen)
         (athen (aupd (\<lambda>s. s\<lparr>se_diagnostics_observed := Some (diagnostics_key w)\<rparr>))
            (collect_diagnostics cfg H (ws_workload_id w)))))"

definition note_identity :: "('w, unit) act" where
  "note_identity = abind (aget se_workload) (\<lambda>w. abind (ares (ws_processor w)) (\<lambda>p. case p of
     None \<Rightarrow> aret ()
   | Some name \<Rightarrow> abind (aget se_observation) (\<lambda>ob.
       awhen (ob_processor ob \<noteq> Some name)
         (athen (aupd (\<lambda>s. s\<lparr>se_observation := (se_observation s)\<lparr>ob_processor := Some name\<rparr>\<rparr>))
         (abind (ares (processor_label (Some name))) (\<lambda>label.
            athen (aupd (\<lambda>s. s\<lparr>se_processor_name := label, se_console := set_processor name (se_console s)\<rparr>))
              (print_event (''[PROCESSOR IDENTITY] '' @ label @ '' (firmware boot AAD16, retained identity)''))))))))"

definition announce_result :: "('w, unit) act" where
  "announce_result = abind (aget se_workload) (\<lambda>w. abind (aget se_result_reported) (\<lambda>reported.
     let result_key = (ws_workload_id w, ws_lifecycle w, ws_completion_reason w) in
     awhen (ws_structured_result w \<and> ws_lifecycle w \<in> {5, 6, 7} \<and> Some result_key \<noteq> reported)
       (athen (print_event (''WORKLOAD RESULT: '' @ (if ws_passed w then ''PASS'' else ''FAIL'')
            @ '' reason='' @ completion_reason_name w @ '' cycles='' @ dec (ws_cycles w)
            @ '' processor_signature='' @ hexX 4 (ws_processor_signature w)))
       (athen (awhen (ws_native_output w \<noteq> [])
            (print_event (''Native result output: '' @ native_output_text w)))
       (aupd (\<lambda>s. s\<lparr>se_result_reported := Some result_key\<rparr>))))))"

definition accept_workload_state :: "session_config \<Rightarrow> 'w host \<Rightarrow> ('w, unit) act" where
  "accept_workload_state cfg H =
     abind (now_text H) (\<lambda>now. abind (aget se_workload) (\<lambda>w. abind (aget se_evidence) (\<lambda>e.
     abind (ares (observe_workload now w e)) (\<lambda>e'.
     athen (aupd (\<lambda>s. s\<lparr>se_evidence := e'\<rparr>))
     (athen (observe_fault cfg H)
     (athen (aupd (\<lambda>s. s\<lparr>se_prepared := prepared_runtime_available (se_workload s)\<rparr>))
     (athen note_identity
     (athen announce_result
     (aupd update_console_runtime)))))))))"

definition session_ops :: "session_config \<Rightarrow> 'w host \<Rightarrow> 'w session workload_ops" where
  "session_ops cfg H = ops.extend (service_ops cfg H)
     \<lparr>op_update = update_workload, op_state_change = accept_workload_state cfg H\<rparr>"

section \<open>Transactions and the identity probe\<close>

fun announce_latencies :: "string \<Rightarrow> nat \<Rightarrow> nat \<Rightarrow> rat list \<Rightarrow> ('w, unit) act" where
  "announce_latencies description count index [] = aret ()"
| "announce_latencies description count index (latency_ms # latencies) =
     athen (print_event (description @ '': record '' @ dec (int index) @ ''/'' @ dec (int count)
              @ '' accepted ('' @ fixed 1 latency_ms @ '' ms)''))
       (announce_latencies description count (Suc index) latencies)"

definition transaction_summary :: "string \<Rightarrow> nat \<Rightarrow> workload_state \<Rightarrow> string" where
  "transaction_summary description count w =
     description @ '': ''
     @ (if description \<in> {''workload run'', ''workload restart'', ''workload stop''}
        then ''ACCEPTED'' else ''PASS'')
     @ '' ('' @ dec (int count) @ '' records)'' @ nl
     @ ''  workload_id='' @ dec (ws_workload_id w) @ '' state='' @ lifecycle_name w
     @ '' detail='' @ dec (ws_detail w) @ '' clock='' @ clock_name w @ '' cycles='' @ dec (ws_cycles w)
     @ '' processor='' @ processor_state w"

definition perform_workload_transaction ::
  "session_config \<Rightarrow> 'w host \<Rightarrow> message list \<Rightarrow> string \<Rightarrow> bool \<Rightarrow> ('w, bool) act" where
  "perform_workload_transaction cfg H records description announce =
     abind (\<lambda>s. transact (session_ops cfg H) s records) (\<lambda>result.
       let index = opt_int (map_option int (tr_failed_index result));
           error = (case tr_error result of Some e \<Rightarrow> e | None \<Rightarrow> ''None'') in
       if \<not> tr_success result
       then athen (report_failure H description (error_or (tr_error result) ''workload transaction failed'')
                     [(''failed_record'', index), (''record_count'', JInt (int (tr_count result)))])
           (athen (print_event (description @ '': FAILED at record '' @ json_str index @ ''/''
                     @ dec (int (tr_count result)) @ '': '' @ error))
           (aret False))
       else abind (aget se_display) (\<lambda>display.
         athen (awhen (display = ''verbose'')
                  (announce_latencies description (length records) 1 (tr_latencies_ms result)))
         (abind (aget se_workload) (\<lambda>w.
         athen (awhen announce (print_event (transaction_summary description (length records) w)))
         (aret True)))))"

text \<open>One status, run, stop or restart record; the sequence number is the current one.\<close>

definition control_transaction ::
  "session_config \<Rightarrow> 'w host \<Rightarrow> string \<Rightarrow> int \<Rightarrow> string \<Rightarrow> bool \<Rightarrow> ('w, bool) act" where
  "control_transaction cfg H operation workload_id description announce =
     abind (aget (\<lambda>s. rs_value (se_sequence s))) (\<lambda>sequence.
     abind (ares (control_record operation workload_id sequence)) (\<lambda>record'.
       perform_workload_transaction cfg H [record'] description announce))"

definition exchange_act ::
  "session_config \<Rightarrow> 'w host \<Rightarrow> message \<Rightarrow> ('w, message option \<times> rat \<times> string option) act" where
  "exchange_act cfg H request = (\<lambda>s. session_exchange cfg H s request)"

definition heartbeat :: "'w host \<Rightarrow> int \<Rightarrow> ('w, bytes) act" where
  "heartbeat H sequence = abind (randbits H 64) (\<lambda>nonce. ares (heartbeat_payload sequence nonce))"

definition error_text :: "string option \<Rightarrow> string" where
  "error_text error = (case error of None \<Rightarrow> ''None'' | Some e \<Rightarrow> e)"

definition accept_identity_proof ::
  "session_config \<Rightarrow> 'w host \<Rightarrow> int \<Rightarrow> rat \<Rightarrow> native_witness \<Rightarrow> ('w, bool) act" where
  "accept_identity_proof cfg H sequence latency_ms witness =
     athen (aupd (advance_sequence sequence))
     (athen (aupd (\<lambda>s. s\<lparr>se_observation := accept_witness (se_observation s) witness\<rparr>))
     (abind (ares (processor_label (witness_processor witness))) (\<lambda>label.
     athen (aupd (\<lambda>s. s\<lparr>se_processor_name := label,
        se_console := set_processor (the (witness_processor witness)) (se_console s),
        se_stats := stats_accept (se_stats s) latency_ms,
        se_workload := mark_prepared_runtime_initialized (se_workload s),
        se_prepared := True\<rparr>))
     (athen (aupd (defer_periodic_probe cfg H))
     (athen (print_event (''processor identity probe: PASS ('' @ label @ '', boot_id=''
        @ dec (nw_boot_id witness) @ '', cpu_seq='' @ dec (nw_cpu_sequence witness) @ '')''))
     (aret True))))))"

definition ensure_prepared_runtime_initialized :: "session_config \<Rightarrow> 'w host \<Rightarrow> ('w, bool) act" where
  "ensure_prepared_runtime_initialized cfg H =
     abind (aget se_workload) (\<lambda>w. abind (aget se_observation) (\<lambda>ob.
     if ws_processor_flags w AND PROCESSOR_FLAG_PREPARED_RUNTIME_INITIALIZED \<noteq> 0 \<and> ob_processor ob \<noteq> None
     then aret True
     else abind (aget (\<lambda>s. rs_value (se_sequence s))) (\<lambda>sequence.
       abind (heartbeat H sequence) (\<lambda>payload.
       abind (exchange_act cfg H (Message TYPE_HEARTBEAT sequence payload)) (\<lambda>(reply, latency_ms, error).
       case reply of
         None \<Rightarrow>
           if native_probe_unavailable error
           then athen (aupd (\<lambda>s. update_console_runtime (s\<lparr>se_prepared := False,
                  se_observation := mark_disconnected (se_observation s)\<rparr>)))
             (athen (print_event (''[NATIVE PROBE SUSPENDED] prepared responder did not ''
                @ ''complete; workload control remains available''))
             (aret False))
           else athen (print_event (''processor identity probe: FAILED: '' @ error_text error)) (aret False)
       | Some r \<Rightarrow> (case witness_decode (msg_payload r) of
           Inl (ValueError m) \<Rightarrow>
             athen (print_event (''processor identity probe: invalid native proof: '' @ m)) (aret False)
         | Inl e \<Rightarrow> athrow e
         | Inr witness \<Rightarrow> accept_identity_proof cfg H sequence latency_ms witness))))))"

section \<open>Snapshot, completion and start\<close>

definition broker_snapshot :: "session_config \<Rightarrow> 'w host \<Rightarrow> 'w session \<Rightarrow> dict" where
  "broker_snapshot cfg H s = dmerge
     (snapshot_as_dict \<lparr>sn_transport_state = broker_runtime_state (se_transport_error s),
        sn_processor_mode = sf_processor cfg, sn_request_sequence = rs_value (se_sequence s),
        sn_observation = se_observation s, sn_workload = se_workload s\<rparr>)
     [(''probe_completed'', JInt (hs_completed (se_stats s))), (''probe_lost'', JInt (hs_lost (se_stats s))),
      (''probe_last_ms'', JFloat (hs_last_ms (se_stats s)) (ho_float_repr H (hs_last_ms (se_stats s))))]"

definition directory :: "session_config \<Rightarrow> 'w host \<Rightarrow> string \<Rightarrow> ('w, string + list_entry list) act" where
  "directory cfg H path s = (case read_directory (ho_fuel H) (service_ops cfg H) s path of
     None \<Rightarrow> (s, Inl StillRunning) | Some r \<Rightarrow> r)"

definition remote_completion_entries ::
  "session_config \<Rightarrow> 'w host \<Rightarrow> string \<Rightarrow> ('w, (string \<times> bool) list) act" where
  "remote_completion_entries cfg H token =
     (let path = (case rfind_char (CHR ''/'') token of
            Some slash \<Rightarrow> take (slash + 1) token | None \<Rightarrow> token @ ''/'') in
      abind (directory cfg H path) (\<lambda>answer. case answer of
        Inl error \<Rightarrow> athen (print_event (''completion: '' @ error)) (aret [])
      | Inr entries \<Rightarrow> aret (map (\<lambda>entry. (le_name entry, le_directory entry)) entries)))"

definition regression :: "session_config \<Rightarrow> string option" where
  "regression cfg = (case sf_regression_workload cfg of Some (c # w) \<Rightarrow> Some (c # w) | _ \<Rightarrow> None)"

text \<open>
  The variables at the start of \<open>persistent_monitor\<close>: \<open>began\<close> is the clock, \<open>limit\<close> the time of a
  regression; the lookup of the processor's name comes first.
\<close>

definition new_session ::
  "session_config \<Rightarrow> string \<Rightarrow> int \<Rightarrow> rat \<Rightarrow> rat \<Rightarrow> evidence \<Rightarrow> string \<Rightarrow> broker option \<Rightarrow> 'w
     \<Rightarrow> 'w session res" where
  "new_session cfg display sequence began limit e cwd owner w =
     rmap (\<lambda>label.
       \<lparr>se_world = w, se_broker = owner, se_answers = [], se_sequence = RequestSequence sequence,
        se_workload = WorkloadRuntimeState, se_observation = ProcessorObservationState,
        se_stats = HeartbeatStats, se_evidence = e, se_console = ConsoleStatus (sf_processor cfg),
        se_cdc = CdcDisplayStream, se_printed = [], se_processor_name = label, se_display = display,
        se_manifest = None, se_prepared = True, se_completion_pending = False,
        se_result_reported = None, se_diagnostics_observed = None,
        se_regression_commands = (case regression cfg of
           Some workload \<Rightarrow> [''load '' @ [CHR 0x22] @ workload @ [CHR 0x22], ''run''] | None \<Rightarrow> []),
        se_regression_deadline = (if regression cfg \<noteq> None then Some (began + limit) else None),
        se_regression_started = False, se_regression_passed = None, se_identity_failed = False,
        se_next_due = began, se_stop = False, se_transport_error = None,
        se_history = CommandHistory, se_cwd = cwd, se_buffer = [], se_cursor = 0\<rparr>)
     (processor_label (Some (sf_processor cfg)))"

definition or_unproven :: "string option \<Rightarrow> string" where
  "or_unproven p = error_or p ''UNPROVEN''"

definition startup :: "session_config \<Rightarrow> 'w host \<Rightarrow> ('w, unit) act" where
  "startup cfg H =
     abind (control_transaction cfg H ''status'' 0 ''attached runtime'' True) (\<lambda>startup_ok.
     athen (awhen (\<not> startup_ok) (aupd (\<lambda>s. s\<lparr>se_prepared := False\<rparr>)))
     (abind (aget se_workload) (\<lambda>w. abind (ares (ws_processor w)) (\<lambda>p.
     let identity_assertion_failed = (expected_processor cfg \<noteq> None \<and> p \<noteq> expected_processor cfg);
         observed = ''expected '' @ error_text (expected_processor cfg) @ '', observed '' @ or_unproven p in
     athen (aupd (\<lambda>s. s\<lparr>se_identity_failed := identity_assertion_failed\<rparr>))
     (athen (awhen identity_assertion_failed
       (athen (report_failure H ''processor identity assertion'' observed [])
       (athen (print_event (''processor identity assertion: FAILED: '' @ observed))
       (aupd (\<lambda>s. s\<lparr>se_stop := True\<rparr>)))))
     (awhen (regression cfg \<noteq> None
             \<and> (\<not> startup_ok \<or> \<not> processor_identified w \<or> identity_assertion_failed))
       (athen (report_failure H ''physical regression''
                 ''startup status or firmware processor identity unavailable'' [])
       (athen (print_event (''PHYSICAL REGRESSION: FAIL ''
                 @ ''(startup status or firmware processor identity unavailable)''))
       (aupd (\<lambda>s. s\<lparr>se_regression_passed := Some False, se_regression_commands := [],
                      se_stop := True\<rparr>))))))))))"

end
