(* ===== verification/Session_Commands.thy ===== *)
theory Session_Commands
  imports Session Timeout
begin

unbundle bit_operations_syntax

text \<open>
  The shell commands of a session, one action per command (the command branches of the main loop in
  \<open>host/rp86/session.py\<close>).  A command ends the iteration (\<open>continue\<close>), goes on to the periodic part of
  the loop, or leaves a request for it to send.
\<close>

datatype dispatch = Continue | Proceed | Request int bytes

definition say :: "string \<Rightarrow> dispatch \<Rightarrow> ('w, dispatch) act" where
  "say text d = athen (print_event text) (aret d)"

text \<open>\<open>try: ... except ValueError as exc\<close> around a computation without effects.\<close>

definition try_value ::
  "'a res \<Rightarrow> (string \<Rightarrow> ('w, 'b) act) \<Rightarrow> ('a \<Rightarrow> ('w, 'b) act) \<Rightarrow> ('w, 'b) act" where
  "try_value r bad good = (case r of
     Inr x \<Rightarrow> good x
   | Inl e \<Rightarrow> (case e of ValueError m \<Rightarrow> bad m | _ \<Rightarrow> athrow e))"

definition sequence_value :: "('w, int) act" where
  "sequence_value = aget (\<lambda>s. rs_value (se_sequence s))"

definition host_path :: "'w host \<Rightarrow> string \<Rightarrow> ('w, string) act" where
  "host_path H path = abind (aget se_cwd) (\<lambda>cwd. ares (host_list_path (ho_expanduser H) path (Some cwd)))"

section \<open>Host directories and information\<close>

definition cmd_help :: "string list \<Rightarrow> ('w, dispatch) act" where
  "cmd_help arguments = try_value (command_help (case arguments of [] \<Rightarrow> None | a # _ \<Rightarrow> Some a))
     (\<lambda>m. say m Proceed) (\<lambda>text. say text Proceed)"

definition cmd_pwd :: "string list \<Rightarrow> ('w, dispatch) act" where
  "cmd_pwd arguments = (if arguments \<noteq> [] then say ''Usage: pwd'' Proceed
     else abind (aget se_cwd) (\<lambda>cwd. say cwd Proceed))"

definition cmd_cd :: "'w host \<Rightarrow> string list \<Rightarrow> ('w, dispatch) act" where
  "cmd_cd H arguments =
     (if length arguments > 1 then say ''Usage: cd [<Host path>]'' Continue
      else let requested = (case arguments of [] \<Rightarrow> ho_home H | a # _ \<Rightarrow> a) in
        if is_device_path requested
        then say ''cd: device volumes are addressed explicitly; use flash:/ or sd:/'' Continue
        else abind (host_path H requested) (\<lambda>candidate. abind (aget se_world) (\<lambda>w.
          case ho_resolve H w candidate of
            Inl (OSError e) \<Rightarrow> say (''cd: '' @ e) Continue
          | Inl e \<Rightarrow> athrow e
          | Inr resolved \<Rightarrow> abind (ares (ho_is_dir H w resolved)) (\<lambda>is_dir.
              if \<not> is_dir then say (''cd: Host path is not a directory: '' @ requested) Continue
              else athen (aupd (\<lambda>s. s\<lparr>se_cwd := resolved\<rparr>)) (say resolved Proceed)))))"

definition cmd_status :: "session_config \<Rightarrow> 'w host \<Rightarrow> ('w, dispatch) act" where
  "cmd_status cfg H = abind (aget (\<lambda>s. ws_workload_id (se_workload s))) (\<lambda>workload_id.
     abind (control_transaction cfg H ''status'' workload_id ''workload status'' True) (\<lambda>accepted.
     if \<not> accepted then aret Continue
     else abind (aget (\<lambda>s. format_runtime_top (se_processor_name s)
            (ob_processor (se_observation s) \<noteq> None) (se_workload s) (se_manifest s)))
          (\<lambda>text. say text Continue)))"

definition INFO_TEXT :: string where
  "INFO_TEXT = join nl [''Negotiated capabilities:'',
     ''  native probe DIAGNOSTIC / PREPARED RUNTIME ONLY'',
     ''  console    bounded 14-byte command exchange'',
     ''  workload   INTERNAL SRAM GENERAL EXECUTION AVAILABLE'',
     ''  memory     INTERNAL SRAM read / write / load / save'',
     ''  mailbox    HOST / PHYSICAL PROCESSOR SHARED'',
     ''  filesystem RP-FLASH ls / df / cat / put'',
     ''  storage    flash: FAT16 AVAILABLE'',
     ''  sd         NOT AVAILABLE'',
     ''  trace      STOPPED GENERAL-EXECUTOR SNAPSHOT'']"

section \<open>Execution limit and bus diagnostics\<close>

definition timeout_event :: "int option \<Rightarrow> workload_timeout \<Rightarrow> dict" where
  "timeout_event timeout_ms t =
     [(''event'', JStr ''execution_timeout''),
      (''operation'', JStr (if timeout_ms = None then ''get'' else ''set'')),
      (''timeout_ms'', JInt (wt_timeout_ms t)), (''remaining_ms'', JInt (wt_remaining_ms t)),
      (''workload_id'', JInt (wt_workload_id t)), (''boot_id'', JInt (wt_boot_id t)),
      (''armed'', JInt (wt_armed t))]"

definition cmd_timeout :: "session_config \<Rightarrow> 'w host \<Rightarrow> string list \<Rightarrow> ('w, dispatch) act" where
  "cmd_timeout cfg H arguments = try_value (parse_timeout arguments)
     (\<lambda>m. say (''timeout: '' @ m) Continue)
     (\<lambda>timeout_ms. abind (\<lambda>s. execution_timeout (service_ops cfg H) s timeout_ms) (\<lambda>answer.
        case answer of
          Inl error \<Rightarrow> athen (report_failure H ''execution timeout'' (error_or (Some error) ''unavailable'') [])
                        (say (''timeout: '' @ error) Proceed)
        | Inr setting \<Rightarrow>
            athen (aupd (\<lambda>s. s\<lparr>se_evidence := record_event (timeout_event timeout_ms setting) (se_evidence s)\<rparr>))
              (say (timeout_format setting) Proceed)))"

definition save_trace :: "'w host \<Rightarrow> string \<Rightarrow> bus_diagnostics \<Rightarrow> ('w, dispatch) act" where
  "save_trace H path d = abind (host_path H path) (\<lambda>destination.
     abind (ares (diagnostics_as_dict d)) (\<lambda>document.
     abind (\<lambda>s. case ho_write_json H (se_world s) destination document of
        (w, outcome) \<Rightarrow> (s\<lparr>se_world := w\<rparr>, Inr outcome)) (\<lambda>outcome. case outcome of
       None \<Rightarrow> say (''trace saved: '' @ destination) Proceed
     | Some e \<Rightarrow> athen (report_failure H ''trace save'' e []) (say (''trace save: '' @ e) Proceed))))"

definition cmd_trace :: "session_config \<Rightarrow> 'w host \<Rightarrow> string list \<Rightarrow> ('w, dispatch) act" where
  "cmd_trace cfg H arguments =
     (if arguments \<noteq> [] \<and> (hd arguments \<noteq> ''save'' \<or> length arguments \<noteq> 2)
      then say ''usage: trace [save <host-file>]; live capture controls are unavailable'' Continue
      else abind (\<lambda>s. read_diagnostics (service_ops cfg H) s 0) (\<lambda>answer. case answer of
        Inl error \<Rightarrow> athen (report_failure H ''trace'' (error_or (Some error) ''diagnostics unavailable'') [])
                      (say (''trace: '' @ error) Continue)
      | Inr d \<Rightarrow> athen (retain H d)
          (athen (abind (ares (diagnostics_format d)) print_event)
          (if arguments \<noteq> [] then save_trace H (arguments ! 1) d else aret Proceed))))"

section \<open>Workloads\<close>

definition fail_regression :: "session_config \<Rightarrow> ('w, unit) act" where
  "fail_regression cfg = awhen (regression cfg \<noteq> None)
     (aupd (\<lambda>s. s\<lparr>se_regression_passed := Some False, se_stop := True\<rparr>))"

definition upload_text :: "manifest \<Rightarrow> bytes \<Rightarrow> string" where
  "upload_text m img = join nl [''Native workload upload'',
     ''  image   '' @ dec (int (length img)) @ '' bytes'',
     ''  address 0x'' @ hexX 5 (mf_load_address m),
     ''  entry   '' @ hexX 4 (mf_entry_segment m) @ '':'' @ hexX 4 (mf_entry_offset m),
     ''  clock   '' @ (if mf_flags m AND 0x18 = 0 then ''AUTO''
                      else if mf_flags m AND 0x08 \<noteq> 0 then ''FREE-RUNNING'' else ''CLOCK-STEPPED''),
     ''  CRC32   '' @ hexX 8 (mf_image_crc32 m)]"

text \<open>The body of the \<open>try\<close> of \<open>load\<close>: the upload, or the text of its \<open>ValueError\<close>.\<close>

definition load_workload ::
  "session_config \<Rightarrow> 'w host \<Rightarrow> string list \<Rightarrow> int \<Rightarrow> ('w, string + manifest \<times> bytes \<times> message list) act" where
  "load_workload cfg H arguments transfer_id =
     (if arguments \<noteq> [] \<and> is_device_path (hd arguments)
      then abind (\<lambda>s. read_file (service_ops cfg H) s (hd arguments)) (\<lambda>answer. case answer of
          Inl error \<Rightarrow> aret (Inl (error_or (Some error) ''device read failed''))
        | Inr encoded \<Rightarrow> abind sequence_value (\<lambda>sequence.
            ares (caught (workload_from_bytes encoded arguments transfer_id sequence))))
      else abind (aget se_world) (\<lambda>w. abind sequence_value (\<lambda>sequence.
        ares (caught (workload_from_command (ho_read_bytes H w) arguments transfer_id sequence)))))"

definition upload_workload ::
  "session_config \<Rightarrow> 'w host \<Rightarrow> string list \<Rightarrow> manifest \<Rightarrow> message list \<Rightarrow> ('w, dispatch) act" where
  "upload_workload cfg H arguments m records =
     abind (perform_workload_transaction cfg H records ''workload upload'' True) (\<lambda>accepted.
       athen (if accepted
              then aupd (\<lambda>s. s\<lparr>se_manifest := Some m,
                     se_evidence := bind_workload (ws_workload_id (se_workload s)) (hd arguments) m (se_evidence s)\<rparr>)
              else fail_regression cfg)
         (aret Continue))"

definition cmd_load :: "session_config \<Rightarrow> 'w host \<Rightarrow> string list \<Rightarrow> ('w, dispatch) act" where
  "cmd_load cfg H arguments = abind (randbits H 32) (\<lambda>transfer_id.
     abind (load_workload cfg H arguments transfer_id) (\<lambda>loaded. case loaded of
       Inl m \<Rightarrow> athen (report_failure H ''load'' m
                [(''source'', case arguments of [] \<Rightarrow> JNull | a # _ \<Rightarrow> JStr a)])
              (athen (print_event (''load: '' @ m)) (athen (fail_regression cfg) (aret Continue)))
     | Inr (m, img, records) \<Rightarrow>
         athen (print_event (upload_text m img))
         (abind (aget se_workload) (\<lambda>workload.
           if workload_upload_requires_stop (ws_lifecycle workload)
           then athen (print_event ''load: stopping active processor'')
             (abind (control_transaction cfg H ''stop'' (ws_workload_id workload) ''workload stop'' True) (\<lambda>stopped.
               if \<not> stopped then athen (fail_regression cfg) (aret Continue)
               else abind sequence_value (\<lambda>sequence.
                 abind (ares (upload_records m img transfer_id sequence)) (\<lambda>records'.
                   upload_workload cfg H arguments m records'))))
           else upload_workload cfg H arguments m records))))"

definition cmd_control :: "session_config \<Rightarrow> 'w host \<Rightarrow> string \<Rightarrow> ('w, dispatch) act" where
  "cmd_control cfg H name = abind (aget se_workload) (\<lambda>workload.
     abind (if name \<in> {''run'', ''restart''}
               \<and> ws_processor_flags workload AND PROCESSOR_FLAG_PREPARED_RUNTIME_INITIALIZED = 0
            then ensure_prepared_runtime_initialized cfg H else aret True) (\<lambda>initialized.
     if \<not> initialized
     then athen (report_failure H name ''prepared runtime initialization failed'' []) (aret Continue)
     else abind (control_transaction cfg H name 0 (''workload '' @ name) True) (\<lambda>accepted.
       athen (if regression cfg \<noteq> None \<and> \<not> accepted then fail_regression cfg
              else awhen (regression cfg \<noteq> None \<and> name = ''run'')
                     (aupd (\<lambda>s. s\<lparr>se_regression_started := True\<rparr>)))
         (aret Continue))))"

section \<open>Processor requests\<close>

definition CONSOLE_TEXT :: string where
  "CONSOLE_TEXT = ''Console is active. Use: send <text>'' @ nl @ ''Current native mailbox payload limit: 14 bytes''"

definition cmd_probe :: "'w host \<Rightarrow> ('w, dispatch) act" where
  "cmd_probe H = abind sequence_value (\<lambda>sequence. abind (heartbeat H sequence) (\<lambda>payload.
     aret (Request TYPE_HEARTBEAT payload)))"

definition cmd_send :: "string list \<Rightarrow> ('w, dispatch) act" where
  "cmd_send arguments =
     (let text_payload = join '' '' arguments in
      if text_payload = [] then say ''Usage: send <text>'' Continue
      else try_value (case calculator_payload arguments of
             Inl (ValueError _) \<Rightarrow> Inr (bytes_of_string text_payload) | r \<Rightarrow> r)
        (\<lambda>_. aret Continue)
        (\<lambda>payload. if length payload > 14
           then say ''Command rejected: current native mailbox consumes at most 14 bytes'' Proceed
           else aret (Request TYPE_COMMAND payload)))"

definition cmd_calc :: "string list \<Rightarrow> ('w, dispatch) act" where
  "cmd_calc arguments = try_value (calculator_payload arguments)
     (\<lambda>m. say (''calc: '' @ m) Continue) (\<lambda>payload. aret (Request TYPE_COMMAND payload))"

section \<open>Files\<close>

definition entry_line :: "list_entry \<Rightarrow> string" where
  "entry_line entry = pad_left 10 (if le_directory entry then ''<DIR>'' else pad_left 10 (dec (le_size entry)))
     @ ''  '' @ le_name entry"

definition cmd_ls :: "session_config \<Rightarrow> 'w host \<Rightarrow> string list \<Rightarrow> ('w, dispatch) act" where
  "cmd_ls cfg H arguments =
     (if length arguments > 1 then say ''Usage: ls [flash:/path|<Host path>]'' Continue
      else let path = (case arguments of [] \<Rightarrow> ''flash:/'' | a # _ \<Rightarrow> a) in
        if \<not> is_device_path path
        then abind (aget se_world) (\<lambda>w. abind (aget se_cwd) (\<lambda>cwd.
          try_value (format_host_directory (ho_listing H w) (ho_expanduser H) path (Some cwd))
            (\<lambda>m. say (''ls: '' @ m) Continue) (\<lambda>text. say text Continue)))
        else abind (directory cfg H path) (\<lambda>answer. case answer of
          Inl error \<Rightarrow> say (''ls: '' @ error) Continue
        | Inr entries \<Rightarrow> say (''Directory of '' @ path @ nl
            @ (if entries \<noteq> [] then join nl (map entry_line entries) else ''<empty>'')) Continue))"

definition FILESYSTEM_NAMES :: "int \<rightharpoonup> string" where
  "FILESYSTEM_NAMES = map_of [(1, ''FAT12''), (2, ''FAT16''), (3, ''FAT32''), (4, ''exFAT'')]"

definition df_text :: "string \<Rightarrow> disk_free \<Rightarrow> string" where
  "df_text path disk = join nl
     [path @ ''  label='' @ (if df_label disk \<noteq> [] then df_label disk else ''<none>'') @ ''  type=''
        @ (case FILESYSTEM_NAMES (df_filesystem_type disk) of Some n \<Rightarrow> n
           | None \<Rightarrow> dec (df_filesystem_type disk)),
      ''  total='' @ dec (df_total_kib disk) @ '' KiB  used='' @ dec (df_total_kib disk - df_free_kib disk)
        @ '' KiB  free='' @ dec (df_free_kib disk) @ '' KiB'',
      ''  cluster='' @ dec (df_cluster_bytes disk) @ '' bytes  erase='' @ dec (df_erase_bytes disk) @ '' bytes'']"

definition cmd_df :: "session_config \<Rightarrow> 'w host \<Rightarrow> string list \<Rightarrow> ('w, dispatch) act" where
  "cmd_df cfg H arguments =
     (if length arguments > 1 then say ''Usage: df [flash:]'' Continue
      else let path = (case arguments of [] \<Rightarrow> ''flash:'' | a # _ \<Rightarrow> a) in
        abind sequence_value (\<lambda>sequence. try_value (df_request path sequence)
          (\<lambda>m. say (''df: '' @ m) Continue)
          (\<lambda>request. abind (\<lambda>s. filesystem_request (service_ops cfg H) s request) (\<lambda>answer. case answer of
             Inl error \<Rightarrow> say (''df: '' @ error) Continue
           | Inr reply \<Rightarrow> try_value (parse_df reply request)
               (\<lambda>m. say (''df: invalid device reply: '' @ m) Continue)
               (\<lambda>disk. say (df_text path disk) Continue)))))"

text \<open>\<open>content.decode("utf-8")\<close> succeeds exactly when nothing has to be replaced.\<close>

definition utf8_decode :: "bytes \<Rightarrow> string option" where
  "utf8_decode content = (let text = string_of_bytes content in
     if utf8_decode_replace content = text then Some text else None)"

definition hex_spaced :: "bytes \<Rightarrow> string" where
  "hex_spaced content = join '' '' (map (\<lambda>b. bytes_hex [b]) content)"

definition cmd_cat :: "session_config \<Rightarrow> 'w host \<Rightarrow> string list \<Rightarrow> ('w, dispatch) act" where
  "cmd_cat cfg H arguments = (case arguments of
     [path] \<Rightarrow> abind (\<lambda>s. read_file (service_ops cfg H) s path) (\<lambda>answer. case answer of
         Inl error \<Rightarrow> say (''cat: '' @ error) Continue
       | Inr content \<Rightarrow>
           let rendered = (case utf8_decode content of Some text \<Rightarrow> text
                 | None \<Rightarrow> ''Binary data (hex):'' @ nl @ hex_spaced content) in
           say (if rendered \<noteq> [] then rendered else ''<empty>'') Continue)
   | _ \<Rightarrow> say ''Usage: cat <flash:/file>'' Continue)"

text \<open>The records of \<open>put\<close>: the index and text of the first failure.\<close>

fun put_records ::
  "session_config \<Rightarrow> 'w host \<Rightarrow> nat \<Rightarrow> message list \<Rightarrow> ('w, (nat \<times> string) option) act" where
  "put_records cfg H index [] = aret None"
| "put_records cfg H index (request # records) =
     abind (\<lambda>s. filesystem_request (service_ops cfg H) s request) (\<lambda>answer. case answer of
       Inl error \<Rightarrow> aret (Some (index, error))
     | Inr reply \<Rightarrow> put_records cfg H (Suc index) records)"

definition put_hint :: "string \<Rightarrow> string" where
  "put_hint m = join nl [''put: '' @ m, ''Use an existing Host file, for example:'',
     ''  put README.md flash:/README.TXT'']"

definition cmd_put :: "session_config \<Rightarrow> 'w host \<Rightarrow> string list \<Rightarrow> ('w, dispatch) act" where
  "cmd_put cfg H arguments = (case arguments of
     [source, target] \<Rightarrow> abind (host_path H source) (\<lambda>path. abind (aget se_world) (\<lambda>w.
       case ho_read_bytes H w path of
         Inl e \<Rightarrow> say (put_hint e) Continue
       | Inr content \<Rightarrow> abind (randbits H 32) (\<lambda>transfer_id. abind sequence_value (\<lambda>sequence.
           try_value (write_records target content transfer_id sequence)
             (\<lambda>m. say (put_hint m) Continue)
             (\<lambda>records. abind (put_records cfg H 1 records) (\<lambda>failed. case failed of
                Some (index, error) \<Rightarrow> say (''put: FAILED at record '' @ dec (int index) @ ''/''
                  @ dec (int (length records)) @ '': '' @ error) Continue
              | None \<Rightarrow> say (''put: PASS  '' @ path @ '' -> '' @ target @ ''  ('' @ dec (int (length content))
                  @ '' bytes, '' @ dec (int (length records)) @ '' records)'') Continue))))))
   | _ \<Rightarrow> say (''Usage: put <host-file> <flash:/path>'' @ nl
            @ ''Example: put README.md flash:/README.TXT'') Continue)"

section \<open>Memory\<close>

definition MEM_USAGE :: string where
  "MEM_USAGE = join nl [''Usage:'', ''  mem read <address> [length]'', ''  mem write <address> <byte>...'',
     ''  mem load <Host file> <address>'', ''  mem save <address> <length> <Host file>'']"

definition mem_read :: "session_config \<Rightarrow> 'w host \<Rightarrow> int \<Rightarrow> int \<Rightarrow> ('w, unit) act" where
  "mem_read cfg H address len =
     (if len \<le> 0 then athrow (ValueError ''length must be positive'')
      else abind (\<lambda>s. read_memory (service_ops cfg H) s address len) (\<lambda>answer. case answer of
        Inl error \<Rightarrow> print_event (''mem read: '' @ error)
      | Inr content \<Rightarrow> print_event (format_memory_dump address content)))"

text \<open>Two hexadecimal digits are a byte without a prefix.\<close>

definition byte_argument :: "string \<Rightarrow> byte res" where
  "byte_argument token =
     rbind (if length token = 2 \<and> list_all is_hex_char token
            then (case py_int 16 token of Some n \<Rightarrow> Inr n
              | None \<Rightarrow> Inl (ValueError (''invalid literal for int() with base 16: '' @ py_repr token)))
            else int0_text token) (\<lambda>value.
       if 0 \<le> value \<and> value \<le> 0xFF then Inr (word_of_int value)
       else Inl (ValueError (''byte out of range: '' @ token)))"

fun byte_arguments :: "string list \<Rightarrow> bytes res" where
  "byte_arguments [] = Inr []"
| "byte_arguments (token # tokens) =
     rbind (byte_argument token) (\<lambda>b. rmap (\<lambda>bs. b # bs) (byte_arguments tokens))"

text \<open>\<open>f"{error}" if error else ...\<close> around \<open>write_memory\<close>; an empty error text counts as none.\<close>

definition mem_store ::
  "session_config \<Rightarrow> 'w host \<Rightarrow> string \<Rightarrow> int \<Rightarrow> bytes \<Rightarrow> string \<Rightarrow> ('w, unit) act" where
  "mem_store cfg H operation address data done =
     abind (\<lambda>s. write_memory (service_ops cfg H) s address data) (\<lambda>error. case error of
       Some (c # m) \<Rightarrow> print_event (''mem '' @ operation @ '': '' @ (c # m))
     | _ \<Rightarrow> print_event done)"

definition mem_load :: "session_config \<Rightarrow> 'w host \<Rightarrow> string \<Rightarrow> string \<Rightarrow> ('w, unit) act" where
  "mem_load cfg H file_name address_text = abind (host_path H file_name) (\<lambda>source.
     abind (ares (int0_text address_text)) (\<lambda>address. abind (aget se_world) (\<lambda>w.
     case ho_read_bytes H w source of
       Inl e \<Rightarrow> athrow (OSError e)
     | Inr data \<Rightarrow> mem_store cfg H ''load'' address data
         (''mem load: PASS  '' @ source @ '' -> 0x'' @ hexX 5 address @ '' ('' @ dec (int (length data)) @ '' bytes)''))))"

definition mem_save :: "session_config \<Rightarrow> 'w host \<Rightarrow> string \<Rightarrow> string \<Rightarrow> string \<Rightarrow> ('w, unit) act" where
  "mem_save cfg H address_text length_text file_name =
     abind (ares (int0_text address_text)) (\<lambda>address. abind (ares (int0_text length_text)) (\<lambda>len.
     abind (host_path H file_name) (\<lambda>destination.
     abind (\<lambda>s. read_memory (service_ops cfg H) s address len) (\<lambda>answer. case answer of
       Inl error \<Rightarrow> print_event (''mem save: '' @ error)
     | Inr content \<Rightarrow>
         abind (\<lambda>s. case ho_write_bytes H (se_world s) destination content of
            (w, outcome) \<Rightarrow> (s\<lparr>se_world := w\<rparr>, Inr outcome)) (\<lambda>outcome. case outcome of
           Some e \<Rightarrow> athrow (OSError e)
         | None \<Rightarrow> print_event (''mem save: PASS  0x'' @ hexX 5 address @ ''+'' @ dec len @ '' -> '' @ destination))))))"

definition mem_operation :: "session_config \<Rightarrow> 'w host \<Rightarrow> string \<Rightarrow> string list \<Rightarrow> ('w, unit) act" where
  "mem_operation cfg H operation rest =
     (if operation = ''read'' \<and> length rest \<in> {1, 2}
      then abind (ares (int0_text (rest ! 0))) (\<lambda>address.
        abind (if length rest = 2 then ares (int0_text (rest ! 1)) else aret 16) (\<lambda>len.
          mem_read cfg H address len))
      else if operation = ''write'' \<and> length rest \<ge> 2
      then abind (ares (int0_text (rest ! 0))) (\<lambda>address.
        abind (ares (byte_arguments (tl rest))) (\<lambda>data.
          mem_store cfg H ''write'' address data
            (''mem write: PASS  '' @ dec (int (length data)) @ '' bytes at 0x'' @ hexX 5 address)))
      else if operation = ''load'' \<and> length rest = 2 then mem_load cfg H (rest ! 0) (rest ! 1)
      else if operation = ''save'' \<and> length rest = 3 then mem_save cfg H (rest ! 0) (rest ! 1) (rest ! 2)
      else athrow (ValueError ''arguments do not match the selected operation''))"

definition cmd_mem :: "session_config \<Rightarrow> 'w host \<Rightarrow> string list \<Rightarrow> ('w, dispatch) act" where
  "cmd_mem cfg H arguments =
     (if arguments = [] \<or> hd arguments \<notin> {''read'', ''write'', ''load'', ''save''}
      then say MEM_USAGE Continue
      else athen (acatch (mem_operation cfg H (hd arguments) (tl arguments)) (\<lambda>e. case e of
             ValueError m \<Rightarrow> Some (print_event (''mem '' @ hd arguments @ '': '' @ m))
           | OSError m \<Rightarrow> Some (print_event (''mem '' @ hd arguments @ '': '' @ m))
           | _ \<Rightarrow> None))
        (aret Continue))"

section \<open>The shared mailbox\<close>

fun mailbox_send :: "session_config \<Rightarrow> 'w host \<Rightarrow> message list \<Rightarrow> ('w, string option) act" where
  "mailbox_send cfg H [] = aret None"
| "mailbox_send cfg H (request # records) =
     abind (\<lambda>s. memory_request (service_ops cfg H) s request) (\<lambda>answer. case answer of
       Inl error \<Rightarrow> aret (Some error)
     | Inr reply \<Rightarrow> mailbox_send cfg H records)"

text \<open>
  Waiting for the processor: the answered header, or an error text (\<open>None\<close> when the time is over).
  The clock ends the loop, so it has fuel.
\<close>

fun mailbox_wait ::
  "session_config \<Rightarrow> 'w host \<Rightarrow> nat \<Rightarrow> rat \<Rightarrow> int \<Rightarrow> ('w, string option + mailbox_header) act" where
  "mailbox_wait cfg H 0 deadline generation = athrow StillRunning"
| "mailbox_wait cfg H (Suc n) deadline generation = abind (monotonic H) (\<lambda>now.
     if \<not> now < deadline then aret (Inl None)
     else abind (\<lambda>s. read_memory (service_ops cfg H) s MAILBOX_BASE 32) (\<lambda>answer. case answer of
       Inl error \<Rightarrow> aret (Inl (Some error))
     | Inr raw_header \<Rightarrow> try_value (mailbox_decode raw_header)
         (\<lambda>m. aret (Inl (Some m)))
         (\<lambda>candidate.
            if mb_owner candidate = 1 \<and> mb_generation candidate = generation then aret (Inr candidate)
            else mailbox_wait cfg H n deadline generation)))"

definition mailbox_result ::
  "session_config \<Rightarrow> 'w host \<Rightarrow> int \<Rightarrow> mailbox_header \<Rightarrow> ('w, dispatch) act" where
  "mailbox_result cfg H generation header =
     (if mb_status header \<noteq> 3
      then say (''mailbox: processor returned status='' @ dec (mb_status header)) Continue
      else abind (\<lambda>s. read_memory (service_ops cfg H) s (MAILBOX_BASE + 32) (mb_response_length header)) (\<lambda>answer.
        case answer of
          Inl error \<Rightarrow> say (''mailbox: '' @ error) Continue
        | Inr result \<Rightarrow> say (''mailbox: PASS generation='' @ dec generation @ '' processor=''
            @ utf8_decode_replace result) Continue))"

definition mailbox_exchange :: "session_config \<Rightarrow> 'w host \<Rightarrow> bytes \<Rightarrow> int \<Rightarrow> ('w, dispatch) act" where
  "mailbox_exchange cfg H request_data generation = abind sequence_value (\<lambda>sequence.
     try_value (mailbox_commit_records request_data generation sequence)
       (\<lambda>m. say (''mailbox: '' @ m) Continue)
       (\<lambda>records. abind (mailbox_send cfg H records) (\<lambda>failed. case failed of
          Some error \<Rightarrow> say (''mailbox: '' @ error) Continue
        | None \<Rightarrow> abind (monotonic H) (\<lambda>now.
            abind (mailbox_wait cfg H (ho_fuel H) (now + sf_timeout cfg) generation) (\<lambda>waited. case waited of
              Inl error \<Rightarrow> say (''mailbox: '' @ error_or error ''processor response timeout'') Continue
            | Inr header \<Rightarrow> mailbox_result cfg H generation header)))))"

definition cmd_mailbox :: "session_config \<Rightarrow> 'w host \<Rightarrow> string list \<Rightarrow> ('w, dispatch) act" where
  "cmd_mailbox cfg H arguments =
     (if arguments = [] then say ''Usage: mailbox <text>'' Continue
      else let request_data = bytes_of_string (join '' '' arguments) in
        if int (length request_data) > MAILBOX_DATA_SIZE
        then say (''mailbox: request exceeds '' @ dec MAILBOX_DATA_SIZE @ '' bytes'') Continue
        else abind (\<lambda>s. read_memory (service_ops cfg H) s MAILBOX_BASE 32) (\<lambda>answer. case answer of
          Inl error \<Rightarrow> say (''mailbox: '' @ error) Continue
        | Inr raw_header \<Rightarrow> try_value (mailbox_decode raw_header)
            (\<lambda>m. say (''mailbox: '' @ m) Continue)
            (\<lambda>header.
               if mb_owner header \<noteq> 1
               then say (''mailbox: busy (owner='' @ dec (mb_owner header) @ '', generation=''
                      @ dec (mb_generation header) @ '')'') Continue
               else mailbox_exchange cfg H request_data (next_sequence (mb_generation header)))))"

section \<open>Dispatch\<close>

definition cmd_display :: "string \<Rightarrow> ('w, dispatch) act" where
  "cmd_display name = athen (aupd (\<lambda>s. s\<lparr>se_display := name\<rparr>))
     (say (if name = ''quiet'' then ''Runtime display: quiet (errors and command results only)''
           else ''Runtime display: verbose'') Proceed)"

definition run_command :: "session_config \<Rightarrow> 'w host \<Rightarrow> shell_command \<Rightarrow> ('w, dispatch) act" where
  "run_command cfg H command =
     (let name = cs_name (sc_spec command); arguments = sc_arguments command in
      if name = ''quit'' then athen (aupd (\<lambda>s. s\<lparr>se_stop := True\<rparr>)) (aret Continue)
      else if name = ''help'' then cmd_help arguments
      else if name = ''pwd'' then cmd_pwd arguments
      else if name = ''cd'' then cmd_cd H arguments
      else if name \<in> {''status'', ''top''} then cmd_status cfg H
      else if name = ''info'' then say INFO_TEXT Proceed
      else if name = ''timeout'' then cmd_timeout cfg H arguments
      else if name = ''trace'' then cmd_trace cfg H arguments
      else if name \<in> {''quiet'', ''verbose''} then cmd_display name
      else if name = ''probe'' then cmd_probe H
      else if name = ''load'' then cmd_load cfg H arguments
      else if name \<in> {''run'', ''stop'', ''restart''} then cmd_control cfg H name
      else if name = ''console'' then say CONSOLE_TEXT Proceed
      else if name = ''send'' then cmd_send arguments
      else if name = ''calc'' then cmd_calc arguments
      else if name = ''ls'' then cmd_ls cfg H arguments
      else if name = ''df'' then cmd_df cfg H arguments
      else if name = ''cat'' then cmd_cat cfg H arguments
      else if name = ''put'' then cmd_put cfg H arguments
      else if name = ''mem'' then cmd_mem cfg H arguments
      else if name = ''mailbox'' then cmd_mailbox cfg H arguments
      else say (unavailable_message command) Proceed)"

text \<open>A command line: remembered, parsed, and executed unless it is empty or malformed.\<close>

definition execute_line :: "session_config \<Rightarrow> 'w host \<Rightarrow> string \<Rightarrow> ('w, dispatch) act" where
  "execute_line cfg H line =
     athen (aupd (\<lambda>s. s\<lparr>se_history := remember line (se_history s)\<rparr>))
     (try_value (parse_command line)
       (\<lambda>m. say m Continue)
       (\<lambda>parsed. case parsed of None \<Rightarrow> aret Continue | Some command \<Rightarrow> run_command cfg H command))"

end
