(* ===== verification/Py_Unicode.thy ===== *)
theory Py_Unicode
  imports Prelude
begin

text \<open>
  A text as its code points, the way the line editor indexes it, and as the UTF-8 string the rest of
  the development uses.
\<close>

definition utf8_char :: "nat \<Rightarrow> string" where
  "utf8_char n = map char_of
     (if n < 0x80 then [n]
      else if n < 0x800 then [0xC0 + n div 64, 0x80 + n mod 64]
      else if n < 0x10000 then [0xE0 + n div 4096, 0x80 + n div 64 mod 64, 0x80 + n mod 64]
      else [0xF0 + n div 262144, 0x80 + n div 4096 mod 64, 0x80 + n div 64 mod 64, 0x80 + n mod 64])"

definition text_of :: "nat list \<Rightarrow> string" where
  "text_of u = concat (map utf8_char u)"

fun chars_of :: "string \<Rightarrow> nat list" where
  "chars_of [] = []"
| "chars_of (c # s) =
     (let n = of_char c in
      if n < 0x80 then n # chars_of s
      else if n < 0xE0 then ((n - 0xC0) * 64 + (of_char (s ! 0) - 0x80)) # chars_of (drop 1 s)
      else if n < 0xF0
      then ((n - 0xE0) * 4096 + (of_char (s ! 0) - 0x80) * 64 + (of_char (s ! 1) - 0x80)) # chars_of (drop 2 s)
      else ((n - 0xF0) * 262144 + (of_char (s ! 0) - 0x80) * 4096 + (of_char (s ! 1) - 0x80) * 64
             + (of_char (s ! 2) - 0x80)) # chars_of (drop 3 s))"

lemma chars_of_utf8_char: "n < 0x110000 \<Longrightarrow> chars_of (utf8_char n @ s) = n # chars_of s"
proof -
  assume n: "n < 0x110000"
  have m: "n div 4096 mod 64 * 4096 + n div 64 mod 64 * 64 + n mod 64 = n mod 262144"
  proof -
    have "n mod 262144 = n mod (64 * 4096)" by simp
    also have "\<dots> = 4096 * (n div 4096 mod 64) + n mod 4096" by (metis mod_mult2_eq mult.commute)
    also have "n mod 4096 = n mod (64 * 64)" by simp
    also have "n mod (64 * 64) = 64 * (n div 64 mod 64) + n mod 64" by (metis mod_mult2_eq)
    finally show ?thesis by simp
  qed
  consider "n < 0x80" | "0x80 \<le> n" "n < 0x800" | "0x800 \<le> n" "n < 0x10000" | "0x10000 \<le> n"
    by linarith
  then show ?thesis
  proof cases
    case 1
    then show ?thesis by (simp add: utf8_char_def)
  next
    case 2
    then have "n div 64 < 32" by linarith
    then show ?thesis using 2 by (simp add: utf8_char_def Let_def)
  next
    case 3
    then have b: "n div 4096 < 16" by linarith
    have "n div 4096 * 4096 + n div 64 mod 64 * 64 + n mod 64 = n"
      using m b 3 by simp
    then show ?thesis using 3 b by (simp add: utf8_char_def Let_def)
  next
    case 4
    then have "n div 262144 < 8" using n by linarith
    moreover have "n div 262144 * 262144 + n div 4096 mod 64 * 4096 + n div 64 mod 64 * 64 + n mod 64 = n"
      using m div_mult_mod_eq [of n 262144] by linarith
    ultimately show ?thesis using 4 by (simp add: utf8_char_def Let_def)
  qed
qed

lemma chars_of_text_of: "list_all (\<lambda>n. n < 0x110000) u \<Longrightarrow> chars_of (text_of u) = u"
  by (induction u) (simp_all add: text_of_def chars_of_utf8_char)

end
