(* ===== verification/Session_Loop.thy ===== *)
theory Session_Loop
  imports Session_Commands Py_Unicode
begin

unbundle bit_operations_syntax

text \<open>
  The main loop of a session (\<open>host/rp86/session.py\<close>): serving the clients of the broker, regression
  verdicts, the command line, the periodic probe, and what the session leaves behind.
\<close>

section \<open>Serving the broker\<close>

definition json_float :: "'w host \<Rightarrow> rat \<Rightarrow> json" where
  "json_float H x = JFloat x (ho_float_repr H x)"

definition WORKLOAD_REQUESTS :: "int set" where
  "WORKLOAD_REQUESTS = {TYPE_WORKLOAD_BEGIN, TYPE_WORKLOAD_DATA, TYPE_WORKLOAD_COMMIT, TYPE_WORKLOAD_CONTROL}"

definition forward_request :: "session_config \<Rightarrow> 'w host \<Rightarrow> bytes \<Rightarrow> ('w, dict) act" where
  "forward_request cfg H record' = abind (ares (message_decode record')) (\<lambda>request.
     abind (exchange_act cfg H request) (\<lambda>(reply, latency_ms, error). case reply of
       None \<Rightarrow> aret [(''ok'', JBool False), (''error'', opt_str error), (''latency_ms'', json_float H latency_ms)]
     | Some r \<Rightarrow>
         athen (awhen (msg_type request \<in> WORKLOAD_REQUESTS)
            (athen (update_workload (msg_payload r))
            (athen (aupd (advance_sequence (msg_sequence request)))
            (athen (aupd (\<lambda>s. s\<lparr>se_prepared := prepared_runtime_available (se_workload s)\<rparr>))
            (accept_workload_state cfg H)))))
         (abind (ares (message_encode r)) (\<lambda>encoded.
           aret [(''ok'', JBool True), (''reply_hex'', JStr (bytes_hex encoded)),
                 (''latency_ms'', json_float H latency_ms)]))))"

definition answer_future :: "nat \<Rightarrow> dict \<Rightarrow> ('w, unit) act" where
  "answer_future future result = aupd (\<lambda>s. s\<lparr>se_answers := se_answers s @ [(future, result)]\<rparr>)"

text \<open>\<open>except (ValueError, RuntimeError)\<close> and \<open>except (OSError, RuntimeError, SerialException)\<close>.\<close>

definition exchange_handler :: "'w host \<Rightarrow> exc \<Rightarrow> ('w, dict) act option" where
  "exchange_handler H e =
     (let result = [(''ok'', JBool False), (''error'', JStr (exc_str e)), (''latency_ms'', json_float H 0)] in
      case e of ValueError _ \<Rightarrow> Some (aret result) | UnicodeError \<Rightarrow> Some (aret result)
      | RuntimeError _ \<Rightarrow> Some (aret result) | DeviceOwnershipError _ \<Rightarrow> Some (aret result) | _ \<Rightarrow> None)"

definition control_handler :: "exc \<Rightarrow> ('w, dict \<times> bool) act option" where
  "control_handler e =
     (let result = ([(''ok'', JBool False), (''error'', JStr (exc_str e))], False) in
      case e of OSError _ \<Rightarrow> Some (aret result)
      | RuntimeError _ \<Rightarrow> Some (aret result) | DeviceOwnershipError _ \<Rightarrow> Some (aret result) | _ \<Rightarrow> None)"

definition serve_exchange :: "session_config \<Rightarrow> 'w host \<Rightarrow> exchange_request \<Rightarrow> ('w, unit) act" where
  "serve_exchange cfg H x =
     abind (acatch (forward_request cfg H (xr_record x)) (exchange_handler H)) (answer_future (xr_future x))"

text \<open>A script that ended means that the device stays silent until the deadline.\<close>

definition status_request :: "'w host \<Rightarrow> rat \<Rightarrow> ('w, bytes) act" where
  "status_request H timeout s = (let (w, now, reads) = ho_status H (se_world s) in
     (s\<lparr>se_world := w\<rparr>, case send_status_request (now + timeout) (reads @ [(now + timeout + 1, Inr [])]) of
        None \<Rightarrow> Inl StillRunning | Some r \<Rightarrow> r))"

definition runtime_control :: "'w host \<Rightarrow> byte \<Rightarrow> rat \<Rightarrow> ('w, message) act" where
  "runtime_control H operation timeout s =
     (let (w, queued, written, now, reads) = ho_control H (se_world s) operation in
      (s\<lparr>se_world := w\<rparr>,
       case exchange_hid_runtime_control (queued @ [Inr []]) written now (reads @ [(now + timeout + 1, Inr [])])
              operation (rs_value (se_sequence s)) timeout of
         None \<Rightarrow> Inl StillRunning | Some r \<Rightarrow> r))"

definition control_body :: "'w host \<Rightarrow> control_request \<Rightarrow> ('w, dict \<times> bool) act" where
  "control_body H control =
     abind (if cr_command control = ''status''
            then abind (status_request H (cr_timeout control)) (\<lambda>evidence. aret (evidence, False))
            else if cr_command control = ''bootloader''
            then athen (runtime_control H (word_of_int RUNTIME_CONTROL_ENTER_BOOTLOADER) (cr_timeout control))
                   (aret ([], True))
            else if cr_command control = ''reboot''
            then athen (runtime_control H (word_of_int RUNTIME_CONTROL_REBOOT) (cr_timeout control))
                   (aret ([], True))
            else athrow (RuntimeError (''unsupported CDC control: '' @ cr_command control)))
       (\<lambda>(evidence, leaving). athen (aupd (\<lambda>s. s\<lparr>se_evidence := capture evidence (se_evidence s)\<rparr>))
          (aret ([(''ok'', JBool True), (''evidence_hex'', JStr (bytes_hex evidence))], leaving)))"

definition serve_control :: "'w host \<Rightarrow> control_request \<Rightarrow> ('w, unit) act" where
  "serve_control H control =
     abind (acatch (control_body H control) control_handler) (\<lambda>(result, leaving).
       athen (answer_future (cr_future control) result)
         (awhen leaving (aupd (\<lambda>s. s\<lparr>se_stop := True\<rparr>))))"

definition publish_snapshot :: "session_config \<Rightarrow> 'w host \<Rightarrow> 'w session \<Rightarrow> 'w session" where
  "publish_snapshot cfg H s = s\<lparr>se_broker := map_option (publish (broker_snapshot cfg H s)) (se_broker s)\<rparr>"

text \<open>The queued requests are taken together, the control requests one at a time.\<close>

definition take_control :: "('w, unit) act" where
  "take_control = aupd (\<lambda>s. s\<lparr>se_broker := map_option (\<lambda>b. b\<lparr>br_controls := tl (br_controls b)\<rparr>) (se_broker s)\<rparr>)"

definition network_activity :: "'w host \<Rightarrow> 'w session \<Rightarrow> 'w session" where
  "network_activity H s = (case se_broker s of
     None \<Rightarrow> s
   | Some b \<Rightarrow> (let (w, b') = ho_network H (se_world s) b in s\<lparr>se_world := w, se_broker := Some b'\<rparr>))"

definition service_broker_requests :: "session_config \<Rightarrow> 'w host \<Rightarrow> ('w, unit) act" where
  "service_broker_requests cfg H = abind (aget se_broker) (\<lambda>owner. case owner of
     None \<Rightarrow> aret ()
   | Some b \<Rightarrow>
       athen (aupd (\<lambda>s. s\<lparr>se_broker := Some (snd (pending b))\<rparr>))
       (athen (afor (fst (pending b)) (serve_exchange cfg H))
       (athen (afor (br_controls b) (\<lambda>control. athen take_control (serve_control H control)))
       (aupd (publish_snapshot cfg H)))))"

section \<open>Regression verdicts\<close>

definition refresh_completion :: "session_config \<Rightarrow> 'w host \<Rightarrow> ('w, unit) act" where
  "refresh_completion cfg H = abind (aget se_completion_pending) (\<lambda>waiting.
     awhen waiting
       (athen (aupd (\<lambda>s. s\<lparr>se_completion_pending := False\<rparr>))
       (abind (aget (\<lambda>s. ws_workload_id (se_workload s))) (\<lambda>workload_id.
        abind (control_transaction cfg H ''status'' workload_id ''workload completion status'' False)
          (\<lambda>_. aret ())))))"

definition poll_regression :: "session_config \<Rightarrow> 'w host \<Rightarrow> ('w, unit) act" where
  "poll_regression cfg H = abind (aget (\<lambda>s. se_regression_started s \<and> \<not> ws_completed (se_workload s))) (\<lambda>running.
     awhen running (abind (monotonic H) (\<lambda>now. abind (aget se_next_due) (\<lambda>due.
       awhen (due \<le> now)
         (abind (aget (\<lambda>s. ws_workload_id (se_workload s))) (\<lambda>workload_id.
          abind (control_transaction cfg H ''status'' workload_id ''workload regression status'' False)
            (\<lambda>_. aret ())))))))"

definition conclude :: "bool \<Rightarrow> string \<Rightarrow> ('w, bool) act" where
  "conclude passed text = athen (aupd (\<lambda>s. s\<lparr>se_regression_passed := Some passed\<rparr>))
     (athen (print_event text) (athen (aupd (\<lambda>s. s\<lparr>se_stop := True\<rparr>)) (aret True)))"

definition deadline_verdict :: "'w host \<Rightarrow> ('w, bool) act" where
  "deadline_verdict H = abind (aget se_regression_deadline) (\<lambda>deadline. case deadline of
     None \<Rightarrow> aret False
   | Some d \<Rightarrow> abind (monotonic H) (\<lambda>now.
       if d \<le> now
       then athen (report_failure H ''physical regression'' ''regression deadline expired'' [])
              (conclude False ''PHYSICAL REGRESSION: FAIL (timeout)'')
       else aret False))"

text \<open>Whether the iteration ends with a verdict.\<close>

definition regression_verdict :: "'w host \<Rightarrow> ('w, bool) act" where
  "regression_verdict H = abind (aget se_regression_started) (\<lambda>started. abind (aget se_workload) (\<lambda>w.
     if started \<and> ws_completed w
     then if physical_regression_passed w
          then conclude True ''PHYSICAL REGRESSION: PASS''
          else athen (report_failure H ''physical regression'' (join ''; '' (regression_failure_reasons w)) [])
                 (conclude False (''PHYSICAL REGRESSION: FAIL ''
                    @ ''(invalid result, completion, or processor identity)''))
     else if started \<and> ws_lifecycle w \<in> {6, 7}
     then athen (report_failure H ''physical regression'' (completion_reason_name w) [])
            (conclude False (''PHYSICAL REGRESSION: FAIL ('' @ completion_reason_name w @ '')''))
     else deadline_verdict H))"

section \<open>The command line\<close>

definition apply_history :: "int \<Rightarrow> ('w, unit) act" where
  "apply_history delta = aupd (\<lambda>s.
     let (h, line) = history_move (text_of (se_buffer s)) delta (se_history s) in
     s\<lparr>se_history := h, se_buffer := chars_of line, se_cursor := length (chars_of line)\<rparr>)"

definition apply_completion :: "session_config \<Rightarrow> 'w host \<Rightarrow> ('w, unit) act" where
  "apply_completion cfg H =
     abind (aget (\<lambda>s. text_of (take (se_cursor s) (se_buffer s)))) (\<lambda>before_cursor.
     abind (aget (\<lambda>s. drop (se_cursor s) (se_buffer s))) (\<lambda>after_cursor.
     let token = completion_token before_cursor in
     abind (if is_device_path token then remote_completion_entries cfg H token else aret []) (\<lambda>remote_entries.
     abind (aget (\<lambda>s. complete_shell_input (ho_casefold H) (ho_host_matches H (se_world s) (se_cwd s))
                         before_cursor remote_entries)) (\<lambda>(completed, candidates).
     athen (aupd (\<lambda>s. s\<lparr>se_buffer := chars_of completed @ after_cursor, se_cursor := length (chars_of completed)\<rparr>))
     (athen (aupd (\<lambda>s. s\<lparr>se_history := history_edit (text_of (se_buffer s)) (se_history s)\<rparr>))
     (awhen (1 < length candidates)
       (print_event (''Completions:'' @ nl @ ''  '' @ join (nl @ ''  '') candidates))))))))"

definition read_command :: "session_config \<Rightarrow> 'w host \<Rightarrow> ('w, string option) act" where
  "read_command cfg H =
     abind (\<lambda>s. let (w, keys) = ho_keys H (se_world s);
                    e = fst (read_terminal_command (ho_printable H) (ho_strip H) (ho_tty H) keys
                               (se_buffer s) (se_cursor s)) in
       (s\<lparr>se_world := w, se_buffer := ed_buffer e, se_cursor := ed_cursor e\<rparr>, Inr e)) (\<lambda>e.
     athen (awhen (ed_history_delta e \<noteq> 0) (apply_history (ed_history_delta e)))
     (athen (if ed_tab e then apply_completion cfg H
             else awhen (ed_changed e \<and> ed_command e = None \<and> ed_history_delta e = 0)
               (aupd (\<lambda>s. s\<lparr>se_history := history_edit (text_of (se_buffer s)) (se_history s)\<rparr>)))
     (aret (map_option text_of (ed_command e)))))"

definition next_command :: "session_config \<Rightarrow> 'w host \<Rightarrow> ('w, string option) act" where
  "next_command cfg H = abind (aget se_regression_commands) (\<lambda>commands. case commands of
     command # rest \<Rightarrow> athen (aupd (\<lambda>s. s\<lparr>se_regression_commands := rest\<rparr>)) (aret (Some command))
   | [] \<Rightarrow> if sf_interactive cfg then read_command cfg H else aret None)"

section \<open>The request of an iteration\<close>

definition ascii_decode :: "bytes \<Rightarrow> string res" where
  "ascii_decode b = (if ascii_text (string_of_bytes b) then Inr (string_of_bytes b) else Inl UnicodeError)"

definition request_event :: "'w host \<Rightarrow> int \<Rightarrow> int \<Rightarrow> rat \<Rightarrow> bool \<Rightarrow> string option \<Rightarrow> dict" where
  "request_event H sequence request_type latency_ms passed error =
     [(''sequence'', JInt sequence), (''request_type'', JInt request_type),
      (''latency_ms'', json_float H (round_to 3 latency_ms)), (''passed'', JBool passed),
      (''error'', opt_str error)]"

text \<open>The recorded event is the dictionary the loop goes on updating.\<close>

definition amend_event :: "dict \<Rightarrow> ('w, unit) act" where
  "amend_event extra = aupd (\<lambda>s. s\<lparr>se_evidence := (se_evidence s)\<lparr>ev_events :=
     (let events = ev_events (se_evidence s) in butlast events @ [dmerge (last events) extra])\<rparr>\<rparr>)"

text \<open>\<open>(witness.cpu_sequence - observed) & 0xFFFFFFFF\<close> is zero or in the upper half.\<close>

definition stale_counter :: "observation_state \<Rightarrow> native_witness \<Rightarrow> bool" where
  "stale_counter ob witness = (case ob_cpu_sequence ob of
     None \<Rightarrow> False
   | Some observed \<Rightarrow>
       witness_processor witness = ob_processor ob \<and> ob_boot_id ob = Some (nw_boot_id witness)
       \<and> (let delta = (nw_cpu_sequence witness - observed) AND 0xFFFFFFFF in delta = 0 \<or> delta \<ge> 0x80000000))"

definition announce_identity ::
  "session_config \<Rightarrow> string option \<Rightarrow> native_witness \<Rightarrow> ('w, unit) act" where
  "announce_identity cfg previous witness =
     abind (ares (processor_label (witness_processor witness))) (\<lambda>label.
     athen (aupd (\<lambda>s. s\<lparr>se_processor_name := label,
        se_console := set_processor (the (witness_processor witness)) (se_console s)\<rparr>))
     (abind (case previous of
        None \<Rightarrow> aret (if expected_processor cfg = None
          then label @ '' (native AAD 16) automatically identified''
          else label @ '' (native AAD 16) matches Host declaration'')
      | Some p \<Rightarrow> abind (ares (processor_label (Some p))) (\<lambda>old.
          aret (''changed from '' @ old @ '' to '' @ label @ '' (native AAD 16)''))) (\<lambda>identity_text.
     print_event (''[PROCESSOR IDENTITY] '' @ identity_text))))"

text \<open>The reply after the counter check: the error of a stale one, otherwise nothing.\<close>

definition accept_reply :: "session_config \<Rightarrow> message \<Rightarrow> ('w, string option) act" where
  "accept_reply cfg reply = abind (ares (witness_decode (msg_payload reply))) (\<lambda>witness.
     abind (aget se_observation) (\<lambda>ob.
     if stale_counter ob witness
     then aret (Some (''stale native completion counter: '' @ dec (nw_cpu_sequence witness) @ '' after ''
            @ (case ob_cpu_sequence ob of Some n \<Rightarrow> dec n | None \<Rightarrow> ''None'')))
     else athen (aupd (\<lambda>s. s\<lparr>se_observation := accept_witness (se_observation s) witness\<rparr>))
       (athen (amend_event [(''boot_id'', JInt (nw_boot_id witness)),
          (''cpu_sequence'', JInt (nw_cpu_sequence witness)),
          (''command_sequence'', JInt (nw_command_sequence witness)),
          (''native_processor'', opt_str (witness_processor witness))])
       (athen (awhen (witness_processor witness \<noteq> ob_processor ob)
                 (announce_identity cfg (ob_processor ob) witness))
       (aret None)))))"

definition sequence_tag :: "int \<Rightarrow> string" where
  "sequence_tag sequence = ''['' @ zfill 3 (dec sequence) @ ''] ''"

definition reply_text :: "observation_state \<Rightarrow> message \<Rightarrow> string res" where
  "reply_text ob reply =
     (if msg_type reply \<in> {TYPE_WORKLOAD_RESULT, TYPE_WORKLOAD_STATUS} then Inr ''WORKLOAD REQUEST OK''
      else rbind (witness_decode (msg_payload reply)) (\<lambda>witness.
        rmap (\<lambda>text. if ob_processor ob = Some ''intel-8086'' \<and> starts_with text ''V30 ''
                     then ''8086 '' @ drop 4 text else text)
          (ascii_decode (nw_text witness))))"

definition report_reply ::
  "int \<Rightarrow> int \<Rightarrow> rat \<Rightarrow> bool \<Rightarrow> message \<Rightarrow> ('w, unit) act" where
  "report_reply sequence request_type latency_ms is_command reply =
     athen (awhen (request_type = TYPE_HEARTBEAT)
       (aupd (\<lambda>s. s\<lparr>se_stats := stats_accept (se_stats s) latency_ms,
          se_observation := (se_observation s)\<lparr>ob_connected := True\<rparr>\<rparr>)))
     (abind (aget se_display) (\<lambda>display. awhen (display = ''verbose'' \<or> is_command)
       (abind (aget se_observation) (\<lambda>ob. abind (ares (reply_text ob reply)) (\<lambda>text.
          print_event (sequence_tag sequence @ text @ ''  latency='' @ fixed 1 latency_ms @ '' ms''))))))"

definition report_no_reply ::
  "int \<Rightarrow> int \<Rightarrow> rat \<Rightarrow> bool \<Rightarrow> string option \<Rightarrow> ('w, unit) act" where
  "report_no_reply sequence request_type latency_ms is_command error =
     (let tail = ''  latency='' @ fixed 1 latency_ms @ '' ms  error='' @ error_text error in
      if request_type = TYPE_HEARTBEAT \<and> native_probe_unavailable error
      then athen (aupd (\<lambda>s. s\<lparr>se_prepared := False,
              se_observation := mark_disconnected (se_observation s)\<rparr>))
        (athen (amend_event [(''native_probe_unavailable'', JBool True)])
        (athen (aupd update_console_runtime)
        (abind (aget se_display) (\<lambda>display. awhen (display = ''verbose'' \<or> is_command)
           (print_event (''[NATIVE PROBE UNAVAILABLE] prepared responder ''
              @ ''did not complete; workload control remains available''))))))
      else if request_type = TYPE_HEARTBEAT
      then athen (aupd (\<lambda>s. s\<lparr>se_stats := (se_stats s)\<lparr>hs_lost := hs_lost (se_stats s) + 1\<rparr>,
              se_observation := mark_disconnected (se_observation s)\<rparr>))
        (abind (aget se_processor_name) (\<lambda>label.
           print_event (sequence_tag sequence @ label @ '' NATIVE PROBE FAILED'' @ tail)))
      else print_event (sequence_tag sequence @ ''HOST REQUEST FAILED'' @ tail))"

definition send_iteration_request ::
  "session_config \<Rightarrow> 'w host \<Rightarrow> int \<Rightarrow> bytes \<Rightarrow> bool \<Rightarrow> ('w, unit) act" where
  "send_iteration_request cfg H request_type payload is_command =
     abind sequence_value (\<lambda>sequence.
     abind (exchange_act cfg H (Message request_type sequence payload)) (\<lambda>(reply, latency_ms, error).
     athen (aupd (\<lambda>s. s\<lparr>se_evidence := record_event
        (request_event H sequence request_type latency_ms (reply \<noteq> None) error) (se_evidence s)\<rparr>))
     (athen (case reply of
         None \<Rightarrow> report_no_reply sequence request_type latency_ms is_command error
       | Some r \<Rightarrow> abind (accept_reply cfg r) (\<lambda>stale. case stale of
           None \<Rightarrow> report_reply sequence request_type latency_ms is_command r
         | Some e \<Rightarrow> report_no_reply sequence request_type latency_ms is_command (Some e)))
     (athen (abind sequence_value (\<lambda>current. aupd (advance_sequence current)))
     (athen (aupd (defer_periodic_probe cfg H))
     (aupd (publish_snapshot cfg H)))))))"

section \<open>The loop\<close>

definition periodic :: "session_config \<Rightarrow> 'w host \<Rightarrow> ('w, unit) act" where
  "periodic cfg H = abind (monotonic H) (\<lambda>now. abind (aget se_next_due) (\<lambda>due. abind (aget se_prepared) (\<lambda>prepared.
     if due \<le> now \<and> sf_native_probe cfg \<and> prepared
     then abind sequence_value (\<lambda>sequence. abind (heartbeat H sequence) (\<lambda>payload.
            send_iteration_request cfg H TYPE_HEARTBEAT payload False))
     else awhen (due \<le> now) (aupd (\<lambda>s. s\<lparr>se_next_due := now + sf_interval cfg\<rparr>)))))"

definition dispatch_command :: "session_config \<Rightarrow> 'w host \<Rightarrow> string option \<Rightarrow> ('w, unit) act" where
  "dispatch_command cfg H command =
     abind (case command of None \<Rightarrow> aret Proceed | Some line \<Rightarrow> execute_line cfg H line) (\<lambda>d. case d of
       Continue \<Rightarrow> aret ()
     | Proceed \<Rightarrow> periodic cfg H
     | Request request_type payload \<Rightarrow>
         athen (monotonic H) (send_iteration_request cfg H request_type payload True))"

definition iteration :: "session_config \<Rightarrow> 'w host \<Rightarrow> ('w, unit) act" where
  "iteration cfg H =
     athen (aupd (network_activity H))
     (athen (service_broker_requests cfg H)
     (athen (aupd (drain_cdc cfg H))
     (abind (aget se_transport_error) (\<lambda>error. case error of
        Some e \<Rightarrow> athen (print_event e) (aupd (\<lambda>s. s\<lparr>se_stop := True\<rparr>))
      | None \<Rightarrow>
          athen (refresh_completion cfg H)
          (athen (poll_regression cfg H)
          (abind (regression_verdict H) (\<lambda>concluded.
             awhen (\<not> concluded) (abind (next_command cfg H) (dispatch_command cfg H)))))))))"

definition goes_on :: "session_config \<Rightarrow> 'w session \<Rightarrow> bool" where
  "goes_on cfg s \<longleftrightarrow> \<not> se_stop s
     \<and> (sf_rounds cfg = 0 \<or> hs_completed (se_stats s) + hs_lost (se_stats s) < sf_rounds cfg)"

fun session_loop :: "nat \<Rightarrow> session_config \<Rightarrow> 'w host \<Rightarrow> ('w, unit) act" where
  "session_loop 0 cfg H = athrow StillRunning"
| "session_loop (Suc n) cfg H = abind (aget (goes_on cfg)) (\<lambda>more.
     awhen more (athen (iteration cfg H) (session_loop n cfg H)))"

section \<open>The end of a session\<close>

definition probes_accepted :: "'w session \<Rightarrow> bool" where
  "probes_accepted s \<longleftrightarrow> hs_completed (se_stats s) > 0 \<and> hs_lost (se_stats s) = 0"

definition failure_reasons :: "session_config \<Rightarrow> 'w session \<Rightarrow> json list" where
  "failure_reasons cfg s =
     (case se_transport_error s of Some e \<Rightarrow> [JStr e] | None \<Rightarrow> [])
     @ (if se_identity_failed s then [JStr ''processor identity assertion failed''] else [])
     @ (if sf_native_probe cfg \<and> \<not> probes_accepted s then [JStr ''native probe acceptance failed''] else [])
     @ (if regression cfg \<noteq> None \<and> se_regression_passed s \<noteq> Some True
        then [if ev_errors (se_evidence s) \<noteq> [] then dget (last (ev_errors (se_evidence s))) ''reason''
              else JStr ''physical regression did not complete successfully'']
        else [])"

definition session_summary ::
  "session_config \<Rightarrow> 'w host \<Rightarrow> string \<Rightarrow> string \<Rightarrow> dict \<Rightarrow> 'w session \<Rightarrow> dict res" where
  "session_summary cfg H started finished hid_identity s =
     (let ob = se_observation s; st = se_stats s; reasons = failure_reasons cfg s in
      rmap (\<lambda>snapshot.
       [(''schema'', JStr ''rp86.runtime-session/v1''), (''started'', JStr started),
        (''finished'', JStr finished), (''workload'', JObj snapshot),
        (''failure_reasons'', JList reasons), (''clock_hz'', JInt 1000000),
        (''processor'', JStr (sf_processor cfg)), (''processor_name'', JStr (se_processor_name s)),
        (''boot_id'', opt_int (ob_boot_id ob)), (''cpu_sequence'', opt_int (ob_cpu_sequence ob)),
        (''command_sequence'', opt_int (ob_command_sequence ob)),
        (''native_processor'', opt_str (ob_processor ob)), (''hid_identity'', JObj hid_identity),
        (''native_probe'', JObj
           [(''completed'', JInt (hs_completed st)), (''lost'', JInt (hs_lost st)),
            (''latency_ms'', JObj
               [(''last'', json_float H (hs_last_ms st)),
                (''minimum'', json_float H (case hs_minimum_ms st of
                   Some m \<Rightarrow> if hs_completed st = 0 then 0 else m | None \<Rightarrow> 0)),
                (''average'', json_float H (average_ms st)),
                (''maximum'', json_float H (hs_maximum_ms st))])]),
        (''transport_error'', opt_str (se_transport_error s)),
        (''physical_regression'', case regression cfg of
           None \<Rightarrow> JNull
         | Some workload \<Rightarrow> JObj
             [(''workload'', JStr workload), (''result_marker'', JBool (ws_passed (se_workload s))),
              (''completed'', JBool (ws_completed (se_workload s))),
              (''passed'', opt_bool (se_regression_passed s))]),
        (''passed'', JBool (reasons = []))])
      (workload_snapshot (se_evidence s) (se_workload s)))"

definition exit_code :: "session_config \<Rightarrow> 'w session \<Rightarrow> int" where
  "exit_code cfg s =
     (if se_transport_error s \<noteq> None then TRANSPORT_EXIT
      else if se_identity_failed s then VALIDATION_EXIT
      else if sf_native_probe cfg \<and> \<not> probes_accepted s then VALIDATION_EXIT
      else if regression cfg \<noteq> None \<and> se_regression_passed s \<noteq> Some True then VALIDATION_EXIT
      else PASS_EXIT)"

text \<open>
  \<open>persistent_monitor\<close> from its first request on.  The end is the same whether or not the loop raised:
  the console is drained, the broker stops and the two files of the evidence are written, which are
  part of the result; an exception goes on afterwards.
\<close>

type_synonym evidence_files = "(string \<times> bytes) \<times> (string \<times> dict)"

definition session_result ::
  "session_config \<Rightarrow> 'w host \<Rightarrow> string \<Rightarrow> string \<Rightarrow> dict \<Rightarrow> 'w session \<times> unit res
     \<Rightarrow> 'w session \<times> (evidence_files \<times> int) res" where
  "session_result cfg H started finished hid_identity outcome =
     (let (s, r) = outcome; s1 = drain_cdc cfg H s; s' = s1\<lparr>se_broker := map_option quiesce (se_broker s1)\<rparr> in
      (s', rbind (session_summary cfg H started finished hid_identity s') (\<lambda>summary.
             rmap (\<lambda>_. (evidence_write (ho_absolute H) summary (se_evidence s'), exit_code cfg s')) r)))"

definition persistent_monitor ::
  "nat \<Rightarrow> session_config \<Rightarrow> 'w host \<Rightarrow> string \<Rightarrow> string \<Rightarrow> dict \<Rightarrow> 'w session
     \<Rightarrow> 'w session \<times> (evidence_files \<times> int) res" where
  "persistent_monitor n cfg H started finished hid_identity s = (case startup cfg H s of
     (s1, Inl e) \<Rightarrow> (s1, Inl e)
   | (s1, Inr _) \<Rightarrow> session_result cfg H started finished hid_identity (session_loop n cfg H s1))"

end
