(* ===== verification/Clean_Results.thy ===== *)
theory Clean_Results
  imports Session_Loop
begin

unbundle bit_operations_syntax

text \<open>
  Which exceptions may leave the computations the shell commands consist of: codecs, parsers and
  record builders raise \<open>ValueError\<close>, which the commands report, or \<open>struct.error\<close> and \<open>KeyError\<close>.
  The records they build are ones that encode.
\<close>

section \<open>Computations that raise only \<open>ValueError\<close>, or a fault of the numbers\<close>

definition clean :: "'a res \<Rightarrow> bool" where
  "clean r \<longleftrightarrow> (\<forall>e. r = Inl e \<longrightarrow> e = StructError \<or> e = KeyError \<or> (\<exists>m. e = ValueError m))"

named_theorems clean_intros

lemma clean_basic [clean_intros, simp]:
  "clean (Inr x)" "clean (Inl (ValueError m))" "clean (Inl StructError)" "clean (Inl KeyError)"
  by (simp_all add: clean_def)

lemma clean_rbind [clean_intros]: "clean m \<Longrightarrow> (\<And>x. m = Inr x \<Longrightarrow> clean (f x)) \<Longrightarrow> clean (rbind m f)"
  by (cases m) (auto simp: clean_def)

lemma clean_rmap [clean_intros]: "clean m \<Longrightarrow> clean (rmap f m)"
  by (cases m) (auto simp: clean_def)

lemma clean_if [clean_intros]: "(b \<Longrightarrow> clean m) \<Longrightarrow> (\<not> b \<Longrightarrow> clean n) \<Longrightarrow> clean (if b then m else n)"
  by simp

lemma clean_let [clean_intros]: "clean (f x) \<Longrightarrow> clean (let y = x in f y)"
  by simp

lemma clean_option [clean_intros]:
  "(x = None \<Longrightarrow> clean m) \<Longrightarrow> (\<And>y. x = Some y \<Longrightarrow> clean (f y)) \<Longrightarrow>
     clean (case x of None \<Rightarrow> m | Some y \<Rightarrow> f y)"
  by (cases x) simp_all

lemma clean_list [clean_intros]:
  "(x = [] \<Longrightarrow> clean m) \<Longrightarrow> (\<And>y ys. x = y # ys \<Longrightarrow> clean (f y ys)) \<Longrightarrow>
     clean (case x of [] \<Rightarrow> m | y # ys \<Rightarrow> f y ys)"
  by (cases x) simp_all

lemma clean_prod [clean_intros]:
  "(\<And>y z. x = (y, z) \<Longrightarrow> clean (f y z)) \<Longrightarrow> clean (case x of (y, z) \<Rightarrow> f y z)"
  by (cases x) simp_all

lemma clean_sval [clean_intros]:
  "(\<And>n. x = SInt n \<Longrightarrow> clean (f n)) \<Longrightarrow> (\<And>b. x = SBytes b \<Longrightarrow> clean (g b)) \<Longrightarrow>
     clean (case x of SInt n \<Rightarrow> f n | SBytes b \<Rightarrow> g b)"
  by (cases x) simp_all

lemma clean_pack [clean_intros]: "clean (pack fs vs)"
  by (induction fs vs rule: pack.induct) (auto intro: clean_intros)

lemma clean_unpack [clean_intros]: "clean (unpack fs b)" "clean (unpack_from fs b n)"
  by (simp_all add: unpack_def unpack_from_def)

lemma clean_caught: "clean m \<Longrightarrow> caught m = Inl e \<Longrightarrow> e = StructError \<or> e = KeyError"
  by (auto simp: clean_def caught_def split: sum.splits exc.splits)

subsection \<open>The records\<close>

lemma clean_message_decode [clean_intros]: "clean (message_decode r)"
  unfolding message_decode_def by (intro clean_intros)

lemma clean_decode_hid [clean_intros]: "clean (decode_hid r)"
  unfolding decode_hid_def normalize_hid_input_def by (intro clean_intros)

lemma clean_witness_decode [clean_intros]: "clean (witness_decode p)"
  unfolding witness_decode_def by (intro clean_intros)

lemma clean_validate_device_reply [clean_intros]: "clean (validate_device_reply r request expected)"
  unfolding validate_device_reply_def validate_live_reply_def Let_def by (intro clean_intros)

lemma clean_memory [clean_intros]:
  "clean (check_address a)" "clean (memory_read_request a n sq)" "clean (validate_memory_reply r request)"
  "clean (parse_memory_read r request)"
  unfolding check_address_def memory_read_request_def parse_memory_read_def validate_memory_reply_def
  by (intro clean_intros)+

lemma clean_memory_write_loop: "clean (memory_write_loop a data off sq)"
proof (induction a data off sq rule: memory_write_loop.induct)
  case (1 a data off sq)
  show ?case
    unfolding memory_write_loop.simps [of a data off] Let_def by (intro clean_intros 1) simp_all
qed

lemma clean_memory_write [clean_intros]: "clean (memory_write_records a data sq)"
  unfolding memory_write_records_def by (intro clean_intros clean_memory_write_loop)

lemma clean_fs_path [clean_intros]: "clean (fs_path path n)"
  unfolding fs_path_def by (intro clean_intros)

lemma clean_fs_requests [clean_intros]:
  "clean (list_request path c sq)" "clean (df_request path sq)" "clean (read_request path off sq)"
  unfolding list_request_def df_request_def read_request_def by (intro clean_intros)+

lemma clean_fs_write_loop [clean_intros]: "clean (fs_write_loop data t off sq)"
proof (induction data t off sq rule: fs_write_loop.induct)
  case (1 data t off sq)
  show ?case
    unfolding fs_write_loop.simps [of data t off] Let_def by (intro clean_intros 1) simp_all
qed

lemma clean_write_records [clean_intros]: "clean (write_records path data t sq)"
  unfolding write_records_def by (intro clean_intros)

text \<open>A filesystem reply is compared with a request that has an operation byte.\<close>

lemma clean_validate_reply: "msg_payload request \<noteq> [] \<Longrightarrow> clean (validate_reply r request)"
  unfolding validate_reply_def by (cases "msg_payload request") (auto intro!: clean_intros)

lemma clean_fs_replies:
  assumes "msg_payload request \<noteq> []"
  shows "clean (parse_list r request)" "clean (parse_df r request)" "clean (parse_read r request)"
  unfolding parse_list_def parse_df_def parse_read_def
  by (intro clean_intros clean_validate_reply assms)+

lemma clean_mailbox [clean_intros]: "clean (mailbox_decode b)" "clean (mailbox_commit_records data g sq)"
  unfolding mailbox_decode_def mailbox_commit_records_def by (intro clean_intros)+

lemma clean_diagnostics [clean_intros]:
  "clean (diagnostics_request n sq)" "clean (diagnostics_from_reply r request)"
  "clean (diagnostics_as_dict d)" "clean (diagnostics_format d)"
proof -
  have d: "clean (diagnostics_as_dict d)" for d
    unfolding diagnostics_as_dict_def Let_def by (intro clean_intros)
  then show "clean (diagnostics_as_dict d)" "clean (diagnostics_format d)"
    unfolding diagnostics_format_def by (intro clean_intros d)+
  show "clean (diagnostics_request n sq)" unfolding diagnostics_request_def by (intro clean_intros)
  show "clean (diagnostics_from_reply r request)"
    unfolding diagnostics_from_reply_def check_diagnostics_def by (intro clean_intros)
qed

lemma clean_timeout [clean_intros]: "clean (timeout_request t sq)" "clean (timeout_from_reply r request)"
  unfolding timeout_request_def timeout_from_reply_def by (intro clean_intros)+

lemma clean_timeout_argument [clean_intros]: "clean (parse_timeout arguments)"
  by (auto simp: parse_timeout_def Let_def split: list.split option.split decimal.split intro!: clean_intros)

subsection \<open>Workloads and arguments\<close>

lemma clean_linear [clean_intros]: "clean (linear a b)"
  unfolding linear_def by (intro clean_intros)

lemma clean_validated [clean_intros]: "clean (validated m)"
  unfolding validated_def check_shared_def check_flags_def by (intro clean_intros)

lemma clean_upload_data [clean_intros]: "clean (upload_data img t off sq)"
proof (induction img t off sq rule: upload_data.induct)
  case (1 img t off sq)
  show ?case unfolding upload_data.simps [of img t off] by (intro clean_intros 1) simp_all
qed

lemma clean_manifest [clean_intros]:
  "clean (manifest_encode m)" "clean (manifest_decode b)" "clean (encode_workload_file m img)"
  "clean (decode_workload_file b)" "clean (upload_records m img t sq)"
proof -
  show e: "clean (manifest_encode m)" for m unfolding manifest_encode_def by (intro clean_intros)
  show d: "clean (manifest_decode b)" for b unfolding manifest_decode_def by (intro clean_intros)
  show f: "clean (encode_workload_file m img)" unfolding encode_workload_file_def by (intro clean_intros e)
  show "clean (decode_workload_file b)" unfolding decode_workload_file_def by (intro clean_intros d)
  show "clean (upload_records m img t sq)" unfolding upload_records_def by (intro clean_intros e f)
qed

lemma clean_load_option [clean_intros]: "clean (set_load_option n v opts)"
  unfolding set_load_option_def parse_number_def parse_far_pointer_def int16_text_def by (intro clean_intros)

lemma clean_load_options [clean_intros]: "clean (parse_load_options ws opts)"
proof (induction ws opts rule: parse_load_options.induct)
  case (3 option v rest opts)
  then show ?case unfolding parse_load_options.simps by (intro clean_intros) auto
qed simp_all

lemma clean_workload [clean_intros]:
  "clean (workload_from_bytes b ws t sq)" "clean (workload_from_command read ws t sq)"
proof -
  show b: "clean (workload_from_bytes b ws t sq)" for b ws
    unfolding workload_from_bytes_def for_image_def Let_def by (intro clean_intros)
  show "clean (workload_from_command read ws t sq)"
    unfolding workload_from_command_def by (cases ws; cases "read (path_str (hd ws))") (auto intro: b)
qed

lemma clean_control_record [clean_intros]: "clean (control_record n w sq)"
  unfolding control_record_def by (intro clean_intros)

lemma clean_int0 [clean_intros]: "clean (int0_text t)"
  unfolding int0_text_def by (intro clean_intros)

lemma clean_calculator [clean_intros]: "clean (calculator_payload ws)"
  unfolding calculator_payload_def by (intro clean_intros)

lemma clean_byte_arguments [clean_intros]: "clean (byte_arguments ts)"
proof (induction ts)
  case (Cons t ts)
  show ?case unfolding byte_arguments.simps byte_argument_def by (intro clean_intros Cons)
qed simp

lemma clean_shlex_steps: "clean (shlex_steps st w f t)"
  by (induction st w f t rule: shlex_steps.induct) (auto split: lex_state.split intro!: clean_intros)

lemma clean_shell [clean_intros]: "clean (command_help a)" "clean (parse_command line)"
proof -
  show "clean (command_help a)" unfolding command_help_def Let_def by (intro clean_intros)
  have "clean (shlex_words line)"
    unfolding shlex_words_def
    by (rule clean_shlex_steps)
  then show "clean (parse_command line)"
    unfolding parse_command_def
    by (auto simp: clean_def split: sum.splits list.splits option.splits exc.splits)
qed

section \<open>The records the commands send\<close>

text \<open>A record that encodes unless a number does not fit its field.\<close>

definition record_ok :: "message \<Rightarrow> bool" where
  "record_ok m \<longleftrightarrow> msg_version m = PROTOCOL_VERSION \<and> msg_payload m \<noteq> [] \<and> length (msg_payload m) \<le> PAYLOAD_SIZE"

named_theorems records_ok

lemma record_ok_Message [simp]: "record_ok (Message t n p) \<longleftrightarrow> p \<noteq> [] \<and> length p \<le> PAYLOAD_SIZE"
  by (simp add: record_ok_def Message_def)

lemma pack_error: "pack fs vs = Inl e \<Longrightarrow> e = StructError"
  by (induction fs vs arbitrary: e rule: pack.induct) (auto simp: rmap_Inl_iff split: if_splits)

lemma record_ok_encode: "record_ok m \<Longrightarrow> message_encode m = Inl e \<Longrightarrow> e = StructError"
  by (auto simp: record_ok_def message_encode_def clean_def pack_error split: if_splits)

lemma packed_ok:
  "pack fs vs = Inr p \<Longrightarrow> 0 < calcsize fs \<Longrightarrow> calcsize fs \<le> PAYLOAD_SIZE \<Longrightarrow> record_ok (Message t n p)"
  using length_pack [of fs vs p] by (cases p) auto

lemma requests_ok [records_ok]:
  "memory_read_request a n sq = Inr m \<Longrightarrow> record_ok m"
  "diagnostics_request w sq = Inr m \<Longrightarrow> record_ok m"
  "timeout_request t sq = Inr m \<Longrightarrow> record_ok m"
  "control_record name w sq = Inr m \<Longrightarrow> record_ok m"
  by (auto simp: memory_read_request_def diagnostics_request_def timeout_request_def control_record_def
      split: if_splits option.splits intro: packed_ok simp del: pack.simps)

lemma fs_requests_ok [records_ok]:
  "list_request path c sq = Inr m \<Longrightarrow> record_ok m" "df_request path sq = Inr m \<Longrightarrow> record_ok m"
  "read_request path off sq = Inr m \<Longrightarrow> record_ok m"
  by (auto simp: list_request_def df_request_def read_request_def fs_request_def fs_path_eq
      simp del: pack.simps dest!: length_pack)

lemma memory_write_loop_encodes: "memory_write_loop a data off sq = Inr ms \<Longrightarrow> list_all record_ok ms"
proof (induction a data off sq arbitrary: ms rule: memory_write_loop.induct)
  case (1 a data off sq)
  then show ?case
    by (auto simp: memory_write_loop.simps [of a data off] Let_def pyslice_def simp del: pack.simps dest!: length_pack
        split: if_splits)
qed

lemma memory_write_ok [records_ok]: "memory_write_records a data sq = Inr ms \<Longrightarrow> list_all record_ok ms"
  by (auto simp: memory_write_records_def split: if_splits intro: memory_write_loop_encodes)

lemma mailbox_commit_ok [records_ok]: "mailbox_commit_records data g sq = Inr ms \<Longrightarrow> list_all record_ok ms"
  by (auto simp: mailbox_commit_records_def split: if_splits dest!: memory_write_ok)

lemma fs_write_loop_encodes: "fs_write_loop data t off sq = Inr (ms, sq') \<Longrightarrow> list_all record_ok ms"
proof (induction data t off sq arbitrary: ms sq' rule: fs_write_loop.induct)
  case (1 data t off sq)
  then show ?case
    by (auto simp: fs_write_loop.simps [of data t off] Let_def pyslice_def fs_request_def simp del: pack.simps dest!: length_pack
        split: if_splits)
qed

lemma write_records_encode [records_ok]: "write_records path data t sq = Inr ms \<Longrightarrow> list_all record_ok ms"
  by (auto simp: write_records_def fs_request_def fs_path_eq simp del: pack.simps dest!: length_pack fs_write_loop_encodes)

lemma upload_data_ok': "upload_data img t off sq = Inr (ms, sq') \<Longrightarrow> list_all record_ok ms"
proof (induction img t off sq arbitrary: ms sq' rule: upload_data.induct)
  case (1 img t off sq)
  then show ?case
    by (auto simp: upload_data.simps [of img t off] pyslice_def simp del: pack.simps dest!: length_pack split: if_splits)
qed

lemma upload_records_encode [records_ok]: "upload_records m img t sq = Inr ms \<Longrightarrow> list_all record_ok ms"
  by (auto simp: upload_records_def simp del: pack.simps split: if_splits
      dest!: length_pack length_manifest_encode upload_data_ok')

lemma upload_data_sequence: "is_ok (upload_data img t off sq) \<longleftrightarrow> is_ok (upload_data img t off sq')"
proof (induction img t off sq arbitrary: sq' rule: upload_data.induct)
  case (1 img t off sq)
  show ?case
    using 1 [where sq' = "sq' + 1"]
    by (cases "pack DATA_PREFIX [SInt t, SInt (int off)]")
       (auto simp: upload_data.simps [of img t off] is_ok_iff simp del: pack.simps)
qed

text \<open>Whether an upload can be prepared does not depend on the sequence number.\<close>

lemma upload_records_sequence: "is_ok (upload_records m img t sq) \<Longrightarrow> is_ok (upload_records m img t sq')"
  using upload_data_sequence [of img t 0 "sq + 1" "sq' + 1"]
  by (fastforce simp: upload_records_def is_ok_iff simp del: pack.simps split: if_splits)

end
