(* ===== verification/Session_Safety.thy ===== *)
theory Session_Safety
  imports Clean_Results
begin

unbundle bit_operations_syntax

text \<open>
  What the shell commands and the callbacks of a session keep of its state, and which exceptions may
  leave them.
\<close>

section \<open>The service clients over safe operations\<close>

lemma safe_ares_bind:
  assumes "\<And>e. r = Inl e \<Longrightarrow> X e" "\<And>x. r = Inr x \<Longrightarrow> safe I X (f x)"
  shows "safe I X (abind (ares r) f)"
  using assms by (cases r) (auto simp: safe_def abind_def ares_def)

lemma safe_aget_bind:
  assumes "\<And>s. I s \<Longrightarrow> Q (g s)" "\<And>x. Q x \<Longrightarrow> safe I X (f x)"
  shows "safe I X (abind (aget g) f)"
  using assms by (auto simp: safe_def abind_def aget_def)

text \<open>
  The operations a client works with keep \<open>I\<close>, and let only exceptions of \<open>X\<close> out; \<open>X\<close> has those the
  clients may add.
\<close>

locale safe_ops =
  fixes ops :: "('c, 'x) ops_scheme"
    and I :: "'c \<Rightarrow> bool"
    and X :: "exc \<Rightarrow> bool"
  assumes exchange_safe: "record_ok m \<Longrightarrow> safe I X (\<lambda>c. op_exchange ops c m)"
    and advance_safe: "I c \<Longrightarrow> I (op_advance ops n c)"
    and activity_safe: "I c \<Longrightarrow> I (op_activity ops c)"
    and numbers: "X StructError" "X KeyError"
begin

lemma send_request_safe:
  assumes "record_ok m" "\<And>r. clean (check r m)"
  shows "safe I X (\<lambda>c. send_request ops failed check c m)"
proof (rule safeI)
  fix c
  assume "I c"
  obtain c1 o1 where x: "op_exchange ops c m = (c1, o1)" by fastforce
  note x' = safeD [OF exchange_safe [OF assms(1)] \<open>I c\<close> x]
  show "I (fst (send_request ops failed check c m))"
    using x x'(1) by (auto simp: send_request_def split: sum.split intro!: advance_safe activity_safe)
  show "X e" if "snd (send_request ops failed check c m) = Inl e" for e
    using that x x'(2) numbers
    by (auto simp: send_request_def split: sum.splits option.splits dest!: clean_caught [OF assms(2)])
qed

lemma filesystem_request_safe: "record_ok m \<Longrightarrow> safe I X (\<lambda>c. filesystem_request ops c m)"
  unfolding filesystem_request_def
  by (rule send_request_safe) (auto simp: record_ok_def intro!: clean_intros clean_validate_reply)

lemma memory_request_safe: "record_ok m \<Longrightarrow> safe I X (\<lambda>c. memory_request ops c m)"
  unfolding memory_request_def by (rule send_request_safe) (auto intro!: clean_intros)

lemma safe_caught:
  assumes "clean r" "\<And>m. safe I X (f (Inl m))" "\<And>y. r = Inr y \<Longrightarrow> safe I X (f (Inr y))"
  shows "safe I X (abind (ares (caught r)) f)"
proof (rule safe_ares_bind)
  show "X e" if "caught r = Inl e" for e using clean_caught [OF assms(1) that] numbers by auto
  show "safe I X (f x)" if "caught r = Inr x" for x
    using assms(2,3) that by (auto simp: caught_def split: sum.splits exc.splits)
qed

lemma pack_safe: "pack fs vs = Inl e \<Longrightarrow> X e"
  using numbers by (auto dest: pack_error)

lemma read_diagnostics_safe: "safe I X (\<lambda>c. read_diagnostics ops c w)"
proof -
  have "(\<lambda>c. read_diagnostics ops c w) = abind (aget (op_sequence ops)) (\<lambda>n.
     abind (ares (diagnostics_request w n)) (\<lambda>m c.
       send_request ops ''diagnostics exchange failed'' diagnostics_from_reply c m))"
    by (auto simp: fun_eq_iff read_diagnostics_def abind_def aget_def ares_def split: sum.split)
  moreover have "diagnostics_request w n = Inl e \<Longrightarrow> X e" for n e
    by (auto simp: diagnostics_request_def rmap_Inl_iff simp del: pack.simps intro: pack_safe)
  ultimately show ?thesis
    by (auto intro!: safe_intros safe_ares_bind send_request_safe clean_intros dest: requests_ok)
qed

lemma execution_timeout_safe:
  assumes "\<And>t. timeout_ms = Some t \<Longrightarrow> 0 \<le> t \<and> t \<le> WORKLOAD_TIMEOUT_MAX_MS"
  shows "safe I X (\<lambda>c. execution_timeout ops c timeout_ms)"
proof -
  have "(\<lambda>c. execution_timeout ops c timeout_ms) = abind (aget (op_sequence ops)) (\<lambda>n.
     abind (ares (timeout_request timeout_ms n)) (\<lambda>m c.
       send_request ops ''workload timeout exchange failed'' timeout_from_reply c m))"
    by (auto simp: fun_eq_iff execution_timeout_def abind_def aget_def ares_def split: sum.split)
  moreover have "timeout_request timeout_ms n = Inl e \<Longrightarrow> X e" for n e
    using assms by (cases timeout_ms)
      (auto simp: timeout_request_def rmap_Inl_iff simp del: pack.simps intro: pack_safe split: if_splits)
  ultimately show ?thesis
    by (auto intro!: safe_intros safe_ares_bind send_request_safe clean_intros dest: requests_ok)
qed

lemma read_memory_loop_action:
  "(\<lambda>c. read_memory_loop ops a len c content) =
     (if int (length content) < len
      then abind (aget (op_sequence ops)) (\<lambda>n.
        abind (ares (caught (memory_read_request (a + int (length content)) (min 40 (len - int (length content))) n)))
          (\<lambda>built. case built of Inl m \<Rightarrow> aret (Inl m) | Inr request \<Rightarrow>
        abind (\<lambda>c. memory_request ops c request) (\<lambda>answer. case answer of Inl m \<Rightarrow> aret (Inl m) | Inr reply \<Rightarrow>
        abind (ares (caught (parse_memory_read reply request))) (\<lambda>parsed. case parsed of Inl m \<Rightarrow> aret (Inl m)
          | Inr data \<Rightarrow> (\<lambda>c. read_memory_loop ops a len c (content @ data))))))
      else aret (Inr content))"
  unfolding caught_def abind_def aget_def ares_def aret_def
  by (rule ext, subst read_memory_loop.simps)
     (simp add: Let_def cong: if_cong split: sum.split prod.split exc.split)

lemma read_memory_loop_safe: "safe I X (\<lambda>c. read_memory_loop ops a len c content)"
proof (induction "nat (len - int (length content))" arbitrary: content rule: less_induct)
  case less
  show ?case
  proof (subst read_memory_loop_action, intro safe_if safe_abind [OF safe_aget] safe_caught safe_aret, unfold sum.case)
    fix n request
    assume more: "int (length content) < len"
      and built: "memory_read_request (a + int (length content)) (min 40 (len - int (length content))) n
        = Inr request"
    have rest: "safe I X (\<lambda>c. read_memory_loop ops a len c (content @ data))"
      if "parse_memory_read reply request = Inr data" for reply data
      using parse_memory_read_eq [OF built] that more by (intro less) simp
    show "safe I X (abind (\<lambda>c. memory_request ops c request) (\<lambda>answer. case answer of
        Inl m \<Rightarrow> aret (Inl m) | Inr reply \<Rightarrow> abind (ares (caught (parse_memory_read reply request))) (\<lambda>parsed.
          case parsed of Inl m \<Rightarrow> aret (Inl m)
          | Inr data \<Rightarrow> (\<lambda>c. read_memory_loop ops a len c (content @ data)))))"
      by (rule safe_abind [OF memory_request_safe [OF requests_ok(1) [OF built]]], rule safe_sum,
          rule safe_aret, rule safe_caught) (auto intro: safe_aret rest clean_memory)
  qed (intro clean_intros safe_aret)+
qed

lemma read_memory_safe: "safe I X (\<lambda>c. read_memory ops c a len)"
  unfolding read_memory_def by (rule read_memory_loop_safe)

lemma write_memory_loop_safe: "list_all record_ok ms \<Longrightarrow> safe I X (\<lambda>c. write_memory_loop ops c ms)"
proof (induction ms)
  case Nil
  then show ?case by (simp add: safe_def)
next
  case (Cons m ms)
  have "(\<lambda>c. write_memory_loop ops c (m # ms)) = abind (\<lambda>c. memory_request ops c m)
     (\<lambda>answer. case answer of Inl e \<Rightarrow> aret (Some e) | Inr _ \<Rightarrow> (\<lambda>c. write_memory_loop ops c ms))"
    by (auto simp: fun_eq_iff abind_def aret_def split: sum.split prod.split)
  then show ?case using Cons by (auto intro!: safe_intros memory_request_safe)
qed

lemma write_memory_safe: "safe I X (\<lambda>c. write_memory ops c a data)"
proof -
  have "(\<lambda>c. write_memory ops c a data) = abind (aget (op_sequence ops)) (\<lambda>n.
     abind (ares (caught (memory_write_records a data n))) (\<lambda>built. case built of Inl m \<Rightarrow> aret (Some m)
       | Inr ms \<Rightarrow> (\<lambda>c. write_memory_loop ops c ms)))"
    unfolding caught_def abind_def aget_def ares_def aret_def write_memory_def
    by (rule ext) (simp split: sum.split prod.split exc.split)
  then show ?thesis
    by (auto intro!: safe_aret safe_abind [OF safe_aget] safe_caught clean_intros write_memory_loop_safe
        dest: memory_write_ok)
qed

lemma read_file_loop_action:
  "(\<lambda>c. read_file_loop ops path c ts content) =
     abind (aget (op_sequence ops)) (\<lambda>n.
     abind (ares (caught (read_request path (int (length content)) n)))
       (\<lambda>built. case built of Inl m \<Rightarrow> aret (Inl m) | Inr request \<Rightarrow>
     abind (\<lambda>c. filesystem_request ops c request) (\<lambda>answer. case answer of Inl m \<Rightarrow> aret (Inl m) | Inr reply \<Rightarrow>
     abind (ares (caught (parse_read reply request))) (\<lambda>parsed.
       case parsed of Inl m \<Rightarrow> aret (Inl (''invalid device reply: '' @ m)) | Inr chunk \<Rightarrow>
     (case file_chunk_step (int (length content)) ts content chunk of
        Stop m \<Rightarrow> aret (Inl m) | Done d \<Rightarrow> aret (Inr d)
      | More k content' \<Rightarrow> (\<lambda>c. read_file_loop ops path c (Some k) content'))))))"
  unfolding caught_def abind_def aget_def ares_def aret_def
  by (rule ext, subst read_file_loop.simps) (simp split: sum.split prod.split exc.split file_step.split)

lemma safe_file_step:
  "(\<And>m. x = Stop m \<Longrightarrow> safe I X (f m)) \<Longrightarrow> (\<And>d. x = Done d \<Longrightarrow> safe I X (g d)) \<Longrightarrow>
     (\<And>k d. x = More k d \<Longrightarrow> safe I X (h k d)) \<Longrightarrow>
     safe I X (case x of Stop m \<Rightarrow> f m | Done d \<Rightarrow> g d | More k d \<Rightarrow> h k d)"
  by (cases x) simp_all

lemma read_file_loop_safe: "safe I X (\<lambda>c. read_file_loop ops path c ts content)"
proof (induction "0x100000000 - length content" arbitrary: content ts rule: less_induct)
  case less
  have rest: "safe I X (\<lambda>c. read_file_loop ops path c (Some k) content')"
    if "read_request path (int (length content)) n = Inr request"
      "file_chunk_step (int (length content)) ts content chunk = More k content'"
    for n request chunk k content'
  proof (rule less)
    have "int (length content) < 0x100000000" using read_request_bound [OF that(1)] by blast
    moreover have "length content < length content'" using file_chunk_step_More [OF that(2)] by simp
    ultimately show "0x100000000 - length content' < 0x100000000 - length content" by simp
  qed
  show ?case
  proof (subst read_file_loop_action, intro safe_abind [OF safe_aget] safe_caught safe_aret, unfold sum.case)
    fix n request
    assume built: "read_request path (int (length content)) n = Inr request"
    then have ok: "record_ok request" "msg_payload request \<noteq> []"
      using fs_requests_ok(3) by (auto simp: record_ok_def)
    show "safe I X (abind (\<lambda>c. filesystem_request ops c request) (\<lambda>answer. case answer of
        Inl m \<Rightarrow> aret (Inl m) | Inr reply \<Rightarrow> abind (ares (caught (parse_read reply request))) (\<lambda>parsed.
          case parsed of Inl m \<Rightarrow> aret (Inl (''invalid device reply: '' @ m)) | Inr chunk \<Rightarrow>
        (case file_chunk_step (int (length content)) ts content chunk of
           Stop m \<Rightarrow> aret (Inl m) | Done d \<Rightarrow> aret (Inr d)
         | More k content' \<Rightarrow> (\<lambda>c. read_file_loop ops path c (Some k) content')))))"
      by (rule safe_abind [OF filesystem_request_safe [OF ok(1)]], rule safe_sum, rule safe_aret,
          rule safe_caught) (auto intro: safe_aret safe_file_step rest [OF built] clean_fs_replies [OF ok(2)])
  qed (intro clean_intros safe_aret)+
qed

lemma read_file_safe: "safe I X (\<lambda>c. read_file ops c path)"
  unfolding read_file_def by (rule read_file_loop_safe)

text \<open>The directory loop may also be still running.\<close>

lemma read_directory_loop_safe:
  "I c \<Longrightarrow> read_directory_loop n ops path c cursor entries = Some (c', r) \<Longrightarrow>
     I c' \<and> (\<forall>e. r = Inl e \<longrightarrow> X e)"
proof (induction n arbitrary: c cursor entries)
  case (Suc n)
  show ?case
  proof (cases "list_request path cursor (op_sequence ops c)")
    case (Inl e)
    then show ?thesis
      using Suc.prems clean_fs_requests(1) [of path cursor "op_sequence ops c"] numbers
      by (auto simp: clean_def split: exc.splits)
  next
    case built: (Inr m)
    note ok = fs_requests_ok(1) [OF built]
    obtain c1 a where x: "filesystem_request ops c m = (c1, a)" by fastforce
    note x' = safeD [OF filesystem_request_safe [OF ok] \<open>I c\<close> x]
    have "clean (parse_list reply m)" for reply
      using ok by (intro clean_fs_replies) (simp add: record_ok_def)
    then have parsed: "parse_list reply m = Inl e \<Longrightarrow> X e \<or> (\<exists>t. e = ValueError t)" for reply e
      using numbers by (fastforce simp: clean_def)
    consider (exc) e where "a = Inl e" | (error) t where "a = Inr (Inl t)" | (reply) q where "a = Inr (Inr q)"
      by (metis sum.exhaust)
    then show ?thesis
    proof cases
      case (reply q)
      then show ?thesis
        using Suc.prems x x' built parsed [of q] Suc.IH [OF x'(1)]
        by (cases "parse_list q m") (auto split: exc.splits if_splits)
    qed (use Suc.prems x x' built in auto)
  qed
qed simp

end

text \<open>Transactions also update the workload state, which may reject the payload, and call back.\<close>

locale safe_workload_ops = safe_ops ops I X
  for ops :: "('c, 'x) workload_ops_scheme" and I X +
  assumes update_safe: "I c \<Longrightarrow> I (fst (op_update ops p c))"
      "snd (op_update ops p c) = Inl e \<Longrightarrow> X e \<or> (\<exists>m. e = ValueError m)"
    and state_change_safe: "safe I X (op_state_change ops)"
begin

lemma transact_loop_safe:
  "list_all record_ok ms \<Longrightarrow> I c \<Longrightarrow>
     I (fst (transact_loop ops n c k ls ms)) \<and> (\<forall>e. snd (transact_loop ops n c k ls ms) = Inl e \<longrightarrow> X e)"
proof (induction ms arbitrary: c k ls)
  case Nil
  then show ?case by (simp add: activity_safe)
next
  case (Cons m ms)
  obtain c1 a where x: "op_exchange ops c m = (c1, a)" by fastforce
  have ok: "record_ok m" using Cons.prems by simp
  note x' = safeD [OF exchange_safe [OF ok] \<open>I c\<close> x]
  show ?case
  proof (cases a)
    case (Inl e)
    then show ?thesis using x x' by simp
  next
    case (Inr y)
    obtain q l e where y: "y = (q, l, e)" by (metis prod_cases3)
    show ?thesis
    proof (cases q)
      case None
      then show ?thesis using x x' Inr y by simp
    next
      case (Some r)
      obtain c2 u where u: "op_update ops (msg_payload r) (op_advance ops (msg_sequence m) c1) = (c2, u)"
        by fastforce
      have c2: "I c2" using update_safe(1) [OF advance_safe [OF x'(1)], of "msg_payload r" "msg_sequence m"] u by simp
      have u': "u = Inl e \<Longrightarrow> X e \<or> (\<exists>m. e = ValueError m)" for e
        using update_safe(2) [of "msg_payload r" "op_advance ops (msg_sequence m) c1" e] u by simp
      obtain c3 v where v: "op_state_change ops c2 = (c3, v)" by fastforce
      note v' = safeD [OF state_change_safe c2 v]
      have rest: "I (fst (transact_loop ops n c3 (Suc k) (ls @ [l]) ms))
          \<and> (\<forall>e. snd (transact_loop ops n c3 (Suc k) (ls @ [l]) ms) = Inl e \<longrightarrow> X e)"
        using Cons.IH v'(1) Cons.prems by simp
      show ?thesis
        using x Inr y Some u v c2 u' v' rest by (cases u; cases v) (auto split: exc.split)
    qed
  qed
qed

lemma transact_safe: "list_all record_ok ms \<Longrightarrow> safe I X (\<lambda>c. transact ops c ms)"
  using transact_loop_safe by (simp add: safe_def transact_def)

end

section \<open>The state of a session\<close>

text \<open>
  Kept by everything but the main loop: the workload id fits a control record, the regression has not
  passed, and the identity verdict of the start, the answers to clients and the broker are \<open>k\<close>.
\<close>

definition loop_part :: "'w session \<Rightarrow> bool \<times> (nat \<times> dict) list \<times> broker option" where
  "loop_part s = (se_identity_failed s, se_answers s, se_broker s)"

definition session_inv :: "bool \<times> (nat \<times> dict) list \<times> broker option \<Rightarrow> 'w session \<Rightarrow> bool" where
  "session_inv k s \<longleftrightarrow> 0 \<le> ws_workload_id (se_workload s) \<and> ws_workload_id (se_workload s) \<le> 0xFFFFFFFF
     \<and> se_regression_passed s \<noteq> Some True \<and> loop_part s = k"

text \<open>
  What may leave a command: faults of the numbers, a missing name, a loop that has not ended, and what
  the host raises where the code has no handler.
\<close>

definition escapes :: "'w host \<Rightarrow> exc \<Rightarrow> bool" where
  "escapes H e \<longleftrightarrow> e = StructError \<or> e = KeyError \<or> e = StillRunning
     \<or> (\<exists>p. ho_expanduser H p = Inl e)
     \<or> (\<exists>w p. ho_resolve H w p = Inl e \<and> (\<forall>m. e \<noteq> OSError m)) \<or> (\<exists>w p. ho_is_dir H w p = Inl e)
     \<or> \<not> broker_catches e \<and> ((\<exists>w d. snd (ho_call H w d) = Inl e) \<or> (\<exists>j. ho_float H j = Inl e))"

lemma escapes_basic [simp]: "escapes H StructError" "escapes H KeyError" "escapes H StillRunning"
  by (simp_all add: escapes_def)

text \<open>Fields that are not part of the invariant.\<close>

lemma session_inv_frame [simp]:
  "session_inv k (s\<lparr>se_world := w\<rparr>) = session_inv k s" "session_inv k (s\<lparr>se_printed := pr\<rparr>) = session_inv k s"
  "session_inv k (s\<lparr>se_evidence := ev\<rparr>) = session_inv k s" "session_inv k (s\<lparr>se_console := co\<rparr>) = session_inv k s"
  "session_inv k (s\<lparr>se_cdc := cd\<rparr>) = session_inv k s" "session_inv k (s\<lparr>se_prepared := b\<rparr>) = session_inv k s"
  "session_inv k (s\<lparr>se_completion_pending := b\<rparr>) = session_inv k s"
  "session_inv k (s\<lparr>se_transport_error := te\<rparr>) = session_inv k s"
  "session_inv k (s\<lparr>se_sequence := sq\<rparr>) = session_inv k s" "session_inv k (s\<lparr>se_next_due := nd\<rparr>) = session_inv k s"
  "session_inv k (s\<lparr>se_diagnostics_observed := od\<rparr>) = session_inv k s"
  "session_inv k (s\<lparr>se_result_reported := rr\<rparr>) = session_inv k s"
  "session_inv k (s\<lparr>se_observation := ob\<rparr>) = session_inv k s"
  "session_inv k (s\<lparr>se_processor_name := pn\<rparr>) = session_inv k s"
  "session_inv k (s\<lparr>se_stats := st\<rparr>) = session_inv k s" "session_inv k (s\<lparr>se_manifest := mf\<rparr>) = session_inv k s"
  "session_inv k (s\<lparr>se_display := di\<rparr>) = session_inv k s" "session_inv k (s\<lparr>se_cwd := cw\<rparr>) = session_inv k s"
  "session_inv k (s\<lparr>se_stop := b\<rparr>) = session_inv k s" "session_inv k (s\<lparr>se_history := hi\<rparr>) = session_inv k s"
  "session_inv k (s\<lparr>se_buffer := bu\<rparr>) = session_inv k s" "session_inv k (s\<lparr>se_cursor := cu\<rparr>) = session_inv k s"
  "session_inv k (s\<lparr>se_regression_commands := rc\<rparr>) = session_inv k s"
  "session_inv k (s\<lparr>se_regression_started := b\<rparr>) = session_inv k s"
  by (simp_all add: session_inv_def loop_part_def)

lemma session_inv_failed [simp]: "session_inv k s \<Longrightarrow> session_inv k (s\<lparr>se_regression_passed := Some False\<rparr>)"
  by (simp add: session_inv_def loop_part_def)

lemma mark_id [simp]:
  "ws_workload_id (mark_idle w) = ws_workload_id w"
  "ws_workload_id (mark_prepared_runtime_initialized w) = ws_workload_id w"
  by (simp_all add: mark_idle_def mark_prepared_runtime_initialized_def)

lemma session_inv_workload [simp]:
  "session_inv k s \<Longrightarrow> ws_workload_id w = ws_workload_id (se_workload s) \<Longrightarrow> session_inv k (s\<lparr>se_workload := w\<rparr>)"
  by (simp add: session_inv_def loop_part_def)

lemma session_inv_update_console [simp]: "session_inv k (update_console_runtime s) = session_inv k s"
  by (simp add: update_console_runtime_def Let_def)

lemma cdc_event_inv: "session_inv k s \<Longrightarrow> session_inv k (cdc_event cfg line s)"
  by (simp add: cdc_event_def Let_def print_event_def aupd_def)

lemma drain_input_inv:
  fixes s :: "'w session"
  assumes "session_inv k s"
  shows "session_inv k (drain_input cfg input s)"
proof -
  have "session_inv k (foldl (\<lambda>s line. cdc_event cfg line s) s ls)" if "session_inv k s" for s :: "'w session" and ls
    using that by (induction ls arbitrary: s) (auto intro: cdc_event_inv)
  then show ?thesis using assms by (auto simp: drain_input_def split: sum.split prod.split)
qed

lemma drain_cdc_inv: "session_inv k s \<Longrightarrow> session_inv k (drain_cdc cfg H s)"
  by (auto simp: drain_cdc_def split: prod.split intro: drain_input_inv)

lemma service_transport_inv: "session_inv k s \<Longrightarrow> session_inv k (fst (service_transport cfg s input))"
  by (simp add: service_transport_def Let_def drain_input_inv)

section \<open>The exchange\<close>

lemma drain_service_keeps:
  assumes "\<And>s i. P s \<Longrightarrow> P (fst (service s i))" "P s"
  shows "P (drain_service service s after)"
  using assms(2)
proof (induction after arbitrary: s)
  case (Cons i after)
  then show ?case using assms(1) [of s i] by (auto split: prod.split option.split)
qed simp

lemma exchange_loop_keeps:
  assumes service: "\<And>s i. P s \<Longrightarrow> P (fst (service s i))"
  shows "P s \<Longrightarrow> exchange_loop service after began deadline request expected stale s ticks = Some (s', r) \<Longrightarrow>
    P s' \<and> (\<forall>e. r = Inl e \<longrightarrow> e = StructError \<or> e = KeyError)"
proof (induction ticks arbitrary: s stale)
  case (Cons tk ticks)
  obtain s1 t where sv: "service s (tk_service tk) = (s1, t)" by fastforce
  then have s1: "P s1" using service [OF Cons.prems(1), of "tk_service tk"] by simp
  have cl: "clean (validate_device_reply b request expected)" for b by (intro clean_intros)
  show ?case
  proof (cases "tk_time tk \<le> deadline \<and> t = None")
    case False
    then show ?thesis using Cons.prems sv s1 by (auto split: option.splits if_splits)
  next
    case going: True
    show ?thesis
    proof (cases "tk_read tk")
      case (Inl e)
      then show ?thesis using Cons.prems sv s1 going by auto
    next
      case (Inr b)
      show ?thesis
        using Cons.prems sv s1 going Inr Cons.IH [OF s1] cl [of b] drain_service_keeps [where P = P and service = service, OF service s1]
        by (cases "validate_device_reply b request expected")
           (auto simp: clean_def split: if_splits exc.splits)
    qed
  qed
qed simp

lemma exchange_hid_request_keeps:
  assumes service: "\<And>s i. P s \<Longrightarrow> P (fst (service s i))" and "P s"
    and run: "exchange_hid_request service s w request timeout expected = Some (s', r)"
  shows "P s' \<and> (record_ok request \<longrightarrow> (\<forall>e. r = Inl e \<longrightarrow> e = StructError \<or> e = KeyError))"
proof (cases "message_encode request")
  case (Inl e)
  then show ?thesis
    using run \<open>P s\<close> record_ok_encode [OF _ Inl]
    by (auto simp: exchange_hid_request_def Let_def split: option.splits sum.splits)
next
  case (Inr b)
  then have "\<exists>rep. hid_output_report b = Inr rep"
    by (simp add: hid_output_report_def length_message_encode)
  then show ?thesis
    using run \<open>P s\<close> Inr exchange_loop_keeps [where P = P and service = service, OF service \<open>P s\<close>]
    by (auto simp: exchange_hid_request_def Let_def split: option.splits sum.splits if_splits)
qed

lemma hid_exchange_keeps:
  assumes "session_inv k s"
  shows "session_inv k (fst (hid_exchange cfg H s m))"
    and "record_ok m \<Longrightarrow> snd (hid_exchange cfg H s m) = Inl e \<Longrightarrow> escapes H e"
proof -
  obtain w script where w: "ho_hid H (se_world s) m = (w, script)" by fastforce
  let ?run = "exchange_hid_request (service_transport cfg) (s\<lparr>se_world := w\<rparr>)
    (falls_silent (sf_timeout cfg) (Inr []) script) m (sf_timeout cfg) (expected_processor cfg)"
  have run: "session_inv k s' \<and> (record_ok m \<longrightarrow> (\<forall>e. r = Inl e \<longrightarrow> e = StructError \<or> e = KeyError))"
    if "?run = Some (s', r)" for s' r
    using exchange_hid_request_keeps [where P = "session_inv k", OF service_transport_inv _ that] assms by simp
  have "session_inv k (fst (hid_exchange cfg H s m))
    \<and> (record_ok m \<longrightarrow> (\<forall>e. snd (hid_exchange cfg H s m) = Inl e \<longrightarrow> escapes H e))"
  proof (cases ?run)
    case None
    then show ?thesis using w assms by (simp add: hid_exchange_def)
  next
    case (Some y)
    obtain s2 r where y: "y = (s2, r)" by fastforce
    show ?thesis
      using run [OF Some [unfolded y]] w Some y
      by (cases r) (auto simp: hid_exchange_def split: option.split)
  qed
  then show "session_inv k (fst (hid_exchange cfg H s m))"
    and "record_ok m \<Longrightarrow> snd (hid_exchange cfg H s m) = Inl e \<Longrightarrow> escapes H e" by blast+
qed

lemma clean_fromhex: "fromhex t = Inl e \<Longrightarrow> \<exists>m. e = ValueError m"
proof -
  have "fromhex_steps i t = Inl e \<Longrightarrow> \<exists>m. e = ValueError m" for i
    by (induction i t rule: fromhex_steps.induct)
       (auto simp: fromhex_error_def rmap_Inl_iff split: if_splits option.splits list.splits)
  then show "fromhex t = Inl e \<Longrightarrow> \<exists>m. e = ValueError m"
    by (auto simp: fromhex_def fromhex_error_def split: list.splits prod.splits)
qed

lemma broker_reply_error:
  "broker_reply cfg H m response = Inl e \<Longrightarrow> \<not> broker_catches e \<Longrightarrow> e = StructError \<or> (\<exists>j. ho_float H j = Inl e)"
proof -
  assume r: "broker_reply cfg H m response = Inl e" "\<not> broker_catches e"
  have "clean (validate_device_reply c m x)" for c x by (intro clean_intros)
  then have "validate_device_reply c m x = Inl e \<Longrightarrow> e = StructError" for c x
    using r(2) by (fastforce simp: clean_def broker_catches_def)
  moreover have "fromhex t \<noteq> Inl e" for t
    using clean_fromhex [of t e] r(2) by (auto simp: broker_catches_def)
  ultimately show ?thesis
    using r by (auto simp: broker_reply_def broker_latency_def rbind_Inl_iff rmap_Inl_iff dindex_def
        broker_catches_def split: if_splits option.splits)
qed

lemma broker_exchange_keeps:
  assumes "session_inv k s"
  shows "session_inv k (fst (broker_exchange cfg H s m))"
    and "record_ok m \<Longrightarrow> snd (broker_exchange cfg H s m) = Inl e \<Longrightarrow> escapes H e"
proof -
  show "session_inv k (fst (broker_exchange cfg H s m))"
    using assms by (auto simp: broker_exchange_def Let_def split: prod.split sum.split)
  show "escapes H e" if ok: "record_ok m" and that: "snd (broker_exchange cfg H s m) = Inl e"
  proof -
    obtain w0 began where w0: "ho_clock H (se_world s) = (w0, began)" by fastforce
    show ?thesis
    proof (cases "message_encode m")
      case (Inl x)
      then show ?thesis
        using that w0 record_ok_encode [OF ok Inl]
        by (auto simp: broker_exchange_def Let_def split: prod.splits if_splits)
    next
      case (Inr r)
      let ?d = "exchange_request_dict (sf_client_id cfg) r (dec (sf_pid cfg) @ ''-'' @ dec (msg_sequence m))
        (JFloat (sf_timeout cfg) (ho_float_repr H (sf_timeout cfg)))"
      obtain w1 response where c: "ho_call H w0 ?d = (w1, response)" by fastforce
      have "\<not> broker_catches e" "rbind response (broker_reply cfg H m) = Inl e"
        using that w0 Inr c by (auto simp: broker_exchange_def Let_def split: prod.splits sum.splits if_splits)
      moreover have "snd (ho_call H w0 ?d) = response" by (simp only: c snd_conv)
      ultimately show ?thesis
        using broker_reply_error [of cfg H m _ e] by (auto simp: rbind_Inl_iff escapes_def)
    qed
  qed
qed

lemma session_exchange_inv: "session_inv k s \<Longrightarrow> session_inv k (fst (session_exchange cfg H s m))"
  by (simp add: session_exchange_def hid_exchange_keeps(1) broker_exchange_keeps(1))

lemma session_exchange_safe: "record_ok m \<Longrightarrow> safe (session_inv k) (escapes H) (\<lambda>s. session_exchange cfg H s m)"
  by (rule safeI) (auto simp: session_exchange_def hid_exchange_keeps(1) broker_exchange_keeps(1)
      split: if_splits dest: hid_exchange_keeps(2) broker_exchange_keeps(2))

lemma service_ops_simps [simp]:
  "op_exchange (service_ops cfg H) = session_exchange cfg H"
  "op_sequence (service_ops cfg H) s = rs_value (se_sequence s)"
  "op_advance (service_ops cfg H) = advance_sequence"
  "op_activity (service_ops cfg H) = defer_periodic_probe cfg H"
  by (simp_all add: service_ops_def)

lemma advance_defer_inv [simp]:
  "session_inv k (advance_sequence n s) = session_inv k s"
  "session_inv k (defer_periodic_probe cfg H s) = session_inv k s"
  by (simp_all add: advance_sequence_def defer_periodic_probe_def split: prod.split)

interpretation sv: safe_ops "service_ops cfg H" "session_inv k" "escapes H" for cfg H k
  by unfold_locales (simp_all add: session_exchange_safe)

section \<open>The callbacks\<close>

lemma safe_upd [safe_intros]:
  "(\<And>s. session_inv k s \<Longrightarrow> session_inv k (f s)) \<Longrightarrow> safe (session_inv k) X (aupd f)"
  by (rule safe_aupd)

lemma safe_world [safe_intros]:
  "safe (session_inv k) X (monotonic H)" "safe (session_inv k) X (now_text H)"
  "safe (session_inv k) X (randbits H n)"
  by (auto simp: safe_def monotonic_def now_text_def randbits_def split: prod.split)

lemma safe_output [safe_intros]:
  "safe (session_inv k) X (print_event t)" "safe (session_inv k) X (report_failure H a b d)"
  unfolding print_event_def report_failure_def by (intro safe_intros; simp)+

lemma diagnostics_dict_error: "diagnostics_as_dict d = Inl e \<Longrightarrow> e = KeyError"
  by (auto simp: diagnostics_as_dict_def Let_def split: option.splits if_splits)

lemma safe_retain [safe_intros]: "safe (session_inv k) (escapes H) (retain H d)"
  unfolding retain_def
  by (intro safe_intros safe_ares) (auto simp: retain_diagnostics_def rmap_Inl_iff dest!: diagnostics_dict_error)

lemma safe_diagnostics_format [safe_intros]:
  "safe (session_inv k) (escapes H) (ares (diagnostics_format d))"
  by (intro safe_ares) (auto simp: diagnostics_format_def rmap_Inl_iff dest!: diagnostics_dict_error)

lemma safe_collect_diagnostics [safe_intros]: "safe (session_inv k) (escapes H) (collect_diagnostics cfg H w)"
  unfolding collect_diagnostics_def by (intro safe_intros sv.read_diagnostics_safe)

lemma safe_observe_fault [safe_intros]: "safe (session_inv k) (escapes H) (observe_fault cfg H)"
  unfolding observe_fault_def by (intro safe_intros) simp_all

lemma processor_label_known: "p \<in> {''intel-8086'', ''nec-v30''} \<Longrightarrow> \<exists>l. processor_label (Some p) = Inr l"
  by (auto simp: processor_label_def PROCESSOR_NAMES_def)

lemma witness_label: "processor_label (witness_processor w) = Inl e \<Longrightarrow> e = KeyError"
  using processor_label_known
  by (auto simp: witness_processor_def NATIVE_PROCESSOR_NAMES_def processor_label_def PROCESSOR_NAMES_def
      split: option.splits if_splits)

lemma ws_processor_result:
  "ws_processor w = Inl e \<Longrightarrow> e = KeyError" "ws_processor w = Inr (Some p) \<Longrightarrow> p \<in> {''intel-8086'', ''nec-v30''}"
  by (auto simp: ws_processor_def split: if_splits option.splits)

lemma safe_note_identity [safe_intros]: "safe (session_inv k) (escapes H) note_identity"
  unfolding note_identity_def
  by (intro safe_intros safe_ares_bind)
     (auto dest!: ws_processor_result processor_label_known)

lemma safe_announce_result [safe_intros]: "safe (session_inv k) X announce_result"
  unfolding announce_result_def by (intro safe_intros) simp_all

lemma observe_workload_no_error: "observe_workload now w e \<noteq> Inl x"
  using observe_workload_total [of now w e] by auto

lemma safe_accept_workload_state [safe_intros]: "safe (session_inv k) (escapes H) (accept_workload_state cfg H)"
  unfolding accept_workload_state_def
  by (intro safe_intros safe_ares) (auto simp: observe_workload_no_error)

lemma session_ops_simps [simp]:
  "op_exchange (session_ops cfg H) = session_exchange cfg H"
  "op_sequence (session_ops cfg H) s = rs_value (se_sequence s)"
  "op_advance (session_ops cfg H) = advance_sequence"
  "op_activity (session_ops cfg H) = defer_periodic_probe cfg H"
  "op_update (session_ops cfg H) = update_workload"
  "op_state_change (session_ops cfg H) = accept_workload_state cfg H"
  by (simp_all add: session_ops_def service_ops_def ops.defs)

lemma from_payload_id:
  assumes "from_payload p = Inr w"
  shows "0 \<le> ws_workload_id w \<and> ws_workload_id w \<le> 0xFFFFFFFF"
  using assms le_int_take_less [of 4 p] by (auto simp: from_payload_eq)

lemma update_workload_safe:
  "session_inv k s \<Longrightarrow> session_inv k (fst (update_workload p s))"
  "snd (update_workload p s) = Inl e \<Longrightarrow> \<exists>m. e = ValueError m"
proof -
  show "session_inv k s \<Longrightarrow> session_inv k (fst (update_workload p s))"
    by (auto simp: update_workload_def update_from_payload_def session_inv_def loop_part_def split: sum.split
        dest!: from_payload_id)
  show "snd (update_workload p s) = Inl e \<Longrightarrow> \<exists>m. e = ValueError m"
    by (auto simp: update_workload_def update_from_payload_def from_payload_def rmap_Inl_iff rbind_Inl_iff
        decode_structured_status_payload_def unpack_def split: sum.splits if_splits list.splits sval.splits)
qed

interpretation wk: safe_workload_ops "session_ops cfg H" "session_inv k" "escapes H" for cfg H k
  by unfold_locales
     (auto simp: session_exchange_safe update_workload_safe(1) safe_accept_workload_state dest: update_workload_safe(2))

lemma safe_announce_latencies [safe_intros]: "safe (session_inv k) X (announce_latencies t n i ls)"
  by (induction t n i ls rule: announce_latencies.induct) (auto intro: safe_intros)

lemma safe_transaction:
  "list_all record_ok ms \<Longrightarrow> safe (session_inv k) (escapes H) (perform_workload_transaction cfg H ms t b)"
  unfolding perform_workload_transaction_def Let_def by (intro safe_intros wk.transact_safe)

text \<open>Whatever workload id the invariant allows.\<close>

lemma control_record_error:
  "name \<in> {''status'', ''run'', ''stop'', ''restart''} \<Longrightarrow> 0 \<le> w \<Longrightarrow> w \<le> 0xFFFFFFFF \<Longrightarrow>
     control_record name w n = Inl e \<Longrightarrow> e = StructError"
  by (auto simp: control_record_def CONTROL_OPERATIONS_def rmap_Inl_iff simp del: pack.simps dest: pack_error)

lemma safe_control_transaction:
  "name \<in> {''status'', ''run'', ''stop'', ''restart''} \<Longrightarrow> 0 \<le> w \<Longrightarrow> w \<le> 0xFFFFFFFF \<Longrightarrow>
     safe (session_inv k) (escapes H) (control_transaction cfg H name w t b)"
  unfolding control_transaction_def
  by (intro safe_abind [OF safe_aget] safe_ares_bind safe_transaction)
     (use control_record_error [of name w] requests_ok(4) in fastforce)+

lemma safe_heartbeat [safe_intros]: "safe (session_inv k) (escapes H) (heartbeat H n)"
  unfolding heartbeat_def heartbeat_payload_def by (intro safe_intros safe_ares) (auto dest: pack_error)

lemma safe_exchange_act: "record_ok m \<Longrightarrow> safe (session_inv k) (escapes H) (exchange_act cfg H m)"
  unfolding exchange_act_def by (rule session_exchange_safe)

lemma heartbeat_result: "heartbeat H n s = (s', Inr p) \<Longrightarrow> p \<noteq> [] \<and> length p \<le> PAYLOAD_SIZE"
  by (auto simp: heartbeat_def heartbeat_payload_def HEARTBEAT_FORMAT_def abind_def ares_def randbits_def simp del: pack.simps
      split: prod.splits sum.splits dest!: length_pack)

lemma safe_identity_proof [safe_intros]: "safe (session_inv k) (escapes H) (accept_identity_proof cfg H n l w)"
  unfolding accept_identity_proof_def
  by (intro safe_intros safe_ares)
     (auto dest: witness_label)

lemma safe_heartbeat_bind:
  assumes "\<And>p. p \<noteq> [] \<Longrightarrow> length p \<le> PAYLOAD_SIZE \<Longrightarrow> safe (session_inv k) (escapes H) (f p)"
  shows "safe (session_inv k) (escapes H) (abind (heartbeat H n) f)"
proof -
  have "abind (heartbeat H n) f = abind (heartbeat H n)
      (\<lambda>p. if p \<noteq> [] \<and> length p \<le> PAYLOAD_SIZE then f p else athrow StructError)"
    using heartbeat_result [of H n] by (fastforce simp: fun_eq_iff abind_def split: prod.split sum.split)
  then show ?thesis using assms by (auto intro!: safe_intros safe_athrow)
qed

lemma safe_ensure_prepared [safe_intros]:
  "safe (session_inv k) (escapes H) (ensure_prepared_runtime_initialized cfg H)"
proof -
  have cl: "clean (witness_decode p)" for p by (intro clean_intros)
  have "safe (session_inv k) (escapes H) (case e of ValueError m \<Rightarrow> athen (print_event (t m)) (aret False)
      | e \<Rightarrow> athrow e)" if "witness_decode p = Inl e" for p t e
    using cl [of p] that by (auto simp: clean_def intro!: safe_intros safe_athrow split: exc.split)
  then show ?thesis
    unfolding ensure_prepared_runtime_initialized_def
    by (intro safe_if safe_aret safe_abind [OF safe_aget] safe_heartbeat_bind)
       (intro safe_intros safe_exchange_act; auto)
qed

lemma safe_directory [safe_intros]: "safe (session_inv k) (escapes H) (directory cfg H path)"
  using sv.read_directory_loop_safe [of k]
  by (fastforce simp: safe_def directory_def read_directory_def split: option.split)

lemma safe_completion_entries [safe_intros]:
  "safe (session_inv k) (escapes H) (remote_completion_entries cfg H token)"
  unfolding remote_completion_entries_def by (intro safe_intros)

end
