(* ===== verification/Command_Safety.thy ===== *)
theory Command_Safety
  imports Session_Safety
begin

unbundle bit_operations_syntax

text \<open>
  Every shell command of a session keeps the session's invariant, and reports mistakes of the operator,
  unreadable files and malformed replies of the device instead of raising them.
\<close>

section \<open>Building blocks\<close>

lemma safe_say [safe_intros]: "safe (session_inv k) X (say t d)"
  unfolding say_def by (intro safe_intros)

lemma safe_try_value:
  assumes "clean r" "X StructError" "X KeyError" "\<And>m. safe I X (bad m)" "\<And>x. r = Inr x \<Longrightarrow> safe I X (good x)"
  shows "safe I X (try_value r bad good)"
  using assms by (cases r) (auto simp: try_value_def clean_def intro: safe_athrow split: exc.split)

lemma safe_sequence [safe_intros]: "safe I X sequence_value"
  unfolding sequence_value_def by (intro safe_intros)

lemma host_list_path_error: "host_list_path (ho_expanduser H) p c = Inl e \<Longrightarrow> escapes H e"
  by (auto simp: host_list_path_def rbind_Inl_iff rmap_Inl_iff escapes_def Let_def split: if_splits option.splits)

lemma safe_host_path [safe_intros]: "safe (session_inv k) (escapes H) (host_path H p)"
  unfolding host_path_def by (intro safe_intros safe_ares) (auto dest: host_list_path_error)

section \<open>The commands\<close>

lemma safe_simple_commands [safe_intros]:
  "safe (session_inv k) (escapes H) (cmd_help a)" "safe (session_inv k) (escapes H) (cmd_pwd a)"
  "safe (session_inv k) (escapes H) (cmd_calc a)" "safe (session_inv k) (escapes H) (cmd_probe H)"
  unfolding cmd_help_def cmd_pwd_def cmd_calc_def cmd_probe_def
  by (intro safe_intros safe_try_value clean_intros; simp)+

lemma safe_cd [safe_intros]: "safe (session_inv k) (escapes H) (cmd_cd H a)"
proof -
  have "safe (session_inv k) (escapes H) (case e of OSError m \<Rightarrow> say (t m) Continue | e \<Rightarrow> athrow e)"
    if "ho_resolve H w p = Inl e" for w p e t
    using that by (cases e) (auto simp: escapes_def intro!: safe_intros safe_athrow)
  moreover have "ho_is_dir H w p = Inl e \<Longrightarrow> escapes H e" for w p e by (auto simp: escapes_def)
  ultimately show ?thesis unfolding cmd_cd_def Let_def by (intro safe_intros safe_ares; auto)
qed

lemma session_inv_id: "session_inv k s \<Longrightarrow> 0 \<le> ws_workload_id (se_workload s) \<and> ws_workload_id (se_workload s) \<le> 0xFFFFFFFF"
  by (simp add: session_inv_def)

lemma safe_status [safe_intros]: "safe (session_inv k) (escapes H) (cmd_status cfg H)"
  unfolding cmd_status_def
  by (rule safe_aget_bind [where Q = "\<lambda>w. 0 \<le> w \<and> w \<le> 0xFFFFFFFF"])
     (auto dest: session_inv_id intro!: safe_intros safe_control_transaction)

lemma parse_timeout_bounds: "parse_timeout a = Inr (Some t) \<Longrightarrow> 0 \<le> t \<and> t \<le> WORKLOAD_TIMEOUT_MAX_MS"
  by (auto simp: parse_timeout_def Let_def split: list.splits if_splits option.splits decimal.splits;
      linarith)

lemma safe_timeout [safe_intros]: "safe (session_inv k) (escapes H) (cmd_timeout cfg H a)"
proof -
  have "safe (session_inv k) (escapes H) (\<lambda>s. execution_timeout (service_ops cfg H) s t)"
    if "parse_timeout a = Inr t" for t
    using that by (intro sv.execution_timeout_safe parse_timeout_bounds) simp
  then show ?thesis
    unfolding cmd_timeout_def by (intro safe_try_value clean_intros safe_intros) simp_all
qed

lemma safe_save_trace [safe_intros]: "safe (session_inv k) (escapes H) (save_trace H p d)"
proof -
  have "safe (session_inv k) X (\<lambda>s. case ho_write_json H (se_world s) p d of (w, o') \<Rightarrow> (s\<lparr>se_world := w\<rparr>, Inr o'))"
    for p d and X :: "exc \<Rightarrow> bool"
    by (auto simp: safe_def split: prod.split)
  then show ?thesis
    unfolding save_trace_def
    by (intro safe_intros safe_ares) (auto dest: diagnostics_dict_error)
qed

lemma safe_trace [safe_intros]: "safe (session_inv k) (escapes H) (cmd_trace cfg H a)"
  unfolding cmd_trace_def by (intro safe_intros sv.read_diagnostics_safe)

section \<open>Workloads\<close>

lemma safe_fail_regression [safe_intros]: "safe (session_inv k) X (fail_regression cfg)"
  unfolding fail_regression_def by (intro safe_intros) simp_all

lemma safe_upload_workload: "list_all record_ok ms \<Longrightarrow> safe (session_inv k) (escapes H) (upload_workload cfg H a m ms)"
  unfolding upload_workload_def by (intro safe_intros safe_transaction; simp)

text \<open>What \<open>load\<close> got: records of this manifest and image.\<close>

definition prepared_upload :: "int \<Rightarrow> string + manifest \<times> bytes \<times> message list \<Rightarrow> bool" where
  "prepared_upload t x \<longleftrightarrow> (\<forall>m img ms. x = Inr (m, img, ms) \<longrightarrow> (\<exists>n. upload_records m img t n = Inr ms))"

lemma safe_bind_post:
  assumes "safe I X m" "\<And>s s' x. m s = (s', Inr x) \<Longrightarrow> Q x" "\<And>x. Q x \<Longrightarrow> safe I X (f x)"
  shows "safe I X (abind m f)"
proof -
  have "abind m f = abind m (\<lambda>x. if Q x then f x else aret undefined)"
    using assms(2) by (fastforce simp: fun_eq_iff abind_def split: prod.split sum.split)
  then show ?thesis using assms(1,3) by (auto intro!: safe_intros)
qed

lemma loaded_records:
  "workload_from_bytes b ws t n = Inr (m, img, ms) \<Longrightarrow> upload_records m img t n = Inr ms"
  by (auto simp: workload_from_bytes_def Let_def split: list.splits)

lemma workload_from_command_records:
  "workload_from_command rd ws t n = Inr (m, img, ms) \<Longrightarrow> upload_records m img t n = Inr ms"
  by (auto simp: workload_from_command_def split: list.splits sum.splits dest: loaded_records)

lemma load_workload_result: "load_workload cfg H a t s = (s', Inr x) \<Longrightarrow> prepared_upload t x"
  by (auto simp: load_workload_def prepared_upload_def abind_def ares_def aget_def aret_def sequence_value_def
      caught_def split: if_splits prod.splits sum.splits exc.splits
      dest: loaded_records workload_from_command_records)

lemma safe_caught_value: "clean r \<Longrightarrow> safe (session_inv k) (escapes H) (ares (caught r))"
  using clean_caught by (fastforce intro: safe_ares)

lemma safe_load_workload: "safe (session_inv k) (escapes H) (load_workload cfg H a t)"
  unfolding load_workload_def by (intro safe_intros sv.read_file_safe safe_caught_value clean_intros)

lemma safe_load [safe_intros]: "safe (session_inv k) (escapes H) (cmd_load cfg H a)"
  unfolding cmd_load_def
proof (rule safe_abind [OF safe_world(3)], rule safe_bind_post [OF safe_load_workload load_workload_result])
  fix t x
  assume x: "prepared_upload t x"
  have stop: "safe (session_inv k) (escapes H) (abind (aget se_workload) (\<lambda>w.
      if workload_upload_requires_stop (ws_lifecycle w)
      then athen (print_event line) (abind (control_transaction cfg H ''stop'' (ws_workload_id w) ''workload stop'' True) f)
      else g))"
    if "\<And>b. safe (session_inv k) (escapes H) (f b)" "safe (session_inv k) (escapes H) g" for f :: "bool \<Rightarrow> ('a, dispatch) act" and g line
    by (rule safe_aget_bind [where Q = "\<lambda>w. 0 \<le> ws_workload_id w \<and> ws_workload_id w \<le> 0xFFFFFFFF"])
       (auto dest: session_inv_id intro!: safe_intros safe_control_transaction that)
  have again: "safe (session_inv k) (escapes H) (abind (ares (upload_records m img t n)) (upload_workload cfg H a m))"
    if "x = Inr (m, img, ms)" for m img ms n
    using x that upload_records_sequence [of m img t _ n]
    by (intro safe_ares_bind safe_upload_workload)
       (auto simp: prepared_upload_def is_ok_iff dest: upload_records_encode)
  have first: "list_all record_ok ms" if "x = Inr (m, img, ms)" for m img ms
    using x that by (auto simp: prepared_upload_def dest: upload_records_encode)
  show "safe (session_inv k) (escapes H) (case x of
       Inl m \<Rightarrow> athen (report_failure H ''load'' m
                [(''source'', case a of [] \<Rightarrow> JNull | a # _ \<Rightarrow> JStr a)])
              (athen (print_event (''load: '' @ m)) (athen (fail_regression cfg) (aret Continue)))
     | Inr (m, img, records) \<Rightarrow>
         athen (print_event (upload_text m img))
         (abind (aget se_workload) (\<lambda>workload.
           if workload_upload_requires_stop (ws_lifecycle workload)
           then athen (print_event ''load: stopping active processor'')
             (abind (control_transaction cfg H ''stop'' (ws_workload_id workload) ''workload stop'' True) (\<lambda>stopped.
               if \<not> stopped then athen (fail_regression cfg) (aret Continue)
               else abind sequence_value (\<lambda>sequence.
                 abind (ares (upload_records m img t sequence)) (\<lambda>records'.
                   upload_workload cfg H a m records'))))
           else upload_workload cfg H a m records)))"
    by (intro safe_sum safe_prod safe_athen safe_output safe_fail_regression safe_aret stop safe_if
        safe_abind [OF safe_sequence] again safe_upload_workload first) auto
qed

lemma safe_control [safe_intros]:
  "name \<in> {''run'', ''stop'', ''restart''} \<Longrightarrow> safe (session_inv k) (escapes H) (cmd_control cfg H name)"
  unfolding cmd_control_def by (intro safe_intros safe_control_transaction) auto

section \<open>Files\<close>

lemma safe_send [safe_intros]: "safe (session_inv k) (escapes H) (cmd_send a)"
proof -
  have "clean (case calculator_payload a of Inl (ValueError _) \<Rightarrow> Inr b | r \<Rightarrow> r)" for b
    using clean_calculator [of a] by (auto simp: clean_def split: sum.splits exc.splits)
  then show ?thesis
    unfolding cmd_send_def Let_def by (intro safe_intros safe_try_value) auto
qed

lemma safe_ls [safe_intros]: "safe (session_inv k) (escapes H) (cmd_ls cfg H a)"
proof -
  have "safe (session_inv k) (escapes H)
      (try_value (format_host_directory listing (ho_expanduser H) path cwd) (\<lambda>m. say (t m) Continue) (\<lambda>m. say m Continue))"
    for listing path cwd t
  proof -
    have "escapes H e \<or> (\<exists>m. e = ValueError m)"
      if "format_host_directory listing (ho_expanduser H) path cwd = Inl e" for e
      using that host_list_path_error [of H path cwd e]
      by (cases "host_list_path (ho_expanduser H) path cwd")
         (auto simp: format_host_directory_def Let_def split: host_directory.splits)
    then show ?thesis
      by (cases "format_host_directory listing (ho_expanduser H) path cwd")
         (auto simp: try_value_def intro!: safe_intros safe_athrow split: exc.split)
  qed
  then show ?thesis unfolding cmd_ls_def Let_def by (intro safe_intros)
qed

lemma safe_df [safe_intros]: "safe (session_inv k) (escapes H) (cmd_df cfg H a)"
proof -
  have ok: "record_ok m \<and> msg_payload m \<noteq> []" if "df_request p n = Inr m" for p n m
    using fs_requests_ok(2) [OF that] by (simp add: record_ok_def)
  show ?thesis
    unfolding cmd_df_def Let_def
    by (intro safe_if safe_say safe_abind [OF safe_sequence] safe_try_value clean_intros escapes_basic)
       (use ok in \<open>intro safe_abind [OF sv.filesystem_request_safe] safe_sum safe_say safe_try_value
          clean_fs_replies escapes_basic; blast\<close>)+
qed

lemma safe_cat [safe_intros]: "safe (session_inv k) (escapes H) (cmd_cat cfg H a)"
  unfolding cmd_cat_def Let_def by (intro safe_intros sv.read_file_safe)

lemma safe_put_records [safe_intros]:
  "list_all record_ok ms \<Longrightarrow> safe (session_inv k) (escapes H) (put_records cfg H n ms)"
  by (induction ms arbitrary: n) (auto intro!: safe_intros sv.filesystem_request_safe)

lemma safe_put [safe_intros]: "safe (session_inv k) (escapes H) (cmd_put cfg H a)"
  unfolding cmd_put_def
  by (intro safe_intros safe_try_value clean_intros) (auto dest: write_records_encode)

section \<open>Memory\<close>

text \<open>Inside the \<open>try\<close> of \<open>mem\<close>, \<open>OSError\<close> and \<open>ValueError\<close> are allowed.\<close>

abbreviation mem_escapes :: "'w host \<Rightarrow> exc \<Rightarrow> bool" where
  "mem_escapes H e \<equiv> escapes H e \<or> (\<exists>m. e = ValueError m) \<or> (\<exists>m. e = OSError m)"

lemma safe_mem_value: "clean r \<Longrightarrow> safe (session_inv k) (mem_escapes H) (ares r)"
  by (rule safe_ares) (auto simp: clean_def)

lemma mem_weaken: "safe (session_inv k) (escapes H) m \<Longrightarrow> safe (session_inv k) (mem_escapes H) m"
  by (erule safe_weaken) simp

lemmas safe_mem_services = sv.read_memory_safe [THEN mem_weaken] sv.write_memory_safe [THEN mem_weaken]
  safe_host_path [THEN mem_weaken]

lemma safe_mem_read: "safe (session_inv k) (mem_escapes H) (mem_read cfg H a n)"
  unfolding mem_read_def by (intro safe_intros safe_athrow safe_mem_services) auto

lemma safe_mem_store: "safe (session_inv k) (mem_escapes H) (mem_store cfg H p a d t)"
  unfolding mem_store_def by (intro safe_intros safe_mem_services)

lemma safe_mem_load: "safe (session_inv k) (mem_escapes H) (mem_load cfg H p a)"
  unfolding mem_load_def
  by (intro safe_intros safe_athrow safe_mem_services safe_mem_store safe_mem_value clean_intros) auto

lemma safe_mem_save: "safe (session_inv k) (mem_escapes H) (mem_save cfg H a n p)"
proof -
  have "safe (session_inv k) X (\<lambda>s. case ho_write_bytes H (se_world s) p d of (w, o') \<Rightarrow> (s\<lparr>se_world := w\<rparr>, Inr o'))"
    for p d and X :: "exc \<Rightarrow> bool"
    by (auto simp: safe_def split: prod.split)
  then show ?thesis
    unfolding mem_save_def
    by (intro safe_intros safe_athrow safe_mem_services safe_mem_value clean_intros) auto
qed

lemma safe_mem [safe_intros]: "safe (session_inv k) (escapes H) (cmd_mem cfg H a)"
proof -
  have op: "safe (session_inv k) (mem_escapes H) (mem_operation cfg H p r)" for p r
    unfolding mem_operation_def
    by (intro safe_intros safe_athrow safe_mem_value safe_mem_read safe_mem_store safe_mem_load safe_mem_save
        clean_intros) auto
  show ?thesis
    unfolding cmd_mem_def
    by (intro safe_intros safe_acatch [OF op]) (auto intro: safe_intros split: exc.splits)
qed

section \<open>The mailbox\<close>

lemma safe_mailbox_send: "list_all record_ok ms \<Longrightarrow> safe (session_inv k) (escapes H) (mailbox_send cfg H ms)"
  by (induction ms) (auto intro!: safe_intros sv.memory_request_safe)

lemma safe_mailbox_wait: "safe (session_inv k) (escapes H) (mailbox_wait cfg H n d g)"
proof (induction n)
  case (Suc n)
  show ?case
    unfolding mailbox_wait.simps
    by (intro safe_intros sv.read_memory_safe safe_try_value clean_intros Suc) simp_all
qed (simp add: safe_athrow)

lemma safe_mailbox [safe_intros]: "safe (session_inv k) (escapes H) (cmd_mailbox cfg H a)"
proof -
  have result: "safe (session_inv k) (escapes H) (mailbox_result cfg H g h)" for g h
    unfolding mailbox_result_def by (intro safe_intros sv.read_memory_safe)
  have "safe (session_inv k) (escapes H) (mailbox_exchange cfg H d g)" for d g
    unfolding mailbox_exchange_def
    by (intro safe_intros safe_try_value clean_intros safe_mailbox_send safe_mailbox_wait result)
       (auto dest: mailbox_commit_ok)
  then show ?thesis
    unfolding cmd_mailbox_def Let_def
    by (intro safe_intros safe_try_value clean_intros sv.read_memory_safe) simp_all
qed

section \<open>Dispatch\<close>

lemma safe_display [safe_intros]: "safe (session_inv k) X (cmd_display name)"
  unfolding cmd_display_def by (intro safe_intros) simp_all

lemma safe_run_command [safe_intros]: "safe (session_inv k) (escapes H) (run_command cfg H c)"
  unfolding run_command_def Let_def by (intro safe_intros) auto

lemma safe_execute_line [safe_intros]: "safe (session_inv k) (escapes H) (execute_line cfg H line)"
  unfolding execute_line_def by (intro safe_intros safe_try_value clean_intros) simp_all

end
