(* ===== verification/Session_Verdicts.thy ===== *)
theory Session_Verdicts
  imports Command_Safety
begin

unbundle bit_operations_syntax

text \<open>
  What the main loop of a session guarantees: its verdicts, its exit code and the document it writes,
  the answers to the clients of its broker, and the containment of command errors.
\<close>

section \<open>What an iteration keeps\<close>

text \<open>Without the broker and the answers, which the loop changes.\<close>

definition kept :: "bool \<Rightarrow> 'w session \<Rightarrow> bool" where
  "kept k s \<longleftrightarrow> 0 \<le> ws_workload_id (se_workload s) \<and> ws_workload_id (se_workload s) \<le> 0xFFFFFFFF
     \<and> se_regression_passed s \<noteq> Some True \<and> se_identity_failed s = k"

abbreviation anything :: "exc \<Rightarrow> bool" where
  "anything e \<equiv> True"

lemma kept_inv: "kept k s \<longleftrightarrow> session_inv (k, se_answers s, se_broker s) s"
  by (auto simp: kept_def session_inv_def loop_part_def)

lemma kept_safe:
  assumes "\<And>k. safe (session_inv k) (X :: exc \<Rightarrow> bool) m"
  shows "safe (kept k) anything m"
proof (rule safeI)
  fix s :: "'a session"
  assume "kept k s"
  then have "session_inv (k, se_answers s, se_broker s) (fst (m s))"
    using assms [of "(k, se_answers s, se_broker s)"] by (auto simp: kept_inv safe_def)
  then show "kept k (fst (m s))" by (auto simp: kept_def session_inv_def loop_part_def)
qed simp

lemmas kept_commands =
  safe_execute_line [THEN kept_safe] safe_accept_workload_state [THEN kept_safe]
  safe_output [THEN kept_safe] safe_world [THEN kept_safe] safe_heartbeat [THEN kept_safe]
  safe_completion_entries [THEN kept_safe]

lemma kept_upd: "(\<And>s. kept k s \<Longrightarrow> kept k (f s)) \<Longrightarrow> safe (kept k) anything (aupd f)"
  by (rule safe_aupd)

lemma kept_exchange: "safe (kept k) anything (exchange_act cfg H m)"
  by (rule kept_safe [where X = anything]) (simp add: safe_def exchange_act_def session_exchange_inv)

lemma kept_fields:
  "se_workload s' = se_workload s \<Longrightarrow> se_regression_passed s' = se_regression_passed s \<Longrightarrow>
     se_identity_failed s' = se_identity_failed s \<Longrightarrow> kept k s' = kept k s"
  by (simp add: kept_def)

lemma kept_drain: "kept k s \<Longrightarrow> kept k (drain_cdc cfg H s)"
  using drain_cdc_inv [of "(k, se_answers s, se_broker s)" s cfg H]
  by (auto simp: kept_inv) (auto simp: session_inv_def loop_part_def)

lemma kept_update: "safe (kept k) anything (update_workload p)"
  by (rule kept_safe [where X = anything]) (simp add: safe_def update_workload_safe(1))

lemma kept_control:
  assumes "0 \<le> w" "w \<le> 0xFFFFFFFF"
  shows "safe (kept k) anything (control_transaction cfg H ''status'' w t b)"
  by (rule kept_safe, rule safe_control_transaction) (use assms in auto)

lemma kept_id: "kept k s \<Longrightarrow> 0 \<le> ws_workload_id (se_workload s) \<and> ws_workload_id (se_workload s) \<le> 0xFFFFFFFF"
  by (simp add: kept_def)

named_theorems kept_intros

lemmas [kept_intros] = safe_aret safe_aget safe_abind safe_athen safe_awhen safe_if safe_option safe_sum
  safe_prod safe_list safe_let safe_afor kept_commands kept_exchange kept_update kept_upd

lemma kept_forward [kept_intros]: "safe (kept k) anything (forward_request cfg H r)"
  unfolding forward_request_def
  by (intro kept_intros safe_ares) (simp_all add: kept_def advance_sequence_def)

lemma kept_serve_exchange [kept_intros]: "safe (kept k) anything (serve_exchange cfg H x)"
proof -
  have "safe (kept k) anything (acatch (forward_request cfg H r) (exchange_handler H))" for r
    by (rule safe_acatch [OF kept_forward])
       (auto simp: exchange_handler_def Let_def intro: safe_aret split: exc.splits)
  then show ?thesis
    unfolding serve_exchange_def answer_future_def by (intro kept_intros) (simp_all add: kept_def)
qed

lemma kept_serve_control [kept_intros]: "safe (kept k) anything (serve_control H c)"
proof -
  have "safe (kept k) anything (status_request H t)" for t
    by (auto simp: safe_def status_request_def Let_def kept_def split: prod.split)
  moreover have "safe (kept k) anything (runtime_control H o' t)" for o' t
    by (auto simp: safe_def runtime_control_def Let_def kept_def split: prod.split)
  ultimately have "safe (kept k) anything (control_body H c)"
    unfolding control_body_def by (intro kept_intros safe_athrow; simp add: kept_def)
  then have "safe (kept k) anything (acatch (control_body H c) control_handler)"
    by (rule safe_acatch) (auto simp: control_handler_def Let_def intro: safe_aret split: exc.splits)
  then show ?thesis
    unfolding serve_control_def answer_future_def by (intro kept_intros) (simp_all add: kept_def)
qed

lemma kept_service [kept_intros]: "safe (kept k) anything (service_broker_requests cfg H)"
  unfolding service_broker_requests_def take_control_def publish_snapshot_def
  by (intro kept_intros) (simp_all add: kept_def)

lemma kept_status:
  assumes "\<And>x. safe (kept k) anything (f x)"
  shows "safe (kept k) anything (abind (aget (\<lambda>s. ws_workload_id (se_workload s)))
    (\<lambda>w. abind (control_transaction cfg H ''status'' w t b) f))"
  by (rule safe_aget_bind [where Q = "\<lambda>w. 0 \<le> w \<and> w \<le> 0xFFFFFFFF"])
     (auto dest: kept_id intro!: safe_abind kept_control assms)

lemma kept_refresh [kept_intros]: "safe (kept k) anything (refresh_completion cfg H)"
  unfolding refresh_completion_def
  by (rule safe_abind [OF safe_aget], rule safe_awhen, rule safe_athen, rule kept_upd, simp add: kept_def,
      rule kept_status, rule safe_aret)

lemma kept_poll [kept_intros]: "safe (kept k) anything (poll_regression cfg H)"
  unfolding poll_regression_def
  by (rule safe_abind [OF safe_aget], rule safe_awhen, rule safe_abind, rule kept_commands,
      rule safe_abind [OF safe_aget], rule safe_awhen, rule kept_status, rule safe_aret)

lemma kept_report_failure: "kept k s \<Longrightarrow> kept k (fst (report_failure H a b d s))"
  by (auto simp: report_failure_def abind_def aupd_def now_text_def kept_def split: prod.split)

text \<open>A passing verdict: the workload has the evidence of a physical pass, and the loop stops.\<close>

definition verdict_passed :: "bool \<Rightarrow> 'w session \<Rightarrow> bool" where
  "verdict_passed k s \<longleftrightarrow> se_stop s \<and> se_regression_passed s = Some True
     \<and> physical_regression_passed (se_workload s) \<and> se_identity_failed s = k"

lemma verdict_cases:
  assumes "kept k s" "regression_verdict H s = (s', r)"
  shows "kept k s' \<or> (verdict_passed k s' \<and> r = Inr True)"
proof -
  have no: "safe (kept k) anything (conclude False t)" for t
    unfolding conclude_def by (intro kept_intros) (simp_all add: kept_def)
  have dead: "safe (kept k) anything (deadline_verdict H)"
    unfolding deadline_verdict_def by (intro kept_intros no)
  have failed: "safe (kept k) anything (athen (report_failure H a b d) (conclude False t))" for a b d t
    by (intro kept_intros no)
  show ?thesis
  proof (cases "se_regression_started s \<and> ws_completed (se_workload s) \<and> physical_regression_passed (se_workload s)")
    case True
    then show ?thesis
      using assms by (auto simp: regression_verdict_def abind_def aget_def conclude_def athen_def aupd_def
          aret_def print_event_def verdict_passed_def kept_def)
  next
    case False
    have "\<exists>m. safe (kept k) anything m \<and> regression_verdict H s = m s"
    proof (cases "se_regression_started s \<and> (ws_completed (se_workload s) \<or> ws_lifecycle (se_workload s) \<in> {6, 7})")
      case True
      with False obtain a b t where
          "regression_verdict H s = athen (report_failure H a b []) (conclude False t) s"
        by (cases "ws_completed (se_workload s)") (auto simp: regression_verdict_def abind_def aget_def)
      then show ?thesis using failed by blast
    next
      case other: False
      then have "regression_verdict H s = deadline_verdict H s"
        by (auto simp: regression_verdict_def abind_def aget_def)
      then show ?thesis using dead by blast
    qed
    then show ?thesis using assms by (metis safeD(1))
  qed
qed

lemma kept_next_command [kept_intros]: "safe (kept k) anything (next_command cfg H)"
proof -
  have history: "safe (kept k) anything (apply_history d)" for d
    unfolding apply_history_def by (intro kept_intros) (simp add: kept_def Let_def split: prod.split)
  have complete: "safe (kept k) anything (apply_completion cfg H)"
    unfolding apply_completion_def Let_def by (intro kept_intros) (simp_all add: kept_def)
  have keys: "safe (kept k) anything (\<lambda>s. let (w, keys) = ho_keys H (se_world s);
       e = fst (read_terminal_command (ho_printable H) (ho_strip H) (ho_tty H) keys (se_buffer s) (se_cursor s)) in
       (s\<lparr>se_world := w, se_buffer := ed_buffer e, se_cursor := ed_cursor e\<rparr>, Inr e))"
    by (auto simp: safe_def kept_def Let_def split: prod.split)
  have "safe (kept k) anything (read_command cfg H)"
    unfolding read_command_def by (intro kept_intros keys history complete) (simp_all add: kept_def)
  then show ?thesis
    unfolding next_command_def by (intro kept_intros) (simp_all add: kept_def)
qed

lemma kept_send_iteration [kept_intros]: "safe (kept k) anything (send_iteration_request cfg H t p c)"
proof -
  have amend: "safe (kept k) anything (amend_event d)" for d
    unfolding amend_event_def by (intro kept_intros) (simp add: kept_def)
  have accept: "safe (kept k) anything (accept_reply cfg r)" for r
    unfolding accept_reply_def announce_identity_def
    by (intro kept_intros safe_ares amend) (simp_all add: kept_def)
  have reply: "safe (kept k) anything (report_reply n t l c r)" for n l r
    unfolding report_reply_def by (intro kept_intros safe_ares) (simp_all add: kept_def)
  have none: "safe (kept k) anything (report_no_reply n t l c e)" for n l e
    unfolding report_no_reply_def Let_def
    by (intro kept_intros amend) (simp_all add: kept_def update_console_runtime_def Let_def)
  show ?thesis
    unfolding send_iteration_request_def sequence_value_def publish_snapshot_def
    by (intro kept_intros accept reply none)
       (simp_all add: kept_def advance_sequence_def defer_periodic_probe_def split: prod.split)
qed

lemma kept_dispatch [kept_intros]: "safe (kept k) anything (dispatch_command cfg H c)"
proof -
  have periodic: "safe (kept k) anything (periodic cfg H)"
    unfolding periodic_def sequence_value_def by (intro kept_intros) (simp_all add: kept_def)
  have d: "safe (kept k) anything (case d of Continue \<Rightarrow> aret () | Proceed \<Rightarrow> periodic cfg H
     | Request t p \<Rightarrow> athen (monotonic H) (send_iteration_request cfg H t p True))" for d
    by (cases d) (auto intro: kept_intros periodic)
  show ?thesis unfolding dispatch_command_def by (intro kept_intros d)
qed

text \<open>The state after an iteration, whether or not it raised.\<close>

definition concluded :: "bool \<Rightarrow> 'w session \<Rightarrow> bool" where
  "concluded k s \<longleftrightarrow> kept k s \<or> verdict_passed k s"

lemma kept_concluded: "kept k s \<Longrightarrow> concluded k s"
  by (simp add: concluded_def)

lemma concluded_bind:
  assumes "safe (kept k) anything m" "\<And>x s. kept k s \<Longrightarrow> concluded k (fst (f x s))" "kept k s"
  shows "concluded k (fst (abind m f s))"
proof -
  obtain s' r where m: "m s = (s', r)" by fastforce
  have "kept k s'" using safeD(1) [OF assms(1,3) m] .
  then show ?thesis using m assms(2) by (cases r) (auto simp: abind_def concluded_def)
qed

lemma iteration_concluded: "kept k s \<Longrightarrow> concluded k (fst (iteration cfg H s))"
proof -
  have net: "safe (kept k) anything (aupd (network_activity H))" "safe (kept k) anything (aupd (drain_cdc cfg H))"
    by (intro kept_upd; auto simp: network_activity_def kept_def Let_def split: option.split prod.split)
       (intro kept_upd kept_drain; assumption)
  have stop: "safe (kept k) anything (athen (print_event e) (aupd (\<lambda>s. s\<lparr>se_stop := True\<rparr>)))" for e
    by (intro kept_intros) (simp add: kept_def)
  have cont: "safe (kept k) anything (abind (next_command cfg H) (dispatch_command cfg H))"
    by (intro kept_intros)
  have verdict: "concluded k (fst (abind (regression_verdict H) (\<lambda>c. awhen (\<not> c)
      (abind (next_command cfg H) (dispatch_command cfg H))) s))" if "kept k s" for s
  proof -
    obtain s' r where v: "regression_verdict H s = (s', r)" by fastforce
    show ?thesis
      using verdict_cases [OF that v] v cont
      by (cases r) (auto simp: abind_def awhen_def aret_def concluded_def safe_def)
  qed
  show "kept k s \<Longrightarrow> concluded k (fst (iteration cfg H s))"
    unfolding iteration_def athen_def
  proof (rule concluded_bind [OF net(1)], rule concluded_bind [OF kept_service], rule concluded_bind [OF net(2)],
      rule concluded_bind [OF safe_aget])
    fix e s
    assume "kept k (s :: 'a session)"
    then show "concluded k (fst ((case e of
        Some e \<Rightarrow> abind (print_event e) (\<lambda>_. aupd (\<lambda>s. s\<lparr>se_stop := True\<rparr>))
      | None \<Rightarrow> abind (refresh_completion cfg H) (\<lambda>_. abind (poll_regression cfg H) (\<lambda>_.
          abind (regression_verdict H) (\<lambda>concluded.
             awhen (\<not> concluded) (abind (next_command cfg H) (dispatch_command cfg H)))))) s))"
      using stop [unfolded athen_def]
      by (cases e) (auto simp: safe_def intro: kept_concluded intro!: concluded_bind [OF kept_refresh]
          concluded_bind [OF kept_poll] verdict)
  qed
qed

lemma loop_concluded: "concluded k s \<Longrightarrow> concluded k (fst (session_loop n cfg H s))"
proof (induction n arbitrary: s)
  case (Suc n)
  show ?case
  proof (cases "goes_on cfg s")
    case True
    then have "kept k s" using Suc.prems by (auto simp: concluded_def verdict_passed_def goes_on_def)
    obtain s' r where i: "iteration cfg H s = (s', r)" by fastforce
    then have "concluded k s'" using iteration_concluded [OF \<open>kept k s\<close>, of cfg H] by simp
    then show ?thesis
      using Suc.IH True i by (cases r) (auto simp: abind_def athen_def aget_def awhen_def)
  next
    case False
    then show ?thesis using Suc.prems by (simp add: abind_def aget_def awhen_def aret_def)
  qed
qed (simp add: athrow_def)

section \<open>The end of a session\<close>

lemma physical_mark_idle [simp]: "physical_regression_passed (mark_idle w) = physical_regression_passed w"
  by (simp add: physical_regression_passed_def mark_idle_def ws_completed_def ws_passed_def processor_identified_def)

lemma drain_physical:
  assumes "physical_regression_passed (se_workload s)"
  shows "physical_regression_passed (se_workload (drain_cdc cfg H s))"
proof -
  have e: "physical_regression_passed (se_workload (cdc_event cfg l s))"
    if "physical_regression_passed (se_workload s)" for s :: "'a session" and l
    using that by (simp add: cdc_event_def Let_def print_event_def aupd_def update_console_runtime_def)
  have "physical_regression_passed (se_workload (foldl (\<lambda>s l. cdc_event cfg l s) s ls))"
    if "physical_regression_passed (se_workload s)" for s :: "'a session" and ls
    using that by (induction ls arbitrary: s) (auto intro: e)
  then show ?thesis
    using assms by (auto simp: drain_cdc_def drain_input_def split: prod.split sum.split)
qed

lemma drain_fields [simp]:
  "se_identity_failed (drain_cdc cfg H s) = se_identity_failed s"
  "se_regression_passed (drain_cdc cfg H s) = se_regression_passed s"
proof -
  have e: "se_identity_failed (cdc_event cfg l s) = se_identity_failed s
      \<and> se_regression_passed (cdc_event cfg l s) = se_regression_passed s" for s :: "'a session" and l
    by (simp add: cdc_event_def Let_def print_event_def aupd_def update_console_runtime_def)
  have "se_identity_failed (foldl (\<lambda>s l. cdc_event cfg l s) s ls) = se_identity_failed s
      \<and> se_regression_passed (foldl (\<lambda>s l. cdc_event cfg l s) s ls) = se_regression_passed s"
    for s :: "'a session" and ls
    by (induction ls arbitrary: s) (simp_all add: e)
  then show "se_identity_failed (drain_cdc cfg H s) = se_identity_failed s"
    "se_regression_passed (drain_cdc cfg H s) = se_regression_passed s"
    by (auto simp: drain_cdc_def drain_input_def split: prod.split sum.split)
qed

text \<open>The verdict of the start: without a failed assertion the device named the expected processor.\<close>

definition judged :: "session_config \<Rightarrow> 'w session \<Rightarrow> bool" where
  "judged cfg s \<longleftrightarrow> (\<exists>p. ws_processor (se_workload s) = Inr p
     \<and> (se_identity_failed s \<longleftrightarrow> expected_processor cfg \<noteq> None \<and> p \<noteq> expected_processor cfg))"

lemma judged_output:
  "safe (judged cfg) anything (print_event t)" "safe (judged cfg) anything (report_failure H a b d)"
  unfolding print_event_def report_failure_def
  by (intro safe_aupd safe_abind; auto simp: judged_def safe_def now_text_def split: prod.split)+

text \<open>The part of the start after the first status request.\<close>

lemma startup_verdict:
  fixes s0 :: "'w session"
  assumes "kept k s0" "ws_processor (se_workload s0) = Inr p"
    and "f = (expected_processor cfg \<noteq> None \<and> p \<noteq> expected_processor cfg)"
    and "athen (aupd (\<lambda>s. s\<lparr>se_identity_failed := f\<rparr>))
     (athen (awhen f (athen (report_failure H a b d) (athen (print_event t) (aupd (\<lambda>s. s\<lparr>se_stop := True\<rparr>)))))
     (awhen g (athen (report_failure H a' b' d') (athen (print_event t')
       (aupd (\<lambda>s. s\<lparr>se_regression_passed := Some False, se_regression_commands := [], se_stop := True\<rparr>))))))
     s0 = (s1, r)"
  shows "kept f s1" "judged cfg s1"
proof -
  let ?s = "s0\<lparr>se_identity_failed := f\<rparr>"
  let ?m = "athen (awhen f (athen (report_failure H a b d) (athen (print_event t) (aupd (\<lambda>s. s\<lparr>se_stop := True\<rparr>)))))
     (awhen g (athen (report_failure H a' b' d') (athen (print_event t')
       (aupd (\<lambda>s. s\<lparr>se_regression_passed := Some False, se_regression_commands := [], se_stop := True\<rparr>)))))"
  have m: "?m ?s = (s1, r)" using assms(4) by (simp add: athen_def [of "aupd _"] abind_def aupd_def)
  have "kept f ?s" using assms(1) by (simp add: kept_def)
  moreover have "safe (kept f) anything ?m" by (intro kept_intros) (simp_all add: kept_def)
  ultimately show "kept f s1" using m by (metis safeD(1))
  have "judged cfg ?s" using assms(2,3) by (simp add: judged_def)
  moreover have "safe (judged cfg) anything ?m"
    by (intro safe_athen safe_awhen judged_output safe_aupd) (simp_all add: judged_def)
  ultimately show "judged cfg s1" using m by (metis safeD(1))
qed

lemma startup_kept:
  assumes "startup cfg H s = (s1, r)" "kept k s"
  shows "kept (se_identity_failed s1) s1" "r = Inr () \<Longrightarrow> judged cfg s1"
proof -
  obtain s0 ok where c: "control_transaction cfg H ''status'' 0 ''attached runtime'' True s = (s0, ok)" by fastforce
  have s0: "kept k s0" using safeD(1) [OF kept_control assms(2) c] by simp
  have "kept (se_identity_failed s1) s1 \<and> (r = Inr () \<longrightarrow> judged cfg s1)"
  proof (cases ok)
    case (Inl e)
    then show ?thesis using assms(1) c s0 by (auto simp: startup_def abind_def kept_def)
  next
    case (Inr b)
    let ?t = "if b then s0 else s0\<lparr>se_prepared := False\<rparr>"
    obtain p where p: "ws_processor (se_workload s0) = Inr p" using ws_processor_total by blast
    have t: "kept k ?t" "ws_processor (se_workload ?t) = Inr p" using s0 p by (simp_all add: kept_def)
    have "startup cfg H s = (let f = (expected_processor cfg \<noteq> None \<and> p \<noteq> expected_processor cfg);
        o' = ''expected '' @ error_text (expected_processor cfg) @ '', observed '' @ or_unproven p in
      athen (aupd (\<lambda>s. s\<lparr>se_identity_failed := f\<rparr>))
       (athen (awhen f (athen (report_failure H ''processor identity assertion'' o' [])
          (athen (print_event (''processor identity assertion: FAILED: '' @ o')) (aupd (\<lambda>s. s\<lparr>se_stop := True\<rparr>)))))
       (awhen (regression cfg \<noteq> None \<and> (\<not> b \<or> \<not> processor_identified (se_workload s0) \<or> f))
         (athen (report_failure H ''physical regression''
                 ''startup status or firmware processor identity unavailable'' [])
         (athen (print_event (''PHYSICAL REGRESSION: FAIL ''
                 @ ''(startup status or firmware processor identity unavailable)''))
         (aupd (\<lambda>s. s\<lparr>se_regression_passed := Some False, se_regression_commands := [], se_stop := True\<rparr>)))))))
      ?t"
      using c Inr p
      by (simp add: startup_def abind_def [of "control_transaction cfg H a b d e" for a b d e]
          athen_def [of "awhen x y" for x y] abind_def [of "awhen x y" for x y] abind_def [of "aget g" for g]
          abind_def [of "ares g" for g] aget_def ares_def awhen_def [of "\<not> b"] aupd_def aret_def)
    from startup_verdict [OF t refl, OF this [symmetric, unfolded assms(1) Let_def]] show ?thesis
      by (auto simp: kept_def)
  qed
  then show "kept (se_identity_failed s1) s1" "r = Inr () \<Longrightarrow> judged cfg s1" by auto
qed

lemma exit_code_cases:
  "exit_code cfg s = PASS_EXIT \<longleftrightarrow> failure_reasons cfg s = []"
  "exit_code cfg s = TRANSPORT_EXIT \<longleftrightarrow> se_transport_error s \<noteq> None"
  "exit_code cfg s \<in> {PASS_EXIT, TRANSPORT_EXIT, VALIDATION_EXIT}"
  by (auto simp: exit_code_def failure_reasons_def split: option.splits if_splits)

text \<open>A session that returns: the start and the loop returned, and the final state is the drained one.\<close>

lemma monitor_returns:
  assumes "persistent_monitor n cfg H started finished hid s = (s', Inr (files, code))"
  obtains s1 s2 where "startup cfg H s = (s1, Inr ())" "session_loop n cfg H s1 = (s2, Inr ())"
    "s' = (drain_cdc cfg H s2)\<lparr>se_broker := map_option quiesce (se_broker (drain_cdc cfg H s2))\<rparr>"
    "\<exists>summary. session_summary cfg H started finished hid s' = Inr summary
       \<and> files = evidence_write (ho_absolute H) summary (se_evidence s')" "code = exit_code cfg s'"
proof -
  obtain s1 r1 where 1: "startup cfg H s = (s1, r1)" by fastforce
  obtain s2 r2 where 2: "session_loop n cfg H s1 = (s2, r2)" by fastforce
  show ?thesis
    using assms 1 2 that by (cases r1; cases r2) (auto simp: persistent_monitor_def session_result_def Let_def)
qed

text \<open>
  A host for the witnesses: its clock stands still, the device reads nothing of what is written to
  it, and there is no broker to call.
\<close>

definition demo_host :: "unit host" where
  "demo_host = \<lparr>ho_clock = \<lambda>w. (w, 0), ho_now = \<lambda>w. (w, ''now''), ho_randbits = \<lambda>n w. (w, 7),
     ho_hid = \<lambda>w m. (w, \<lparr>hw_began = 0, hw_queued = [Inr []], hw_write = Inr 0, hw_now = 0, hw_ticks = [], hw_after = []\<rparr>),
     ho_cdc = \<lambda>w. (w, Inr []), ho_call = \<lambda>w d. (w, Inl (OSError ''refused'')),
     ho_read_bytes = \<lambda>w p. Inr [0xF4], ho_write_bytes = \<lambda>w p b. (w, None), ho_write_json = \<lambda>w p d. (w, None),
     ho_expanduser = Inr, ho_home = ''/'', ho_resolve = \<lambda>w p. Inr p, ho_absolute = \<lambda>p. p, ho_is_dir = \<lambda>w p. Inr True,
     ho_listing = \<lambda>w p. HostMissing, ho_float = \<lambda>v. Inr 0, ho_float_repr = \<lambda>x. ''0.0'',
     ho_network = \<lambda>w b. (w, b), ho_status = \<lambda>w. (w, 0, []), ho_control = \<lambda>w b. (w, [], Inl [], 0, []),
     ho_keys = \<lambda>w. (w, []), ho_tty = False, ho_printable = \<lambda>c. True, ho_strip = \<lambda>s. s, ho_casefold = \<lambda>s. s,
     ho_host_matches = \<lambda>w a b. [], ho_fuel = 5\<rparr>"

definition demo_config :: "string \<Rightarrow> string option \<Rightarrow> session_config" where
  "demo_config processor workload = \<lparr>sf_processor = processor, sf_timeout = 1, sf_interval = 1,
     sf_interactive = False, sf_rounds = 0, sf_native_probe = False, sf_regression_workload = workload,
     sf_client_id = ''c'', sf_pid = 1\<rparr>"

definition demo_session :: "session_config \<Rightarrow> broker option \<Rightarrow> unit session" where
  "demo_session cfg owner = projr (new_session cfg ''quiet'' 1 0 60 (create ''out'' ''t'') ''/'' owner ())"

definition demo_run :: "unit session \<times> (evidence_files \<times> int) res" where
  "demo_run = (let cfg = demo_config ''nec-v30'' None in
     persistent_monitor 1 cfg demo_host ''a'' ''b'' [] (demo_session cfg (Some (DeviceBroker ''d'' ''nec-v30''))))"

lemma demo_run_code: "map_sum id snd (snd demo_run) = Inr VALIDATION_EXIT"
  by code_simp

text \<open>C7. The exit code and the document that is written agree: the session exits with
  \<open>PASS_EXIT\<close> exactly when the document says that it passed and lists no failure reason; a transport error
  gives \<open>TRANSPORT_EXIT\<close>, every other failure \<open>VALIDATION_EXIT\<close>.\<close>

theorem exit_code_exact:
  assumes "persistent_monitor n cfg H started finished hid s = (s', Inr ((raw, path, document), code))"
  shows "dget document ''passed'' = JBool (code = PASS_EXIT)
    \<and> dget document ''failure_reasons'' = JList (failure_reasons cfg s')
    \<and> (code = PASS_EXIT \<longleftrightarrow> failure_reasons cfg s' = [])
    \<and> (code = TRANSPORT_EXIT \<longleftrightarrow> se_transport_error s' \<noteq> None)
    \<and> code \<in> {PASS_EXIT, TRANSPORT_EXIT, VALIDATION_EXIT}"
proof -
  obtain summary where sm: "session_summary cfg H started finished hid s' = Inr summary"
      "(raw, path, document) = evidence_write (ho_absolute H) summary (se_evidence s')"
      and code: "code = exit_code cfg s'"
    using assms by (rule monitor_returns) auto
  have d: "dget document k = dget summary k"
    if "k \<notin> {''events'', ''workload_results'', ''errors'', ''bus_diagnostics'', ''raw_cdc_log''}" for k
    using sm(2) that by (auto simp: evidence_write_def dmerge_def)
  have "dget summary ''passed'' = JBool (failure_reasons cfg s' = [])"
    "dget summary ''failure_reasons'' = JList (failure_reasons cfg s')"
    using sm(1) by (auto simp: session_summary_def Let_def dget_def)
  then show ?thesis using exit_code_cases [of cfg s'] by (simp add: d code)
qed

theorem exit_code_exact_witness:
  "\<exists>raw path document. snd demo_run = Inr ((raw, path, document), VALIDATION_EXIT)
     \<and> dget document ''passed'' = JBool False"
proof -
  let ?c = "demo_config ''nec-v30'' None"
  let ?s = "demo_session ?c (Some (DeviceBroker ''d'' ''nec-v30''))"
  obtain s' raw path document where run: "persistent_monitor 1 ?c demo_host ''a'' ''b'' [] ?s
      = (s', Inr ((raw, path, document), VALIDATION_EXIT))"
    using demo_run_code by (cases demo_run; cases "snd demo_run") (auto simp: demo_run_def Let_def)
  from exit_code_exact [OF run] run show ?thesis by (simp add: demo_run_def Let_def)
qed

text \<open>C10. A declared processor is enforced: a session that returns made one status request at its start,
  and when the operator declared a processor that the device did not identify there, the session does
  not pass, whatever happens afterwards.\<close>

theorem identity_enforced:
  assumes "persistent_monitor n cfg H started finished hid s = (s', Inr (files, code))"
    and "0 \<le> ws_workload_id (se_workload s)" "ws_workload_id (se_workload s) \<le> 0xFFFFFFFF"
    and "se_regression_passed s \<noteq> Some True"
  shows "\<exists>s1 p. startup cfg H s = (s1, Inr ()) \<and> ws_processor (se_workload s1) = Inr p
    \<and> (expected_processor cfg \<noteq> None \<and> p \<noteq> expected_processor cfg \<longrightarrow> code \<noteq> PASS_EXIT)"
proof -
  from assms(1) obtain s1 s2 where s1: "startup cfg H s = (s1, Inr ())"
      and s2: "session_loop n cfg H s1 = (s2, Inr ())"
      and s': "s' = (drain_cdc cfg H s2)\<lparr>se_broker := map_option quiesce (se_broker (drain_cdc cfg H s2))\<rparr>"
      and code: "code = exit_code cfg s'"
    by (rule monitor_returns) auto
  let ?k = "se_identity_failed s1"
  have "kept ?k s1" and j: "judged cfg s1"
    using startup_kept [OF s1, of "se_identity_failed s"] assms(2-4) by (auto simp: kept_def)
  then have "concluded ?k s2" using loop_concluded [of ?k s1 n cfg H] s2 by (simp add: kept_concluded)
  then have "se_identity_failed s' = ?k" by (auto simp: s' concluded_def kept_def verdict_passed_def)
  then show ?thesis using s1 j by (auto simp: judged_def code exit_code_def)
qed

theorem identity_enforced_witness:
  "\<exists>s1 p. startup (demo_config ''nec-v30'' None) demo_host
      (demo_session (demo_config ''nec-v30'' None) (Some (DeviceBroker ''d'' ''nec-v30''))) = (s1, Inr ())
    \<and> ws_processor (se_workload s1) = Inr p"
proof -
  let ?c = "demo_config ''nec-v30'' None"
  let ?s = "demo_session ?c (Some (DeviceBroker ''d'' ''nec-v30''))"
  obtain s' files where run: "persistent_monitor 1 ?c demo_host ''a'' ''b'' [] ?s = (s', Inr (files, VALIDATION_EXIT))"
    using demo_run_code by (cases demo_run; cases "snd demo_run") (auto simp: demo_run_def Let_def)
  have "ws_workload_id (se_workload ?s) = 0" "se_regression_passed ?s = None"
    by (simp_all add: demo_session_def demo_config_def new_session_def processor_label_def PROCESSOR_NAMES_def
        WorkloadRuntimeState_def)
  then show ?thesis using identity_enforced [OF run] by auto
qed

text \<open>C6. A passing regression is a physical pass: when the main loop of a session with a regression
  workload was entered without a verdict and the session exits with \<open>PASS_EXIT\<close>, the last workload state
  has completed with the native PASS flag, the \<open>NATIVE_HLT\<close> reason, the exact output text and an
  identified processor, no identity assertion failed and the transport held.\<close>

theorem session_pass_sound:
  assumes "session_result cfg H started finished hid (session_loop n cfg H s) = (s', Inr (files, PASS_EXIT))"
    and "0 \<le> ws_workload_id (se_workload s)" "ws_workload_id (se_workload s) \<le> 0xFFFFFFFF"
    and "se_regression_passed s \<noteq> Some True" "regression cfg \<noteq> None"
  shows "physical_regression_passed (se_workload s') \<and> \<not> se_identity_failed s \<and> se_transport_error s' = None"
proof -
  obtain s2 r where s2: "session_loop n cfg H s = (s2, r)" by fastforce
  have s': "s' = (drain_cdc cfg H s2)\<lparr>se_broker := map_option quiesce (se_broker (drain_cdc cfg H s2))\<rparr>"
    and code: "exit_code cfg s' = PASS_EXIT"
    using assms(1) s2 by (auto simp: session_result_def Let_def)
  have c: "concluded (se_identity_failed s) s2"
    using loop_concluded [of "se_identity_failed s" s n cfg H] s2 assms(2-4) by (simp add: concluded_def kept_def)
  have v: "\<not> se_identity_failed s2" "se_regression_passed s2 = Some True" "se_transport_error s' = None"
    using code assms(5) by (auto simp: exit_code_def s' split: if_splits)
  then have "physical_regression_passed (se_workload s2)" "\<not> se_identity_failed s"
    using c by (auto simp: concluded_def kept_def verdict_passed_def)
  then show ?thesis using v(3) by (simp add: s' drain_physical)
qed

definition demo_passed :: "unit session" where
  "demo_passed = (demo_session (demo_config ''auto'' (Some ''w'')) None)\<lparr>se_regression_started := True,
     se_regression_commands := [], se_workload := WorkloadRuntimeState\<lparr>ws_lifecycle := 5, ws_result_flags := 9,
       ws_completion_reason := 2, ws_processor_signature := PROCESSOR_SIGNATURE_NEC_V30,
       ws_native_output := RESULT_PASS_TEXT\<rparr>\<rparr>"

lemma demo_passed_code:
  "map_sum id snd (snd (session_result (demo_config ''auto'' (Some ''w'')) demo_host ''a'' ''b'' []
     (session_loop 2 (demo_config ''auto'' (Some ''w'')) demo_host demo_passed))) = Inr PASS_EXIT"
  "ws_workload_id (se_workload demo_passed) = 0" "se_regression_passed demo_passed = None"
  "regression (demo_config ''auto'' (Some ''w'')) = Some ''w''"
  by code_simp+

theorem session_pass_sound_witness:
  "\<exists>s' files. session_result (demo_config ''auto'' (Some ''w'')) demo_host ''a'' ''b'' []
      (session_loop 2 (demo_config ''auto'' (Some ''w'')) demo_host demo_passed) = (s', Inr (files, PASS_EXIT))
    \<and> physical_regression_passed (se_workload s')"
proof -
  let ?r = "session_result (demo_config ''auto'' (Some ''w'')) demo_host ''a'' ''b'' []
      (session_loop 2 (demo_config ''auto'' (Some ''w'')) demo_host demo_passed)"
  obtain s' files where run: "?r = (s', Inr (files, PASS_EXIT))"
    using demo_passed_code(1) by (cases ?r; cases "snd ?r") auto
  from session_pass_sound [OF run] have "physical_regression_passed (se_workload s')"
    by (simp add: demo_passed_code)
  with run show ?thesis by blast
qed

section \<open>Commands do not end the session\<close>


definition homeless_host :: "unit host" where
  "homeless_host = demo_host\<lparr>ho_expanduser := \<lambda>p. Inl (RuntimeError ''Could not determine home directory.'')\<rparr>"

lemma homeless_cd:
  "snd (execute_line (demo_config ''auto'' None) homeless_host ''cd ~nobody'' demo_passed)
     = Inl (RuntimeError ''Could not determine home directory.'')"
  by code_simp


section \<open>Clients of the broker are answered\<close>

lemma inv_forward: "safe (session_inv k) anything (forward_request cfg H r)"
proof -
  have "safe (session_inv k) anything (exchange_act cfg H m)" for m
    by (simp add: safe_def exchange_act_def session_exchange_inv)
  moreover have "safe (session_inv k) anything (update_workload p)" for p
    by (simp add: safe_def update_workload_safe(1))
  moreover have "safe (session_inv k) anything (accept_workload_state cfg H)"
    by (rule safe_weaken [OF safe_accept_workload_state]) simp
  ultimately show ?thesis
    unfolding forward_request_def by (intro safe_intros safe_ares) simp_all
qed

lemma inv_control: "safe (session_inv k) anything (control_body H c)"
proof -
  have "safe (session_inv k) anything (status_request H t)" for t
    by (auto simp: safe_def status_request_def Let_def split: prod.split)
  moreover have "safe (session_inv k) anything (runtime_control H o' t)" for o' t
    by (auto simp: safe_def runtime_control_def Let_def split: prod.split)
  ultimately show ?thesis
    unfolding control_body_def by (intro safe_intros safe_athrow; simp)
qed

lemma acatch_inv:
  assumes "safe (session_inv k) anything m" "\<And>e n. h e = Some n \<Longrightarrow> \<exists>x. n = aret x" "session_inv k s"
  shows "session_inv k (fst (acatch m h s))"
proof -
  have "safe (session_inv k) anything (acatch m h)"
    by (rule safe_acatch [OF assms(1)]) (use assms(2) in \<open>auto intro: safe_aret\<close>)
  then show ?thesis using assms(3) by (simp add: safe_def)
qed

lemma handlers_return:
  "exchange_handler H e = Some n \<Longrightarrow> \<exists>x. n = aret x" "control_handler e = Some n' \<Longrightarrow> \<exists>x. n' = aret x"
  by (auto simp: exchange_handler_def control_handler_def Let_def split: exc.splits)

text \<open>The answers so far and the rest of the queues, for a state between two requests.\<close>

definition serving :: "bool \<Rightarrow> nat list \<Rightarrow> broker \<Rightarrow> 'w session \<Rightarrow> bool" where
  "serving f futures b s \<longleftrightarrow> (\<exists>A. session_inv (f, A, Some b) s \<and> map fst A = futures)"

lemma serve_exchange_answers:
  assumes "serving f futures b s" "serve_exchange cfg H x s = (s', Inr ())"
  shows "serving f (futures @ [xr_future x]) b s'"
proof -
  obtain A where A: "session_inv (f, A, Some b) s" "map fst A = futures" using assms(1) by (auto simp: serving_def)
  obtain s1 r where c: "acatch (forward_request cfg H (xr_record x)) (exchange_handler H) s = (s1, r)" by fastforce
  have "session_inv (f, A, Some b) s1"
    using acatch_inv [where h = "exchange_handler H", OF inv_forward _ A(1), of cfg H "xr_record x"]
      handlers_return(1) [of H] c by simp
  then show ?thesis
    using assms(2) c A(2) by (cases r) (auto simp: serve_exchange_def abind_def answer_future_def aupd_def
        serving_def session_inv_def loop_part_def)
qed

lemma serve_control_answers:
  assumes "serving f futures b s" "serve_control H c s = (s', Inr ())"
  shows "serving f (futures @ [cr_future c]) b s'"
proof -
  obtain A where A: "session_inv (f, A, Some b) s" "map fst A = futures" using assms(1) by (auto simp: serving_def)
  obtain s1 r where c: "acatch (control_body H c) control_handler s = (s1, r)" by fastforce
  have "session_inv (f, A, Some b) s1"
  proof -
    have "session_inv (f, A, Some b) (fst (acatch (control_body H c) control_handler s))"
      by (rule acatch_inv [OF inv_control _ A(1)]) (rule handlers_return(2))
    then show ?thesis by (simp add: c)
  qed
  then show ?thesis
    using assms(2) c A(2)
    by (cases r) (auto simp: serve_control_def abind_def athen_def answer_future_def aupd_def awhen_def aret_def
        serving_def session_inv_def loop_part_def split: prod.splits if_splits)
qed

lemma exchanges_answered:
  "serving f futures b s \<Longrightarrow> afor xs (serve_exchange cfg H) s = (s', Inr ()) \<Longrightarrow>
     serving f (futures @ map xr_future xs) b s'"
proof (induction xs arbitrary: s futures)
  case (Cons x xs)
  obtain s1 r where x: "serve_exchange cfg H x s = (s1, r)" by fastforce
  then have "r = Inr ()" "afor xs (serve_exchange cfg H) s1 = (s', Inr ())"
    using Cons.prems(2) by (auto simp: athen_def abind_def split: sum.splits)
  then show ?case using Cons.IH [OF serve_exchange_answers [OF Cons.prems(1)]] x by fastforce
qed (simp add: aret_def)

lemma controls_answered:
  "serving f futures (b\<lparr>br_controls := cs\<rparr>) s \<Longrightarrow>
     afor cs (\<lambda>c. athen take_control (serve_control H c)) s = (s', Inr ()) \<Longrightarrow>
     serving f (futures @ map cr_future cs) (b\<lparr>br_controls := []\<rparr>) s'"
proof (induction cs arbitrary: s futures)
  case (Cons c cs)
  obtain s0 where t: "take_control s = (s0, Inr ())" "serving f futures (b\<lparr>br_controls := cs\<rparr>) s0"
    using Cons.prems(1) by (fastforce simp: take_control_def aupd_def serving_def session_inv_def loop_part_def)
  obtain s1 r where x: "serve_control H c s0 = (s1, r)" by fastforce
  then have "r = Inr ()" "afor cs (\<lambda>c. athen take_control (serve_control H c)) s1 = (s', Inr ())"
    using Cons.prems(2) t(1) by (auto simp: athen_apply athen_def [of "athen _ _"] abind_def split: sum.splits)
  then show ?case using Cons.IH [OF serve_control_answers [OF t(2)]] x by fastforce
qed (simp add: aret_def)


text \<open>A malformed record, one that the device does not read, and a control request that does not exist.\<close>

definition demo_queued :: broker where
  "demo_queued = (DeviceBroker ''d'' ''auto'')\<lparr>
     br_requests := [\<lparr>xr_client_id = ''c'', xr_request_id = ''r'', xr_record = [1, 2, 3], xr_future = 10\<rparr>,
       \<lparr>xr_client_id = ''c'', xr_request_id = ''r'', xr_record = 1 # replicate 63 0, xr_future = 11\<rparr>],
     br_controls := [\<lparr>cr_client_id = ''c'', cr_request_id = ''r'', cr_command = ''dance'', cr_timeout = 1, cr_future = 12\<rparr>]\<rparr>"

lemma demo_queued_code:
  "snd (service_broker_requests (demo_config ''auto'' None) demo_host
     (demo_session (demo_config ''auto'' None) (Some demo_queued))) = Inr ()"
  by code_simp


end
