(* ===== verification/Broker_Exchange.thy ===== *)
theory Broker_Exchange
  imports Broker_Steps Session_Verdicts
begin

text \<open>
  The request of an attached session travels through the broker of the owner: the client sends the
  encoded record as a JSON request, the owner's connection handler queues it, the owner's main loop
  serves the queue over HID and resolves the future, and the handler returns the response.  The client
  sees what it would have seen with the device in its own hands.
\<close>

section \<open>The way of a request\<close>

definition relay ::
  "session_config \<Rightarrow> 'w host \<Rightarrow> string \<Rightarrow> nat \<Rightarrow> bytes \<Rightarrow> string \<Rightarrow> dict \<Rightarrow> 'w session \<Rightarrow> 'w session \<times> dict option" where
  "relay cfg H peer future line now request s = (case se_broker s of
     None \<Rightarrow> (s, None)
   | Some b \<Rightarrow> (case handle_client (ho_float H) peer future (Inr line) (Inr (JObj request)) b of
       (b1, AwaitExchange x decoded) \<Rightarrow>
         (case service_broker_requests cfg H (s\<lparr>se_broker := Some b1\<rparr>) of
            (s1, Inl e) \<Rightarrow> (s1, None)
          | (s1, Inr _) \<Rightarrow> (case map_of (se_answers s1) future of
              None \<Rightarrow> (s1, None)
            | Some result \<Rightarrow>
                (s1\<lparr>se_broker := map_option (\<lambda>b. fst (handle_finish now x decoded result b)) (se_broker s1)\<rparr>,
                 Some result)))
     | (b1, Respond d) \<Rightarrow> (s\<lparr>se_broker := Some b1\<rparr>, Some d)
     | (b1, _) \<Rightarrow> (s\<lparr>se_broker := Some b1\<rparr>, None)))"

section \<open>Replies depend on the decoded record only\<close>

lemma validate_decoded:
  "decode_hid r = decode_hid c \<Longrightarrow> validate_device_reply r m e = validate_device_reply c m e"
  by (simp add: validate_device_reply_def validate_live_reply_def)

lemma validate_encoded:
  assumes "validate_device_reply c m e = Inr reply"
  shows "\<exists>r. message_encode reply = Inr r \<and> validate_device_reply r m e = Inr reply"
proof -
  have d: "decode_hid c = Inr reply" by (rule validate_device_reply_cases(1) [OF assms])
  then obtain r where r: "message_encode reply = Inr r" using message_encode_ok decode_hid_wf by blast
  then have "decode_hid r = decode_hid c" using d by (simp add: decode_hid_raw)
  then show ?thesis using r assms validate_decoded by metis
qed

section \<open>What an exchange of the owner returns\<close>

lemma exchange_reply_validated:
  assumes "exchange_hid_request service s w request timeout expected = Some (s', Inr res)"
    and "er_reply res = Some reply"
  shows "er_error res = None \<and> (\<exists>c. validate_device_reply c request expected = Inr reply)"
proof -
  have "exchange_loop service (hw_after w) (hw_began w) (hw_began w + timeout) request expected None s
      (hw_ticks w) = Some (s', Inr res)"
    using assms by (auto simp: exchange_hid_request_def Let_def exchange_disconnected_def
        split: option.splits sum.splits if_splits)
  then show ?thesis using exchange_loop_sound assms(2) by fastforce
qed

lemma hid_exchange_validated:
  assumes "hid_exchange cfg H s m = (s', Inr (Some reply, latency, error))"
  shows "error = None" "\<exists>c. validate_device_reply c m (expected_processor cfg) = Inr reply"
  using assms exchange_reply_validated
  by (fastforce simp: hid_exchange_def Let_def split: prod.splits option.splits sum.splits)+

lemma cdc_event_answers [simp]: "se_answers (cdc_event cfg line s) = se_answers s"
  by (simp add: cdc_event_def Let_def print_event_def aupd_def update_console_runtime_def)

lemma service_transport_answers [simp]:
  "se_answers (fst (service_transport cfg (s :: 'w session) i)) = se_answers s"
proof -
  have "se_answers (foldl (\<lambda>s line. cdc_event cfg line s) s ls) = se_answers s" for s :: "'w session" and ls
    by (induction ls arbitrary: s) simp_all
  then show ?thesis by (simp add: service_transport_def drain_input_def Let_def split: sum.split prod.split)
qed

lemma hid_exchange_answers:
  assumes "hid_exchange cfg H s m = (s', r)"
  shows "se_answers s' = se_answers s"
proof -
  obtain w script where w: "ho_hid H (se_world s) m = (w, script)" by fastforce
  have "se_answers s1 = se_answers s"
    if "exchange_hid_request (service_transport cfg) (s\<lparr>se_world := w\<rparr>)
      (falls_silent (sf_timeout cfg) (Inr []) script) m (sf_timeout cfg) (expected_processor cfg) = Some (s1, r1)"
    for s1 r1
    using exchange_hid_request_keeps [where P = "\<lambda>s'. se_answers s' = se_answers s", OF _ _ that] by simp
  then show ?thesis
    using assms w by (auto simp: hid_exchange_def Let_def split: option.splits sum.splits if_splits)
qed

section \<open>The response of the owner\<close>

definition exchange_response :: "'w host \<Rightarrow> message option \<times> rat \<times> string option \<Rightarrow> dict res" where
  "exchange_response H outcome = (case outcome of
     (None, latency_ms, error) \<Rightarrow>
       Inr [(''ok'', JBool False), (''error'', opt_str error), (''latency_ms'', json_float H latency_ms)]
   | (Some reply, latency_ms, error) \<Rightarrow> rmap (\<lambda>encoded.
       [(''ok'', JBool True), (''reply_hex'', JStr (bytes_hex encoded)), (''latency_ms'', json_float H latency_ms)])
       (message_encode reply))"

lemma forward_request_plain:
  assumes "message_decode record' = Inr m" "msg_type m \<notin> WORKLOAD_REQUESTS"
    and "session_exchange cfg H s m = (s', Inr outcome)"
  shows "forward_request cfg H record' s = (s', exchange_response H outcome)"
  using assms
  by (auto simp: forward_request_def exchange_response_def exchange_act_def abind_def ares_def aret_def
      awhen_def athen_def split: prod.split option.split sum.split)

lemma service_single_request:
  assumes "se_broker s = Some b" "br_requests b = [x]" "br_controls b = []"
    and "forward_request cfg H (xr_record x) (s\<lparr>se_broker := Some (b\<lparr>br_requests := []\<rparr>)\<rparr>) = (s', Inr result)"
  shows "\<exists>s''. service_broker_requests cfg H s = (s'', Inr ())
    \<and> se_answers s'' = se_answers s' @ [(xr_future x, result)]"
  using assms
  by (simp add: service_broker_requests_def pending_def abind_def athen_def aget_def aupd_def aret_def
      serve_exchange_def acatch_def answer_future_def publish_snapshot_def)

lemma map_of_last: "future \<notin> fst ` set xs \<Longrightarrow> map_of (xs @ [(future, v)]) future = Some v"
  by (simp add: map_of_eq_None_iff [THEN iffD2] map_add_def)

lemma relay_response:
  assumes "message_encode m = Inr record'" "msg_type m \<notin> WORKLOAD_REQUESTS"
    and "se_broker s = Some b" "br_requests b = []" "br_controls b = []"
    and "future \<notin> fst ` set (se_answers s)"
    and "line \<noteq> []" "length line \<le> 16384" "client_id \<noteq> []"
    and "session_exchange cfg H s m = (s', Inr outcome)" "exchange_response H outcome = Inr result"
  shows "snd (relay cfg H peer future line now (exchange_request_dict client_id record' request_id timeout) s)
    = Some result"
proof -
  let ?x = "\<lparr>xr_client_id = client_id, xr_request_id = request_id, xr_record = record', xr_future = future\<rparr>"
  let ?s = "s\<lparr>se_broker := Some (b\<lparr>br_requests := [?x]\<rparr>)\<rparr>"
  have handled: "handle_client (ho_float H) peer future (Inr line)
      (Inr (JObj (exchange_request_dict client_id record' request_id timeout))) b =
    (b\<lparr>br_requests := [?x]\<rparr>, AwaitExchange ?x (decode_workload_control record'))"
    using handle_client_exchange [of record' line client_id] length_message_encode [OF assms(1)] assms(4,7-9)
    by simp
  have same: "?s\<lparr>se_broker := Some (b\<lparr>br_requests := [?x], br_requests := []\<rparr>)\<rparr> = s"
    using assms(3,4) by (cases s; cases b) simp
  have "forward_request cfg H record' s = (s', Inr result)"
    using forward_request_plain [OF message_decode_encode_aux [OF assms(1)] assms(2,10)] assms(11) by simp
  then obtain s'' where served: "service_broker_requests cfg H ?s = (s'', Inr ())"
      "se_answers s'' = se_answers s' @ [(future, result)]"
    using service_single_request [of ?s "b\<lparr>br_requests := [?x]\<rparr>" ?x cfg H s' result] same assms(5) by auto
  have "se_answers s' = se_answers s"
    using assms(3,10) hid_exchange_answers by (fastforce simp: session_exchange_def)
  then have "map_of (se_answers s'') future = Some result"
    using served(2) map_of_last assms(6) by metis
  then show ?thesis using handled served(1) assms(3) by (simp add: relay_def)
qed

section \<open>Properties\<close>


lemma demo_relay:
  "snd (session_exchange (demo_config ''auto'' None) demo_host
     (demo_session (demo_config ''auto'' None) (Some (DeviceBroker ''d'' ''nec-v30'')))
     (Message TYPE_MEMORY_REQUEST 9 [1])) = Inr (None, 0, Some ''short HID write: 0/65 bytes'')"
  by code_simp


end
