(* ===== verification/Spec2Isabelle.thy ===== *)
theory Spec2Isabelle
  imports Protocol Py_Text Workload Memory Mailbox Filesystem Core Services_Memory Services_Files
    Services_Workload Broker_Steps Ownership Shell Console Evidence Timeout
    Session_Verdicts Broker_Exchange
begin

text \<open>
  A verification development of the RP86 host software.
\<close>

end
